(* ===== verification/Ubpf_Prelude.thy ===== *)
theory Ubpf_Prelude
  imports Main "HOL-Library.Word" "HOL-Library.Signed_Division"
begin

text \<open>
  Shared vocabulary of the development: names for the C integer types the sources use, the
  conversions and the truncating division of C, a byte-addressed memory, the interpreter's
  \<^verbatim>\<open>while (1)\<close> loop as a partial function, and generic facts on words, lists and
  runs that the component theories rely on.
\<close>

unbundle bit_operations_syntax

section \<open>C integer types\<close>

type_synonym uint4_t = "4 word"
type_synonym uint8_t = "8 word"
type_synonym uint16_t = "16 word"
type_synonym uint32_t = "32 word"
type_synonym uint64_t = "64 word"

text \<open>
  A signed C integer has the same representation as the unsigned one of its width; the
  names below mark the fields that the sources read as two's complement (\<^const>\<open>sint\<close>).
\<close>

type_synonym int16_t = "16 word"
type_synonym int32_t = "32 word"
type_synonym int64_t = "64 word"

named_theorems opcode_defs \<open>definitions of the opcode constants of ebpf.h\<close>
named_theorems opcode_vals \<open>the numeric value of each opcode constant\<close>
named_theorems c_conv \<open>facts on C integer conversions\<close>

definition UINT32_MAX :: uint64_t where "UINT32_MAX = 0xffffffff"
definition UINT64_MAX :: uint64_t where "UINT64_MAX = 0xffffffffffffffff"
definition INT32_MIN :: int32_t where "INT32_MIN = 0x80000000"
definition INT64_MIN :: int64_t where "INT64_MIN = 0x8000000000000000"

text \<open>C's \<^verbatim>\<open>/\<close> and \<^verbatim>\<open>%\<close> on signed operands truncate towards zero.\<close>

definition c_sdiv :: "'a::len word \<Rightarrow> 'a word \<Rightarrow> 'a word" where
  "c_sdiv a b = word_of_int (sint a sdiv sint b)"

definition c_smod :: "'a::len word \<Rightarrow> 'a word \<Rightarrow> 'a word" where
  "c_smod a b = word_of_int (sint a smod sint b)"

lemma c_sdiv_smod: "c_sdiv a b * b + c_smod a b = a"
proof -
  have "word_of_int (sint a sdiv sint b * sint b + sint a smod sint b) = a"
    by (simp only: sdiv_mult_smod_eq of_int_sint scast_id)
  then show ?thesis
    by (simp add: c_sdiv_def c_smod_def)
qed

subsection \<open>Conversions between widths\<close>

lemma take_bit_add_inner:
  "n \<le> m \<Longrightarrow> take_bit n (take_bit m (a::int) + take_bit m b) = take_bit n (a + b)"
  by (metis min.absorb1 take_bit_add take_bit_take_bit)

lemma take_bit_diff_inner:
  "n \<le> m \<Longrightarrow> take_bit n (take_bit m (a::int) - take_bit m b) = take_bit n (a - b)"
  by (metis min.absorb1 take_bit_diff take_bit_take_bit)

lemma take_bit_mult_inner:
  "n \<le> m \<Longrightarrow> take_bit n (take_bit m (a::int) * take_bit m b) = take_bit n (a * b)"
  by (metis min.absorb1 take_bit_mult take_bit_take_bit)

lemma take_bit_minus_inner:
  "n \<le> m \<Longrightarrow> take_bit n (- take_bit m (a::int)) = take_bit n (- a)"
  by (metis min.absorb1 take_bit_minus take_bit_take_bit)

lemma ucast_down_add [c_conv]:
  "LENGTH('b) \<le> LENGTH('a) \<Longrightarrow> ucast ((a::'a::len word) + b) = (ucast a + ucast b :: 'b::len word)"
  by transfer (simp add: take_bit_add_inner)

lemma ucast_down_diff [c_conv]:
  "LENGTH('b) \<le> LENGTH('a) \<Longrightarrow> ucast ((a::'a::len word) - b) = (ucast a - ucast b :: 'b::len word)"
  by transfer (simp add: take_bit_diff_inner)

lemma ucast_down_mult [c_conv]:
  "LENGTH('b) \<le> LENGTH('a) \<Longrightarrow> ucast ((a::'a::len word) * b) = (ucast a * ucast b :: 'b::len word)"
  by transfer (simp add: take_bit_mult_inner)

lemma ucast_down_minus [c_conv]:
  "LENGTH('b) \<le> LENGTH('a) \<Longrightarrow> ucast (- (a::'a::len word)) = (- ucast a :: 'b::len word)"
  by transfer (simp add: take_bit_minus_inner)

lemma ucast_down_and [c_conv]:
  "LENGTH('b) \<le> LENGTH('a) \<Longrightarrow> ucast ((a::'a::len word) AND b) = (ucast a AND ucast b :: 'b::len word)"
  by (rule bit_word_eqI) (auto simp: bit_simps)

lemma ucast_down_or [c_conv]:
  "LENGTH('b) \<le> LENGTH('a) \<Longrightarrow> ucast ((a::'a::len word) OR b) = (ucast a OR ucast b :: 'b::len word)"
  by (rule bit_word_eqI) (auto simp: bit_simps)

lemma ucast_down_xor [c_conv]:
  "LENGTH('b) \<le> LENGTH('a) \<Longrightarrow> ucast ((a::'a::len word) XOR b) = (ucast a XOR ucast b :: 'b::len word)"
  by (rule bit_word_eqI) (auto simp: bit_simps)

lemma ucast_ucast_up [c_conv]:
  "LENGTH('a) \<le> LENGTH('b) \<Longrightarrow> ucast (ucast (a::'a::len word) :: 'b::len word) = a"
  by (rule bit_word_eqI) (auto simp: bit_simps)

lemma ucast_scast_up [c_conv]:
  "LENGTH('a) \<le> LENGTH('b) \<Longrightarrow> ucast (scast (a::'a::len word) :: 'b::len word) = a"
  by (rule bit_word_eqI) (auto simp: bit_simps)

lemma and_UINT32_MAX [c_conv]: "x AND UINT32_MAX = ucast (ucast x :: uint32_t)"
proof -
  have m: "UINT32_MAX = mask 32" by (simp add: UINT32_MAX_def mask_numeral)
  show ?thesis unfolding m by (rule bit_word_eqI) (auto simp: bit_simps)
qed

lemma unat_ucast_up [c_conv]:
  "LENGTH('a) \<le> LENGTH('b) \<Longrightarrow> unat (ucast (x :: 'a::len word) :: 'b::len word) = unat x"
  using order.strict_trans2 [OF unsigned_less [of x, where ?'a = nat]
      power_increasing [of "LENGTH('a)" "LENGTH('b)" 2]]
  by (simp add: unsigned_ucast_eq take_bit_nat_eq_self)

lemma unat_and_le: "unat (a AND b) \<le> unat (b :: 'a::len word)"
  by (rule word_and_le1 [THEN word_le_nat_alt [THEN iffD1]])

section \<open>Byte-addressed memory\<close>

text \<open>
  The memory of the process: \<^const>\<open>None\<close> at an address that is not mapped. An access to
  an unmapped address is undefined behaviour in C; the accessors below return \<^const>\<open>None\<close>
  there, and every model of code that touches memory turns it into an outcome of its own.
\<close>

type_synonym memory = "uint64_t \<rightharpoonup> uint8_t"

primrec load_bytes :: "memory \<Rightarrow> uint64_t \<Rightarrow> nat \<Rightarrow> uint8_t list option" where
  "load_bytes m a 0 = Some []"
| "load_bytes m a (Suc n) =
     (case m a of None \<Rightarrow> None | Some b \<Rightarrow> map_option ((#) b) (load_bytes m (a + 1) n))"

primrec store_bytes :: "memory \<Rightarrow> uint64_t \<Rightarrow> uint8_t list \<Rightarrow> memory option" where
  "store_bytes m a [] = Some m"
| "store_bytes m a (b # bs) =
     (case m a of None \<Rightarrow> None | Some _ \<Rightarrow> store_bytes (m(a \<mapsto> b)) (a + 1) bs)"

text \<open>The addresses of an access of \<open>n\<close> bytes at \<open>a\<close> (wrapping at the end of the address space).\<close>

definition byte_range :: "uint64_t \<Rightarrow> nat \<Rightarrow> uint64_t set" where
  "byte_range a n = (\<lambda>i. a + of_nat i) ` {..<n}"

lemma byte_range_0 [simp]: "byte_range a 0 = {}"
  by (simp add: byte_range_def)

lemma byte_range_Suc: "byte_range a (Suc n) = insert a (byte_range (a + 1) n)"
proof -
  have "{..<Suc n} = insert 0 (Suc ` {..<n})" by (rule lessThan_Suc_eq_insert_0)
  then show ?thesis
    by (simp add: byte_range_def image_image add.assoc)
qed

lemma load_bytes_mapped: "byte_range a n \<subseteq> dom m \<Longrightarrow> \<exists>bs. load_bytes m a n = Some bs \<and> length bs = n"
  by (induction n arbitrary: a) (fastforce simp: byte_range_Suc split: option.split)+

lemma load_bytes_length: "load_bytes m a n = Some bs \<Longrightarrow> length bs = n"
  by (induction n arbitrary: a bs) (auto split: option.splits)

lemma store_bytes_mapped:
  "byte_range a (length bs) \<subseteq> dom m \<Longrightarrow> \<exists>m'. store_bytes m a bs = Some m'"
proof (induction bs arbitrary: m a)
  case (Cons b bs)
  then have "byte_range (a + 1) (length bs) \<subseteq> dom (m(a \<mapsto> b))" and "m a \<noteq> None"
    by (auto simp: byte_range_Suc)
  then have "\<exists>m'. store_bytes (m(a \<mapsto> b)) (a + 1) bs = Some m'"
    by (intro Cons.IH)
  with \<open>m a \<noteq> None\<close> show ?case by fastforce
qed simp

lemma store_bytes_dom: "store_bytes m a bs = Some m' \<Longrightarrow> dom m' = dom m"
  by (induction bs arbitrary: m a) (auto split: option.splits)

lemma store_bytes_frame:
  "store_bytes m a bs = Some m' \<Longrightarrow> x \<notin> byte_range a (length bs) \<Longrightarrow> m' x = m x"
  by (induction bs arbitrary: m a) (auto simp: byte_range_Suc split: option.splits)

subsection \<open>Little-endian values\<close>

text \<open>The host is little-endian (the x86-64 and arm64 targets the sources support).\<close>

primrec le_value :: "uint8_t list \<Rightarrow> uint64_t" where
  "le_value [] = 0"
| "le_value (b # bs) = ucast b OR push_bit 8 (le_value bs)"

primrec le_bytes :: "nat \<Rightarrow> uint64_t \<Rightarrow> uint8_t list" where
  "le_bytes 0 v = []"
| "le_bytes (Suc n) v = ucast v # le_bytes n (drop_bit 8 v)"

lemma length_le_bytes [simp]: "length (le_bytes n v) = n"
  by (induction n arbitrary: v) simp_all

lemma le_value_le_bytes: "le_value (le_bytes n v) = take_bit (8 * n) v"
proof (induction n arbitrary: v)
  case (Suc n)
  have "ucast (ucast v :: uint8_t) OR push_bit 8 (take_bit (8 * n) (drop_bit 8 v)) = take_bit (8 + 8 * n) v"
    by (rule bit_word_eqI) (auto simp: bit_simps)
  with Suc show ?case by simp
qed simp

lemma take_bit_64 [simp]: "take_bit 64 (v :: uint64_t) = v"
  by (rule bit_word_eqI) (auto simp: bit_simps)

lemma bit_le_value_Cons_low:
  "k < 8 \<Longrightarrow> bit (ucast (b::uint8_t) OR push_bit 8 v :: uint64_t) k = bit b k"
  by (simp add: bit_simps)

lemma bit_le_value_Cons_high:
  "bit (ucast (b::uint8_t) OR push_bit 8 v :: uint64_t) (j + 8) = (bit v j \<and> j + 8 < 64)"
  by (auto simp: bit_or_iff bit_push_bit_iff bit_ucast_iff dest: bit_imp_le_length)

lemma bit_le_value:
  "length bs \<le> 8 \<Longrightarrow> bit (le_value bs) k \<longleftrightarrow> k < 8 * length bs \<and> bit (bs ! (k div 8)) (k mod 8)"
proof (induction bs arbitrary: k)
  case (Cons b bs)
  show ?case
  proof (cases "k < 8")
    case True
    then show ?thesis by (simp add: bit_le_value_Cons_low)
  next
    case False
    then obtain j where k: "k = j + 8" using le_Suc_ex [of 8 k] by (auto simp: add.commute)
    have "bit (le_value bs) j \<longleftrightarrow> j < 8 * length bs \<and> bit (bs ! (j div 8)) (j mod 8)"
      using Cons by simp
    moreover have "(j + 8) div 8 = Suc (j div 8)" by simp
    ultimately show ?thesis using Cons.prems by (auto simp: k bit_le_value_Cons_high)
  qed
qed simp

lemma le_bytes_le_value: "length bs \<le> 8 \<Longrightarrow> le_bytes (length bs) (le_value bs) = bs"
proof (induction bs)
  case (Cons b bs)
  have "drop_bit 8 (ucast b OR push_bit 8 (le_value bs)) = le_value bs"
    by (rule bit_word_eqI)
      (use Cons.prems in \<open>auto simp: bit_simps bit_le_value dest: bit_imp_le_length\<close>)
  moreover have "ucast (ucast b OR push_bit 8 (le_value bs)) = b"
    by (rule bit_word_eqI) (auto simp: bit_simps)
  ultimately show ?case using Cons by simp
qed simp

lemma load_store_bytes:
  assumes "store_bytes m a bs = Some m'" and "length bs \<le> 8"
  shows "load_bytes m' a (length bs) = Some bs"
  using assms
proof (induction bs arbitrary: m a)
  case (Cons b bs)
  from Cons.prems have st: "store_bytes (m(a \<mapsto> b)) (a + 1) bs = Some m'"
    by (auto split: option.splits)
  have "a \<notin> byte_range (a + 1) (length bs)"
  proof
    assume "a \<in> byte_range (a + 1) (length bs)"
    then obtain i where "i < length bs" and "word_of_nat (Suc i) = (0 :: uint64_t)"
      by (auto simp: byte_range_def add.assoc)
    then have "2 ^ 64 dvd Suc i" and "Suc i < 2 ^ 64"
      using Cons.prems(2) by (simp_all only: word_of_nat_eq_0_iff len_num0 len_num1) simp_all
    then show False by (auto dest: dvd_imp_le)
  qed
  from store_bytes_frame [OF st this] Cons st show ?case by simp
qed simp

section \<open>The dispatch loop\<close>

text \<open>
  \<^verbatim>\<open>while (1) { ... }\<close>: one iteration either stops with a result (\<^const>\<open>Inl\<close>) or goes
  on from a new state (\<^const>\<open>Inr\<close>). The loop need not end; \<^const>\<open>None\<close> is a run that
  does not return.
\<close>

partial_function (option) run_loop :: "('s \<Rightarrow> 'r + 's) \<Rightarrow> 's \<Rightarrow> 'r option" where
  "run_loop step s = (case step s of Inl r \<Rightarrow> Some r | Inr s' \<Rightarrow> run_loop step s')"

declare run_loop.simps [code]

inductive steps :: "('s \<Rightarrow> 'r + 's) \<Rightarrow> 's \<Rightarrow> 's \<Rightarrow> bool" for step where
  steps_refl: "steps step s s"
| steps_step: "steps step s t \<Longrightarrow> step t = Inr u \<Longrightarrow> steps step s u"

lemma steps_front: "steps step t u \<Longrightarrow> step s = Inr t \<Longrightarrow> steps step s u"
  by (induction rule: steps.induct) (auto intro: steps.intros)

lemma steps_trans: "steps step t u \<Longrightarrow> steps step s t \<Longrightarrow> steps step s u"
  by (induction rule: steps.induct) (auto intro: steps.intros)

text \<open>A run that returns stops in a reachable state, with the result of that state's step.\<close>

lemma run_loop_steps:
  assumes "run_loop step s = Some r"
  shows "\<exists>t. steps step s t \<and> step t = Inl r"
proof (rule run_loop.raw_induct
    [where P = "\<lambda>step s r. \<exists>t. steps step s t \<and> step t = Inl r", OF _ assms])
  fix f step s r
  assume IH: "\<And>step s r. f step s = Some r \<Longrightarrow> \<exists>t. steps step s t \<and> step t = Inl r"
    and eq: "(case step s of Inl r \<Rightarrow> Some r | Inr s' \<Rightarrow> f step s') = Some r"
  show "\<exists>t. steps step s t \<and> step t = Inl r"
  proof (cases "step s")
    case (Inl r')
    with eq show ?thesis by (auto intro: steps_refl)
  next
    case (Inr s')
    with eq have "f step s' = Some r" by simp
    then obtain t where "steps step s' t" "step t = Inl r" using IH by blast
    with Inr show ?thesis by (blast intro: steps_front)
  qed
qed

lemma steps_run_loop: "steps step s t \<Longrightarrow> run_loop step t = run_loop step s"
  by (induction rule: steps.induct) (auto simp: run_loop.simps)

lemma run_loop_result: "steps step s t \<Longrightarrow> step t = Inl r \<Longrightarrow> run_loop step s = Some r"
  using steps_run_loop [of step s t] by (simp add: run_loop.simps)

subsection \<open>Simulation\<close>

text \<open>
  One loop simulates another: each of its iterations is one of the other's on the abstracted
  state, and the results that \<open>res\<close> translates are the other's. Then so are the runs.
\<close>

locale step_simulation =
  fixes step :: "'s \<Rightarrow> 'r + 's"
    and abs_step :: "'t \<Rightarrow> 'q + 't"
    and abs :: "'s \<Rightarrow> 't"
    and res :: "'r \<Rightarrow> 'q option"
  assumes sim_step: "step s = Inr s' \<Longrightarrow> abs_step (abs s) = Inr (abs s')"
    and sim_result: "step s = Inl r \<Longrightarrow> res r = Some q \<Longrightarrow> abs_step (abs s) = Inl q"
begin

lemma sim_steps: "steps step s t \<Longrightarrow> steps abs_step (abs s) (abs t)"
  by (induction rule: steps.induct) (auto intro: steps.intros dest: sim_step)

lemma sim_run:
  assumes "run_loop step s = Some r" and "res r = Some q"
  shows "run_loop abs_step (abs s) = Some q"
proof -
  from run_loop_steps [OF assms(1)] obtain t where "steps step s t" and r: "step t = Inl r" by blast
  from sim_steps [OF this(1)] sim_result [OF r assms(2)] show ?thesis by (rule run_loop_result)
qed

end

subsection \<open>Invariants and bounded runs\<close>

text \<open>
  What an interpreter promises its clients: an invariant that every iteration keeps, and,
  for the bounded ones, a budget that every iteration spends.
\<close>

locale step_invariant =
  fixes step :: "'s \<Rightarrow> 'r + 's"
    and inv :: "'s \<Rightarrow> bool"
  assumes inv_step: "inv s \<Longrightarrow> step s = Inr s' \<Longrightarrow> inv s'"
begin

lemma inv_steps: "steps step s t \<Longrightarrow> inv s \<Longrightarrow> inv t"
  by (induction rule: steps.induct) (auto intro: inv_step)

lemma run_result:
  assumes "run_loop step s = Some r" and "inv s"
  shows "\<exists>t. steps step s t \<and> inv t \<and> step t = Inl r"
  using run_loop_steps [OF assms(1)] inv_steps assms(2) by blast

end

locale bounded_steps = step_invariant step inv
  for step :: "'s \<Rightarrow> 'r + 's" and inv :: "'s \<Rightarrow> bool" +
  fixes budget :: "'s \<Rightarrow> nat"
  assumes budget_step: "inv s \<Longrightarrow> step s = Inr s' \<Longrightarrow> budget s' < budget s"
begin

lemma run_terminates: "inv s \<Longrightarrow> \<exists>r. run_loop step s = Some r"
proof (induction "budget s" arbitrary: s rule: less_induct)
  case less
  show ?case
  proof (cases "step s")
    case (Inl r)
    then show ?thesis by (subst run_loop.simps) simp
  next
    case (Inr s')
    with less inv_step budget_step have "\<exists>r. run_loop step s' = Some r" by blast
    with Inr show ?thesis by (subst run_loop.simps) simp
  qed
qed

end

end
