(* ===== verification/Ebpf.thy ===== *)
theory Ebpf
  imports Ubpf_Prelude
begin

text \<open>
  The instruction set of \<^verbatim>\<open>vm/ebpf.h\<close>: the instruction word \<^verbatim>\<open>struct ebpf_inst\<close> with its
  packed 64-bit and byte encodings, the register numbers, and the opcode constants, each
  defined by the expression of its macro and with its value proved as a simp rule.
\<close>

section \<open>Opcode constants\<close>

definition EBPF_CLS_MASK :: uint8_t where [opcode_defs]: "EBPF_CLS_MASK = 0x07"
definition EBPF_ALU_OP_MASK :: uint8_t where [opcode_defs]: "EBPF_ALU_OP_MASK = 0xf0"
definition EBPF_JMP_OP_MASK :: uint8_t where [opcode_defs]: "EBPF_JMP_OP_MASK = 0xf0"
definition EBPF_CLS_LD :: uint8_t where [opcode_defs]: "EBPF_CLS_LD = 0x00"
definition EBPF_CLS_LDX :: uint8_t where [opcode_defs]: "EBPF_CLS_LDX = 0x01"
definition EBPF_CLS_ST :: uint8_t where [opcode_defs]: "EBPF_CLS_ST = 0x02"
definition EBPF_CLS_STX :: uint8_t where [opcode_defs]: "EBPF_CLS_STX = 0x03"
definition EBPF_CLS_ALU :: uint8_t where [opcode_defs]: "EBPF_CLS_ALU = 0x04"
definition EBPF_CLS_JMP :: uint8_t where [opcode_defs]: "EBPF_CLS_JMP = 0x05"
definition EBPF_CLS_JMP32 :: uint8_t where [opcode_defs]: "EBPF_CLS_JMP32 = 0x06"
definition EBPF_CLS_ALU64 :: uint8_t where [opcode_defs]: "EBPF_CLS_ALU64 = 0x07"
definition EBPF_SRC_IMM :: uint8_t where [opcode_defs]: "EBPF_SRC_IMM = 0x00"
definition EBPF_SRC_REG :: uint8_t where [opcode_defs]: "EBPF_SRC_REG = 0x08"
definition EBPF_SIZE_W :: uint8_t where [opcode_defs]: "EBPF_SIZE_W = 0x00"
definition EBPF_SIZE_H :: uint8_t where [opcode_defs]: "EBPF_SIZE_H = 0x08"
definition EBPF_SIZE_B :: uint8_t where [opcode_defs]: "EBPF_SIZE_B = 0x10"
definition EBPF_SIZE_DW :: uint8_t where [opcode_defs]: "EBPF_SIZE_DW = 0x18"
definition EBPF_MODE_ATOMIC :: uint8_t where [opcode_defs]: "EBPF_MODE_ATOMIC = 0xc0"
definition EBPF_ATOMIC_OP_FETCH :: int32_t where [opcode_defs]: "EBPF_ATOMIC_OP_FETCH = 0x01"
definition EBPF_ATOMIC_OP_XCHG :: int32_t where [opcode_defs]: "EBPF_ATOMIC_OP_XCHG = 0xe0 OR EBPF_ATOMIC_OP_FETCH"
definition EBPF_ATOMIC_OP_CMPXCHG :: int32_t where [opcode_defs]: "EBPF_ATOMIC_OP_CMPXCHG = 0xf0 OR EBPF_ATOMIC_OP_FETCH"
definition EBPF_MODE_IMM :: uint8_t where [opcode_defs]: "EBPF_MODE_IMM = 0x00"
definition EBPF_MODE_MEM :: uint8_t where [opcode_defs]: "EBPF_MODE_MEM = 0x60"
definition EBPF_MODE_MEMSX :: uint8_t where [opcode_defs]: "EBPF_MODE_MEMSX = 0x80"
definition EBPF_ALU_OP_ADD :: uint8_t where [opcode_defs]: "EBPF_ALU_OP_ADD = 0x00"
definition EBPF_ALU_OP_SUB :: uint8_t where [opcode_defs]: "EBPF_ALU_OP_SUB = 0x10"
definition EBPF_ALU_OP_MUL :: uint8_t where [opcode_defs]: "EBPF_ALU_OP_MUL = 0x20"
definition EBPF_ALU_OP_DIV :: uint8_t where [opcode_defs]: "EBPF_ALU_OP_DIV = 0x30"
definition EBPF_ALU_OP_OR :: uint8_t where [opcode_defs]: "EBPF_ALU_OP_OR = 0x40"
definition EBPF_ALU_OP_AND :: uint8_t where [opcode_defs]: "EBPF_ALU_OP_AND = 0x50"
definition EBPF_ALU_OP_LSH :: uint8_t where [opcode_defs]: "EBPF_ALU_OP_LSH = 0x60"
definition EBPF_ALU_OP_RSH :: uint8_t where [opcode_defs]: "EBPF_ALU_OP_RSH = 0x70"
definition EBPF_ALU_OP_NEG :: uint8_t where [opcode_defs]: "EBPF_ALU_OP_NEG = 0x80"
definition EBPF_ALU_OP_MOD :: uint8_t where [opcode_defs]: "EBPF_ALU_OP_MOD = 0x90"
definition EBPF_ALU_OP_XOR :: uint8_t where [opcode_defs]: "EBPF_ALU_OP_XOR = 0xa0"
definition EBPF_ALU_OP_MOV :: uint8_t where [opcode_defs]: "EBPF_ALU_OP_MOV = 0xb0"
definition EBPF_ALU_OP_ARSH :: uint8_t where [opcode_defs]: "EBPF_ALU_OP_ARSH = 0xc0"
definition EBPF_ALU_OP_END :: uint8_t where [opcode_defs]: "EBPF_ALU_OP_END = 0xd0"
definition EBPF_OP_ADD_IMM :: uint8_t where [opcode_defs]: "EBPF_OP_ADD_IMM = EBPF_CLS_ALU OR EBPF_SRC_IMM OR EBPF_ALU_OP_ADD"
definition EBPF_OP_ADD_REG :: uint8_t where [opcode_defs]: "EBPF_OP_ADD_REG = EBPF_CLS_ALU OR EBPF_SRC_REG OR EBPF_ALU_OP_ADD"
definition EBPF_OP_SUB_IMM :: uint8_t where [opcode_defs]: "EBPF_OP_SUB_IMM = EBPF_CLS_ALU OR EBPF_SRC_IMM OR EBPF_ALU_OP_SUB"
definition EBPF_OP_SUB_REG :: uint8_t where [opcode_defs]: "EBPF_OP_SUB_REG = EBPF_CLS_ALU OR EBPF_SRC_REG OR EBPF_ALU_OP_SUB"
definition EBPF_OP_MUL_IMM :: uint8_t where [opcode_defs]: "EBPF_OP_MUL_IMM = EBPF_CLS_ALU OR EBPF_SRC_IMM OR EBPF_ALU_OP_MUL"
definition EBPF_OP_MUL_REG :: uint8_t where [opcode_defs]: "EBPF_OP_MUL_REG = EBPF_CLS_ALU OR EBPF_SRC_REG OR EBPF_ALU_OP_MUL"
definition EBPF_OP_DIV_IMM :: uint8_t where [opcode_defs]: "EBPF_OP_DIV_IMM = EBPF_CLS_ALU OR EBPF_SRC_IMM OR EBPF_ALU_OP_DIV"
definition EBPF_OP_DIV_REG :: uint8_t where [opcode_defs]: "EBPF_OP_DIV_REG = EBPF_CLS_ALU OR EBPF_SRC_REG OR EBPF_ALU_OP_DIV"
definition EBPF_OP_OR_IMM :: uint8_t where [opcode_defs]: "EBPF_OP_OR_IMM = EBPF_CLS_ALU OR EBPF_SRC_IMM OR EBPF_ALU_OP_OR"
definition EBPF_OP_OR_REG :: uint8_t where [opcode_defs]: "EBPF_OP_OR_REG = EBPF_CLS_ALU OR EBPF_SRC_REG OR EBPF_ALU_OP_OR"
definition EBPF_OP_AND_IMM :: uint8_t where [opcode_defs]: "EBPF_OP_AND_IMM = EBPF_CLS_ALU OR EBPF_SRC_IMM OR EBPF_ALU_OP_AND"
definition EBPF_OP_AND_REG :: uint8_t where [opcode_defs]: "EBPF_OP_AND_REG = EBPF_CLS_ALU OR EBPF_SRC_REG OR EBPF_ALU_OP_AND"
definition EBPF_OP_LSH_IMM :: uint8_t where [opcode_defs]: "EBPF_OP_LSH_IMM = EBPF_CLS_ALU OR EBPF_SRC_IMM OR EBPF_ALU_OP_LSH"
definition EBPF_OP_LSH_REG :: uint8_t where [opcode_defs]: "EBPF_OP_LSH_REG = EBPF_CLS_ALU OR EBPF_SRC_REG OR EBPF_ALU_OP_LSH"
definition EBPF_OP_RSH_IMM :: uint8_t where [opcode_defs]: "EBPF_OP_RSH_IMM = EBPF_CLS_ALU OR EBPF_SRC_IMM OR EBPF_ALU_OP_RSH"
definition EBPF_OP_RSH_REG :: uint8_t where [opcode_defs]: "EBPF_OP_RSH_REG = EBPF_CLS_ALU OR EBPF_SRC_REG OR EBPF_ALU_OP_RSH"
definition EBPF_OP_NEG :: uint8_t where [opcode_defs]: "EBPF_OP_NEG = EBPF_CLS_ALU OR EBPF_ALU_OP_NEG"
definition EBPF_OP_MOD_IMM :: uint8_t where [opcode_defs]: "EBPF_OP_MOD_IMM = EBPF_CLS_ALU OR EBPF_SRC_IMM OR EBPF_ALU_OP_MOD"
definition EBPF_OP_MOD_REG :: uint8_t where [opcode_defs]: "EBPF_OP_MOD_REG = EBPF_CLS_ALU OR EBPF_SRC_REG OR EBPF_ALU_OP_MOD"
definition EBPF_OP_XOR_IMM :: uint8_t where [opcode_defs]: "EBPF_OP_XOR_IMM = EBPF_CLS_ALU OR EBPF_SRC_IMM OR EBPF_ALU_OP_XOR"
definition EBPF_OP_XOR_REG :: uint8_t where [opcode_defs]: "EBPF_OP_XOR_REG = EBPF_CLS_ALU OR EBPF_SRC_REG OR EBPF_ALU_OP_XOR"
definition EBPF_OP_MOV_IMM :: uint8_t where [opcode_defs]: "EBPF_OP_MOV_IMM = EBPF_CLS_ALU OR EBPF_SRC_IMM OR EBPF_ALU_OP_MOV"
definition EBPF_OP_MOV_REG :: uint8_t where [opcode_defs]: "EBPF_OP_MOV_REG = EBPF_CLS_ALU OR EBPF_SRC_REG OR EBPF_ALU_OP_MOV"
definition EBPF_OP_ARSH_IMM :: uint8_t where [opcode_defs]: "EBPF_OP_ARSH_IMM = EBPF_CLS_ALU OR EBPF_SRC_IMM OR EBPF_ALU_OP_ARSH"
definition EBPF_OP_ARSH_REG :: uint8_t where [opcode_defs]: "EBPF_OP_ARSH_REG = EBPF_CLS_ALU OR EBPF_SRC_REG OR EBPF_ALU_OP_ARSH"
definition EBPF_OP_LE :: uint8_t where [opcode_defs]: "EBPF_OP_LE = EBPF_CLS_ALU OR EBPF_SRC_IMM OR EBPF_ALU_OP_END"
definition EBPF_OP_BE :: uint8_t where [opcode_defs]: "EBPF_OP_BE = EBPF_CLS_ALU OR EBPF_SRC_REG OR EBPF_ALU_OP_END"
definition EBPF_OP_ADD64_IMM :: uint8_t where [opcode_defs]: "EBPF_OP_ADD64_IMM = EBPF_CLS_ALU64 OR EBPF_SRC_IMM OR EBPF_ALU_OP_ADD"
definition EBPF_OP_ADD64_REG :: uint8_t where [opcode_defs]: "EBPF_OP_ADD64_REG = EBPF_CLS_ALU64 OR EBPF_SRC_REG OR EBPF_ALU_OP_ADD"
definition EBPF_OP_SUB64_IMM :: uint8_t where [opcode_defs]: "EBPF_OP_SUB64_IMM = EBPF_CLS_ALU64 OR EBPF_SRC_IMM OR EBPF_ALU_OP_SUB"
definition EBPF_OP_SUB64_REG :: uint8_t where [opcode_defs]: "EBPF_OP_SUB64_REG = EBPF_CLS_ALU64 OR EBPF_SRC_REG OR EBPF_ALU_OP_SUB"
definition EBPF_OP_MUL64_IMM :: uint8_t where [opcode_defs]: "EBPF_OP_MUL64_IMM = EBPF_CLS_ALU64 OR EBPF_SRC_IMM OR EBPF_ALU_OP_MUL"
definition EBPF_OP_MUL64_REG :: uint8_t where [opcode_defs]: "EBPF_OP_MUL64_REG = EBPF_CLS_ALU64 OR EBPF_SRC_REG OR EBPF_ALU_OP_MUL"
definition EBPF_OP_DIV64_IMM :: uint8_t where [opcode_defs]: "EBPF_OP_DIV64_IMM = EBPF_CLS_ALU64 OR EBPF_SRC_IMM OR EBPF_ALU_OP_DIV"
definition EBPF_OP_DIV64_REG :: uint8_t where [opcode_defs]: "EBPF_OP_DIV64_REG = EBPF_CLS_ALU64 OR EBPF_SRC_REG OR EBPF_ALU_OP_DIV"
definition EBPF_OP_OR64_IMM :: uint8_t where [opcode_defs]: "EBPF_OP_OR64_IMM = EBPF_CLS_ALU64 OR EBPF_SRC_IMM OR EBPF_ALU_OP_OR"
definition EBPF_OP_OR64_REG :: uint8_t where [opcode_defs]: "EBPF_OP_OR64_REG = EBPF_CLS_ALU64 OR EBPF_SRC_REG OR EBPF_ALU_OP_OR"
definition EBPF_OP_AND64_IMM :: uint8_t where [opcode_defs]: "EBPF_OP_AND64_IMM = EBPF_CLS_ALU64 OR EBPF_SRC_IMM OR EBPF_ALU_OP_AND"
definition EBPF_OP_AND64_REG :: uint8_t where [opcode_defs]: "EBPF_OP_AND64_REG = EBPF_CLS_ALU64 OR EBPF_SRC_REG OR EBPF_ALU_OP_AND"
definition EBPF_OP_LSH64_IMM :: uint8_t where [opcode_defs]: "EBPF_OP_LSH64_IMM = EBPF_CLS_ALU64 OR EBPF_SRC_IMM OR EBPF_ALU_OP_LSH"
definition EBPF_OP_LSH64_REG :: uint8_t where [opcode_defs]: "EBPF_OP_LSH64_REG = EBPF_CLS_ALU64 OR EBPF_SRC_REG OR EBPF_ALU_OP_LSH"
definition EBPF_OP_RSH64_IMM :: uint8_t where [opcode_defs]: "EBPF_OP_RSH64_IMM = EBPF_CLS_ALU64 OR EBPF_SRC_IMM OR EBPF_ALU_OP_RSH"
definition EBPF_OP_RSH64_REG :: uint8_t where [opcode_defs]: "EBPF_OP_RSH64_REG = EBPF_CLS_ALU64 OR EBPF_SRC_REG OR EBPF_ALU_OP_RSH"
definition EBPF_OP_NEG64 :: uint8_t where [opcode_defs]: "EBPF_OP_NEG64 = EBPF_CLS_ALU64 OR EBPF_ALU_OP_NEG"
definition EBPF_OP_MOD64_IMM :: uint8_t where [opcode_defs]: "EBPF_OP_MOD64_IMM = EBPF_CLS_ALU64 OR EBPF_SRC_IMM OR EBPF_ALU_OP_MOD"
definition EBPF_OP_MOD64_REG :: uint8_t where [opcode_defs]: "EBPF_OP_MOD64_REG = EBPF_CLS_ALU64 OR EBPF_SRC_REG OR EBPF_ALU_OP_MOD"
definition EBPF_OP_XOR64_IMM :: uint8_t where [opcode_defs]: "EBPF_OP_XOR64_IMM = EBPF_CLS_ALU64 OR EBPF_SRC_IMM OR EBPF_ALU_OP_XOR"
definition EBPF_OP_XOR64_REG :: uint8_t where [opcode_defs]: "EBPF_OP_XOR64_REG = EBPF_CLS_ALU64 OR EBPF_SRC_REG OR EBPF_ALU_OP_XOR"
definition EBPF_OP_MOV64_IMM :: uint8_t where [opcode_defs]: "EBPF_OP_MOV64_IMM = EBPF_CLS_ALU64 OR EBPF_SRC_IMM OR EBPF_ALU_OP_MOV"
definition EBPF_OP_MOV64_REG :: uint8_t where [opcode_defs]: "EBPF_OP_MOV64_REG = EBPF_CLS_ALU64 OR EBPF_SRC_REG OR EBPF_ALU_OP_MOV"
definition EBPF_OP_ARSH64_IMM :: uint8_t where [opcode_defs]: "EBPF_OP_ARSH64_IMM = EBPF_CLS_ALU64 OR EBPF_SRC_IMM OR EBPF_ALU_OP_ARSH"
definition EBPF_OP_ARSH64_REG :: uint8_t where [opcode_defs]: "EBPF_OP_ARSH64_REG = EBPF_CLS_ALU64 OR EBPF_SRC_REG OR EBPF_ALU_OP_ARSH"
definition EBPF_OP_BSWAP :: uint8_t where [opcode_defs]: "EBPF_OP_BSWAP = EBPF_CLS_ALU64 OR EBPF_SRC_IMM OR EBPF_ALU_OP_END"
definition EBPF_OP_LDXW :: uint8_t where [opcode_defs]: "EBPF_OP_LDXW = EBPF_CLS_LDX OR EBPF_MODE_MEM OR EBPF_SIZE_W"
definition EBPF_OP_LDXH :: uint8_t where [opcode_defs]: "EBPF_OP_LDXH = EBPF_CLS_LDX OR EBPF_MODE_MEM OR EBPF_SIZE_H"
definition EBPF_OP_LDXB :: uint8_t where [opcode_defs]: "EBPF_OP_LDXB = EBPF_CLS_LDX OR EBPF_MODE_MEM OR EBPF_SIZE_B"
definition EBPF_OP_LDXDW :: uint8_t where [opcode_defs]: "EBPF_OP_LDXDW = EBPF_CLS_LDX OR EBPF_MODE_MEM OR EBPF_SIZE_DW"
definition EBPF_OP_LDXWSX :: uint8_t where [opcode_defs]: "EBPF_OP_LDXWSX = EBPF_CLS_LDX OR EBPF_MODE_MEMSX OR EBPF_SIZE_W"
definition EBPF_OP_LDXHSX :: uint8_t where [opcode_defs]: "EBPF_OP_LDXHSX = EBPF_CLS_LDX OR EBPF_MODE_MEMSX OR EBPF_SIZE_H"
definition EBPF_OP_LDXBSX :: uint8_t where [opcode_defs]: "EBPF_OP_LDXBSX = EBPF_CLS_LDX OR EBPF_MODE_MEMSX OR EBPF_SIZE_B"
definition EBPF_OP_STW :: uint8_t where [opcode_defs]: "EBPF_OP_STW = EBPF_CLS_ST OR EBPF_MODE_MEM OR EBPF_SIZE_W"
definition EBPF_OP_STH :: uint8_t where [opcode_defs]: "EBPF_OP_STH = EBPF_CLS_ST OR EBPF_MODE_MEM OR EBPF_SIZE_H"
definition EBPF_OP_STB :: uint8_t where [opcode_defs]: "EBPF_OP_STB = EBPF_CLS_ST OR EBPF_MODE_MEM OR EBPF_SIZE_B"
definition EBPF_OP_STDW :: uint8_t where [opcode_defs]: "EBPF_OP_STDW = EBPF_CLS_ST OR EBPF_MODE_MEM OR EBPF_SIZE_DW"
definition EBPF_OP_STXW :: uint8_t where [opcode_defs]: "EBPF_OP_STXW = EBPF_CLS_STX OR EBPF_MODE_MEM OR EBPF_SIZE_W"
definition EBPF_OP_STXH :: uint8_t where [opcode_defs]: "EBPF_OP_STXH = EBPF_CLS_STX OR EBPF_MODE_MEM OR EBPF_SIZE_H"
definition EBPF_OP_STXB :: uint8_t where [opcode_defs]: "EBPF_OP_STXB = EBPF_CLS_STX OR EBPF_MODE_MEM OR EBPF_SIZE_B"
definition EBPF_OP_STXDW :: uint8_t where [opcode_defs]: "EBPF_OP_STXDW = EBPF_CLS_STX OR EBPF_MODE_MEM OR EBPF_SIZE_DW"
definition EBPF_OP_LDDW :: uint8_t where [opcode_defs]: "EBPF_OP_LDDW = EBPF_CLS_LD OR EBPF_MODE_IMM OR EBPF_SIZE_DW"
definition EBPF_MODE_JA :: uint8_t where [opcode_defs]: "EBPF_MODE_JA = 0x00"
definition EBPF_MODE_JEQ :: uint8_t where [opcode_defs]: "EBPF_MODE_JEQ = 0x10"
definition EBPF_MODE_JGT :: uint8_t where [opcode_defs]: "EBPF_MODE_JGT = 0x20"
definition EBPF_MODE_JGE :: uint8_t where [opcode_defs]: "EBPF_MODE_JGE = 0x30"
definition EBPF_MODE_JSET :: uint8_t where [opcode_defs]: "EBPF_MODE_JSET = 0x40"
definition EBPF_MODE_JNE :: uint8_t where [opcode_defs]: "EBPF_MODE_JNE = 0x50"
definition EBPF_MODE_JSGT :: uint8_t where [opcode_defs]: "EBPF_MODE_JSGT = 0x60"
definition EBPF_MODE_JSGE :: uint8_t where [opcode_defs]: "EBPF_MODE_JSGE = 0x70"
definition EBPF_MODE_CALL :: uint8_t where [opcode_defs]: "EBPF_MODE_CALL = 0x80"
definition EBPF_MODE_EXIT :: uint8_t where [opcode_defs]: "EBPF_MODE_EXIT = 0x90"
definition EBPF_MODE_JLT :: uint8_t where [opcode_defs]: "EBPF_MODE_JLT = 0xa0"
definition EBPF_MODE_JLE :: uint8_t where [opcode_defs]: "EBPF_MODE_JLE = 0xb0"
definition EBPF_MODE_JSLT :: uint8_t where [opcode_defs]: "EBPF_MODE_JSLT = 0xc0"
definition EBPF_MODE_JSLE :: uint8_t where [opcode_defs]: "EBPF_MODE_JSLE = 0xd0"
definition EBPF_OP_JA :: uint8_t where [opcode_defs]: "EBPF_OP_JA = EBPF_CLS_JMP OR EBPF_MODE_JA"
definition EBPF_OP_JEQ_IMM :: uint8_t where [opcode_defs]: "EBPF_OP_JEQ_IMM = EBPF_CLS_JMP OR EBPF_SRC_IMM OR EBPF_MODE_JEQ"
definition EBPF_OP_JEQ_REG :: uint8_t where [opcode_defs]: "EBPF_OP_JEQ_REG = EBPF_CLS_JMP OR EBPF_SRC_REG OR EBPF_MODE_JEQ"
definition EBPF_OP_JGT_IMM :: uint8_t where [opcode_defs]: "EBPF_OP_JGT_IMM = EBPF_CLS_JMP OR EBPF_SRC_IMM OR EBPF_MODE_JGT"
definition EBPF_OP_JGT_REG :: uint8_t where [opcode_defs]: "EBPF_OP_JGT_REG = EBPF_CLS_JMP OR EBPF_SRC_REG OR EBPF_MODE_JGT"
definition EBPF_OP_JGE_IMM :: uint8_t where [opcode_defs]: "EBPF_OP_JGE_IMM = EBPF_CLS_JMP OR EBPF_SRC_IMM OR EBPF_MODE_JGE"
definition EBPF_OP_JGE_REG :: uint8_t where [opcode_defs]: "EBPF_OP_JGE_REG = EBPF_CLS_JMP OR EBPF_SRC_REG OR EBPF_MODE_JGE"
definition EBPF_OP_JSET_REG :: uint8_t where [opcode_defs]: "EBPF_OP_JSET_REG = EBPF_CLS_JMP OR EBPF_SRC_REG OR EBPF_MODE_JSET"
definition EBPF_OP_JSET_IMM :: uint8_t where [opcode_defs]: "EBPF_OP_JSET_IMM = EBPF_CLS_JMP OR EBPF_SRC_IMM OR EBPF_MODE_JSET"
definition EBPF_OP_JNE_IMM :: uint8_t where [opcode_defs]: "EBPF_OP_JNE_IMM = EBPF_CLS_JMP OR EBPF_SRC_IMM OR EBPF_MODE_JNE"
definition EBPF_OP_JNE_REG :: uint8_t where [opcode_defs]: "EBPF_OP_JNE_REG = EBPF_CLS_JMP OR EBPF_SRC_REG OR EBPF_MODE_JNE"
definition EBPF_OP_JSGT_IMM :: uint8_t where [opcode_defs]: "EBPF_OP_JSGT_IMM = EBPF_CLS_JMP OR EBPF_SRC_IMM OR EBPF_MODE_JSGT"
definition EBPF_OP_JSGT_REG :: uint8_t where [opcode_defs]: "EBPF_OP_JSGT_REG = EBPF_CLS_JMP OR EBPF_SRC_REG OR EBPF_MODE_JSGT"
definition EBPF_OP_JSGE_IMM :: uint8_t where [opcode_defs]: "EBPF_OP_JSGE_IMM = EBPF_CLS_JMP OR EBPF_SRC_IMM OR EBPF_MODE_JSGE"
definition EBPF_OP_JSGE_REG :: uint8_t where [opcode_defs]: "EBPF_OP_JSGE_REG = EBPF_CLS_JMP OR EBPF_SRC_REG OR EBPF_MODE_JSGE"
definition EBPF_OP_CALL :: uint8_t where [opcode_defs]: "EBPF_OP_CALL = EBPF_CLS_JMP OR EBPF_MODE_CALL"
definition EBPF_OP_EXIT :: uint8_t where [opcode_defs]: "EBPF_OP_EXIT = EBPF_CLS_JMP OR EBPF_MODE_EXIT"
definition EBPF_OP_JLT_IMM :: uint8_t where [opcode_defs]: "EBPF_OP_JLT_IMM = EBPF_CLS_JMP OR EBPF_SRC_IMM OR EBPF_MODE_JLT"
definition EBPF_OP_JLT_REG :: uint8_t where [opcode_defs]: "EBPF_OP_JLT_REG = EBPF_CLS_JMP OR EBPF_SRC_REG OR EBPF_MODE_JLT"
definition EBPF_OP_JLE_IMM :: uint8_t where [opcode_defs]: "EBPF_OP_JLE_IMM = EBPF_CLS_JMP OR EBPF_SRC_IMM OR EBPF_MODE_JLE"
definition EBPF_OP_JLE_REG :: uint8_t where [opcode_defs]: "EBPF_OP_JLE_REG = EBPF_CLS_JMP OR EBPF_SRC_REG OR EBPF_MODE_JLE"
definition EBPF_OP_JSLT_IMM :: uint8_t where [opcode_defs]: "EBPF_OP_JSLT_IMM = EBPF_CLS_JMP OR EBPF_SRC_IMM OR EBPF_MODE_JSLT"
definition EBPF_OP_JSLT_REG :: uint8_t where [opcode_defs]: "EBPF_OP_JSLT_REG = EBPF_CLS_JMP OR EBPF_SRC_REG OR EBPF_MODE_JSLT"
definition EBPF_OP_JSLE_IMM :: uint8_t where [opcode_defs]: "EBPF_OP_JSLE_IMM = EBPF_CLS_JMP OR EBPF_SRC_IMM OR EBPF_MODE_JSLE"
definition EBPF_OP_JSLE_REG :: uint8_t where [opcode_defs]: "EBPF_OP_JSLE_REG = EBPF_CLS_JMP OR EBPF_SRC_REG OR EBPF_MODE_JSLE"
definition EBPF_OP_JA32 :: uint8_t where [opcode_defs]: "EBPF_OP_JA32 = EBPF_CLS_JMP32 OR EBPF_MODE_JA"
definition EBPF_OP_JEQ32_IMM :: uint8_t where [opcode_defs]: "EBPF_OP_JEQ32_IMM = EBPF_CLS_JMP32 OR EBPF_SRC_IMM OR EBPF_MODE_JEQ"
definition EBPF_OP_JEQ32_REG :: uint8_t where [opcode_defs]: "EBPF_OP_JEQ32_REG = EBPF_CLS_JMP32 OR EBPF_SRC_REG OR EBPF_MODE_JEQ"
definition EBPF_OP_JGT32_IMM :: uint8_t where [opcode_defs]: "EBPF_OP_JGT32_IMM = EBPF_CLS_JMP32 OR EBPF_SRC_IMM OR EBPF_MODE_JGT"
definition EBPF_OP_JGT32_REG :: uint8_t where [opcode_defs]: "EBPF_OP_JGT32_REG = EBPF_CLS_JMP32 OR EBPF_SRC_REG OR EBPF_MODE_JGT"
definition EBPF_OP_JGE32_IMM :: uint8_t where [opcode_defs]: "EBPF_OP_JGE32_IMM = EBPF_CLS_JMP32 OR EBPF_SRC_IMM OR EBPF_MODE_JGE"
definition EBPF_OP_JGE32_REG :: uint8_t where [opcode_defs]: "EBPF_OP_JGE32_REG = EBPF_CLS_JMP32 OR EBPF_SRC_REG OR EBPF_MODE_JGE"
definition EBPF_OP_JSET32_REG :: uint8_t where [opcode_defs]: "EBPF_OP_JSET32_REG = EBPF_CLS_JMP32 OR EBPF_SRC_REG OR EBPF_MODE_JSET"
definition EBPF_OP_JSET32_IMM :: uint8_t where [opcode_defs]: "EBPF_OP_JSET32_IMM = EBPF_CLS_JMP32 OR EBPF_SRC_IMM OR EBPF_MODE_JSET"
definition EBPF_OP_JNE32_IMM :: uint8_t where [opcode_defs]: "EBPF_OP_JNE32_IMM = EBPF_CLS_JMP32 OR EBPF_SRC_IMM OR EBPF_MODE_JNE"
definition EBPF_OP_JNE32_REG :: uint8_t where [opcode_defs]: "EBPF_OP_JNE32_REG = EBPF_CLS_JMP32 OR EBPF_SRC_REG OR EBPF_MODE_JNE"
definition EBPF_OP_JSGT32_IMM :: uint8_t where [opcode_defs]: "EBPF_OP_JSGT32_IMM = EBPF_CLS_JMP32 OR EBPF_SRC_IMM OR EBPF_MODE_JSGT"
definition EBPF_OP_JSGT32_REG :: uint8_t where [opcode_defs]: "EBPF_OP_JSGT32_REG = EBPF_CLS_JMP32 OR EBPF_SRC_REG OR EBPF_MODE_JSGT"
definition EBPF_OP_JSGE32_IMM :: uint8_t where [opcode_defs]: "EBPF_OP_JSGE32_IMM = EBPF_CLS_JMP32 OR EBPF_SRC_IMM OR EBPF_MODE_JSGE"
definition EBPF_OP_JSGE32_REG :: uint8_t where [opcode_defs]: "EBPF_OP_JSGE32_REG = EBPF_CLS_JMP32 OR EBPF_SRC_REG OR EBPF_MODE_JSGE"
definition EBPF_OP_JLT32_IMM :: uint8_t where [opcode_defs]: "EBPF_OP_JLT32_IMM = EBPF_CLS_JMP32 OR EBPF_SRC_IMM OR EBPF_MODE_JLT"
definition EBPF_OP_JLT32_REG :: uint8_t where [opcode_defs]: "EBPF_OP_JLT32_REG = EBPF_CLS_JMP32 OR EBPF_SRC_REG OR EBPF_MODE_JLT"
definition EBPF_OP_JLE32_IMM :: uint8_t where [opcode_defs]: "EBPF_OP_JLE32_IMM = EBPF_CLS_JMP32 OR EBPF_SRC_IMM OR EBPF_MODE_JLE"
definition EBPF_OP_JLE32_REG :: uint8_t where [opcode_defs]: "EBPF_OP_JLE32_REG = EBPF_CLS_JMP32 OR EBPF_SRC_REG OR EBPF_MODE_JLE"
definition EBPF_OP_JSLT32_IMM :: uint8_t where [opcode_defs]: "EBPF_OP_JSLT32_IMM = EBPF_CLS_JMP32 OR EBPF_SRC_IMM OR EBPF_MODE_JSLT"
definition EBPF_OP_JSLT32_REG :: uint8_t where [opcode_defs]: "EBPF_OP_JSLT32_REG = EBPF_CLS_JMP32 OR EBPF_SRC_REG OR EBPF_MODE_JSLT"
definition EBPF_OP_JSLE32_IMM :: uint8_t where [opcode_defs]: "EBPF_OP_JSLE32_IMM = EBPF_CLS_JMP32 OR EBPF_SRC_IMM OR EBPF_MODE_JSLE"
definition EBPF_OP_JSLE32_REG :: uint8_t where [opcode_defs]: "EBPF_OP_JSLE32_REG = EBPF_CLS_JMP32 OR EBPF_SRC_REG OR EBPF_MODE_JSLE"
definition EBPF_OP_ATOMIC32_STORE :: uint8_t where [opcode_defs]: "EBPF_OP_ATOMIC32_STORE = EBPF_CLS_STX OR EBPF_MODE_ATOMIC OR EBPF_SIZE_W"
definition EBPF_OP_ATOMIC_STORE :: uint8_t where [opcode_defs]: "EBPF_OP_ATOMIC_STORE = EBPF_CLS_STX OR EBPF_MODE_ATOMIC OR EBPF_SIZE_DW"

lemma opcode_values [opcode_vals]:
  "EBPF_CLS_MASK = 0x07" "EBPF_ALU_OP_MASK = 0xf0" "EBPF_JMP_OP_MASK = 0xf0"
  "EBPF_CLS_LD = 0x00" "EBPF_CLS_LDX = 0x01" "EBPF_CLS_ST = 0x02"
  "EBPF_CLS_STX = 0x03" "EBPF_CLS_ALU = 0x04" "EBPF_CLS_JMP = 0x05"
  "EBPF_CLS_JMP32 = 0x06" "EBPF_CLS_ALU64 = 0x07" "EBPF_SRC_IMM = 0x00"
  "EBPF_SRC_REG = 0x08" "EBPF_SIZE_W = 0x00" "EBPF_SIZE_H = 0x08"
  "EBPF_SIZE_B = 0x10" "EBPF_SIZE_DW = 0x18" "EBPF_MODE_ATOMIC = 0xc0"
  "EBPF_ATOMIC_OP_FETCH = 0x01" "EBPF_ATOMIC_OP_XCHG = 0xe1" "EBPF_ATOMIC_OP_CMPXCHG = 0xf1"
  "EBPF_MODE_IMM = 0x00" "EBPF_MODE_MEM = 0x60" "EBPF_MODE_MEMSX = 0x80"
  "EBPF_ALU_OP_ADD = 0x00" "EBPF_ALU_OP_SUB = 0x10" "EBPF_ALU_OP_MUL = 0x20"
  "EBPF_ALU_OP_DIV = 0x30" "EBPF_ALU_OP_OR = 0x40" "EBPF_ALU_OP_AND = 0x50"
  "EBPF_ALU_OP_LSH = 0x60" "EBPF_ALU_OP_RSH = 0x70" "EBPF_ALU_OP_NEG = 0x80"
  "EBPF_ALU_OP_MOD = 0x90" "EBPF_ALU_OP_XOR = 0xa0" "EBPF_ALU_OP_MOV = 0xb0"
  "EBPF_ALU_OP_ARSH = 0xc0" "EBPF_ALU_OP_END = 0xd0" "EBPF_OP_ADD_IMM = 0x04"
  "EBPF_OP_ADD_REG = 0x0c" "EBPF_OP_SUB_IMM = 0x14" "EBPF_OP_SUB_REG = 0x1c"
  "EBPF_OP_MUL_IMM = 0x24" "EBPF_OP_MUL_REG = 0x2c" "EBPF_OP_DIV_IMM = 0x34"
  "EBPF_OP_DIV_REG = 0x3c" "EBPF_OP_OR_IMM = 0x44" "EBPF_OP_OR_REG = 0x4c"
  "EBPF_OP_AND_IMM = 0x54" "EBPF_OP_AND_REG = 0x5c" "EBPF_OP_LSH_IMM = 0x64"
  "EBPF_OP_LSH_REG = 0x6c" "EBPF_OP_RSH_IMM = 0x74" "EBPF_OP_RSH_REG = 0x7c"
  "EBPF_OP_NEG = 0x84" "EBPF_OP_MOD_IMM = 0x94" "EBPF_OP_MOD_REG = 0x9c"
  "EBPF_OP_XOR_IMM = 0xa4" "EBPF_OP_XOR_REG = 0xac" "EBPF_OP_MOV_IMM = 0xb4"
  "EBPF_OP_MOV_REG = 0xbc" "EBPF_OP_ARSH_IMM = 0xc4" "EBPF_OP_ARSH_REG = 0xcc"
  "EBPF_OP_LE = 0xd4" "EBPF_OP_BE = 0xdc" "EBPF_OP_ADD64_IMM = 0x07"
  "EBPF_OP_ADD64_REG = 0x0f" "EBPF_OP_SUB64_IMM = 0x17" "EBPF_OP_SUB64_REG = 0x1f"
  "EBPF_OP_MUL64_IMM = 0x27" "EBPF_OP_MUL64_REG = 0x2f" "EBPF_OP_DIV64_IMM = 0x37"
  "EBPF_OP_DIV64_REG = 0x3f" "EBPF_OP_OR64_IMM = 0x47" "EBPF_OP_OR64_REG = 0x4f"
  "EBPF_OP_AND64_IMM = 0x57" "EBPF_OP_AND64_REG = 0x5f" "EBPF_OP_LSH64_IMM = 0x67"
  "EBPF_OP_LSH64_REG = 0x6f" "EBPF_OP_RSH64_IMM = 0x77" "EBPF_OP_RSH64_REG = 0x7f"
  "EBPF_OP_NEG64 = 0x87" "EBPF_OP_MOD64_IMM = 0x97" "EBPF_OP_MOD64_REG = 0x9f"
  "EBPF_OP_XOR64_IMM = 0xa7" "EBPF_OP_XOR64_REG = 0xaf" "EBPF_OP_MOV64_IMM = 0xb7"
  "EBPF_OP_MOV64_REG = 0xbf" "EBPF_OP_ARSH64_IMM = 0xc7" "EBPF_OP_ARSH64_REG = 0xcf"
  "EBPF_OP_BSWAP = 0xd7" "EBPF_OP_LDXW = 0x61" "EBPF_OP_LDXH = 0x69"
  "EBPF_OP_LDXB = 0x71" "EBPF_OP_LDXDW = 0x79" "EBPF_OP_LDXWSX = 0x81"
  "EBPF_OP_LDXHSX = 0x89" "EBPF_OP_LDXBSX = 0x91" "EBPF_OP_STW = 0x62"
  "EBPF_OP_STH = 0x6a" "EBPF_OP_STB = 0x72" "EBPF_OP_STDW = 0x7a"
  "EBPF_OP_STXW = 0x63" "EBPF_OP_STXH = 0x6b" "EBPF_OP_STXB = 0x73"
  "EBPF_OP_STXDW = 0x7b" "EBPF_OP_LDDW = 0x18" "EBPF_MODE_JA = 0x00"
  "EBPF_MODE_JEQ = 0x10" "EBPF_MODE_JGT = 0x20" "EBPF_MODE_JGE = 0x30"
  "EBPF_MODE_JSET = 0x40" "EBPF_MODE_JNE = 0x50" "EBPF_MODE_JSGT = 0x60"
  "EBPF_MODE_JSGE = 0x70" "EBPF_MODE_CALL = 0x80" "EBPF_MODE_EXIT = 0x90"
  "EBPF_MODE_JLT = 0xa0" "EBPF_MODE_JLE = 0xb0" "EBPF_MODE_JSLT = 0xc0"
  "EBPF_MODE_JSLE = 0xd0" "EBPF_OP_JA = 0x05" "EBPF_OP_JEQ_IMM = 0x15"
  "EBPF_OP_JEQ_REG = 0x1d" "EBPF_OP_JGT_IMM = 0x25" "EBPF_OP_JGT_REG = 0x2d"
  "EBPF_OP_JGE_IMM = 0x35" "EBPF_OP_JGE_REG = 0x3d" "EBPF_OP_JSET_REG = 0x4d"
  "EBPF_OP_JSET_IMM = 0x45" "EBPF_OP_JNE_IMM = 0x55" "EBPF_OP_JNE_REG = 0x5d"
  "EBPF_OP_JSGT_IMM = 0x65" "EBPF_OP_JSGT_REG = 0x6d" "EBPF_OP_JSGE_IMM = 0x75"
  "EBPF_OP_JSGE_REG = 0x7d" "EBPF_OP_CALL = 0x85" "EBPF_OP_EXIT = 0x95"
  "EBPF_OP_JLT_IMM = 0xa5" "EBPF_OP_JLT_REG = 0xad" "EBPF_OP_JLE_IMM = 0xb5"
  "EBPF_OP_JLE_REG = 0xbd" "EBPF_OP_JSLT_IMM = 0xc5" "EBPF_OP_JSLT_REG = 0xcd"
  "EBPF_OP_JSLE_IMM = 0xd5" "EBPF_OP_JSLE_REG = 0xdd" "EBPF_OP_JA32 = 0x06"
  "EBPF_OP_JEQ32_IMM = 0x16" "EBPF_OP_JEQ32_REG = 0x1e" "EBPF_OP_JGT32_IMM = 0x26"
  "EBPF_OP_JGT32_REG = 0x2e" "EBPF_OP_JGE32_IMM = 0x36" "EBPF_OP_JGE32_REG = 0x3e"
  "EBPF_OP_JSET32_REG = 0x4e" "EBPF_OP_JSET32_IMM = 0x46" "EBPF_OP_JNE32_IMM = 0x56"
  "EBPF_OP_JNE32_REG = 0x5e" "EBPF_OP_JSGT32_IMM = 0x66" "EBPF_OP_JSGT32_REG = 0x6e"
  "EBPF_OP_JSGE32_IMM = 0x76" "EBPF_OP_JSGE32_REG = 0x7e" "EBPF_OP_JLT32_IMM = 0xa6"
  "EBPF_OP_JLT32_REG = 0xae" "EBPF_OP_JLE32_IMM = 0xb6" "EBPF_OP_JLE32_REG = 0xbe"
  "EBPF_OP_JSLT32_IMM = 0xc6" "EBPF_OP_JSLT32_REG = 0xce" "EBPF_OP_JSLE32_IMM = 0xd6"
  "EBPF_OP_JSLE32_REG = 0xde" "EBPF_OP_ATOMIC32_STORE = 0xc3" "EBPF_OP_ATOMIC_STORE = 0xdb"
  by (simp_all add: opcode_defs)

section \<open>Instructions\<close>

text \<open>
  \<^verbatim>\<open>struct ebpf_inst\<close>: \<open>dst\<close> and \<open>src\<close> are 4-bit fields, \<open>offset\<close> and \<open>imm\<close> are signed.
\<close>

record ebpf_inst =
  opcode :: uint8_t
  dst :: uint4_t
  src :: uint4_t
  offset :: int16_t
  imm :: int32_t

text \<open>\<^verbatim>\<open>enum bpf_register\<close>, as values of the 4-bit register fields.\<close>

definition BPF_REG_0 :: uint4_t where "BPF_REG_0 = 0"
definition BPF_REG_1 :: uint4_t where "BPF_REG_1 = 1"
definition BPF_REG_2 :: uint4_t where "BPF_REG_2 = 2"
definition BPF_REG_3 :: uint4_t where "BPF_REG_3 = 3"
definition BPF_REG_4 :: uint4_t where "BPF_REG_4 = 4"
definition BPF_REG_5 :: uint4_t where "BPF_REG_5 = 5"
definition BPF_REG_6 :: uint4_t where "BPF_REG_6 = 6"
definition BPF_REG_7 :: uint4_t where "BPF_REG_7 = 7"
definition BPF_REG_8 :: uint4_t where "BPF_REG_8 = 8"
definition BPF_REG_9 :: uint4_t where "BPF_REG_9 = 9"
definition BPF_REG_10 :: uint4_t where "BPF_REG_10 = 10"

lemmas bpf_reg_defs =
  BPF_REG_0_def BPF_REG_1_def BPF_REG_2_def BPF_REG_3_def BPF_REG_4_def BPF_REG_5_def
  BPF_REG_6_def BPF_REG_7_def BPF_REG_8_def BPF_REG_9_def BPF_REG_10_def

text \<open>
  The instruction as the 64-bit value that shares its storage (the union
  \<^verbatim>\<open>ebpf_encoded_inst\<close>), and back.
\<close>

definition inst_value :: "ebpf_inst \<Rightarrow> uint64_t" where
  "inst_value i = ucast (opcode i) OR push_bit 8 (ucast (dst i)) OR push_bit 12 (ucast (src i))
     OR push_bit 16 (ucast (offset i)) OR push_bit 32 (ucast (imm i))"

definition inst_of_value :: "uint64_t \<Rightarrow> ebpf_inst" where
  "inst_of_value v = \<lparr>opcode = ucast v, dst = ucast (drop_bit 8 v), src = ucast (drop_bit 12 v),
     offset = ucast (drop_bit 16 v), imm = ucast (drop_bit 32 v)\<rparr>"

lemma inst_of_value_inst_value [simp]: "inst_of_value (inst_value i) = i"
proof -
  have "opcode (inst_of_value (inst_value i)) = opcode i"
    "dst (inst_of_value (inst_value i)) = dst i"
    "src (inst_of_value (inst_value i)) = src i"
    "offset (inst_of_value (inst_value i)) = offset i"
    "imm (inst_of_value (inst_value i)) = imm i"
    by (simp_all add: inst_of_value_def inst_value_def)
      (rule bit_word_eqI, auto simp: bit_simps dest: bit_imp_le_length)+
  then show ?thesis by simp
qed

lemma inst_value_inst_of_value [simp]: "inst_value (inst_of_value v) = v"
proof (rule bit_word_eqI)
  fix n assume "n < LENGTH(64)"
  then show "bit (inst_value (inst_of_value v)) n = bit v n"
    by (cases "n < 32"; cases "n < 16"; cases "n < 12") (auto simp: inst_value_def inst_of_value_def bit_simps)
qed

text \<open>Code is given as bytes; instruction \<open>i\<close> occupies the bytes from \<open>8 * i\<close> on.\<close>

definition inst_bytes :: "ebpf_inst \<Rightarrow> uint8_t list" where
  "inst_bytes i = le_bytes 8 (inst_value i)"

definition inst_of_bytes :: "uint8_t list \<Rightarrow> ebpf_inst" where
  "inst_of_bytes bs = inst_of_value (le_value bs)"

lemma inst_of_bytes_inst_bytes [simp]: "inst_of_bytes (inst_bytes i) = i"
  by (simp add: inst_of_bytes_def inst_bytes_def le_value_le_bytes)

end
