(* ===== verification/Inst_Valid.thy ===== *)
theory Inst_Valid
  imports Ebpf
begin

text \<open>
  \<^verbatim>\<open>vm/ubpf_instruction_valid.c\<close>: the table of accepted instructions with the ranges of their
  fields, the lookup table built from it, and \<^verbatim>\<open>ubpf_is_valid_instruction\<close>. The table is given
  in the seven consecutive pieces \<open>ubpf_instruction_filter_1\<close> to \<open>ubpf_instruction_filter_7\<close>.
  The results say that no row shadows another, so that an instruction is accepted exactly when
  its fields lie in the ranges of the one row of its opcode.
\<close>

section \<open>Filters\<close>

text \<open>
  \<^verbatim>\<open>ubpf_inst_filter_t\<close>. The bounds are compared as C \<open>int\<close> values; a field without an
  initialiser is zero, an enumeration without one is a null pointer.
\<close>

record ubpf_inst_filter_t =
  filter_opcode :: uint8_t
  source_lower_bound :: int
  source_upper_bound :: int
  destination_lower_bound :: int
  destination_upper_bound :: int
  offset_lower_bound :: int
  offset_upper_bound :: int
  immediate_lower_bound :: int
  immediate_upper_bound :: int
  immediate_enumerated :: "int32_t list option"
  immediate_enumerated_length :: nat
  offset_enumerated :: "int16_t list option"
  offset_enumerated_length :: nat

definition default_filter :: ubpf_inst_filter_t where
  "default_filter = \<lparr>filter_opcode = 0, source_lower_bound = 0, source_upper_bound = 0,
     destination_lower_bound = 0, destination_upper_bound = 0,
     offset_lower_bound = 0, offset_upper_bound = 0,
     immediate_lower_bound = 0, immediate_upper_bound = 0,
     immediate_enumerated = None, immediate_enumerated_length = 0,
     offset_enumerated = None, offset_enumerated_length = 0\<rparr>"

definition ebpf_atomic_store_immediate_enumerated :: "int32_t list" where
  "ebpf_atomic_store_immediate_enumerated = [
    ucast EBPF_ALU_OP_ADD,
    ucast EBPF_ALU_OP_ADD OR EBPF_ATOMIC_OP_FETCH,
    ucast EBPF_ALU_OP_OR,
    ucast EBPF_ALU_OP_OR OR EBPF_ATOMIC_OP_FETCH,
    ucast EBPF_ALU_OP_AND,
    ucast EBPF_ALU_OP_AND OR EBPF_ATOMIC_OP_FETCH,
    ucast EBPF_ALU_OP_XOR,
    ucast EBPF_ALU_OP_XOR OR EBPF_ATOMIC_OP_FETCH,
    EBPF_ATOMIC_OP_XCHG OR EBPF_ATOMIC_OP_FETCH,
    EBPF_ATOMIC_OP_CMPXCHG OR EBPF_ATOMIC_OP_FETCH]"

definition ebpf_movsx_alu_offset_enumerated :: "int16_t list" where
  "ebpf_movsx_alu_offset_enumerated = [0, 8, 16]"

definition ebpf_movsx_alu64_offset_enumerated :: "int16_t list" where
  "ebpf_movsx_alu64_offset_enumerated = [0, 8, 16, 32]"

definition ubpf_instruction_filter_1 :: "ubpf_inst_filter_t list" where
  "ubpf_instruction_filter_1 = [
    default_filter\<lparr>filter_opcode := 0, immediate_lower_bound := - 2147483648,
      immediate_upper_bound := 2147483647\<rparr>,
    default_filter\<lparr>filter_opcode := EBPF_OP_ADD_IMM, destination_lower_bound := 0,
      destination_upper_bound := 9, immediate_lower_bound := - 2147483648,
      immediate_upper_bound := 2147483647\<rparr>,
    default_filter\<lparr>filter_opcode := EBPF_OP_ADD_REG, destination_lower_bound := 0,
      destination_upper_bound := 9, source_lower_bound := 0, source_upper_bound := 10\<rparr>,
    default_filter\<lparr>filter_opcode := EBPF_OP_SUB_IMM, destination_lower_bound := 0,
      destination_upper_bound := 9, immediate_lower_bound := - 2147483648,
      immediate_upper_bound := 2147483647\<rparr>,
    default_filter\<lparr>filter_opcode := EBPF_OP_SUB_REG, destination_lower_bound := 0,
      destination_upper_bound := 9, source_lower_bound := 0, source_upper_bound := 10\<rparr>,
    default_filter\<lparr>filter_opcode := EBPF_OP_MUL_IMM, destination_lower_bound := 0,
      destination_upper_bound := 9, immediate_lower_bound := - 2147483648,
      immediate_upper_bound := 2147483647\<rparr>,
    default_filter\<lparr>filter_opcode := EBPF_OP_MUL_REG, destination_lower_bound := 0,
      destination_upper_bound := 9, source_lower_bound := 0, source_upper_bound := 10\<rparr>,
    default_filter\<lparr>filter_opcode := EBPF_OP_DIV_IMM, destination_lower_bound := 0,
      destination_upper_bound := 9, offset_upper_bound := 1, immediate_lower_bound := - 2147483648,
      immediate_upper_bound := 2147483647\<rparr>,
    default_filter\<lparr>filter_opcode := EBPF_OP_DIV_REG, destination_lower_bound := 0,
      destination_upper_bound := 9, source_lower_bound := 0, source_upper_bound := 10,
      offset_upper_bound := 1\<rparr>,
    default_filter\<lparr>filter_opcode := EBPF_OP_OR_IMM, destination_lower_bound := 0,
      destination_upper_bound := 9, immediate_lower_bound := - 2147483648,
      immediate_upper_bound := 2147483647\<rparr>,
    default_filter\<lparr>filter_opcode := EBPF_OP_OR_REG, destination_lower_bound := 0,
      destination_upper_bound := 9, source_lower_bound := 0, source_upper_bound := 10\<rparr>,
    default_filter\<lparr>filter_opcode := EBPF_OP_AND_IMM, destination_lower_bound := 0,
      destination_upper_bound := 9, immediate_lower_bound := - 2147483648,
      immediate_upper_bound := 2147483647\<rparr>,
    default_filter\<lparr>filter_opcode := EBPF_OP_AND_REG, destination_lower_bound := 0,
      destination_upper_bound := 9, source_lower_bound := 0, source_upper_bound := 10\<rparr>,
    default_filter\<lparr>filter_opcode := EBPF_OP_LSH_IMM, destination_lower_bound := 0,
      destination_upper_bound := 9, immediate_lower_bound := - 2147483648,
      immediate_upper_bound := 2147483647\<rparr>,
    default_filter\<lparr>filter_opcode := EBPF_OP_LSH_REG, destination_lower_bound := 0,
      destination_upper_bound := 9, source_lower_bound := 0, source_upper_bound := 10\<rparr>,
    default_filter\<lparr>filter_opcode := EBPF_OP_RSH_IMM, destination_lower_bound := 0,
      destination_upper_bound := 9, immediate_lower_bound := - 2147483648,
      immediate_upper_bound := 2147483647\<rparr>,
    default_filter\<lparr>filter_opcode := EBPF_OP_RSH_REG, destination_lower_bound := 0,
      destination_upper_bound := 9, source_lower_bound := 0, source_upper_bound := 10\<rparr>,
    default_filter\<lparr>filter_opcode := EBPF_OP_NEG, destination_lower_bound := 0,
      destination_upper_bound := 9\<rparr>,
    default_filter\<lparr>filter_opcode := EBPF_OP_MOD_IMM, destination_lower_bound := 0,
      destination_upper_bound := 9, offset_upper_bound := 1, immediate_lower_bound := - 2147483648,
      immediate_upper_bound := 2147483647\<rparr>,
    default_filter\<lparr>filter_opcode := EBPF_OP_MOD_REG, destination_lower_bound := 0,
      destination_upper_bound := 9, source_lower_bound := 0, source_upper_bound := 10,
      offset_upper_bound := 1\<rparr>,
    default_filter\<lparr>filter_opcode := EBPF_OP_XOR_IMM, destination_lower_bound := 0,
      destination_upper_bound := 9, immediate_lower_bound := - 2147483648,
      immediate_upper_bound := 2147483647\<rparr>]"

definition ubpf_instruction_filter_2 :: "ubpf_inst_filter_t list" where
  "ubpf_instruction_filter_2 = [
    default_filter\<lparr>filter_opcode := EBPF_OP_XOR_REG, destination_lower_bound := 0,
      destination_upper_bound := 9, source_lower_bound := 0, source_upper_bound := 10\<rparr>,
    default_filter\<lparr>filter_opcode := EBPF_OP_MOV_IMM, destination_lower_bound := 0,
      destination_upper_bound := 9, immediate_lower_bound := - 2147483648,
      immediate_upper_bound := 2147483647\<rparr>,
    default_filter\<lparr>filter_opcode := EBPF_OP_MOV_REG, destination_lower_bound := 0,
      destination_upper_bound := 9, source_lower_bound := 0, source_upper_bound := 10,
      offset_enumerated := Some ebpf_movsx_alu_offset_enumerated,
      offset_enumerated_length := 3\<rparr>,
    default_filter\<lparr>filter_opcode := EBPF_OP_ARSH_IMM, destination_lower_bound := 0,
      destination_upper_bound := 9, immediate_lower_bound := - 2147483648,
      immediate_upper_bound := 2147483647\<rparr>,
    default_filter\<lparr>filter_opcode := EBPF_OP_ARSH_REG, destination_lower_bound := 0,
      destination_upper_bound := 9, source_lower_bound := 0, source_upper_bound := 10\<rparr>,
    default_filter\<lparr>filter_opcode := EBPF_OP_LE, destination_lower_bound := 0,
      destination_upper_bound := 9, immediate_lower_bound := 0,
      immediate_upper_bound := 64\<rparr>,
    default_filter\<lparr>filter_opcode := EBPF_OP_BE, destination_lower_bound := 0,
      destination_upper_bound := 9, immediate_lower_bound := 0,
      immediate_upper_bound := 64\<rparr>,
    default_filter\<lparr>filter_opcode := EBPF_OP_BSWAP, destination_lower_bound := 0,
      destination_upper_bound := 9, immediate_lower_bound := 0,
      immediate_upper_bound := 64\<rparr>,
    default_filter\<lparr>filter_opcode := EBPF_OP_ADD64_IMM, destination_lower_bound := 0,
      destination_upper_bound := 9, immediate_lower_bound := - 2147483648,
      immediate_upper_bound := 2147483647\<rparr>,
    default_filter\<lparr>filter_opcode := EBPF_OP_ADD64_REG, destination_lower_bound := 0,
      destination_upper_bound := 9, source_lower_bound := 0, source_upper_bound := 10\<rparr>,
    default_filter\<lparr>filter_opcode := EBPF_OP_SUB64_IMM, destination_lower_bound := 0,
      destination_upper_bound := 9, immediate_lower_bound := - 2147483648,
      immediate_upper_bound := 2147483647\<rparr>,
    default_filter\<lparr>filter_opcode := EBPF_OP_SUB64_REG, destination_lower_bound := 0,
      destination_upper_bound := 9, source_lower_bound := 0, source_upper_bound := 10\<rparr>,
    default_filter\<lparr>filter_opcode := EBPF_OP_MUL64_IMM, destination_lower_bound := 0,
      destination_upper_bound := 9, immediate_lower_bound := - 2147483648,
      immediate_upper_bound := 2147483647\<rparr>,
    default_filter\<lparr>filter_opcode := EBPF_OP_MUL64_REG, destination_lower_bound := 0,
      destination_upper_bound := 9, source_lower_bound := 0, source_upper_bound := 10\<rparr>,
    default_filter\<lparr>filter_opcode := EBPF_OP_DIV64_IMM, destination_lower_bound := 0,
      destination_upper_bound := 9, offset_upper_bound := 1, immediate_lower_bound := - 2147483648,
      immediate_upper_bound := 2147483647\<rparr>,
    default_filter\<lparr>filter_opcode := EBPF_OP_DIV64_REG, destination_lower_bound := 0,
      destination_upper_bound := 9, source_lower_bound := 0, source_upper_bound := 10,
      offset_upper_bound := 1\<rparr>,
    default_filter\<lparr>filter_opcode := EBPF_OP_OR64_IMM, destination_lower_bound := 0,
      destination_upper_bound := 9, immediate_lower_bound := - 2147483648,
      immediate_upper_bound := 2147483647\<rparr>,
    default_filter\<lparr>filter_opcode := EBPF_OP_OR64_REG, destination_lower_bound := 0,
      destination_upper_bound := 9, source_lower_bound := 0, source_upper_bound := 10\<rparr>,
    default_filter\<lparr>filter_opcode := EBPF_OP_AND64_IMM, destination_lower_bound := 0,
      destination_upper_bound := 9, immediate_lower_bound := - 2147483648,
      immediate_upper_bound := 2147483647\<rparr>,
    default_filter\<lparr>filter_opcode := EBPF_OP_AND64_REG, destination_lower_bound := 0,
      destination_upper_bound := 9, source_lower_bound := 0, source_upper_bound := 10\<rparr>]"

definition ubpf_instruction_filter_3 :: "ubpf_inst_filter_t list" where
  "ubpf_instruction_filter_3 = [
    default_filter\<lparr>filter_opcode := EBPF_OP_LSH64_IMM, destination_lower_bound := 0,
      destination_upper_bound := 9, immediate_lower_bound := - 2147483648,
      immediate_upper_bound := 2147483647\<rparr>,
    default_filter\<lparr>filter_opcode := EBPF_OP_LSH64_REG, destination_lower_bound := 0,
      destination_upper_bound := 9, source_lower_bound := 0, source_upper_bound := 10\<rparr>,
    default_filter\<lparr>filter_opcode := EBPF_OP_RSH64_IMM, destination_lower_bound := 0,
      destination_upper_bound := 9, immediate_lower_bound := - 2147483648,
      immediate_upper_bound := 2147483647\<rparr>,
    default_filter\<lparr>filter_opcode := EBPF_OP_RSH64_REG, destination_lower_bound := 0,
      destination_upper_bound := 9, source_lower_bound := 0, source_upper_bound := 10\<rparr>,
    default_filter\<lparr>filter_opcode := EBPF_OP_NEG64, destination_lower_bound := 0,
      destination_upper_bound := 9\<rparr>,
    default_filter\<lparr>filter_opcode := EBPF_OP_MOD64_IMM, destination_lower_bound := 0,
      destination_upper_bound := 9, offset_upper_bound := 1, immediate_lower_bound := - 2147483648,
      immediate_upper_bound := 2147483647\<rparr>,
    default_filter\<lparr>filter_opcode := EBPF_OP_MOD64_REG, destination_lower_bound := 0,
      destination_upper_bound := 9, source_lower_bound := 0, source_upper_bound := 10,
      offset_upper_bound := 1\<rparr>,
    default_filter\<lparr>filter_opcode := EBPF_OP_XOR64_IMM, destination_lower_bound := 0,
      destination_upper_bound := 9, immediate_lower_bound := - 2147483648,
      immediate_upper_bound := 2147483647\<rparr>,
    default_filter\<lparr>filter_opcode := EBPF_OP_XOR64_REG, destination_lower_bound := 0,
      destination_upper_bound := 9, source_lower_bound := 0, source_upper_bound := 10\<rparr>,
    default_filter\<lparr>filter_opcode := EBPF_OP_MOV64_IMM, destination_lower_bound := 0,
      destination_upper_bound := 9, immediate_lower_bound := - 2147483648,
      immediate_upper_bound := 2147483647\<rparr>,
    default_filter\<lparr>filter_opcode := EBPF_OP_MOV64_REG, destination_lower_bound := 0,
      destination_upper_bound := 9, source_lower_bound := 0, source_upper_bound := 10,
      offset_enumerated := Some ebpf_movsx_alu64_offset_enumerated,
      offset_enumerated_length := 4\<rparr>,
    default_filter\<lparr>filter_opcode := EBPF_OP_ARSH64_IMM, destination_lower_bound := 0,
      destination_upper_bound := 9, immediate_lower_bound := - 2147483648,
      immediate_upper_bound := 2147483647\<rparr>,
    default_filter\<lparr>filter_opcode := EBPF_OP_ARSH64_REG, destination_lower_bound := 0,
      destination_upper_bound := 9, source_lower_bound := 0, source_upper_bound := 10\<rparr>,
    default_filter\<lparr>filter_opcode := EBPF_OP_LDXW, destination_lower_bound := 0,
      destination_upper_bound := 10, source_lower_bound := 0, source_upper_bound := 10,
      offset_lower_bound := - 32768, offset_upper_bound := 32767\<rparr>,
    default_filter\<lparr>filter_opcode := EBPF_OP_LDXH, destination_lower_bound := 0,
      destination_upper_bound := 10, source_lower_bound := 0, source_upper_bound := 10,
      offset_lower_bound := - 32768, offset_upper_bound := 32767\<rparr>,
    default_filter\<lparr>filter_opcode := EBPF_OP_LDXB, destination_lower_bound := 0,
      destination_upper_bound := 10, source_lower_bound := 0, source_upper_bound := 10,
      offset_lower_bound := - 32768, offset_upper_bound := 32767\<rparr>,
    default_filter\<lparr>filter_opcode := EBPF_OP_LDXDW, destination_lower_bound := 0,
      destination_upper_bound := 10, source_lower_bound := 0, source_upper_bound := 10,
      offset_lower_bound := - 32768, offset_upper_bound := 32767\<rparr>,
    default_filter\<lparr>filter_opcode := EBPF_OP_LDXWSX, destination_lower_bound := 0,
      destination_upper_bound := 10, source_lower_bound := 0, source_upper_bound := 10,
      offset_lower_bound := - 32768, offset_upper_bound := 32767\<rparr>,
    default_filter\<lparr>filter_opcode := EBPF_OP_LDXHSX, destination_lower_bound := 0,
      destination_upper_bound := 10, source_lower_bound := 0, source_upper_bound := 10,
      offset_lower_bound := - 32768, offset_upper_bound := 32767\<rparr>]"

definition ubpf_instruction_filter_4 :: "ubpf_inst_filter_t list" where
  "ubpf_instruction_filter_4 = [
    default_filter\<lparr>filter_opcode := EBPF_OP_LDXBSX, destination_lower_bound := 0,
      destination_upper_bound := 10, source_lower_bound := 0, source_upper_bound := 10,
      offset_lower_bound := - 32768, offset_upper_bound := 32767\<rparr>,
    default_filter\<lparr>filter_opcode := EBPF_OP_STW, destination_lower_bound := 0,
      destination_upper_bound := 10, offset_lower_bound := - 32768, offset_upper_bound := 32767,
      immediate_lower_bound := - 2147483648, immediate_upper_bound := 2147483647\<rparr>,
    default_filter\<lparr>filter_opcode := EBPF_OP_STH, destination_lower_bound := 0,
      destination_upper_bound := 10, offset_lower_bound := - 32768, offset_upper_bound := 32767,
      immediate_lower_bound := - 2147483648, immediate_upper_bound := 2147483647\<rparr>,
    default_filter\<lparr>filter_opcode := EBPF_OP_STB, destination_lower_bound := 0,
      destination_upper_bound := 10, offset_lower_bound := - 32768, offset_upper_bound := 32767,
      immediate_lower_bound := - 2147483648, immediate_upper_bound := 2147483647\<rparr>,
    default_filter\<lparr>filter_opcode := EBPF_OP_STDW, destination_lower_bound := 0,
      destination_upper_bound := 10, offset_lower_bound := - 32768, offset_upper_bound := 32767,
      immediate_lower_bound := - 2147483648, immediate_upper_bound := 2147483647\<rparr>,
    default_filter\<lparr>filter_opcode := EBPF_OP_STXW, destination_lower_bound := 0,
      destination_upper_bound := 10, source_lower_bound := 0, source_upper_bound := 10,
      offset_lower_bound := - 32768, offset_upper_bound := 32767\<rparr>,
    default_filter\<lparr>filter_opcode := EBPF_OP_STXH, destination_lower_bound := 0,
      destination_upper_bound := 10, source_lower_bound := 0, source_upper_bound := 10,
      offset_lower_bound := - 32768, offset_upper_bound := 32767\<rparr>,
    default_filter\<lparr>filter_opcode := EBPF_OP_STXB, destination_lower_bound := 0,
      destination_upper_bound := 10, source_lower_bound := 0, source_upper_bound := 10,
      offset_lower_bound := - 32768, offset_upper_bound := 32767\<rparr>,
    default_filter\<lparr>filter_opcode := EBPF_OP_STXDW, destination_lower_bound := 0,
      destination_upper_bound := 10, source_lower_bound := 0, source_upper_bound := 10,
      offset_lower_bound := - 32768, offset_upper_bound := 32767\<rparr>,
    default_filter\<lparr>filter_opcode := EBPF_OP_LDDW, destination_lower_bound := 0,
      destination_upper_bound := 10, source_lower_bound := 0, source_upper_bound := 6,
      immediate_lower_bound := - 2147483648, immediate_upper_bound := 2147483647\<rparr>,
    default_filter\<lparr>filter_opcode := EBPF_OP_JA, offset_lower_bound := - 32768,
      offset_upper_bound := 32767\<rparr>,
    default_filter\<lparr>filter_opcode := EBPF_OP_JEQ_IMM, destination_lower_bound := 0,
      destination_upper_bound := 10, immediate_lower_bound := - 2147483648,
      immediate_upper_bound := 2147483647, offset_lower_bound := - 32768,
      offset_upper_bound := 32767\<rparr>,
    default_filter\<lparr>filter_opcode := EBPF_OP_JEQ_REG, destination_lower_bound := 0,
      destination_upper_bound := 10, source_lower_bound := 0, source_upper_bound := 10,
      offset_lower_bound := - 32768, offset_upper_bound := 32767\<rparr>,
    default_filter\<lparr>filter_opcode := EBPF_OP_JGT_IMM, destination_lower_bound := 0,
      destination_upper_bound := 10, immediate_lower_bound := - 2147483648,
      immediate_upper_bound := 2147483647, offset_lower_bound := - 32768,
      offset_upper_bound := 32767\<rparr>,
    default_filter\<lparr>filter_opcode := EBPF_OP_JGT_REG, destination_lower_bound := 0,
      destination_upper_bound := 10, source_lower_bound := 0, source_upper_bound := 10,
      offset_lower_bound := - 32768, offset_upper_bound := 32767\<rparr>,
    default_filter\<lparr>filter_opcode := EBPF_OP_JGE_IMM, destination_lower_bound := 0,
      destination_upper_bound := 10, immediate_lower_bound := - 2147483648,
      immediate_upper_bound := 2147483647, offset_lower_bound := - 32768,
      offset_upper_bound := 32767\<rparr>,
    default_filter\<lparr>filter_opcode := EBPF_OP_JGE_REG, destination_lower_bound := 0,
      destination_upper_bound := 10, source_lower_bound := 0, source_upper_bound := 10,
      offset_lower_bound := - 32768, offset_upper_bound := 32767\<rparr>]"

definition ubpf_instruction_filter_5 :: "ubpf_inst_filter_t list" where
  "ubpf_instruction_filter_5 = [
    default_filter\<lparr>filter_opcode := EBPF_OP_JSET_REG, destination_lower_bound := 0,
      destination_upper_bound := 10, source_lower_bound := 0, source_upper_bound := 10,
      offset_lower_bound := - 32768, offset_upper_bound := 32767\<rparr>,
    default_filter\<lparr>filter_opcode := EBPF_OP_JSET_IMM, destination_lower_bound := 0,
      destination_upper_bound := 10, immediate_lower_bound := - 2147483648,
      immediate_upper_bound := 2147483647, offset_lower_bound := - 32768,
      offset_upper_bound := 32767\<rparr>,
    default_filter\<lparr>filter_opcode := EBPF_OP_JNE_IMM, destination_lower_bound := 0,
      destination_upper_bound := 10, immediate_lower_bound := - 2147483648,
      immediate_upper_bound := 2147483647, offset_lower_bound := - 32768,
      offset_upper_bound := 32767\<rparr>,
    default_filter\<lparr>filter_opcode := EBPF_OP_JNE_REG, destination_lower_bound := 0,
      destination_upper_bound := 10, source_lower_bound := 0, source_upper_bound := 10,
      offset_lower_bound := - 32768, offset_upper_bound := 32767\<rparr>,
    default_filter\<lparr>filter_opcode := EBPF_OP_JSGT_IMM, destination_lower_bound := 0,
      destination_upper_bound := 10, immediate_lower_bound := - 2147483648,
      immediate_upper_bound := 2147483647, offset_lower_bound := - 32768,
      offset_upper_bound := 32767\<rparr>,
    default_filter\<lparr>filter_opcode := EBPF_OP_JSGT_REG, destination_lower_bound := 0,
      destination_upper_bound := 10, source_lower_bound := 0, source_upper_bound := 10,
      offset_lower_bound := - 32768, offset_upper_bound := 32767\<rparr>,
    default_filter\<lparr>filter_opcode := EBPF_OP_JSGE_IMM, destination_lower_bound := 0,
      destination_upper_bound := 10, immediate_lower_bound := - 2147483648,
      immediate_upper_bound := 2147483647, offset_lower_bound := - 32768,
      offset_upper_bound := 32767\<rparr>,
    default_filter\<lparr>filter_opcode := EBPF_OP_JSGE_REG, destination_lower_bound := 0,
      destination_upper_bound := 10, source_lower_bound := 0, source_upper_bound := 10,
      offset_lower_bound := - 32768, offset_upper_bound := 32767\<rparr>,
    default_filter\<lparr>filter_opcode := EBPF_OP_CALL, source_lower_bound := 0,
      source_upper_bound := 1, immediate_lower_bound := - 2147483648,
      immediate_upper_bound := 2147483647\<rparr>,
    default_filter\<lparr>filter_opcode := EBPF_OP_EXIT\<rparr>,
    default_filter\<lparr>filter_opcode := EBPF_OP_JLT_IMM, destination_lower_bound := 0,
      destination_upper_bound := 10, immediate_lower_bound := - 2147483648,
      immediate_upper_bound := 2147483647, offset_lower_bound := - 32768,
      offset_upper_bound := 32767\<rparr>,
    default_filter\<lparr>filter_opcode := EBPF_OP_JLT_REG, destination_lower_bound := 0,
      destination_upper_bound := 10, source_lower_bound := 0, source_upper_bound := 10,
      offset_lower_bound := - 32768, offset_upper_bound := 32767\<rparr>,
    default_filter\<lparr>filter_opcode := EBPF_OP_JLE_IMM, destination_lower_bound := 0,
      destination_upper_bound := 10, immediate_lower_bound := - 2147483648,
      immediate_upper_bound := 2147483647, offset_lower_bound := - 32768,
      offset_upper_bound := 32767\<rparr>,
    default_filter\<lparr>filter_opcode := EBPF_OP_JLE_REG, destination_lower_bound := 0,
      destination_upper_bound := 10, source_lower_bound := 0, source_upper_bound := 10,
      offset_lower_bound := - 32768, offset_upper_bound := 32767\<rparr>,
    default_filter\<lparr>filter_opcode := EBPF_OP_JSLT_IMM, destination_lower_bound := 0,
      destination_upper_bound := 10, immediate_lower_bound := - 2147483648,
      immediate_upper_bound := 2147483647, offset_lower_bound := - 32768,
      offset_upper_bound := 32767\<rparr>,
    default_filter\<lparr>filter_opcode := EBPF_OP_JSLT_REG, destination_lower_bound := 0,
      destination_upper_bound := 10, source_lower_bound := 0, source_upper_bound := 10,
      offset_lower_bound := - 32768, offset_upper_bound := 32767\<rparr>,
    default_filter\<lparr>filter_opcode := EBPF_OP_JSLE_IMM, destination_lower_bound := 0,
      destination_upper_bound := 10, immediate_lower_bound := - 2147483648,
      immediate_upper_bound := 2147483647, offset_lower_bound := - 32768,
      offset_upper_bound := 32767\<rparr>]"

definition ubpf_instruction_filter_6 :: "ubpf_inst_filter_t list" where
  "ubpf_instruction_filter_6 = [
    default_filter\<lparr>filter_opcode := EBPF_OP_JSLE_REG, destination_lower_bound := 0,
      destination_upper_bound := 10, source_lower_bound := 0, source_upper_bound := 10,
      offset_lower_bound := - 32768, offset_upper_bound := 32767\<rparr>,
    default_filter\<lparr>filter_opcode := EBPF_OP_JA32, immediate_lower_bound := - 2147483648,
      immediate_upper_bound := 2147483647\<rparr>,
    default_filter\<lparr>filter_opcode := EBPF_OP_JEQ32_IMM, destination_lower_bound := 0,
      destination_upper_bound := 10, immediate_lower_bound := - 2147483648,
      immediate_upper_bound := 2147483647, offset_lower_bound := - 32768,
      offset_upper_bound := 32767\<rparr>,
    default_filter\<lparr>filter_opcode := EBPF_OP_JEQ32_REG, destination_lower_bound := 0,
      destination_upper_bound := 10, source_lower_bound := 0, source_upper_bound := 10,
      offset_lower_bound := - 32768, offset_upper_bound := 32767\<rparr>,
    default_filter\<lparr>filter_opcode := EBPF_OP_JGT32_IMM, destination_lower_bound := 0,
      destination_upper_bound := 10, immediate_lower_bound := - 2147483648,
      immediate_upper_bound := 2147483647, offset_lower_bound := - 32768,
      offset_upper_bound := 32767\<rparr>,
    default_filter\<lparr>filter_opcode := EBPF_OP_JGT32_REG, destination_lower_bound := 0,
      destination_upper_bound := 10, source_lower_bound := 0, source_upper_bound := 10,
      offset_lower_bound := - 32768, offset_upper_bound := 32767\<rparr>,
    default_filter\<lparr>filter_opcode := EBPF_OP_JGE32_IMM, destination_lower_bound := 0,
      destination_upper_bound := 10, immediate_lower_bound := - 2147483648,
      immediate_upper_bound := 2147483647, offset_lower_bound := - 32768,
      offset_upper_bound := 32767\<rparr>,
    default_filter\<lparr>filter_opcode := EBPF_OP_JGE32_REG, destination_lower_bound := 0,
      destination_upper_bound := 10, source_lower_bound := 0, source_upper_bound := 10,
      offset_lower_bound := - 32768, offset_upper_bound := 32767\<rparr>,
    default_filter\<lparr>filter_opcode := EBPF_OP_JSET32_REG, destination_lower_bound := 0,
      destination_upper_bound := 10, source_lower_bound := 0, source_upper_bound := 10,
      offset_lower_bound := - 32768, offset_upper_bound := 32767\<rparr>,
    default_filter\<lparr>filter_opcode := EBPF_OP_JSET32_IMM, destination_lower_bound := 0,
      destination_upper_bound := 10, immediate_lower_bound := - 2147483648,
      immediate_upper_bound := 2147483647, offset_lower_bound := - 32768,
      offset_upper_bound := 32767\<rparr>,
    default_filter\<lparr>filter_opcode := EBPF_OP_JNE32_IMM, destination_lower_bound := 0,
      destination_upper_bound := 10, immediate_lower_bound := - 2147483648,
      immediate_upper_bound := 2147483647, offset_lower_bound := - 32768,
      offset_upper_bound := 32767\<rparr>,
    default_filter\<lparr>filter_opcode := EBPF_OP_JNE32_REG, destination_lower_bound := 0,
      destination_upper_bound := 10, source_lower_bound := 0, source_upper_bound := 10,
      offset_lower_bound := - 32768, offset_upper_bound := 32767\<rparr>,
    default_filter\<lparr>filter_opcode := EBPF_OP_JSGT32_IMM, destination_lower_bound := 0,
      destination_upper_bound := 10, immediate_lower_bound := - 2147483648,
      immediate_upper_bound := 2147483647, offset_lower_bound := - 32768,
      offset_upper_bound := 32767\<rparr>,
    default_filter\<lparr>filter_opcode := EBPF_OP_JSGT32_REG, destination_lower_bound := 0,
      destination_upper_bound := 10, source_lower_bound := 0, source_upper_bound := 10,
      offset_lower_bound := - 32768, offset_upper_bound := 32767\<rparr>,
    default_filter\<lparr>filter_opcode := EBPF_OP_JSGE32_IMM, destination_lower_bound := 0,
      destination_upper_bound := 10, immediate_lower_bound := - 2147483648,
      immediate_upper_bound := 2147483647, offset_lower_bound := - 32768,
      offset_upper_bound := 32767\<rparr>,
    default_filter\<lparr>filter_opcode := EBPF_OP_JSGE32_REG, destination_lower_bound := 0,
      destination_upper_bound := 10, source_lower_bound := 0, source_upper_bound := 10,
      offset_lower_bound := - 32768, offset_upper_bound := 32767\<rparr>,
    default_filter\<lparr>filter_opcode := EBPF_OP_JLT32_IMM, destination_lower_bound := 0,
      destination_upper_bound := 10, immediate_lower_bound := - 2147483648,
      immediate_upper_bound := 2147483647, offset_lower_bound := - 32768,
      offset_upper_bound := 32767\<rparr>]"

definition ubpf_instruction_filter_7 :: "ubpf_inst_filter_t list" where
  "ubpf_instruction_filter_7 = [
    default_filter\<lparr>filter_opcode := EBPF_OP_JLT32_REG, destination_lower_bound := 0,
      destination_upper_bound := 10, source_lower_bound := 0, source_upper_bound := 10,
      offset_lower_bound := - 32768, offset_upper_bound := 32767\<rparr>,
    default_filter\<lparr>filter_opcode := EBPF_OP_JLE32_IMM, destination_lower_bound := 0,
      destination_upper_bound := 10, immediate_lower_bound := - 2147483648,
      immediate_upper_bound := 2147483647, offset_lower_bound := - 32768,
      offset_upper_bound := 32767\<rparr>,
    default_filter\<lparr>filter_opcode := EBPF_OP_JLE32_REG, destination_lower_bound := 0,
      destination_upper_bound := 10, source_lower_bound := 0, source_upper_bound := 10,
      offset_lower_bound := - 32768, offset_upper_bound := 32767\<rparr>,
    default_filter\<lparr>filter_opcode := EBPF_OP_JSLT32_IMM, destination_lower_bound := 0,
      destination_upper_bound := 10, immediate_lower_bound := - 2147483648,
      immediate_upper_bound := 2147483647, offset_lower_bound := - 32768,
      offset_upper_bound := 32767\<rparr>,
    default_filter\<lparr>filter_opcode := EBPF_OP_JSLT32_REG, destination_lower_bound := 0,
      destination_upper_bound := 10, source_lower_bound := 0, source_upper_bound := 10,
      offset_lower_bound := - 32768, offset_upper_bound := 32767\<rparr>,
    default_filter\<lparr>filter_opcode := EBPF_OP_JSLE32_IMM, destination_lower_bound := 0,
      destination_upper_bound := 10, immediate_lower_bound := - 2147483648,
      immediate_upper_bound := 2147483647, offset_lower_bound := - 32768,
      offset_upper_bound := 32767\<rparr>,
    default_filter\<lparr>filter_opcode := EBPF_OP_JSLE32_REG, destination_lower_bound := 0,
      destination_upper_bound := 10, source_lower_bound := 0, source_upper_bound := 10,
      offset_lower_bound := - 32768, offset_upper_bound := 32767\<rparr>,
    default_filter\<lparr>filter_opcode := EBPF_OP_ATOMIC32_STORE, destination_lower_bound := 0,
      destination_upper_bound := 10, source_lower_bound := 0, source_upper_bound := 10,
      immediate_lower_bound := 0x0, immediate_upper_bound := 0xff, offset_lower_bound := - 32768,
      offset_upper_bound := 32767\<rparr>,
    default_filter\<lparr>filter_opcode := EBPF_OP_ATOMIC_STORE, destination_lower_bound := 0,
      destination_upper_bound := 10, source_lower_bound := 0, source_upper_bound := 10,
      immediate_enumerated := Some ebpf_atomic_store_immediate_enumerated,
      immediate_enumerated_length := 10,
      offset_lower_bound := - 32768, offset_upper_bound := 32767\<rparr>]"

definition ubpf_instruction_filter :: "ubpf_inst_filter_t list" where
  "ubpf_instruction_filter =
     ubpf_instruction_filter_1 @ ubpf_instruction_filter_2 @ ubpf_instruction_filter_3 @
     ubpf_instruction_filter_4 @ ubpf_instruction_filter_5 @ ubpf_instruction_filter_6 @
     ubpf_instruction_filter_7"

lemmas filter_table_defs =
  ubpf_instruction_filter_def ubpf_instruction_filter_1_def ubpf_instruction_filter_2_def
  ubpf_instruction_filter_3_def ubpf_instruction_filter_4_def ubpf_instruction_filter_5_def
  ubpf_instruction_filter_6_def ubpf_instruction_filter_7_def

text \<open>
  \<^verbatim>\<open>_initialize_lookup_table\<close>: later rows overwrite earlier ones of the same opcode.
\<close>

definition filter_lookup_table :: "uint8_t \<rightharpoonup> ubpf_inst_filter_t" where
  "filter_lookup_table =
     foldl (\<lambda>table f. table(filter_opcode f \<mapsto> f)) Map.empty ubpf_instruction_filter"

section \<open>Checking one instruction\<close>

definition in_range :: "int \<Rightarrow> int \<Rightarrow> int \<Rightarrow> bool" where
  "in_range v lower_bound upper_bound \<longleftrightarrow> v \<ge> lower_bound \<and> v \<le> upper_bound"

datatype inst_error =
    Invalid_opcode uint8_t
  | Invalid_destination uint4_t uint8_t
  | Invalid_source uint4_t uint8_t
  | Invalid_immediate int32_t uint8_t
  | Invalid_offset int16_t uint8_t

definition ubpf_is_valid_instruction :: "ebpf_inst \<Rightarrow> inst_error + unit" where
  "ubpf_is_valid_instruction i =
     (case filter_lookup_table (opcode i) of
        None \<Rightarrow> Inl (Invalid_opcode (opcode i))
      | Some f \<Rightarrow>
        if \<not> in_range (uint (dst i)) (destination_lower_bound f) (destination_upper_bound f)
        then Inl (Invalid_destination (dst i) (opcode i))
        else if \<not> in_range (uint (src i)) (source_lower_bound f) (source_upper_bound f)
        then Inl (Invalid_source (src i) (opcode i))
        else if (case immediate_enumerated f of
             Some vs \<Rightarrow> imm i \<notin> set (take (immediate_enumerated_length f) vs)
           | None \<Rightarrow> \<not> in_range (sint (imm i)) (immediate_lower_bound f) (immediate_upper_bound f))
        then Inl (Invalid_immediate (imm i) (opcode i))
        else if (case offset_enumerated f of
             Some vs \<Rightarrow> offset i \<notin> set (take (offset_enumerated_length f) vs)
           | None \<Rightarrow> \<not> in_range (sint (offset i)) (offset_lower_bound f) (offset_upper_bound f))
        then Inl (Invalid_offset (offset i) (opcode i))
        else Inr ())"

section \<open>The table has one row per opcode\<close>

lemma foldl_map_upd_eq:
  "foldl (\<lambda>table f. table(g f \<mapsto> f)) m fs = m ++ map_of (rev (map (\<lambda>f. (g f, f)) fs))"
  by (induction fs arbitrary: m) auto

lemma filter_opcodes_distinct: "distinct (map filter_opcode ubpf_instruction_filter)"
  by (simp add: filter_table_defs opcode_vals)

lemma filter_lookup_iff:
  "filter_lookup_table op = Some f \<longleftrightarrow> f \<in> set ubpf_instruction_filter \<and> filter_opcode f = op"
proof -
  let ?kv = "map (\<lambda>f. (filter_opcode f, f)) ubpf_instruction_filter"
  have "distinct (map fst (rev ?kv))"
    using filter_opcodes_distinct by (simp add: rev_map [symmetric] comp_def)
  then have "map_of (rev ?kv) op = Some f \<longleftrightarrow> (op, f) \<in> set (rev ?kv)"
    by (rule map_of_eq_Some_iff)
  then show ?thesis
    by (auto simp: filter_lookup_table_def foldl_map_upd_eq)
qed

end
