(* ===== verification/Ubpf_Vm.thy ===== *)
theory Ubpf_Vm
  imports Inst_Valid
begin

text \<open>
  The virtual machine object: \<^verbatim>\<open>struct ubpf_vm\<close> of \<^verbatim>\<open>vm/ubpf_int.h\<close> and the operations of
  \<^verbatim>\<open>vm/ubpf_vm.c\<close> that create, configure and query it, with the bytecode storage
  (\<^verbatim>\<open>ubpf_store_instruction\<close>, \<^verbatim>\<open>ubpf_fetch_instruction\<close>) and the stack usage of local
  functions. Callbacks are code of the embedding program: they are arguments of the model,
  fields of the record that hold an arbitrary function. The calls to libc that can fail
  (\<^verbatim>\<open>calloc\<close>, \<^verbatim>\<open>mmap\<close>, \<^verbatim>\<open>mprotect\<close>) enter as arguments that give their result.
\<close>

section \<open>Limits\<close>

definition UBPF_MAX_INSTS :: nat where "UBPF_MAX_INSTS = 65536"
definition UBPF_MAX_CALL_DEPTH :: nat where "UBPF_MAX_CALL_DEPTH = 8"
definition UBPF_EBPF_STACK_SIZE :: uint64_t where
  "UBPF_EBPF_STACK_SIZE = of_nat (UBPF_MAX_CALL_DEPTH * 512)"
definition UBPF_EBPF_LOCAL_FUNCTION_STACK_SIZE :: uint16_t where
  "UBPF_EBPF_LOCAL_FUNCTION_STACK_SIZE = 256"
definition MAX_EXT_FUNCS :: nat where "MAX_EXT_FUNCS = 64"
definition UBPF_MAX_SAFE_REGIONS :: nat where "UBPF_MAX_SAFE_REGIONS = 64"
definition DEFAULT_JITTER_BUFFER_SIZE :: uint64_t where "DEFAULT_JITTER_BUFFER_SIZE = 65536"

section \<open>Callbacks\<close>

text \<open>
  A helper is called with the five argument registers and the context pointer of the run; it
  returns a value and may change the memory of the process. Its address is what the JIT
  stores in its helper table.
\<close>

record ext_helper =
  helper_addr :: uint64_t
  helper_fn :: "uint64_t \<Rightarrow> uint64_t \<Rightarrow> uint64_t \<Rightarrow> uint64_t \<Rightarrow> uint64_t \<Rightarrow> uint64_t \<Rightarrow> memory
    \<Rightarrow> uint64_t \<times> memory"

record ext_dispatcher =
  dispatcher_addr :: uint64_t
  dispatcher_fn :: "uint64_t \<Rightarrow> uint64_t \<Rightarrow> uint64_t \<Rightarrow> uint64_t \<Rightarrow> uint64_t \<Rightarrow> uint32_t \<Rightarrow> uint64_t
    \<Rightarrow> memory \<Rightarrow> uint64_t \<times> memory"

section \<open>State\<close>

datatype upbf_jit_result_t = UBPF_JIT_COMPILE_SUCCESS | UBPF_JIT_COMPILE_FAILURE

datatype jit_mode = ExtendedJitMode | BasicJitMode

record ubpf_jit_result =
  external_dispatcher_offset :: uint32_t
  external_helper_offset :: uint32_t
  compile_result :: upbf_jit_result_t
  jit_result_mode :: jit_mode

text \<open>The target for which the library was built selects the three JIT function pointers.\<close>

datatype jit_target = JIT_x86_64 | JIT_arm64 | JIT_null

datatype ubpf_stack_usage_calculation_status_t =
  UBPF_STACK_USAGE_UNKNOWN | UBPF_STACK_USAGE_CUSTOM | UBPF_STACK_USAGE_DEFAULT

record ubpf_stack_usage =
  stack_usage_calculated :: ubpf_stack_usage_calculation_status_t
  stack_usage :: uint16_t

datatype ubpf_execution_profile = UBPF_EXECUTION_PROFILE_LEGACY | UBPF_EXECUTION_PROFILE_SAFE

datatype ubpf_safe_region_kind = UBPF_SAFE_REGION_POINTER | UBPF_SAFE_REGION_HANDLE

datatype ubpf_safe_helper_result_kind =
  UBPF_SAFE_HELPER_RESULT_SCALAR | UBPF_SAFE_HELPER_RESULT_POINTER | UBPF_SAFE_HELPER_RESULT_HANDLE

record ubpf_safe_region_internal =
  region_in_use :: bool
  region_id :: uint32_t
  region_base :: uint64_t
  region_end :: uint64_t
  region_kind :: ubpf_safe_region_kind
  region_permissions :: uint32_t

record ubpf_safe_helper_metadata =
  helper_in_use :: bool
  helper_result_kind :: ubpf_safe_helper_result_kind
  helper_region_id :: uint32_t
  helper_region_size :: uint64_t

text \<open>The error printer is only ever stored and called.\<close>

datatype error_printf_t = Fprintf | User_printf nat

text \<open>
  A pointer to an array that the machine owns is \<^const>\<open>None\<close> when it is null; the bytecode
  array comes with its address, which enters the encoding of the instructions.
\<close>

record ubpf_vm =
  insts :: "(uint64_t \<times> ebpf_inst list) option"
  num_insts :: uint16_t
  insts_alloc_size :: uint64_t
  readonly_bytecode_enabled :: bool
  jitted :: "(uint64_t \<times> uint8_t list) option"
  jitted_size :: uint64_t
  jitter_buffer_size :: uint64_t
  jitted_result :: ubpf_jit_result
  ext_funcs :: "nat \<rightharpoonup> ext_helper"
  int_funcs :: "bool list option"
  ext_func_names :: "nat \<rightharpoonup> string"
  local_func_stack_usage :: "(uint16_t \<Rightarrow> ubpf_stack_usage) option"
  stack_usage_calculator_cookie :: uint64_t
  stack_usage_calculator :: "(uint16_t \<Rightarrow> uint64_t \<Rightarrow> int32_t) option"
  dispatcher :: "ext_dispatcher option"
  dispatcher_validate :: "uint32_t \<Rightarrow> bool"
  bounds_check_enabled :: bool
  undefined_behavior_check_enabled :: bool
  constant_blinding_enabled :: bool
  execution_profile :: ubpf_execution_profile
  execution_started :: bool
  error_printf :: error_printf_t
  jit_target :: jit_target
  unwind_stack_extension_index :: int32_t
  pointer_secret :: uint64_t
  data_relocation_function :: "(uint64_t \<Rightarrow> uint8_t list \<Rightarrow> string \<Rightarrow> uint64_t \<Rightarrow> uint64_t \<Rightarrow> uint64_t) option"
  data_relocation_user_data :: uint64_t
  bounds_check_function :: "(uint64_t \<Rightarrow> uint64_t \<Rightarrow> uint64_t \<Rightarrow> bool) option"
  bounds_check_user_data :: uint64_t
  safe_regions :: "ubpf_safe_region_internal list"
  safe_helpers :: "ubpf_safe_helper_metadata list"
  instruction_limit :: int32_t
  debug_function_context :: uint64_t
  debug_function :: "nat option"

section \<open>Creating and configuring a machine\<close>

definition unused_region :: ubpf_safe_region_internal where
  "unused_region = \<lparr>region_in_use = False, region_id = 0, region_base = 0, region_end = 0,
     region_kind = UBPF_SAFE_REGION_POINTER, region_permissions = 0\<rparr>"

definition unused_helper :: ubpf_safe_helper_metadata where
  "unused_helper = \<lparr>helper_in_use = False, helper_result_kind = UBPF_SAFE_HELPER_RESULT_SCALAR,
     helper_region_id = 0, helper_region_size = 0\<rparr>"

definition unknown_stack_usage :: "uint16_t \<Rightarrow> ubpf_stack_usage" where
  "unknown_stack_usage = (\<lambda>_. \<lparr>stack_usage_calculated = UBPF_STACK_USAGE_UNKNOWN, stack_usage = 0\<rparr>)"

text \<open>
  \<^verbatim>\<open>ubpf_create\<close>: the zeroed object, three arrays, then the defaults. \<open>calloc_ok i\<close> says
  whether the \<open>i\<close>-th of the four allocations succeeds; on a failure the object is destroyed and
  a null pointer returned.
\<close>

definition ubpf_create :: "jit_target \<Rightarrow> (nat \<Rightarrow> bool) \<Rightarrow> ubpf_vm option" where
  "ubpf_create target calloc_ok =
     (if \<not> (calloc_ok 0 \<and> calloc_ok 1 \<and> calloc_ok 2 \<and> calloc_ok 3) then None
      else Some \<lparr>insts = None, num_insts = 0, insts_alloc_size = 0,
        readonly_bytecode_enabled = True,
        jitted = None, jitted_size = 0, jitter_buffer_size = DEFAULT_JITTER_BUFFER_SIZE,
        jitted_result = \<lparr>external_dispatcher_offset = 0, external_helper_offset = 0,
          compile_result = UBPF_JIT_COMPILE_FAILURE, jit_result_mode = ExtendedJitMode\<rparr>,
        ext_funcs = Map.empty, int_funcs = None, ext_func_names = Map.empty,
        local_func_stack_usage = Some unknown_stack_usage,
        stack_usage_calculator_cookie = 0, stack_usage_calculator = None,
        dispatcher = None, dispatcher_validate = (\<lambda>_. False),
        bounds_check_enabled = True, undefined_behavior_check_enabled = False,
        constant_blinding_enabled = False, execution_profile = UBPF_EXECUTION_PROFILE_LEGACY,
        execution_started = False, error_printf = Fprintf, jit_target = target,
        unwind_stack_extension_index = - 1, pointer_secret = 0,
        data_relocation_function = None, data_relocation_user_data = 0,
        bounds_check_function = None, bounds_check_user_data = 0,
        safe_regions = replicate UBPF_MAX_SAFE_REGIONS unused_region,
        safe_helpers = replicate MAX_EXT_FUNCS unused_helper,
        instruction_limit = 0, debug_function_context = 0, debug_function = None\<rparr>)"

definition ubpf_toggle_bounds_check :: "ubpf_vm \<Rightarrow> bool \<Rightarrow> bool \<times> ubpf_vm" where
  "ubpf_toggle_bounds_check vm enable =
     (bounds_check_enabled vm, vm\<lparr>bounds_check_enabled := enable\<rparr>)"

definition ubpf_toggle_constant_blinding :: "ubpf_vm \<Rightarrow> bool \<Rightarrow> bool \<times> ubpf_vm" where
  "ubpf_toggle_constant_blinding vm enable =
     (constant_blinding_enabled vm, vm\<lparr>constant_blinding_enabled := enable\<rparr>)"

definition ubpf_toggle_undefined_behavior_check :: "ubpf_vm \<Rightarrow> bool \<Rightarrow> bool \<times> ubpf_vm" where
  "ubpf_toggle_undefined_behavior_check vm enable =
     (undefined_behavior_check_enabled vm, vm\<lparr>undefined_behavior_check_enabled := enable\<rparr>)"

definition ubpf_toggle_readonly_bytecode :: "ubpf_vm \<Rightarrow> bool \<Rightarrow> bool \<times> ubpf_vm" where
  "ubpf_toggle_readonly_bytecode vm enable =
     (readonly_bytecode_enabled vm, vm\<lparr>readonly_bytecode_enabled := enable\<rparr>)"

definition ubpf_set_error_print :: "ubpf_vm \<Rightarrow> nat option \<Rightarrow> ubpf_vm" where
  "ubpf_set_error_print vm f =
     (case f of Some g \<Rightarrow> vm\<lparr>error_printf := User_printf g\<rparr> | None \<Rightarrow> vm\<lparr>error_printf := Fprintf\<rparr>)"

definition ubpf_set_unwind_function_index :: "ubpf_vm \<Rightarrow> uint32_t \<Rightarrow> int \<times> ubpf_vm" where
  "ubpf_set_unwind_function_index vm idx =
     (if unwind_stack_extension_index vm \<noteq> - 1 then (- 1, vm)
      else (0, vm\<lparr>unwind_stack_extension_index := idx\<rparr>))"

definition ubpf_set_pointer_secret :: "ubpf_vm \<Rightarrow> uint64_t \<Rightarrow> int \<times> ubpf_vm" where
  "ubpf_set_pointer_secret vm secret =
     (if insts vm \<noteq> None then (- 1, vm) else (0, vm\<lparr>pointer_secret := secret\<rparr>))"

definition ubpf_register_data_relocation ::
  "ubpf_vm \<Rightarrow> uint64_t \<Rightarrow> (uint64_t \<Rightarrow> uint8_t list \<Rightarrow> string \<Rightarrow> uint64_t \<Rightarrow> uint64_t \<Rightarrow> uint64_t) option
    \<Rightarrow> int \<times> ubpf_vm" where
  "ubpf_register_data_relocation vm user_context relocation =
     (if data_relocation_function vm \<noteq> None then (- 1, vm)
      else (0, vm\<lparr>data_relocation_function := relocation, data_relocation_user_data := user_context\<rparr>))"

definition ubpf_register_data_bounds_check ::
  "ubpf_vm \<Rightarrow> uint64_t \<Rightarrow> (uint64_t \<Rightarrow> uint64_t \<Rightarrow> uint64_t \<Rightarrow> bool) option \<Rightarrow> int \<times> ubpf_vm" where
  "ubpf_register_data_bounds_check vm user_context f =
     (if bounds_check_function vm \<noteq> None then (- 1, vm)
      else (0, vm\<lparr>bounds_check_function := f, bounds_check_user_data := user_context\<rparr>))"

text \<open>The limit is stored in a signed field; the result is the code, the previous limit and the machine.\<close>

definition ubpf_set_instruction_limit :: "ubpf_vm \<Rightarrow> uint32_t \<Rightarrow> int \<times> uint32_t \<times> ubpf_vm" where
  "ubpf_set_instruction_limit vm limit =
     (0, instruction_limit vm, vm\<lparr>instruction_limit := limit\<rparr>)"

definition ubpf_register_stack_usage_calculator ::
  "ubpf_vm \<Rightarrow> (uint16_t \<Rightarrow> uint64_t \<Rightarrow> int32_t) option \<Rightarrow> uint64_t \<Rightarrow> int \<times> ubpf_vm" where
  "ubpf_register_stack_usage_calculator vm calculator cookie =
     (0, vm\<lparr>stack_usage_calculator_cookie := cookie, stack_usage_calculator := calculator\<rparr>)"

definition ubpf_register_debug_fn :: "ubpf_vm \<Rightarrow> uint64_t \<Rightarrow> nat option \<Rightarrow> int \<times> ubpf_vm" where
  "ubpf_register_debug_fn vm context_ptr f =
     (if debug_function vm \<noteq> None \<and> f \<noteq> None \<or> debug_function vm = None \<and> f = None then (- 1, vm)
      else (0, vm\<lparr>debug_function := f, debug_function_context := context_ptr\<rparr>))"

definition ubpf_set_jit_code_size :: "ubpf_vm \<Rightarrow> uint64_t \<Rightarrow> int \<times> ubpf_vm" where
  "ubpf_set_jit_code_size vm code_size = (0, vm\<lparr>jitter_buffer_size := code_size\<rparr>)"

section \<open>Helpers\<close>

text \<open>
  The JIT back ends keep the address of each helper, and of the dispatcher, in a table inside
  the generated code; registering a function after compilation patches the table. The x86-64
  and the arm64 back end have the same two functions.
\<close>

definition patch_bytes :: "uint8_t list \<Rightarrow> nat \<Rightarrow> uint8_t list \<Rightarrow> uint8_t list" where
  "patch_bytes xs i bs = take i xs @ bs @ drop (i + length bs) xs"

definition ubpf_jit_update_dispatcher_x86_64 ::
  "uint64_t \<Rightarrow> uint64_t \<Rightarrow> uint8_t list \<Rightarrow> uint64_t \<Rightarrow> uint32_t \<Rightarrow> bool \<times> uint8_t list" where
  "ubpf_jit_update_dispatcher_x86_64 new_dispatcher buffer code sz off =
     (let jit_upper_bound = buffer + sz; dispatcher_address = buffer + ucast off in
      if dispatcher_address + 8 < jit_upper_bound
      then (True, patch_bytes code (unat off) (le_bytes 8 new_dispatcher))
      else (False, code))"

definition ubpf_jit_update_helper_x86_64 ::
  "uint64_t \<Rightarrow> uint32_t \<Rightarrow> uint64_t \<Rightarrow> uint8_t list \<Rightarrow> uint64_t \<Rightarrow> uint32_t \<Rightarrow> bool \<times> uint8_t list" where
  "ubpf_jit_update_helper_x86_64 new_helper idx buffer code sz off =
     (let jit_upper_bound = buffer + sz;
          dispatcher_address = buffer + ucast off + ucast (8 * idx) in
      if dispatcher_address + 8 < jit_upper_bound
      then (True, patch_bytes code (unat (dispatcher_address - buffer)) (le_bytes 8 new_helper))
      else (False, code))"

definition ubpf_jit_update_dispatcher_arm64 ::
  "uint64_t \<Rightarrow> uint64_t \<Rightarrow> uint8_t list \<Rightarrow> uint64_t \<Rightarrow> uint32_t \<Rightarrow> bool \<times> uint8_t list" where
  "ubpf_jit_update_dispatcher_arm64 new_dispatcher buffer code sz off =
     (let jit_upper_bound = buffer + sz; dispatcher_address = buffer + ucast off in
      if dispatcher_address + 8 < jit_upper_bound
      then (True, patch_bytes code (unat off) (le_bytes 8 new_dispatcher))
      else (False, code))"

definition ubpf_jit_update_helper_arm64 ::
  "uint64_t \<Rightarrow> uint32_t \<Rightarrow> uint64_t \<Rightarrow> uint8_t list \<Rightarrow> uint64_t \<Rightarrow> uint32_t \<Rightarrow> bool \<times> uint8_t list" where
  "ubpf_jit_update_helper_arm64 new_helper idx buffer code sz off =
     (let jit_upper_bound = buffer + sz;
          dispatcher_address = buffer + ucast off + ucast (8 * idx) in
      if dispatcher_address + 8 < jit_upper_bound
      then (True, patch_bytes code (unat (dispatcher_address - buffer)) (le_bytes 8 new_helper))
      else (False, code))"

definition ubpf_jit_update_dispatcher_null :: "uint8_t list \<Rightarrow> bool \<times> uint8_t list" where
  "ubpf_jit_update_dispatcher_null code = (False, code)"

definition ubpf_jit_update_helper_null :: "uint8_t list \<Rightarrow> bool \<times> uint8_t list" where
  "ubpf_jit_update_helper_null code = (False, code)"

text \<open>\<^verbatim>\<open>vm->jit_update_helper\<close> and \<^verbatim>\<open>vm->jit_update_dispatcher\<close>, called on the generated code.\<close>

definition jit_update_helper :: "ubpf_vm \<Rightarrow> uint64_t \<Rightarrow> uint32_t \<Rightarrow> bool \<times> ubpf_vm" where
  "jit_update_helper vm addr idx =
     (let (buffer, code) = (case jitted vm of None \<Rightarrow> (0, []) | Some j \<Rightarrow> j);
          off = external_helper_offset (jitted_result vm);
          (ok, code') =
            (case jit_target vm of
               JIT_x86_64 \<Rightarrow> ubpf_jit_update_helper_x86_64 addr idx buffer code (jitted_size vm) off
             | JIT_arm64 \<Rightarrow> ubpf_jit_update_helper_arm64 addr idx buffer code (jitted_size vm) off
             | JIT_null \<Rightarrow> ubpf_jit_update_helper_null code)
      in (ok, vm\<lparr>jitted := map_option (\<lambda>_. (buffer, code')) (jitted vm)\<rparr>))"

definition jit_update_dispatcher :: "ubpf_vm \<Rightarrow> uint64_t \<Rightarrow> bool \<times> ubpf_vm" where
  "jit_update_dispatcher vm addr =
     (let (buffer, code) = (case jitted vm of None \<Rightarrow> (0, []) | Some j \<Rightarrow> j);
          off = external_dispatcher_offset (jitted_result vm);
          (ok, code') =
            (case jit_target vm of
               JIT_x86_64 \<Rightarrow> ubpf_jit_update_dispatcher_x86_64 addr buffer code (jitted_size vm) off
             | JIT_arm64 \<Rightarrow> ubpf_jit_update_dispatcher_arm64 addr buffer code (jitted_size vm) off
             | JIT_null \<Rightarrow> ubpf_jit_update_dispatcher_null code)
      in (ok, vm\<lparr>jitted := map_option (\<lambda>_. (buffer, code')) (jitted vm)\<rparr>))"

text \<open>
  \<^verbatim>\<open>ubpf_register\<close>. A null function pointer is \<^const>\<open>None\<close>; \<open>mprotect_rw\<close> and \<open>mprotect_rx\<close>
  are the outcomes of the two \<^verbatim>\<open>mprotect\<close> calls around the patch.
\<close>

definition ubpf_register ::
  "ubpf_vm \<Rightarrow> uint32_t \<Rightarrow> string option \<Rightarrow> ext_helper option \<Rightarrow> bool \<Rightarrow> bool \<Rightarrow> int \<times> ubpf_vm" where
  "ubpf_register vm idx name fn mprotect_rw mprotect_rx =
     (if unat idx \<ge> MAX_EXT_FUNCS then (- 1, vm)
      else
        let vm = vm\<lparr>ext_funcs := (ext_funcs vm)(unat idx := fn),
                    ext_func_names := (ext_func_names vm)(unat idx := name)\<rparr>
        in if compile_result (jitted_result vm) = UBPF_JIT_COMPILE_SUCCESS then
             if \<not> mprotect_rw then (- 1, vm)
             else
               let (ok, vm) = jit_update_helper vm (case fn of None \<Rightarrow> 0 | Some h \<Rightarrow> helper_addr h) idx
               in if \<not> mprotect_rx then (- 1, vm) else (if ok then 0 else - 1, vm)
           else (0, vm))"

definition ubpf_register_external_dispatcher ::
  "ubpf_vm \<Rightarrow> ext_dispatcher option \<Rightarrow> (uint32_t \<Rightarrow> bool) \<Rightarrow> bool \<Rightarrow> bool \<Rightarrow> int \<times> ubpf_vm" where
  "ubpf_register_external_dispatcher vm d validater mprotect_rw mprotect_rx =
     (let vm = vm\<lparr>dispatcher := d, dispatcher_validate := validater\<rparr>
      in if compile_result (jitted_result vm) = UBPF_JIT_COMPILE_SUCCESS then
           if \<not> mprotect_rw then (- 1, vm)
           else
             let (ok, vm) = jit_update_dispatcher vm (case d of None \<Rightarrow> 0 | Some f \<Rightarrow> dispatcher_addr f)
             in if \<not> mprotect_rx then (- 1, vm) else (if ok then 0 else - 1, vm)
         else (0, vm))"

text \<open>
  \<^verbatim>\<open>ubpf_lookup_registered_function\<close>: the first index below \<^verbatim>\<open>MAX_EXT_FUNCS\<close> registered under
  the name, or \<^verbatim>\<open>(unsigned) -1\<close>.
\<close>

definition ubpf_lookup_registered_function :: "ubpf_vm \<Rightarrow> string \<Rightarrow> uint32_t" where
  "ubpf_lookup_registered_function vm name =
     (case find (\<lambda>i. ext_func_names vm i = Some name) [0..<MAX_EXT_FUNCS] of
        Some i \<Rightarrow> of_nat i | None \<Rightarrow> - 1)"

section \<open>Bytecode storage\<close>

text \<open>
  Instructions are stored xor-ed with the address of the array and a secret. An index outside
  the array, or a null array, is an invalid access: \<^const>\<open>None\<close>.
\<close>

definition ubpf_fetch_instruction :: "ubpf_vm \<Rightarrow> uint16_t \<Rightarrow> ebpf_inst option" where
  "ubpf_fetch_instruction vm pc =
     (case insts vm of
        None \<Rightarrow> None
      | Some (base, is) \<Rightarrow>
          if unat pc < length is
          then Some (inst_of_value (inst_value (is ! unat pc) XOR base XOR pointer_secret vm))
          else None)"

definition ubpf_store_instruction :: "ubpf_vm \<Rightarrow> uint16_t \<Rightarrow> ebpf_inst \<Rightarrow> ubpf_vm option" where
  "ubpf_store_instruction vm pc inst =
     (case insts vm of
        None \<Rightarrow> None
      | Some (base, is) \<Rightarrow>
          if unat pc < length is
          then Some (vm\<lparr>insts := Some (base,
            is[unat pc := inst_of_value (inst_value inst XOR base XOR pointer_secret vm)])\<rparr>)
          else None)"

section \<open>Stack usage of local functions\<close>

text \<open>
  The errors of loading a program, one per message of \<^verbatim>\<open>ubpf_load\<close> and \<^verbatim>\<open>validate\<close>.
  \<open>Load_crash\<close> stands for undefined behaviour: a failed assertion or an invalid access.
\<close>

datatype load_error =
    Load_crash
  | Stack_size_not_multiple_of_8
  | Code_already_loaded
  | Code_len_not_multiple_of_8
  | Load_out_of_memory
  | Readonly_failed
  | Too_many_instructions
  | Improper_stack_usage uint16_t
  | Invalid_neg_src nat
  | Invalid_endian_immediate nat
  | Invalid_neg64_src nat
  | Invalid_lddw_src nat
  | Incomplete_lddw nat
  | Invalid_lddw_second_half nat
  | Infinite_loop nat
  | Jump_out_of_bounds nat
  | Jump_to_middle_of_lddw nat
  | Invalid_call_immediate nat
  | Nonexistent_function nat
  | Call_out_of_bounds nat
  | Call_by_btf_id nat
  | Invalid_call_type nat
  | Invalid_atomic_operation nat
  | Unknown_opcode nat
  | Invalid_source_register nat
  | Invalid_destination_register nat
  | Filter_rejects inst_error
  | No_memory_for_sub_programs
  | Jump_out_of_sub_program nat
  | Sub_program_without_exit nat

text \<open>\<^verbatim>\<open>ubpf_stack_usage_for_local_func\<close>; its assertion failing, or a null array, is \<^const>\<open>None\<close>.\<close>

definition ubpf_stack_usage_for_local_func :: "ubpf_vm \<Rightarrow> uint16_t \<Rightarrow> uint16_t option" where
  "ubpf_stack_usage_for_local_func vm pc =
     (case local_func_stack_usage vm of
        None \<Rightarrow> None
      | Some usage \<Rightarrow>
          (case stack_usage_calculated (usage pc) of
             UBPF_STACK_USAGE_UNKNOWN \<Rightarrow> None
           | UBPF_STACK_USAGE_CUSTOM \<Rightarrow> Some (stack_usage (usage pc))
           | UBPF_STACK_USAGE_DEFAULT \<Rightarrow> Some UBPF_EBPF_LOCAL_FUNCTION_STACK_SIZE))"

definition ubpf_calculate_stack_usage_for_local_func ::
  "ubpf_vm \<Rightarrow> uint16_t \<Rightarrow> (load_error + unit) \<times> ubpf_vm" where
  "ubpf_calculate_stack_usage_for_local_func vm pc =
     (case local_func_stack_usage vm of
        None \<Rightarrow> (Inl Load_crash, vm)
      | Some usage \<Rightarrow>
          let usage' =
                (if stack_usage_calculated (usage pc) = UBPF_STACK_USAGE_UNKNOWN then
                   (case stack_usage_calculator vm of
                      None \<Rightarrow> usage(pc := (usage pc)\<lparr>stack_usage_calculated := UBPF_STACK_USAGE_DEFAULT\<rparr>)
                    | Some calculator \<Rightarrow>
                        usage(pc := \<lparr>stack_usage_calculated = UBPF_STACK_USAGE_CUSTOM,
                          stack_usage = ucast (calculator pc (stack_usage_calculator_cookie vm))\<rparr>))
                 else usage);
              vm' = vm\<lparr>local_func_stack_usage := Some usage'\<rparr>
          in (case ubpf_stack_usage_for_local_func vm' pc of
                None \<Rightarrow> (Inl Load_crash, vm')
              | Some n \<Rightarrow> if n mod 16 \<noteq> 0 then (Inl (Improper_stack_usage pc), vm') else (Inr (), vm')))"

section \<open>Unloading\<close>

text \<open>
  \<^verbatim>\<open>ubpf_unload_code\<close>; \<open>calloc_ok\<close> is the outcome of re-allocating the stack usage array, which
  the function does not check.
\<close>

definition ubpf_unload_code :: "ubpf_vm \<Rightarrow> bool \<Rightarrow> ubpf_vm" where
  "ubpf_unload_code vm calloc_ok =
     (let vm = vm\<lparr>local_func_stack_usage := if calloc_ok then Some unknown_stack_usage else None\<rparr>;
          vm = (if jitted vm \<noteq> None then vm\<lparr>jitted := None, jitted_size := 0\<rparr> else vm);
          vm = (if insts vm \<noteq> None then vm\<lparr>insts := None, num_insts := 0, insts_alloc_size := 0\<rparr> else vm)
      in vm\<lparr>int_funcs := None\<rparr>)"

section \<open>The bytecode store\<close>

text \<open>What loading and execution rely on: a fetch returns what was last stored at its index.\<close>

locale instruction_store =
  fixes fetch :: "'v \<Rightarrow> uint16_t \<Rightarrow> 'i option"
    and store :: "'v \<Rightarrow> uint16_t \<Rightarrow> 'i \<Rightarrow> 'v option"
  assumes fetch_store_same: "store v pc i = Some v' \<Longrightarrow> fetch v' pc = Some i"
    and fetch_store_other: "store v pc i = Some v' \<Longrightarrow> pc' \<noteq> pc \<Longrightarrow> fetch v' pc' = fetch v pc'"
    and store_defined: "store v pc i = None \<longleftrightarrow> fetch v pc = None"
begin

lemma fetch_store:
  "store v pc i = Some v' \<Longrightarrow> fetch v' pc' = (if pc' = pc then Some i else fetch v pc')"
  by (simp add: fetch_store_same fetch_store_other)

lemma fetch_defined_after_store:
  "store v pc i = Some v' \<Longrightarrow> fetch v' pc' = None \<longleftrightarrow> fetch v pc' = None"
  by (auto simp: fetch_store store_defined [of v pc i, symmetric])

end

lemma xor_twice: "(x XOR b XOR s) XOR b XOR s = (x :: uint64_t)"
  by (rule bit_word_eqI) (auto simp: bit_simps)

interpretation bytecode: instruction_store ubpf_fetch_instruction ubpf_store_instruction
proof (standard, goal_cases)
  case (1 v pc i v')
  then show ?case
    by (auto simp: ubpf_fetch_instruction_def ubpf_store_instruction_def xor_twice
        split: option.splits if_splits)
next
  case (2 v pc i v' pc')
  moreover from 2 have "unat pc \<noteq> unat pc'" by (auto simp: word_unat_eq_iff)
  ultimately show ?case
    by (auto simp: ubpf_fetch_instruction_def ubpf_store_instruction_def
        split: option.splits if_splits)
next
  case (3 v pc i)
  show ?case
    by (auto simp: ubpf_fetch_instruction_def ubpf_store_instruction_def split: option.splits)
qed

section \<open>Registered helpers\<close>

lemma ubpf_register_out_of_range:
  "unat idx \<ge> MAX_EXT_FUNCS \<Longrightarrow> ubpf_register vm idx name fn rw rx = (- 1, vm)"
  by (simp add: ubpf_register_def)

lemma jit_update_helper_frame [simp]:
  "ext_funcs (snd (jit_update_helper vm a idx)) = ext_funcs vm"
  "ext_func_names (snd (jit_update_helper vm a idx)) = ext_func_names vm"
  by (simp_all add: jit_update_helper_def Let_def split: prod.splits)

lemma ubpf_register_ext_funcs:
  assumes "unat idx < MAX_EXT_FUNCS"
  shows "ext_funcs (snd (ubpf_register vm idx name fn rw rx)) = (ext_funcs vm)(unat idx := fn)"
    and "ext_func_names (snd (ubpf_register vm idx name fn rw rx)) = (ext_func_names vm)(unat idx := name)"
  using assms
    jit_update_helper_frame [of "vm\<lparr>ext_funcs := (ext_funcs vm)(unat idx := fn),
      ext_func_names := (ext_func_names vm)(unat idx := name)\<rparr>"
      "case fn of None \<Rightarrow> 0 | Some h \<Rightarrow> helper_addr h" idx]
  by (auto simp: ubpf_register_def Let_def simp del: jit_update_helper_frame split: prod.split)

lemma find_upt_Some_iff:
  "find P [0..<n] = Some i \<longleftrightarrow> i < n \<and> P i \<and> (\<forall>j<i. \<not> P j)"
  by (auto simp: find_Some_iff)

lemma ubpf_lookup_registered_function_iff:
  assumes "i < MAX_EXT_FUNCS"
  shows "ubpf_lookup_registered_function vm name = of_nat i \<longleftrightarrow>
    ext_func_names vm i = Some name \<and> (\<forall>j<i. ext_func_names vm j \<noteq> Some name)"
proof (cases "find (\<lambda>i. ext_func_names vm i = Some name) [0..<MAX_EXT_FUNCS]")
  case None
  then have "\<not> ext_func_names vm i = Some name"
    using assms by (auto simp: find_None_iff)
  moreover have "(of_nat i :: uint32_t) \<noteq> - 1"
  proof
    assume "(of_nat i :: uint32_t) = - 1"
    then have "unat (of_nat i :: uint32_t) = unat (- 1 :: uint32_t)" by simp
    with assms show False by (simp add: MAX_EXT_FUNCS_def unsigned_of_nat take_bit_nat_eq_self
          unsigned_minus_1_eq_mask mask_eq_exp_minus_1)
  qed
  ultimately show ?thesis using None by (simp add: ubpf_lookup_registered_function_def)
next
  case (Some k)
  then have k: "k < MAX_EXT_FUNCS" "ext_func_names vm k = Some name"
    "\<forall>j<k. ext_func_names vm j \<noteq> Some name"
    by (auto simp: find_upt_Some_iff)
  have "(of_nat k :: uint32_t) = of_nat i \<longleftrightarrow> k = i"
    using k(1) assms by (auto simp: MAX_EXT_FUNCS_def word_of_nat_eq_iff take_bit_nat_eq_self)
  with Some k show ?thesis
    by (auto simp: ubpf_lookup_registered_function_def) (metis linorder_neqE_nat)
qed

end
