(* ===== verification/Validate.thy ===== *)
theory Validate
  imports Ubpf_Vm
begin

text \<open>
  The validator and the loader of \<^verbatim>\<open>vm/ubpf_vm.c\<close>: \<^verbatim>\<open>validate\<close>, the check that sub-programs are
  self-contained, and \<^verbatim>\<open>ubpf_load\<close>. A program is a list of instructions; positions are natural
  numbers, and jump targets are computed in the integers, as the source does with 64-bit
  arithmetic on 32-bit operands.
\<close>

section \<open>Validation of one instruction\<close>

definition unchecked_alu32_opcodes :: "uint8_t list" where
  "unchecked_alu32_opcodes =
     [EBPF_OP_ADD_IMM, EBPF_OP_ADD_REG, EBPF_OP_SUB_IMM, EBPF_OP_SUB_REG, EBPF_OP_MUL_IMM,
      EBPF_OP_MUL_REG, EBPF_OP_DIV_REG, EBPF_OP_OR_IMM, EBPF_OP_OR_REG, EBPF_OP_AND_IMM,
      EBPF_OP_AND_REG, EBPF_OP_LSH_IMM, EBPF_OP_LSH_REG, EBPF_OP_RSH_IMM, EBPF_OP_RSH_REG,
      EBPF_OP_MOD_REG, EBPF_OP_XOR_IMM, EBPF_OP_XOR_REG, EBPF_OP_MOV_IMM, EBPF_OP_MOV_REG,
      EBPF_OP_ARSH_IMM, EBPF_OP_ARSH_REG]"

definition unchecked_alu64_opcodes :: "uint8_t list" where
  "unchecked_alu64_opcodes =
     [EBPF_OP_ADD64_IMM, EBPF_OP_ADD64_REG, EBPF_OP_SUB64_IMM, EBPF_OP_SUB64_REG, EBPF_OP_MUL64_IMM,
      EBPF_OP_MUL64_REG, EBPF_OP_DIV64_REG, EBPF_OP_OR64_IMM, EBPF_OP_OR64_REG, EBPF_OP_AND64_IMM,
      EBPF_OP_AND64_REG, EBPF_OP_LSH64_IMM, EBPF_OP_LSH64_REG, EBPF_OP_RSH64_IMM, EBPF_OP_RSH64_REG,
      EBPF_OP_MOD64_REG, EBPF_OP_XOR64_IMM, EBPF_OP_XOR64_REG, EBPF_OP_ARSH64_IMM, EBPF_OP_ARSH64_REG]"

definition load_opcodes :: "uint8_t list" where
  "load_opcodes =
     [EBPF_OP_LDXW, EBPF_OP_LDXH, EBPF_OP_LDXB, EBPF_OP_LDXDW, EBPF_OP_LDXWSX, EBPF_OP_LDXHSX, EBPF_OP_LDXBSX]"

definition store_opcodes :: "uint8_t list" where
  "store_opcodes =
     [EBPF_OP_STW, EBPF_OP_STH, EBPF_OP_STB, EBPF_OP_STDW, EBPF_OP_STXW, EBPF_OP_STXH, EBPF_OP_STXB, EBPF_OP_STXDW]"

definition jump_opcodes :: "uint8_t list" where
  "jump_opcodes =
     [EBPF_OP_JA, EBPF_OP_JA32, EBPF_OP_JEQ_REG, EBPF_OP_JEQ_IMM, EBPF_OP_JGT_REG, EBPF_OP_JGT_IMM,
      EBPF_OP_JGE_REG, EBPF_OP_JGE_IMM, EBPF_OP_JLT_REG, EBPF_OP_JLT_IMM, EBPF_OP_JLE_REG, EBPF_OP_JLE_IMM,
      EBPF_OP_JSET_REG, EBPF_OP_JSET_IMM, EBPF_OP_JNE_REG, EBPF_OP_JNE_IMM, EBPF_OP_JSGT_IMM,
      EBPF_OP_JSGT_REG, EBPF_OP_JSGE_IMM, EBPF_OP_JSGE_REG, EBPF_OP_JSLT_IMM, EBPF_OP_JSLT_REG,
      EBPF_OP_JSLE_IMM, EBPF_OP_JSLE_REG, EBPF_OP_JEQ32_IMM, EBPF_OP_JEQ32_REG, EBPF_OP_JGT32_IMM,
      EBPF_OP_JGT32_REG, EBPF_OP_JGE32_IMM, EBPF_OP_JGE32_REG, EBPF_OP_JSET32_REG, EBPF_OP_JSET32_IMM,
      EBPF_OP_JNE32_IMM, EBPF_OP_JNE32_REG, EBPF_OP_JSGT32_IMM, EBPF_OP_JSGT32_REG, EBPF_OP_JSGE32_IMM,
      EBPF_OP_JSGE32_REG, EBPF_OP_JLT32_IMM, EBPF_OP_JLT32_REG, EBPF_OP_JLE32_IMM, EBPF_OP_JLE32_REG,
      EBPF_OP_JSLT32_IMM, EBPF_OP_JSLT32_REG, EBPF_OP_JSLE32_IMM, EBPF_OP_JSLE32_REG]"

text \<open>A check of one instruction gives an error, or nothing.\<close>

definition validate_lddw :: "ebpf_inst list \<Rightarrow> nat \<Rightarrow> load_error option" where
  "validate_lddw is i =
     (if src (is ! i) \<noteq> 0 then Some (Invalid_lddw_src i)
      else if i + 1 \<ge> length is \<or> opcode (is ! (i + 1)) \<noteq> 0 then Some (Incomplete_lddw i)
      else if dst (is ! (i + 1)) \<noteq> 0 \<or> src (is ! (i + 1)) \<noteq> 0 \<or> offset (is ! (i + 1)) \<noteq> 0
      then Some (Invalid_lddw_second_half (i + 1))
      else None)"

definition jump_offset :: "ebpf_inst \<Rightarrow> int" where
  "jump_offset inst = (if opcode inst = EBPF_OP_JA32 then sint (imm inst) else sint (offset inst))"

definition validate_jump :: "ebpf_inst list \<Rightarrow> nat \<Rightarrow> load_error option" where
  "validate_jump is i =
     (let new_pc = int i + 1 + jump_offset (is ! i) in
      if jump_offset (is ! i) = - 1 then Some (Infinite_loop i)
      else if new_pc < 0 \<or> new_pc \<ge> int (length is) then Some (Jump_out_of_bounds i)
      else if opcode (is ! nat new_pc) = 0 then Some (Jump_to_middle_of_lddw i)
      else None)"

definition validate_external_call :: "ubpf_vm \<Rightarrow> ebpf_inst \<Rightarrow> nat \<Rightarrow> load_error option" where
  "validate_external_call vm inst i =
     (if sint (imm inst) < 0 then Some (Invalid_call_immediate i)
      else if dispatcher vm \<noteq> None \<and> \<not> dispatcher_validate vm (imm inst) \<or>
        dispatcher vm = None \<and> (unat (imm inst) \<ge> MAX_EXT_FUNCS \<or> ext_funcs vm (unat (imm inst)) = None)
      then Some (Nonexistent_function i)
      else None)"

definition validate_atomic :: "ebpf_inst \<Rightarrow> nat \<Rightarrow> load_error option" where
  "validate_atomic inst i =
     (let op = imm inst AND ucast EBPF_ALU_OP_MASK in
      if op \<in> {ucast EBPF_ALU_OP_ADD, ucast EBPF_ALU_OP_OR, ucast EBPF_ALU_OP_AND, ucast EBPF_ALU_OP_XOR} then None
      else if op \<in> {EBPF_ATOMIC_OP_XCHG AND NOT EBPF_ATOMIC_OP_FETCH,
        EBPF_ATOMIC_OP_CMPXCHG AND NOT EBPF_ATOMIC_OP_FETCH}
      then (if imm inst AND EBPF_ATOMIC_OP_FETCH = 0 then Some (Invalid_atomic_operation i) else None)
      else Some (Invalid_atomic_operation i))"

text \<open>A call, which may record the stack usage of its target in the machine.\<close>

definition validate_call :: "ubpf_vm \<Rightarrow> ebpf_inst list \<Rightarrow> nat \<Rightarrow> load_error option \<times> ubpf_vm" where
  "validate_call vm is i =
     (let inst = is ! i; call_target = int i + (sint (imm inst) + 1) in
      if src inst = 0 then (validate_external_call vm inst i, vm)
      else if src inst = 1 then
        (if call_target < 0 \<or> call_target \<ge> int (length is) then (Some (Call_out_of_bounds i), vm)
         else (case ubpf_calculate_stack_usage_for_local_func vm (word_of_int call_target) of
                 (Inl e, vm) \<Rightarrow> (Some e, vm) | (Inr _, vm) \<Rightarrow> (None, vm)))
      else if src inst = 2 then (Some (Call_by_btf_id i), vm)
      else (Some (Invalid_call_type i), vm))"

text \<open>
  The switch on the opcode: an error, or whether the instruction is a store and whether the next
  slot is skipped.
\<close>

definition check_result :: "load_error option \<Rightarrow> 'a \<Rightarrow> load_error + 'a" where
  "check_result e x = (case e of None \<Rightarrow> Inr x | Some e \<Rightarrow> Inl e)"

definition validate_switch ::
  "ubpf_vm \<Rightarrow> ebpf_inst list \<Rightarrow> nat \<Rightarrow> (load_error + (bool \<times> bool)) \<times> ubpf_vm" where
  "validate_switch vm is i =
     (let inst = is ! i; op = opcode inst in
      if op \<in> set unchecked_alu32_opcodes then (Inr (False, False), vm)
      else if op = EBPF_OP_NEG then
        (if src inst \<noteq> 0 then Inl (Invalid_neg_src i) else Inr (False, False), vm)
      else if op = EBPF_OP_LE \<or> op = EBPF_OP_BE \<or> op = EBPF_OP_BSWAP then
        (if imm inst \<noteq> 16 \<and> imm inst \<noteq> 32 \<and> imm inst \<noteq> 64 then Inl (Invalid_endian_immediate i)
         else Inr (False, False), vm)
      else if op \<in> set unchecked_alu64_opcodes then (Inr (False, False), vm)
      else if op = EBPF_OP_MOV64_IMM \<or> op = EBPF_OP_MOV64_REG then (Inr (True, False), vm)
      else if op = EBPF_OP_NEG64 then
        (if src inst \<noteq> 0 then Inl (Invalid_neg64_src i) else Inr (False, False), vm)
      else if op \<in> set load_opcodes then (Inr (False, False), vm)
      else if op \<in> set store_opcodes then (Inr (True, False), vm)
      else if op = EBPF_OP_LDDW then (check_result (validate_lddw is i) (False, True), vm)
      else if op \<in> set jump_opcodes then (check_result (validate_jump is i) (False, False), vm)
      else if op = EBPF_OP_CALL then
        (case validate_call vm is i of (e, vm) \<Rightarrow> (check_result e (False, False), vm))
      else if op = EBPF_OP_EXIT then (Inr (False, False), vm)
      else if op = EBPF_OP_DIV_IMM \<or> op = EBPF_OP_MOD_IMM \<or> op = EBPF_OP_DIV64_IMM \<or> op = EBPF_OP_MOD64_IMM
      then (Inr (False, False), vm)
      else if op = EBPF_OP_ATOMIC_STORE \<or> op = EBPF_OP_ATOMIC32_STORE
      then (check_result (validate_atomic inst i) (True, False), vm)
      else (Inl (Unknown_opcode i), vm))"

text \<open>
  The checks that follow the switch. The position in a message is that after a skipped slot.
\<close>

definition validate_fields :: "ebpf_inst \<Rightarrow> bool \<Rightarrow> nat \<Rightarrow> load_error option" where
  "validate_fields inst store i =
     (if src inst > 10 then Some (Invalid_source_register i)
      else if dst inst > 9 \<and> \<not> (store \<and> dst inst = 10) then Some (Invalid_destination_register i)
      else (case ubpf_is_valid_instruction inst of Inl e \<Rightarrow> Some (Filter_rejects e) | Inr _ \<Rightarrow> None))"

definition validate_inst ::
  "ubpf_vm \<Rightarrow> ebpf_inst list \<Rightarrow> nat \<Rightarrow> (load_error + bool) \<times> ubpf_vm" where
  "validate_inst vm is i =
     (case validate_switch vm is i of
        (Inl e, vm) \<Rightarrow> (Inl e, vm)
      | (Inr (store, skip), vm) \<Rightarrow>
          (check_result (validate_fields (is ! i) store (if skip then i + 1 else i)) skip, vm))"

function validate_loop :: "ubpf_vm \<Rightarrow> ebpf_inst list \<Rightarrow> nat \<Rightarrow> (load_error + unit) \<times> ubpf_vm" where
  "validate_loop vm is i =
     (if i \<ge> length is then (Inr (), vm)
      else
        case validate_inst vm is i of
          (Inl e, vm) \<Rightarrow> (Inl e, vm)
        | (Inr skip, vm) \<Rightarrow> validate_loop vm is (if skip then i + 2 else i + 1))"
  by pat_completeness auto
termination
  by (relation "measure (\<lambda>(vm, is, i). length is - i)") auto

declare validate_loop.simps [simp del]

section \<open>Self-contained sub-programs\<close>

definition is_local_call :: "ebpf_inst \<Rightarrow> bool" where
  "is_local_call inst \<longleftrightarrow> opcode inst = EBPF_OP_CALL \<and> src inst = 1"

text \<open>The targets of the local calls, in program order; \<^verbatim>\<open>uint32_t\<close> arithmetic.\<close>

definition local_call_targets :: "ebpf_inst list \<Rightarrow> uint32_t list" where
  "local_call_targets is =
     map (\<lambda>i. of_nat i + 1 + imm (is ! i)) (filter (\<lambda>i. is_local_call (is ! i)) [0..<length is])"

definition compare_uint32_t :: "uint32_t \<Rightarrow> uint32_t \<Rightarrow> int" where
  "compare_uint32_t value_a value_b =
     (if value_a < value_b then - 1 else if value_a > value_b then 1 else 0)"

text \<open>\<^verbatim>\<open>qsort\<close>: the array in the order of a comparison function.\<close>

fun insert_by :: "('a \<Rightarrow> 'a \<Rightarrow> int) \<Rightarrow> 'a \<Rightarrow> 'a list \<Rightarrow> 'a list" where
  "insert_by cmp x [] = [x]"
| "insert_by cmp x (y # ys) = (if cmp x y \<le> 0 then x # y # ys else y # insert_by cmp x ys)"

definition qsort_by :: "('a \<Rightarrow> 'a \<Rightarrow> int) \<Rightarrow> 'a list \<Rightarrow> 'a list" where
  "qsort_by cmp xs = foldr (insert_by cmp) xs []"

text \<open>The compaction loop, in place: the array and the number of elements kept.\<close>

function dedup_loop :: "uint32_t list \<Rightarrow> nat \<Rightarrow> nat \<Rightarrow> nat \<Rightarrow> uint32_t list \<times> nat" where
  "dedup_loop arr count write_index read_index =
     (if read_index < count then
        (if arr ! read_index \<noteq> arr ! write_index
         then dedup_loop (arr[Suc write_index := arr ! read_index]) count (Suc write_index) (Suc read_index)
         else dedup_loop arr count write_index (Suc read_index))
      else (arr, write_index + 1))"
  by pat_completeness auto
termination
  by (relation "measure (\<lambda>(arr, count, w, r). count - r)") auto

declare dedup_loop.simps [simp del]

definition deduplicate_array_of_uint32 :: "uint32_t list \<Rightarrow> uint32_t list \<times> nat" where
  "deduplicate_array_of_uint32 arr = dedup_loop (qsort_by compare_uint32_t arr) (length arr) 0 1"

text \<open>A jump of the sub-program \<open>[start_index, end_index)\<close> that leaves it.\<close>

definition jump_escapes :: "ebpf_inst list \<Rightarrow> nat \<Rightarrow> nat \<Rightarrow> nat \<Rightarrow> bool" where
  "jump_escapes is start_index end_index j =
     (let inst = is ! j; jump_target = int j + 1 + jump_offset inst in
      (opcode inst AND EBPF_CLS_MASK = EBPF_CLS_JMP \<or> opcode inst AND EBPF_CLS_MASK = EBPF_CLS_JMP32) \<and>
      opcode inst \<noteq> EBPF_OP_CALL \<and> opcode inst \<noteq> EBPF_OP_EXIT \<and>
      (jump_target < int start_index \<or> jump_target > int end_index - 1))"

definition check_sub_program :: "ebpf_inst list \<Rightarrow> nat \<Rightarrow> nat \<Rightarrow> load_error option" where
  "check_sub_program is start_index end_index =
     (case find (jump_escapes is start_index end_index) [start_index..<end_index] of
        Some j \<Rightarrow> Some (Jump_out_of_sub_program j)
      | None \<Rightarrow>
          let ends_with_exit = (opcode (is ! (end_index - 1)) = EBPF_OP_EXIT);
              ends_with_jump =
                (end_index \<ge> start_index + 2 \<and>
                 (opcode (is ! (end_index - 2)) = EBPF_OP_JA \<or> opcode (is ! (end_index - 2)) = EBPF_OP_JA32)) in
          if \<not> (ends_with_exit \<or> ends_with_jump) then Some (Sub_program_without_exit (end_index - 1))
          else None)"

fun check_sub_programs :: "ebpf_inst list \<Rightarrow> nat list \<Rightarrow> load_error option" where
  "check_sub_programs is [] = None"
| "check_sub_programs is [start_index] = check_sub_program is start_index (length is)"
| "check_sub_programs is (start_index # end_index # rest) =
     (case check_sub_program is start_index end_index of
        Some e \<Rightarrow> Some e
      | None \<Rightarrow> check_sub_programs is (end_index # rest))"

text \<open>
  \<open>calloc_ok\<close> is the outcome of allocating the array of start indices, which is zeroed and one
  longer than the number of calls: its last element is the start of the main program.
\<close>

definition sub_program_starts :: "ebpf_inst list \<Rightarrow> nat list" where
  "sub_program_starts is =
     (let (arr, count) = deduplicate_array_of_uint32 (local_call_targets is @ [0]) in map unat (take count arr))"

definition check_for_self_contained_sub_programs :: "ebpf_inst list \<Rightarrow> bool \<Rightarrow> load_error option" where
  "check_for_self_contained_sub_programs is calloc_ok =
     (let local_call_count = length (filter is_local_call is) in
      if local_call_count = 0 then None
      else if \<not> calloc_ok then Some No_memory_for_sub_programs
      else check_sub_programs is (sub_program_starts is))"

definition validate :: "ubpf_vm \<Rightarrow> ebpf_inst list \<Rightarrow> bool \<Rightarrow> (load_error + unit) \<times> ubpf_vm" where
  "validate vm is calloc_ok =
     (if length is \<ge> UBPF_MAX_INSTS then (Inl Too_many_instructions, vm)
      else
        case ubpf_calculate_stack_usage_for_local_func vm 0 of
          (Inl e, vm) \<Rightarrow> (Inl e, vm)
        | (Inr _, vm) \<Rightarrow>
            (case validate_loop vm is 0 of
               (Inl e, vm) \<Rightarrow> (Inl e, vm)
             | (Inr _, vm) \<Rightarrow> (check_result (check_for_self_contained_sub_programs is calloc_ok) (), vm)))"

section \<open>Loading\<close>

fun decode_insts :: "uint8_t list \<Rightarrow> ebpf_inst list" where
  "decode_insts (b0 # b1 # b2 # b3 # b4 # b5 # b6 # b7 # bs) =
     inst_of_bytes [b0, b1, b2, b3, b4, b5, b6, b7] # decode_insts bs"
| "decode_insts _ = []"

text \<open>\<^verbatim>\<open>vm->int_funcs[target] = true\<close>; an index outside the array is \<^const>\<open>None\<close>.\<close>

definition mark_int_func :: "ubpf_vm \<Rightarrow> nat \<Rightarrow> ebpf_inst \<Rightarrow> ubpf_vm option" where
  "mark_int_func vm i inst =
     (if is_local_call inst then
        let target = (of_nat i :: uint32_t) + imm inst + 1 in
        (case int_funcs vm of
           None \<Rightarrow> None
         | Some fs \<Rightarrow>
             if unat target < length fs then Some (vm\<lparr>int_funcs := Some (fs[unat target := True])\<rparr>) else None)
      else Some vm)"

fun load_insts :: "ubpf_vm \<Rightarrow> nat \<Rightarrow> ebpf_inst list \<Rightarrow> ubpf_vm option" where
  "load_insts vm i [] = Some vm"
| "load_insts vm i (inst # is) =
     (case mark_int_func vm i inst of
        None \<Rightarrow> None
      | Some vm \<Rightarrow>
          (case ubpf_store_instruction vm (of_nat i) inst of
             None \<Rightarrow> None
           | Some vm \<Rightarrow> load_insts vm (Suc i) is))"

text \<open>
  What the C library answers during a load: the allocation of the array of start indices, the
  page size, the address of the bytecode (if \<^verbatim>\<open>mmap\<close> or \<^verbatim>\<open>malloc\<close> succeeds), the
  allocation of the function marks, and \<^verbatim>\<open>mprotect\<close>.
\<close>

record load_env =
  env_starts_ok :: bool
  env_page_size :: uint64_t
  env_insts_addr :: "uint64_t option"
  env_int_funcs_ok :: bool
  env_mprotect_ok :: bool

definition load_allocate :: "load_env \<Rightarrow> ubpf_vm \<Rightarrow> uint64_t \<Rightarrow> ubpf_vm" where
  "load_allocate env vm code_len =
     (if readonly_bytecode_enabled vm then
        let sz = (code_len + env_page_size env - 1) AND NOT (env_page_size env - 1) in
        vm\<lparr>insts_alloc_size := sz,
           insts := map_option (\<lambda>a. (a, replicate (unat code_len div 8) (inst_of_value 0))) (env_insts_addr env)\<rparr>
      else
        case env_insts_addr env of
          None \<Rightarrow> vm
        | Some a \<Rightarrow> vm\<lparr>insts_alloc_size := code_len,
            insts := Some (a, replicate (unat code_len div 8) (inst_of_value 0))\<rparr>)"

definition load_discard :: "ubpf_vm \<Rightarrow> ubpf_vm" where
  "load_discard vm = vm\<lparr>insts := None, insts_alloc_size := 0, num_insts := 0, int_funcs := None\<rparr>"

text \<open>The part of \<^verbatim>\<open>ubpf_load\<close> that follows validation: allocate, mark, store, protect.\<close>

definition load_bytecode ::
  "load_env \<Rightarrow> ubpf_vm \<Rightarrow> nat \<Rightarrow> ebpf_inst list \<Rightarrow> (load_error + unit) \<times> ubpf_vm" where
  "load_bytecode env vm code_len source_inst =
     (let vm = load_allocate env vm (of_nat code_len) in
      if insts vm = None then (Inl Load_out_of_memory, vm)
      else
        let vm = vm\<lparr>num_insts := of_nat (code_len div 8)\<rparr> in
        if \<not> env_int_funcs_ok env then (Inl Load_out_of_memory, load_discard vm)
        else
          let vm = vm\<lparr>int_funcs := Some (replicate (unat (num_insts vm)) False)\<rparr> in
          case load_insts vm 0 source_inst of
            None \<Rightarrow> (Inl Load_crash, vm)
          | Some vm \<Rightarrow>
              if readonly_bytecode_enabled vm \<and> \<not> env_mprotect_ok env
              then (Inl Readonly_failed, load_discard vm)
              else (Inr (), vm))"

definition ubpf_load :: "load_env \<Rightarrow> ubpf_vm \<Rightarrow> uint8_t list \<Rightarrow> (load_error + unit) \<times> ubpf_vm" where
  "ubpf_load env vm code =
     (let source_inst = decode_insts code in
      if UBPF_EBPF_STACK_SIZE mod 8 \<noteq> 0 then (Inl Stack_size_not_multiple_of_8, vm)
      else if insts vm \<noteq> None then (Inl Code_already_loaded, vm)
      else if length code mod 8 \<noteq> 0 then (Inl Code_len_not_multiple_of_8, vm)
      else
        case validate vm source_inst (env_starts_ok env) of
          (Inl e, vm) \<Rightarrow> (Inl e, vm)
        | (Inr _, vm) \<Rightarrow> load_bytecode env vm (length code) source_inst)"

section \<open>Sorting and compaction\<close>

lemma insert_by_insort: "insert_by compare_uint32_t x ys = insort x ys"
  by (induction ys) (auto simp: compare_uint32_t_def)

lemma qsort_by_sort: "qsort_by compare_uint32_t xs = sort xs"
  by (induction xs) (simp_all add: qsort_by_def insert_by_insort)

lemma dedup_loop_remdups_adj:
  assumes "dedup_loop arr count w r = (arr', k)" and "w < r" and "r \<le> count" and "count = length arr"
  shows "take k arr' = take w arr @ remdups_adj (arr ! w # drop r arr)"
  using assms
proof (induction arr count w r rule: dedup_loop.induct)
  case (1 arr count w r)
  show ?case
  proof (cases "r < count")
    case True
    then have d: "drop r arr = arr ! r # drop (Suc r) arr" using 1(6) by (simp add: Cons_nth_drop_Suc)
    show ?thesis
    proof (cases "arr ! r \<noteq> arr ! w")
      case neq: True
      then have "take k arr' = take (Suc w) (arr[Suc w := arr ! r]) @
          remdups_adj (arr[Suc w := arr ! r] ! Suc w # drop (Suc r) (arr[Suc w := arr ! r]))"
        using 1(1) [OF True neq] 1(3-6) True by (simp add: dedup_loop.simps [of arr])
      with True 1(4,6) neq d show ?thesis by (simp add: take_Suc_conv_app_nth)
    next
      case False
      then have "take k arr' = take w arr @ remdups_adj (arr ! w # drop (Suc r) arr)"
        using 1(2) [OF True] 1(3-6) True by (simp add: dedup_loop.simps [of arr])
      with False d show ?thesis by simp
    qed
  next
    case False
    with 1(3-6) show ?thesis by (auto simp: dedup_loop.simps [of arr] take_Suc_conv_app_nth)
  qed
qed

lemma deduplicate_remdups_adj:
  assumes "deduplicate_array_of_uint32 arr = (arr', k)" and "arr \<noteq> []"
  shows "take k arr' = remdups_adj (sort arr)"
proof -
  have "sort arr \<noteq> []" using assms(2) by (metis length_0_conv length_sort)
  then have s: "sort arr ! 0 # drop 1 (sort arr) = sort arr" by (cases "sort arr") simp_all
  have "dedup_loop (sort arr) (length arr) 0 1 = (arr', k)"
    using assms(1) by (simp only: deduplicate_array_of_uint32_def qsort_by_sort)
  moreover have "1 \<le> length arr" using assms(2) by (cases arr) simp_all
  ultimately have "take k arr' = take 0 (sort arr) @ remdups_adj (sort arr ! 0 # drop 1 (sort arr))"
    by (rule dedup_loop_remdups_adj [OF _ zero_less_one]) simp
  then show ?thesis by (simp only: s take_0 append_Nil)
qed

lemma sorted_remdups_adj_strict: "sorted (xs :: 'a::linorder list) \<Longrightarrow> sorted_wrt (<) (remdups_adj xs)"
proof (induction xs rule: remdups_adj.induct)
  case (3 x y xs)
  then show ?case by (auto simp: order.strict_iff_order)
qed simp_all

section \<open>What a successful validation says\<close>

text \<open>Validation changes a machine only by recording stack usages, and never a recorded one.\<close>

definition extends_usage :: "ubpf_vm \<Rightarrow> ubpf_vm \<Rightarrow> bool" where
  "extends_usage vm vm' \<longleftrightarrow>
     (\<exists>u. vm' = vm\<lparr>local_func_stack_usage := u\<rparr>) \<and>
     (\<forall>pc n. ubpf_stack_usage_for_local_func vm pc = Some n \<longrightarrow> ubpf_stack_usage_for_local_func vm' pc = Some n)"

lemma extends_usage_refl [simp]: "extends_usage vm vm"
  by (auto simp: extends_usage_def intro: exI [of _ "local_func_stack_usage vm"])

lemma extends_usage_trans: "extends_usage vm vm' \<Longrightarrow> extends_usage vm' vm'' \<Longrightarrow> extends_usage vm vm''"
  by (fastforce simp: extends_usage_def)

lemma extends_usage_fields:
  assumes "extends_usage vm vm'"
  shows "insts vm' = insts vm" "num_insts vm' = num_insts vm" "dispatcher vm' = dispatcher vm"
    "dispatcher_validate vm' = dispatcher_validate vm" "ext_funcs vm' = ext_funcs vm"
    "readonly_bytecode_enabled vm' = readonly_bytecode_enabled vm"
    "stack_usage_calculator vm' = stack_usage_calculator vm" "int_funcs vm' = int_funcs vm"
  using assms by (auto simp: extends_usage_def)

definition usage_aligned :: "ubpf_vm \<Rightarrow> uint16_t \<Rightarrow> bool" where
  "usage_aligned vm pc \<longleftrightarrow> (\<exists>n. ubpf_stack_usage_for_local_func vm pc = Some n \<and> n mod 16 = 0)"

lemma usage_aligned_extends: "extends_usage vm vm' \<Longrightarrow> usage_aligned vm pc \<Longrightarrow> usage_aligned vm' pc"
  by (auto simp: extends_usage_def usage_aligned_def del: mod_0_imp_dvd)

lemma record_update_same: "vm = vm\<lparr>local_func_stack_usage := local_func_stack_usage (vm :: ubpf_vm)\<rparr>"
  by simp

lemma calculate_stack_usage:
  assumes "ubpf_calculate_stack_usage_for_local_func vm pc = (r, vm')"
  shows "extends_usage vm vm'" and "r = Inr () \<Longrightarrow> usage_aligned vm' pc"
    and "local_func_stack_usage vm \<noteq> None \<Longrightarrow> r \<noteq> Inl Load_crash \<and> local_func_stack_usage vm' \<noteq> None"
  using assms
  by (auto simp: ubpf_calculate_stack_usage_for_local_func_def ubpf_stack_usage_for_local_func_def
      extends_usage_def usage_aligned_def Let_def del: mod_0_imp_dvd intro: record_update_same
      split: option.splits if_splits ubpf_stack_usage_calculation_status_t.splits)

lemma validate_external_call_ok:
  "validate_external_call vm inst i = None \<Longrightarrow>
    dispatcher vm \<noteq> None \<or> unat (imm inst) < MAX_EXT_FUNCS \<and> ext_funcs vm (unat (imm inst)) \<noteq> None"
  by (auto simp: validate_external_call_def split: if_splits)

text \<open>The target of a local call, in the 16-bit program counter.\<close>

definition local_target :: "nat \<Rightarrow> ebpf_inst \<Rightarrow> uint16_t" where
  "local_target i inst = word_of_int (int i + (sint (imm inst) + 1))"

definition local_call_in_range :: "ebpf_inst list \<Rightarrow> nat \<Rightarrow> bool" where
  "local_call_in_range is i \<longleftrightarrow>
     0 \<le> int i + sint (imm (is ! i)) + 1 \<and> int i + sint (imm (is ! i)) + 1 < int (length is)"

lemma validate_call_ok:
  assumes "validate_call vm is i = (e, vm')"
  shows "extends_usage vm vm'"
    and "e = None \<Longrightarrow> src (is ! i) = 0 \<Longrightarrow>
      dispatcher vm \<noteq> None \<or> unat (imm (is ! i)) < MAX_EXT_FUNCS \<and> ext_funcs vm (unat (imm (is ! i))) \<noteq> None"
    and "e = None \<Longrightarrow> src (is ! i) = 1 \<Longrightarrow>
      local_call_in_range is i \<and> usage_aligned vm' (local_target i (is ! i))"
    and "local_func_stack_usage vm \<noteq> None \<Longrightarrow> e \<noteq> Some Load_crash \<and> local_func_stack_usage vm' \<noteq> None"
proof -
  let ?calc = "ubpf_calculate_stack_usage_for_local_func vm (local_target i (is ! i))"
  obtain r vm1 where calc: "?calc = (r, vm1)" by (cases ?calc)
  note c = calculate_stack_usage [OF calc]
  note d = assms [unfolded validate_call_def Let_def local_target_def [symmetric]]
  show "extends_usage vm vm'"
    using d calc c(1) by (auto split: if_splits sum.splits)
  show "local_call_in_range is i \<and> usage_aligned vm' (local_target i (is ! i))"
    if "e = None" "src (is ! i) = 1"
    using d calc c(2) that by (auto simp: local_call_in_range_def split: if_splits sum.splits)
  show "dispatcher vm \<noteq> None \<or> unat (imm (is ! i)) < MAX_EXT_FUNCS \<and> ext_funcs vm (unat (imm (is ! i))) \<noteq> None"
    if "e = None" "src (is ! i) = 0"
    using d validate_external_call_ok that by auto
  show "e \<noteq> Some Load_crash \<and> local_func_stack_usage vm' \<noteq> None" if "local_func_stack_usage vm \<noteq> None"
    using d calc c(3) that by (auto simp: validate_external_call_def split: if_splits sum.splits)
qed

lemmas opcode_lists = unchecked_alu32_opcodes_def unchecked_alu64_opcodes_def load_opcodes_def
  store_opcodes_def jump_opcodes_def

lemma validate_switch_lddw:
  "opcode (is ! i) = EBPF_OP_LDDW \<Longrightarrow> validate_switch vm is i = (check_result (validate_lddw is i) (False, True), vm)"
  by (simp add: validate_switch_def opcode_lists opcode_vals)

lemma validate_switch_call:
  "opcode (is ! i) = EBPF_OP_CALL \<Longrightarrow>
    validate_switch vm is i = (case validate_call vm is i of (e, vm) \<Rightarrow> (check_result e (False, False), vm))"
  by (simp add: validate_switch_def opcode_lists opcode_vals)

text \<open>The opcodes of the jump classes are in no other list.\<close>

definition is_jump_class :: "uint8_t \<Rightarrow> bool" where
  "is_jump_class op \<longleftrightarrow> op AND EBPF_CLS_MASK = EBPF_CLS_JMP \<or> op AND EBPF_CLS_MASK = EBPF_CLS_JMP32"

lemma opcode_list_classes:
  "list_all is_jump_class jump_opcodes"
  "list_all (\<lambda>op. \<not> is_jump_class op) unchecked_alu32_opcodes"
  "list_all (\<lambda>op. \<not> is_jump_class op) unchecked_alu64_opcodes"
  "list_all (\<lambda>op. \<not> is_jump_class op) load_opcodes"
  "list_all (\<lambda>op. \<not> is_jump_class op) store_opcodes"
  "list_all (\<lambda>op. \<not> is_jump_class op) [EBPF_OP_NEG, EBPF_OP_LE, EBPF_OP_BE, EBPF_OP_BSWAP,
     EBPF_OP_MOV64_IMM, EBPF_OP_MOV64_REG, EBPF_OP_NEG64, EBPF_OP_LDDW]"
  by (simp_all add: opcode_lists is_jump_class_def opcode_vals)

lemma validate_switch_jump:
  assumes "opcode (is ! i) \<in> set jump_opcodes"
  shows "validate_switch vm is i = (check_result (validate_jump is i) (False, False), vm)"
proof -
  have "is_jump_class (opcode (is ! i))"
    using assms opcode_list_classes(1) by (simp add: list_all_iff)
  then have "opcode (is ! i) \<notin> set unchecked_alu32_opcodes" "opcode (is ! i) \<notin> set unchecked_alu64_opcodes"
    "opcode (is ! i) \<notin> set load_opcodes" "opcode (is ! i) \<notin> set store_opcodes"
    "opcode (is ! i) \<notin> set [EBPF_OP_NEG, EBPF_OP_LE, EBPF_OP_BE, EBPF_OP_BSWAP,
       EBPF_OP_MOV64_IMM, EBPF_OP_MOV64_REG, EBPF_OP_NEG64, EBPF_OP_LDDW]"
    using opcode_list_classes(2-6) unfolding list_all_iff by blast+
  with assms show ?thesis by (simp add: validate_switch_def)
qed

lemma check_result_Inr [simp]: "check_result e x = Inr y \<longleftrightarrow> e = None \<and> x = y"
  by (auto simp: check_result_def split: option.splits)

lemma check_result_Inl [simp]: "check_result e x = Inl y \<longleftrightarrow> e = Some y"
  by (auto simp: check_result_def split: option.splits)

lemma validate_switch_extends:
  assumes "validate_switch vm is i = (r, vm')"
  shows "extends_usage vm vm'"
    and "local_func_stack_usage vm \<noteq> None \<Longrightarrow> r \<noteq> Inl Load_crash \<and> local_func_stack_usage vm' \<noteq> None"
proof -
  obtain e vm1 where c: "validate_call vm is i = (e, vm1)" by (cases "validate_call vm is i")
  note ok = validate_call_ok [OF c]
  show "extends_usage vm vm'"
    using assms c ok(1) by (auto simp: validate_switch_def Let_def split: if_splits)
  show "r \<noteq> Inl Load_crash \<and> local_func_stack_usage vm' \<noteq> None" if "local_func_stack_usage vm \<noteq> None"
    using assms c ok(4) that
    by (auto simp: validate_switch_def validate_lddw_def validate_jump_def validate_atomic_def Let_def
        split: if_splits)
qed

lemma validate_switch_skip:
  "validate_switch vm is i = (Inr (store, True), vm') \<Longrightarrow> opcode (is ! i) = EBPF_OP_LDDW"
  by (auto simp: validate_switch_def Let_def split: if_splits prod.splits)

text \<open>What holds of each instruction that the validator has visited.\<close>

definition visited_ok :: "ubpf_vm \<Rightarrow> ubpf_vm \<Rightarrow> ebpf_inst list \<Rightarrow> nat \<Rightarrow> bool" where
  "visited_ok vm vm' is i \<longleftrightarrow>
     (opcode (is ! i) = EBPF_OP_LDDW \<longrightarrow> i + 1 < length is \<and> opcode (is ! (i + 1)) = 0) \<and>
     (opcode (is ! i) \<in> set jump_opcodes \<longrightarrow> validate_jump is i = None) \<and>
     (opcode (is ! i) = EBPF_OP_CALL \<and> src (is ! i) = 0 \<longrightarrow>
        dispatcher vm \<noteq> None \<or> unat (imm (is ! i)) < MAX_EXT_FUNCS \<and> ext_funcs vm (unat (imm (is ! i))) \<noteq> None) \<and>
     (is_local_call (is ! i) \<longrightarrow> local_call_in_range is i \<and> usage_aligned vm' (local_target i (is ! i))) \<and>
     src (is ! i) \<le> 10 \<and>
     (dst (is ! i) \<le> 9 \<or> dst (is ! i) = 10 \<and>
        opcode (is ! i) AND EBPF_CLS_MASK \<in> {EBPF_CLS_ST, EBPF_CLS_STX, EBPF_CLS_ALU64}) \<and>
     ubpf_is_valid_instruction (is ! i) = Inr ()"

lemma validate_fields_ok:
  assumes "validate_fields inst store i = None"
  shows "ubpf_is_valid_instruction inst = Inr ()" and "src inst \<le> 10"
    and "dst inst \<le> 9 \<or> dst inst = 10 \<and> store"
  using assms by (auto simp: validate_fields_def not_less split: if_splits sum.splits)

lemma validate_switch_store:
  assumes "validate_switch vm is i = (Inr (True, skip), vm')"
  shows "opcode (is ! i) AND EBPF_CLS_MASK \<in> {EBPF_CLS_ST, EBPF_CLS_STX, EBPF_CLS_ALU64}"
proof -
  have "opcode (is ! i) \<in> set (store_opcodes @ [EBPF_OP_MOV64_IMM, EBPF_OP_MOV64_REG, EBPF_OP_ATOMIC_STORE,
      EBPF_OP_ATOMIC32_STORE])"
    using assms by (auto simp: validate_switch_def Let_def split: if_splits prod.splits)
  moreover have "list_all (\<lambda>op. op AND EBPF_CLS_MASK \<in> {EBPF_CLS_ST, EBPF_CLS_STX, EBPF_CLS_ALU64})
      (store_opcodes @ [EBPF_OP_MOV64_IMM, EBPF_OP_MOV64_REG, EBPF_OP_ATOMIC_STORE, EBPF_OP_ATOMIC32_STORE])"
    by (simp add: store_opcodes_def opcode_vals)
  ultimately show ?thesis unfolding list_all_iff by blast
qed

lemma validate_inst_ok:
  assumes "validate_inst vm is i = (Inr skip, vm')"
  shows "visited_ok vm vm' is i" and "skip \<longleftrightarrow> opcode (is ! i) = EBPF_OP_LDDW" and "extends_usage vm vm'"
proof -
  from assms obtain store where sw: "validate_switch vm is i = (Inr (store, skip), vm')"
    and f: "validate_fields (is ! i) store (if skip then i + 1 else i) = None"
    by (auto simp: validate_inst_def split: prod.splits sum.splits)
  show "extends_usage vm vm'" using validate_switch_extends [OF sw] by blast
  have l: "check_result (validate_lddw is i) (False, True) = Inr (store, skip)" if "opcode (is ! i) = EBPF_OP_LDDW"
    using sw validate_switch_lddw [OF that, of vm] by simp
  have j: "check_result (validate_jump is i) (False, False) = Inr (store, skip)"
    if "opcode (is ! i) \<in> set jump_opcodes"
    using sw validate_switch_jump [OF that, of vm] by simp
  show "skip \<longleftrightarrow> opcode (is ! i) = EBPF_OP_LDDW"
    using sw validate_switch_skip [of vm "is" i store vm'] l by (cases skip) auto
  obtain e vm1 where c: "validate_call vm is i = (e, vm1)" by (cases "validate_call vm is i")
  show "visited_ok vm vm' is i"
    unfolding visited_ok_def is_local_call_def
  proof (intro conjI impI)
    assume "opcode (is ! i) = EBPF_OP_CALL \<and> src (is ! i) = 0"
    with sw c validate_call_ok(2) [OF c] validate_switch_call [of "is" i vm]
    show "dispatcher vm \<noteq> None \<or>
        unat (imm (is ! i)) < MAX_EXT_FUNCS \<and> ext_funcs vm (unat (imm (is ! i))) \<noteq> None" by simp
  next
    assume "opcode (is ! i) = EBPF_OP_CALL \<and> src (is ! i) = 1"
    with sw c validate_call_ok(3) [OF c] validate_switch_call [of "is" i vm]
    show "local_call_in_range is i" "usage_aligned vm' (local_target i (is ! i))" by simp_all
  next
    show "dst (is ! i) \<le> 9 \<or> dst (is ! i) = 10 \<and>
        opcode (is ! i) AND EBPF_CLS_MASK \<in> {EBPF_CLS_ST, EBPF_CLS_STX, EBPF_CLS_ALU64}"
      using validate_fields_ok(3) [OF f] validate_switch_store [of vm "is" i skip vm'] sw by (cases store) auto
  qed (use l j validate_fields_ok(1,2) [OF f] in \<open>simp_all add: validate_lddw_def split: if_splits\<close>)
qed

lemma validate_inst_extends:
  assumes "validate_inst vm is i = (r, vm')"
  shows "extends_usage vm vm'"
    and "local_func_stack_usage vm \<noteq> None \<Longrightarrow> r \<noteq> Inl Load_crash \<and> local_func_stack_usage vm' \<noteq> None"
proof -
  obtain q vm1 where sw: "validate_switch vm is i = (q, vm1)" by (cases "validate_switch vm is i")
  from assms have "vm' = vm1" by (auto simp: validate_inst_def sw split: sum.splits prod.splits)
  moreover have "r = Inl Load_crash \<Longrightarrow> q = Inl Load_crash"
    using assms by (auto simp: validate_inst_def sw validate_fields_def split: sum.splits prod.splits if_splits)
  ultimately show "extends_usage vm vm'"
    and "local_func_stack_usage vm \<noteq> None \<Longrightarrow> r \<noteq> Inl Load_crash \<and> local_func_stack_usage vm' \<noteq> None"
    using validate_switch_extends [OF sw] by auto
qed

text \<open>Every slot is visited, or is the second half of a wide load.\<close>

lemma visited_ok_extends:
  assumes "visited_ok vm vm' is i" and "extends_usage vm0 vm" and "extends_usage vm' vm1"
  shows "visited_ok vm0 vm1 is i"
  using assms extends_usage_fields [OF assms(2)] usage_aligned_extends [OF assms(3)]
  by (simp add: visited_ok_def)

lemma validate_loop_ok:
  assumes "validate_loop vm is i = (Inr (), vm')"
  shows "extends_usage vm vm' \<and> (\<forall>j. i \<le> j \<and> j < length is \<longrightarrow> visited_ok vm vm' is j \<or> opcode (is ! j) = 0)"
  using assms
proof (induction vm "is" i arbitrary: vm' rule: validate_loop.induct)
  case (1 vm "is" i)
  show ?case
  proof (cases "i \<ge> length is")
    case True
    with 1(2) show ?thesis by (auto simp: validate_loop.simps)
  next
    case False
    with 1(2) obtain skip vm1 where v: "validate_inst vm is i = (Inr skip, vm1)"
      and l: "validate_loop vm1 is (if skip then i + 2 else i + 1) = (Inr (), vm')"
      by (subst (asm) validate_loop.simps) (auto split: prod.splits sum.splits)
    note ok = validate_inst_ok [OF v]
    have IH: "extends_usage vm1 vm'"
      "\<And>j. (if skip then i + 2 else i + 1) \<le> j \<Longrightarrow> j < length is \<Longrightarrow> visited_ok vm1 vm' is j \<or> opcode (is ! j) = 0"
      using 1(1) [OF False v [symmetric] refl l] by blast+
    have "visited_ok vm vm' is j \<or> opcode (is ! j) = 0" if ij: "i \<le> j" "j < length is" for j
    proof -
      have "j = i \<or> j = i + 1 \<and> skip \<or> (if skip then i + 2 else i + 1) \<le> j" using ij(1) by auto
      then consider "j = i" | "j = i + 1" "skip" | "(if skip then i + 2 else i + 1) \<le> j" by blast
      then show ?thesis
      proof cases
        case 1
        then show ?thesis using visited_ok_extends [OF ok(1) extends_usage_refl IH(1)] by simp
      next
        case 2
        with ok(1,2) show ?thesis by (simp add: visited_ok_def)
      next
        case 3
        with IH(2) ij(2) visited_ok_extends [OF _ ok(3) extends_usage_refl] show ?thesis by blast
      qed
    qed
    with extends_usage_trans [OF ok(3) IH(1)] show ?thesis by blast
  qed
qed

lemma validate_loop_no_crash:
  "local_func_stack_usage vm \<noteq> None \<Longrightarrow> fst (validate_loop vm is i) \<noteq> Inl Load_crash"
proof (induction vm "is" i rule: validate_loop.induct)
  case (1 vm "is" i)
  obtain r vm1 where v: "validate_inst vm is i = (r, vm1)" by (cases "validate_inst vm is i")
  note ext = validate_inst_extends(2) [OF v 1(2)]
  show ?case
  proof (cases "i < length is \<and> (\<exists>skip. r = Inr skip)")
    case True
    then obtain skip where "r = Inr skip" "\<not> length is \<le> i" by auto
    with 1(1) [OF _ v [symmetric]] ext v show ?thesis by (subst validate_loop.simps) simp
  next
    case False
    with ext v show ?thesis by (cases r) (auto simp: validate_loop.simps [of vm "is" i])
  qed
qed

lemma validate_ok:
  assumes "validate vm is calloc_ok = (Inr (), vm')"
  shows "length is < UBPF_MAX_INSTS" and "extends_usage vm vm'" and "usage_aligned vm' 0"
    and "\<And>j. j < length is \<Longrightarrow> visited_ok vm vm' is j \<or> opcode (is ! j) = 0"
    and "check_for_self_contained_sub_programs is calloc_ok = None"
proof -
  obtain r1 vm1 where c: "ubpf_calculate_stack_usage_for_local_func vm 0 = (r1, vm1)"
    by (cases "ubpf_calculate_stack_usage_for_local_func vm 0")
  obtain r2 vm2 where l: "validate_loop vm1 is 0 = (r2, vm2)" by (cases "validate_loop vm1 is 0")
  have eq: "r1 = Inr ()" "r2 = Inr ()" "vm2 = vm'" and max: "length is < UBPF_MAX_INSTS"
    and sub: "check_for_self_contained_sub_programs is calloc_ok = None"
    using assms c l by (auto simp: validate_def split: if_splits sum.splits)
  note calc = calculate_stack_usage [OF c] and loop = validate_loop_ok [OF l [unfolded eq]]
  show "length is < UBPF_MAX_INSTS" by (rule max)
  show "extends_usage vm vm'" using calc(1) loop extends_usage_trans by blast
  show "usage_aligned vm' 0" using calc(2) loop eq(1) usage_aligned_extends by blast
  show "visited_ok vm vm' is j \<or> opcode (is ! j) = 0" if "j < length is" for j
    using loop that visited_ok_extends [OF _ calc(1) extends_usage_refl] by blast
  show "check_for_self_contained_sub_programs is calloc_ok = None" by (rule sub)
qed

lemma check_sub_programs_no_crash: "check_sub_programs is starts \<noteq> Some Load_crash"
  by (induction "is" starts rule: check_sub_programs.induct)
    (auto simp: check_sub_program_def Let_def split: option.splits if_splits)

lemma validate_no_crash:
  assumes "local_func_stack_usage vm \<noteq> None"
  shows "fst (validate vm is calloc_ok) \<noteq> Inl Load_crash"
proof -
  obtain r1 vm1 where c: "ubpf_calculate_stack_usage_for_local_func vm 0 = (r1, vm1)"
    by (cases "ubpf_calculate_stack_usage_for_local_func vm 0")
  note calc = calculate_stack_usage(3) [OF c assms]
  obtain r2 vm2 where l: "validate_loop vm1 is 0 = (r2, vm2)" by (cases "validate_loop vm1 is 0")
  with validate_loop_no_crash [of vm1 "is" 0] calc have "r2 \<noteq> Inl Load_crash" by simp
  with calc c l check_sub_programs_no_crash show ?thesis
    by (auto simp: validate_def check_for_self_contained_sub_programs_def Let_def
        split: sum.splits)
qed

section \<open>Properties\<close>

text \<open>
  C37. The in-place compaction of the sub-program start indices is correct: the elements it
  keeps are strictly increasing and are exactly the elements of the input.
\<close>

theorem deduplicate_correct:
  assumes "arr \<noteq> []" and "deduplicate_array_of_uint32 arr = (arr', count)"
  shows "sorted_wrt (<) (take count arr') \<and> set (take count arr') = set arr"
  using deduplicate_remdups_adj [OF assms(2,1)] sorted_remdups_adj_strict [of "sort arr"] by simp

theorem deduplicate_correct_witness:
  "deduplicate_array_of_uint32 [7, 3, 7, 0] = ([0, 3, 7, 7], 3) \<and>
   sorted_wrt (<) (take 3 [0, 3, 7, 7 :: uint32_t]) \<and> set (take 3 [0, 3, 7, 7]) = set [7, 3, 7, 0 :: uint32_t]"
proof -
  have "deduplicate_array_of_uint32 [7, 3, 7, 0] = ([0, 3, 7, 7], 3)"
    by (simp add: deduplicate_array_of_uint32_def qsort_by_def compare_uint32_t_def dedup_loop.simps)
  with deduplicate_correct [of "[7, 3, 7, 0]" "[0, 3, 7, 7]" 3] show ?thesis by simp
qed

end
