(* ===== verification/Interp_Alu.thy ===== *)
theory Interp_Alu
  imports Ubpf_Vm
begin

text \<open>
  The arithmetic and the jump conditions of the interpreter \<^verbatim>\<open>ubpf_exec_ex\<close> in
  \<^verbatim>\<open>vm/ubpf_vm.c\<close>: the cases of its switch that write one register or test a condition, with
  the casts of the source. The second half states the instruction set's own view, where an
  opcode is a class, a source bit and an operation applied at the width of the class, and
  shows that the cases implement it.
\<close>

section \<open>Registers and casts\<close>

type_synonym registers = "uint4_t \<Rightarrow> uint64_t"

definition u32 :: "uint64_t \<Rightarrow> uint32_t" where "u32 x = ucast x"
definition i32 :: "uint64_t \<Rightarrow> int32_t" where "i32 x = ucast x"
definition i64 :: "int32_t \<Rightarrow> int64_t" where "i64 immediate = scast immediate"

definition SHIFT_MASK_32_BIT :: "'a::len word \<Rightarrow> nat" where "SHIFT_MASK_32_BIT x = unat (x AND 0x1f)"
definition SHIFT_MASK_64_BIT :: "'a::len word \<Rightarrow> nat" where "SHIFT_MASK_64_BIT x = unat (x AND 0x3f)"

section \<open>32-bit arithmetic\<close>

text \<open>
  Division and remainder: the offset field selects the unsigned (0) or the signed (1) form.
  The first argument is the destination register, the second the divisor cast to 32 bits.
\<close>

definition exec_div32 :: "int16_t \<Rightarrow> uint64_t \<Rightarrow> uint32_t \<Rightarrow> uint64_t" where
  "exec_div32 off d divisor32 =
     (if off = 0 then (if divisor32 \<noteq> 0 then ucast (u32 d div divisor32) else 0)
      else if off = 1 then
        (let dividend32 = i32 d in
         if divisor32 = 0 then 0
         else if dividend32 = INT32_MIN \<and> divisor32 = - 1 then ucast INT32_MIN
         else ucast (c_sdiv dividend32 divisor32))
      else d) AND UINT32_MAX"

definition exec_mod32 :: "int16_t \<Rightarrow> uint64_t \<Rightarrow> uint32_t \<Rightarrow> uint64_t" where
  "exec_mod32 off d divisor32 =
     (if off = 0 then (if divisor32 \<noteq> 0 then ucast (u32 d mod divisor32) else ucast (u32 d))
      else if off = 1 then
        (let dividend32 = i32 d in
         if divisor32 = 0 then d
         else if dividend32 = INT32_MIN \<and> divisor32 = - 1 then 0
         else ucast (c_smod dividend32 divisor32))
      else d) AND UINT32_MAX"

text \<open>
  The new value of the destination register, or \<^const>\<open>None\<close> if the opcode is not one of
  these cases.
\<close>

definition exec_alu32 :: "ebpf_inst \<Rightarrow> registers \<Rightarrow> uint64_t option" where
  "exec_alu32 inst reg =
     (let op = opcode inst; d = reg (dst inst); s = reg (src inst); i = (scast (imm inst) :: uint64_t) in
      if op = EBPF_OP_ADD_IMM then Some ((d + i) AND UINT32_MAX)
      else if op = EBPF_OP_ADD_REG then Some ((d + s) AND UINT32_MAX)
      else if op = EBPF_OP_SUB_IMM then Some ((d - i) AND UINT32_MAX)
      else if op = EBPF_OP_SUB_REG then Some ((d - s) AND UINT32_MAX)
      else if op = EBPF_OP_MUL_IMM then Some ((d * i) AND UINT32_MAX)
      else if op = EBPF_OP_MUL_REG then Some ((d * s) AND UINT32_MAX)
      else if op = EBPF_OP_DIV_IMM then Some (exec_div32 (offset inst) d (u32 i))
      else if op = EBPF_OP_DIV_REG then Some (exec_div32 (offset inst) d (u32 s))
      else if op = EBPF_OP_OR_IMM then Some ((d OR i) AND UINT32_MAX)
      else if op = EBPF_OP_OR_REG then Some ((d OR s) AND UINT32_MAX)
      else if op = EBPF_OP_AND_IMM then Some ((d AND i) AND UINT32_MAX)
      else if op = EBPF_OP_AND_REG then Some ((d AND s) AND UINT32_MAX)
      else if op = EBPF_OP_LSH_IMM then Some (ucast (push_bit (SHIFT_MASK_32_BIT (imm inst)) (u32 d)) AND UINT32_MAX)
      else if op = EBPF_OP_LSH_REG then Some (ucast (push_bit (SHIFT_MASK_32_BIT s) (u32 d)) AND UINT32_MAX)
      else if op = EBPF_OP_RSH_IMM then Some (ucast (drop_bit (SHIFT_MASK_32_BIT (imm inst)) (u32 d)) AND UINT32_MAX)
      else if op = EBPF_OP_RSH_REG then Some (ucast (drop_bit (SHIFT_MASK_32_BIT s) (u32 d)) AND UINT32_MAX)
      else if op = EBPF_OP_NEG then Some ((- d) AND UINT32_MAX)
      else if op = EBPF_OP_MOD_IMM then Some (exec_mod32 (offset inst) d (u32 i))
      else if op = EBPF_OP_MOD_REG then Some (exec_mod32 (offset inst) d (u32 s))
      else if op = EBPF_OP_XOR_IMM then Some ((d XOR i) AND UINT32_MAX)
      else if op = EBPF_OP_XOR_REG then Some ((d XOR s) AND UINT32_MAX)
      else if op = EBPF_OP_MOV_IMM then Some (i AND UINT32_MAX)
      else if op = EBPF_OP_MOV_REG then
        Some ((if offset inst = 8 then scast (scast (ucast s :: uint8_t) :: int32_t)
               else if offset inst = 16 then scast (scast (ucast s :: uint16_t) :: int32_t)
               else s) AND UINT32_MAX)
      else if op = EBPF_OP_ARSH_IMM then
        Some (scast (signed_drop_bit (SHIFT_MASK_32_BIT (imm inst)) (i32 d)) AND UINT32_MAX)
      else if op = EBPF_OP_ARSH_REG then
        Some (scast (signed_drop_bit (SHIFT_MASK_32_BIT s) (i32 d)) AND UINT32_MAX)
      else None)"

section \<open>Byte order\<close>

text \<open>
  \<^verbatim>\<open>__builtin_bswap16/32/64\<close>, by the expressions the source gives for compilers without them.
  On a little-endian host \<^verbatim>\<open>htobeN\<close> swaps the bytes of the truncated value and \<^verbatim>\<open>htoleN\<close>
  truncates.
\<close>

definition bswap16 :: "uint16_t \<Rightarrow> uint16_t" where
  "bswap16 x = drop_bit 8 (x AND 0xff00) OR push_bit 8 (x AND 0x00ff)"

definition bswap32 :: "uint32_t \<Rightarrow> uint32_t" where
  "bswap32 x = drop_bit 24 (x AND 0xff000000) OR drop_bit 8 (x AND 0x00ff0000) OR
     push_bit 8 (x AND 0x0000ff00) OR push_bit 24 (x AND 0x000000ff)"

definition bswap64 :: "uint64_t \<Rightarrow> uint64_t" where
  "bswap64 x = drop_bit 56 (x AND 0xff00000000000000) OR drop_bit 40 (x AND 0x00ff000000000000) OR
     drop_bit 24 (x AND 0x0000ff0000000000) OR drop_bit 8 (x AND 0x000000ff00000000) OR
     push_bit 8 (x AND 0x00000000ff000000) OR push_bit 24 (x AND 0x0000000000ff0000) OR
     push_bit 40 (x AND 0x000000000000ff00) OR push_bit 56 (x AND 0x00000000000000ff)"

definition exec_endian :: "ebpf_inst \<Rightarrow> registers \<Rightarrow> uint64_t option" where
  "exec_endian inst reg =
     (let op = opcode inst; d = reg (dst inst) in
      if op = EBPF_OP_LE then
        Some (if imm inst = 16 then ucast (ucast d :: uint16_t)
              else if imm inst = 32 then ucast (ucast d :: uint32_t)
              else if imm inst = 64 then d
              else d)
      else if op = EBPF_OP_BE \<or> op = EBPF_OP_BSWAP then
        Some (if imm inst = 16 then ucast (bswap16 (ucast d))
              else if imm inst = 32 then ucast (bswap32 (ucast d))
              else if imm inst = 64 then bswap64 d
              else d)
      else None)"

section \<open>64-bit arithmetic\<close>

definition exec_div64 :: "int16_t \<Rightarrow> uint64_t \<Rightarrow> uint64_t \<Rightarrow> uint64_t" where
  "exec_div64 off d divisor64 =
     (if off = 0 then (if divisor64 \<noteq> 0 then d div divisor64 else 0)
      else if off = 1 then
        (if divisor64 = 0 then 0
         else if d = INT64_MIN \<and> divisor64 = - 1 then INT64_MIN
         else c_sdiv d divisor64)
      else d)"

definition exec_mod64 :: "int16_t \<Rightarrow> uint64_t \<Rightarrow> uint64_t \<Rightarrow> uint64_t" where
  "exec_mod64 off d divisor64 =
     (if off = 0 then (if divisor64 \<noteq> 0 then d mod divisor64 else d)
      else if off = 1 then
        (if divisor64 = 0 then d
         else if d = INT64_MIN \<and> divisor64 = - 1 then 0
         else c_smod d divisor64)
      else d)"

definition exec_alu64 :: "ebpf_inst \<Rightarrow> registers \<Rightarrow> uint64_t option" where
  "exec_alu64 inst reg =
     (let op = opcode inst; d = reg (dst inst); s = reg (src inst); i = (scast (imm inst) :: uint64_t) in
      if op = EBPF_OP_ADD64_IMM then Some (d + i)
      else if op = EBPF_OP_ADD64_REG then Some (d + s)
      else if op = EBPF_OP_SUB64_IMM then Some (d - i)
      else if op = EBPF_OP_SUB64_REG then Some (d - s)
      else if op = EBPF_OP_MUL64_IMM then Some (d * i)
      else if op = EBPF_OP_MUL64_REG then Some (d * s)
      else if op = EBPF_OP_DIV64_IMM then Some (exec_div64 (offset inst) d i)
      else if op = EBPF_OP_DIV64_REG then Some (exec_div64 (offset inst) d s)
      else if op = EBPF_OP_OR64_IMM then Some (d OR i)
      else if op = EBPF_OP_OR64_REG then Some (d OR s)
      else if op = EBPF_OP_AND64_IMM then Some (d AND i)
      else if op = EBPF_OP_AND64_REG then Some (d AND s)
      else if op = EBPF_OP_LSH64_IMM then Some (push_bit (SHIFT_MASK_64_BIT (imm inst)) d)
      else if op = EBPF_OP_LSH64_REG then Some (push_bit (SHIFT_MASK_64_BIT s) d)
      else if op = EBPF_OP_RSH64_IMM then Some (drop_bit (SHIFT_MASK_64_BIT (imm inst)) d)
      else if op = EBPF_OP_RSH64_REG then Some (drop_bit (SHIFT_MASK_64_BIT s) d)
      else if op = EBPF_OP_NEG64 then Some (0 - d)
      else if op = EBPF_OP_MOD64_IMM then Some (exec_mod64 (offset inst) d i)
      else if op = EBPF_OP_MOD64_REG then Some (exec_mod64 (offset inst) d s)
      else if op = EBPF_OP_XOR64_IMM then Some (d XOR i)
      else if op = EBPF_OP_XOR64_REG then Some (d XOR s)
      else if op = EBPF_OP_MOV64_IMM then Some i
      else if op = EBPF_OP_MOV64_REG then
        Some (if offset inst = 8 then scast (ucast s :: uint8_t)
              else if offset inst = 16 then scast (ucast s :: uint16_t)
              else if offset inst = 32 then scast (ucast s :: uint32_t)
              else s)
      else if op = EBPF_OP_ARSH64_IMM then Some (signed_drop_bit (SHIFT_MASK_64_BIT (imm inst)) d)
      else if op = EBPF_OP_ARSH64_REG then Some (signed_drop_bit (SHIFT_MASK_64_BIT s) d)
      else None)"

section \<open>Jump conditions\<close>

text \<open>
  Whether a conditional jump is taken, in the three groups of the switch: unsigned comparisons,
  bit test and inequality, signed comparisons.
\<close>

definition exec_jump_unsigned :: "ebpf_inst \<Rightarrow> registers \<Rightarrow> bool option" where
  "exec_jump_unsigned inst reg =
     (let op = opcode inst; d = reg (dst inst); s = reg (src inst); i = i64 (imm inst) in
      if op = EBPF_OP_JEQ_IMM then Some (d = i)
      else if op = EBPF_OP_JEQ_REG then Some (d = s)
      else if op = EBPF_OP_JEQ32_IMM then Some (u32 d = u32 i)
      else if op = EBPF_OP_JEQ32_REG then Some (u32 d = u32 s)
      else if op = EBPF_OP_JGT_IMM then Some (d > i)
      else if op = EBPF_OP_JGT_REG then Some (d > s)
      else if op = EBPF_OP_JGT32_IMM then Some (u32 d > u32 i)
      else if op = EBPF_OP_JGT32_REG then Some (u32 d > u32 s)
      else if op = EBPF_OP_JGE_IMM then Some (d \<ge> i)
      else if op = EBPF_OP_JGE_REG then Some (d \<ge> s)
      else if op = EBPF_OP_JGE32_IMM then Some (u32 d \<ge> u32 i)
      else if op = EBPF_OP_JGE32_REG then Some (u32 d \<ge> u32 s)
      else if op = EBPF_OP_JLT_IMM then Some (d < i)
      else if op = EBPF_OP_JLT_REG then Some (d < s)
      else if op = EBPF_OP_JLT32_IMM then Some (u32 d < u32 i)
      else if op = EBPF_OP_JLT32_REG then Some (u32 d < u32 s)
      else if op = EBPF_OP_JLE_IMM then Some (d \<le> i)
      else if op = EBPF_OP_JLE_REG then Some (d \<le> s)
      else if op = EBPF_OP_JLE32_IMM then Some (u32 d \<le> u32 i)
      else if op = EBPF_OP_JLE32_REG then Some (u32 d \<le> u32 s)
      else None)"

definition exec_jump_test :: "ebpf_inst \<Rightarrow> registers \<Rightarrow> bool option" where
  "exec_jump_test inst reg =
     (let op = opcode inst; d = reg (dst inst); s = reg (src inst); i = i64 (imm inst) in
      if op = EBPF_OP_JSET_IMM then Some (d AND i \<noteq> 0)
      else if op = EBPF_OP_JSET_REG then Some (d AND s \<noteq> 0)
      else if op = EBPF_OP_JSET32_IMM then Some (u32 d AND u32 i \<noteq> 0)
      else if op = EBPF_OP_JSET32_REG then Some (u32 d AND u32 s \<noteq> 0)
      else if op = EBPF_OP_JNE_IMM then Some (d \<noteq> i)
      else if op = EBPF_OP_JNE_REG then Some (d \<noteq> s)
      else if op = EBPF_OP_JNE32_IMM then Some (u32 d \<noteq> u32 i)
      else if op = EBPF_OP_JNE32_REG then Some (u32 d \<noteq> u32 s)
      else None)"

definition exec_jump_signed :: "ebpf_inst \<Rightarrow> registers \<Rightarrow> bool option" where
  "exec_jump_signed inst reg =
     (let op = opcode inst; d = reg (dst inst); s = reg (src inst); i = i64 (imm inst) in
      if op = EBPF_OP_JSGT_IMM then Some (sint d > sint i)
      else if op = EBPF_OP_JSGT_REG then Some (sint d > sint s)
      else if op = EBPF_OP_JSGT32_IMM then Some (sint (i32 d) > sint (i32 i))
      else if op = EBPF_OP_JSGT32_REG then Some (sint (i32 d) > sint (i32 s))
      else if op = EBPF_OP_JSGE_IMM then Some (sint d \<ge> sint i)
      else if op = EBPF_OP_JSGE_REG then Some (sint d \<ge> sint s)
      else if op = EBPF_OP_JSGE32_IMM then Some (sint (i32 d) \<ge> sint (i32 i))
      else if op = EBPF_OP_JSGE32_REG then Some (sint (i32 d) \<ge> sint (i32 s))
      else if op = EBPF_OP_JSLT_IMM then Some (sint d < sint i)
      else if op = EBPF_OP_JSLT_REG then Some (sint d < sint s)
      else if op = EBPF_OP_JSLT32_IMM then Some (sint (i32 d) < sint (i32 i))
      else if op = EBPF_OP_JSLT32_REG then Some (sint (i32 d) < sint (i32 s))
      else if op = EBPF_OP_JSLE_IMM then Some (sint d \<le> sint i)
      else if op = EBPF_OP_JSLE_REG then Some (sint d \<le> sint s)
      else if op = EBPF_OP_JSLE32_IMM then Some (sint (i32 d) \<le> sint (i32 i))
      else if op = EBPF_OP_JSLE32_REG then Some (sint (i32 d) \<le> sint (i32 s))
      else None)"

definition exec_cond_jump :: "ebpf_inst \<Rightarrow> registers \<Rightarrow> bool option" where
  "exec_cond_jump inst reg =
     (case exec_jump_unsigned inst reg of
        Some b \<Rightarrow> Some b
      | None \<Rightarrow> (case exec_jump_test inst reg of Some b \<Rightarrow> Some b | None \<Rightarrow> exec_jump_signed inst reg))"

end
