(* ===== verification/Isa_Spec.thy ===== *)
theory Isa_Spec
  imports Interp_Alu
begin

text \<open>
  The arithmetic of the instruction set as its specification (RFC 9669) gives it: an opcode
  splits into a class, a source bit and an operation, and the operation acts on words of the
  width of the class. The operations are functions on words of any width, so that the 32-bit
  and the 64-bit instructions have one semantics. The theorems say that the cases of the
  interpreter's switch compute exactly this, and that every arithmetic instruction that the
  filter of \<^verbatim>\<open>ubpf_instruction_valid.c\<close> accepts has such a meaning.
\<close>

section \<open>Opcode fields\<close>

lemma opcode_split: "x = (x AND 0xf0) OR (x AND 0x08) OR (x AND (0x07 :: uint8_t))"
proof -
  have "(x AND 0xf0) OR (x AND 0x08) OR (x AND 0x07) = x AND (0xf0 OR 0x08 OR 0x07)"
    by (simp only: and.left_commute bit.conj_disj_distrib)
  also have "0xf0 OR 0x08 OR (0x07 :: uint8_t) = - 1" by simp
  finally show ?thesis by simp
qed

lemma and_push_bit_1: "x AND push_bit k 1 = (if bit x k then push_bit k 1 else 0 :: 'a::len word)"
  by (rule bit_word_eqI) (auto simp: bit_simps)

lemma and_8_cases: "x AND 0x08 = 0 \<or> x AND 0x08 = (0x08 :: uint8_t)"
  using and_push_bit_1 [of x 3] by (simp split: if_splits)

section \<open>Arithmetic\<close>

datatype alu_op =
  Alu_Add | Alu_Sub | Alu_Mul | Alu_Div | Alu_Or | Alu_And | Alu_Lsh | Alu_Rsh | Alu_Neg |
  Alu_Mod | Alu_Xor | Alu_Mov | Alu_Arsh

definition alu_op_of :: "uint8_t \<Rightarrow> alu_op option" where
  "alu_op_of c =
     map_of [(0x00, Alu_Add), (0x10, Alu_Sub), (0x20, Alu_Mul), (0x30, Alu_Div), (0x40, Alu_Or),
       (0x50, Alu_And), (0x60, Alu_Lsh), (0x70, Alu_Rsh), (0x80, Alu_Neg), (0x90, Alu_Mod),
       (0xa0, Alu_Xor), (0xb0, Alu_Mov), (0xc0, Alu_Arsh)] (c AND 0xf0)"

text \<open>Shifts use the low bits of their operand: five at 32 bits, six at 64.\<close>

definition shift_amount :: "'a::len word \<Rightarrow> nat" where
  "shift_amount s = unat s mod LENGTH('a)"

text \<open>
  The operations at any width. Division truncates towards zero in its signed form, a zero
  divisor gives 0 for a quotient and the dividend for a remainder, and the one quotient that
  does not fit wraps around. A move with offset 8, 16 or 32 extends the sign of that many low
  bits. An offset with no meaning is \<^const>\<open>None\<close>.
\<close>

fun alu_sem :: "alu_op \<Rightarrow> int16_t \<Rightarrow> 'a::len word \<Rightarrow> 'a word \<Rightarrow> 'a word option" where
  "alu_sem Alu_Div off d s =
     (if off = 0 then Some (if s = 0 then 0 else d div s)
      else if off = 1 then Some (if s = 0 then 0 else c_sdiv d s) else None)"
| "alu_sem Alu_Mod off d s =
     (if off = 0 then Some (if s = 0 then d else d mod s)
      else if off = 1 then Some (if s = 0 then d else c_smod d s) else None)"
| "alu_sem Alu_Mov off d s =
     (if off = 0 then Some s
      else if (off = 8 \<or> off = 16 \<or> off = 32) \<and> unat off < LENGTH('a)
      then Some (signed_take_bit (unat off - 1) s) else None)"
| "alu_sem op off d s =
     (if off \<noteq> 0 then None
      else Some (case op of
          Alu_Add \<Rightarrow> d + s | Alu_Sub \<Rightarrow> d - s | Alu_Mul \<Rightarrow> d * s | Alu_Or \<Rightarrow> d OR s
        | Alu_And \<Rightarrow> d AND s | Alu_Lsh \<Rightarrow> push_bit (shift_amount s) d
        | Alu_Rsh \<Rightarrow> drop_bit (shift_amount s) d | Alu_Neg \<Rightarrow> - d | Alu_Xor \<Rightarrow> d XOR s
        | Alu_Arsh \<Rightarrow> signed_drop_bit (shift_amount s) d))"

text \<open>
  An instruction of class ALU acts on the low halves of its operands and clears the high half
  of the destination; one of class ALU64 acts on whole registers, with its immediate sign
  extended. Sign-extending moves exist for register sources only.
\<close>

definition alu_spec :: "ebpf_inst \<Rightarrow> registers \<Rightarrow> uint64_t option" where
  "alu_spec inst reg =
     (let cls = opcode inst AND 0x07; use_reg = (opcode inst AND 0x08 = 0x08);
          d = reg (dst inst); s = reg (src inst) in
      case alu_op_of (opcode inst) of
        None \<Rightarrow> None
      | Some op \<Rightarrow>
          if op = Alu_Neg \<and> use_reg \<or> op = Alu_Mov \<and> \<not> use_reg \<and> offset inst \<noteq> 0 then None
          else if cls = EBPF_CLS_ALU then
            map_option ucast (alu_sem op (offset inst) (ucast d :: uint32_t)
              (if use_reg then ucast s else imm inst))
          else if cls = EBPF_CLS_ALU64 then
            alu_sem op (offset inst) d (if use_reg then s else scast (imm inst))
          else None)"

subsection \<open>Width lemmas\<close>

lemma unat_and_31: "unat (x AND 0x1f) = unat x mod 32"
proof -
  have "x AND 0x1f = take_bit 5 x" by (simp add: take_bit_eq_mask mask_numeral)
  then have "unat (x AND 0x1f) = take_bit 5 (unat x)" by (simp only: unsigned_take_bit_eq)
  then show ?thesis by (simp add: take_bit_eq_mod)
qed

lemma unat_and_63: "unat (x AND 0x3f) = unat x mod 64"
proof -
  have "x AND 0x3f = take_bit 6 x" by (simp add: take_bit_eq_mask mask_numeral)
  then have "unat (x AND 0x3f) = take_bit 6 (unat x)" by (simp only: unsigned_take_bit_eq)
  then show ?thesis by (simp add: take_bit_eq_mod)
qed

lemma shift_mask_32: "SHIFT_MASK_32_BIT (x :: uint32_t) = shift_amount x"
  by (simp add: SHIFT_MASK_32_BIT_def shift_amount_def unat_and_31)

lemma shift_mask_32_reg: "SHIFT_MASK_32_BIT (x :: uint64_t) = shift_amount (ucast x :: uint32_t)"
  by (simp add: SHIFT_MASK_32_BIT_def shift_amount_def unat_and_31 unsigned_ucast_eq
      unsigned_take_bit_eq take_bit_eq_mod mod_mod_cancel)

lemma shift_mask_64: "SHIFT_MASK_64_BIT (x :: uint64_t) = shift_amount x"
  by (simp add: SHIFT_MASK_64_BIT_def shift_amount_def unat_and_63)

lemma unat_scast_mod_64: "unat (scast (x :: uint32_t) :: uint64_t) mod 64 = unat x mod 64"
proof -
  have "take_bit 6 (scast x :: uint64_t) = ucast (take_bit 6 x)"
    by (rule bit_word_eqI) (auto simp: bit_simps)
  then have "unat (take_bit 6 (scast x :: uint64_t)) = unat (ucast (take_bit 6 x) :: uint64_t)"
    by (rule arg_cong)
  also have "\<dots> = unat (take_bit 6 x)"
    by (rule unat_ucast_up) simp
  finally have "take_bit 6 (unat (scast x :: uint64_t)) = take_bit 6 (unat x)"
    by (simp only: unsigned_take_bit_eq)
  then show ?thesis by (simp add: take_bit_eq_mod)
qed

lemma shift_mask_64_imm: "SHIFT_MASK_64_BIT (x :: uint32_t) = shift_amount (scast x :: uint64_t)"
  by (simp add: SHIFT_MASK_64_BIT_def shift_amount_def unat_and_63 unat_scast_mod_64)

lemma scast_ucast_sign_extend:
  "LENGTH('b) \<le> LENGTH('a) \<Longrightarrow>
    scast (ucast x :: 'b::len word) = signed_take_bit (LENGTH('b) - 1) (x :: 'a::len word)"
  by (rule bit_word_eqI) (auto simp: bit_simps min_def)

lemma scast_ucast_down_sign_extend:
  "LENGTH('b) \<le> LENGTH('c) \<Longrightarrow> LENGTH('c) \<le> LENGTH('a) \<Longrightarrow>
    scast (ucast (x :: 'a::len word) :: 'b::len word) =
    signed_take_bit (LENGTH('b) - 1) (ucast x :: 'c::len word)"
  by (rule bit_word_eqI) (auto simp: bit_simps min_def)

lemma c_sdiv_min: "c_sdiv INT32_MIN (- 1) = INT32_MIN" "c_sdiv INT64_MIN (- 1) = INT64_MIN"
  by (simp_all add: c_sdiv_def INT32_MIN_def INT64_MIN_def)

lemma c_smod_min: "c_smod INT32_MIN (- 1) = 0" "c_smod INT64_MIN (- 1) = 0"
  by (simp_all add: c_smod_def INT32_MIN_def INT64_MIN_def signed_modulo_int_def)

lemma int_min_not_minus_1: "INT32_MIN \<noteq> - 1" "INT64_MIN \<noteq> - 1"
  by (simp_all add: INT32_MIN_def INT64_MIN_def)

lemmas div_mod_defs =
  exec_div32_def exec_mod32_def exec_div64_def exec_mod64_def u32_def i32_def c_sdiv_min c_smod_min
  int_min_not_minus_1

subsection \<open>The interpreter implements the operations\<close>

primrec alu_code :: "alu_op \<Rightarrow> uint8_t" where
  "alu_code Alu_Add = 0x00" | "alu_code Alu_Sub = 0x10" | "alu_code Alu_Mul = 0x20"
| "alu_code Alu_Div = 0x30" | "alu_code Alu_Or = 0x40" | "alu_code Alu_And = 0x50"
| "alu_code Alu_Lsh = 0x60" | "alu_code Alu_Rsh = 0x70" | "alu_code Alu_Neg = 0x80"
| "alu_code Alu_Mod = 0x90" | "alu_code Alu_Xor = 0xa0" | "alu_code Alu_Mov = 0xb0"
| "alu_code Alu_Arsh = 0xc0"

lemma alu_op_of_code: "alu_op_of c = Some op \<Longrightarrow> c AND 0xf0 = alu_code op"
  by (auto simp: alu_op_of_def split: if_splits)

lemma alu_opcode_cases:
  assumes "alu_op_of c = Some op" and "c AND 0x07 = cls"
  obtains "c = alu_code op OR cls" and "c AND 0x08 = 0"
    | "c = alu_code op OR 0x08 OR cls" and "c AND 0x08 = 0x08"
  using opcode_split [of c] and_8_cases [of c] alu_op_of_code [OF assms(1)] assms(2) that
  by (metis or.right_neutral or.left_neutral)

lemma exec_alu32_implements:
  assumes "alu_spec inst reg = Some v" and "opcode inst AND 0x07 = EBPF_CLS_ALU"
  shows "exec_alu32 inst reg = Some v"
proof -
  from assms(1) obtain op where op: "alu_op_of (opcode inst) = Some op"
    by (auto simp: alu_spec_def Let_def split: option.splits)
  from op assms(2) show ?thesis
  proof (cases rule: alu_opcode_cases)
    case 1
    then show ?thesis using assms(1) op
      by (cases op)
        (auto simp: alu_spec_def exec_alu32_def opcode_vals div_mod_defs c_conv shift_mask_32 Let_def
          split: if_splits)
  next
    case 2
    then show ?thesis using assms(1) op
      by (cases op)
        (auto simp: alu_spec_def exec_alu32_def opcode_vals div_mod_defs c_conv shift_mask_32_reg
          scast_ucast_down_sign_extend Let_def split: if_splits)
  qed
qed

lemma exec_alu64_implements:
  assumes "alu_spec inst reg = Some v" and "opcode inst AND 0x07 = EBPF_CLS_ALU64"
  shows "exec_alu64 inst reg = Some v"
proof -
  from assms(1) obtain op where op: "alu_op_of (opcode inst) = Some op"
    by (auto simp: alu_spec_def Let_def split: option.splits)
  from op assms(2) show ?thesis
  proof (cases rule: alu_opcode_cases)
    case 1
    then show ?thesis using assms(1) op
      by (cases op)
        (auto simp: alu_spec_def exec_alu64_def opcode_vals div_mod_defs shift_mask_64_imm Let_def
          split: if_splits)
  next
    case 2
    then show ?thesis using assms(1) op
      by (cases op)
        (auto simp: alu_spec_def exec_alu64_def opcode_vals div_mod_defs shift_mask_64
          scast_ucast_sign_extend Let_def split: if_splits)
  qed
qed

section \<open>Conditional jumps\<close>

datatype jmp_op =
  Jmp_Eq | Jmp_Gt | Jmp_Ge | Jmp_Set | Jmp_Ne | Jmp_Sgt | Jmp_Sge | Jmp_Lt | Jmp_Le | Jmp_Slt | Jmp_Sle

definition jmp_op_of :: "uint8_t \<Rightarrow> jmp_op option" where
  "jmp_op_of c =
     map_of [(0x10, Jmp_Eq), (0x20, Jmp_Gt), (0x30, Jmp_Ge), (0x40, Jmp_Set), (0x50, Jmp_Ne),
       (0x60, Jmp_Sgt), (0x70, Jmp_Sge), (0xa0, Jmp_Lt), (0xb0, Jmp_Le), (0xc0, Jmp_Slt),
       (0xd0, Jmp_Sle)] (c AND 0xf0)"

primrec jmp_sem :: "jmp_op \<Rightarrow> 'a::len word \<Rightarrow> 'a word \<Rightarrow> bool" where
  "jmp_sem Jmp_Eq d s \<longleftrightarrow> d = s"
| "jmp_sem Jmp_Gt d s \<longleftrightarrow> uint d > uint s"
| "jmp_sem Jmp_Ge d s \<longleftrightarrow> uint d \<ge> uint s"
| "jmp_sem Jmp_Set d s \<longleftrightarrow> d AND s \<noteq> 0"
| "jmp_sem Jmp_Ne d s \<longleftrightarrow> d \<noteq> s"
| "jmp_sem Jmp_Sgt d s \<longleftrightarrow> sint d > sint s"
| "jmp_sem Jmp_Sge d s \<longleftrightarrow> sint d \<ge> sint s"
| "jmp_sem Jmp_Lt d s \<longleftrightarrow> uint d < uint s"
| "jmp_sem Jmp_Le d s \<longleftrightarrow> uint d \<le> uint s"
| "jmp_sem Jmp_Slt d s \<longleftrightarrow> sint d < sint s"
| "jmp_sem Jmp_Sle d s \<longleftrightarrow> sint d \<le> sint s"

text \<open>A jump of class JMP compares whole registers, one of class JMP32 their low halves.\<close>

definition jmp_spec :: "ebpf_inst \<Rightarrow> registers \<Rightarrow> bool option" where
  "jmp_spec inst reg =
     (let cls = opcode inst AND 0x07; use_reg = (opcode inst AND 0x08 = 0x08);
          d = reg (dst inst); s = reg (src inst) in
      case jmp_op_of (opcode inst) of
        None \<Rightarrow> None
      | Some op \<Rightarrow>
          if cls = EBPF_CLS_JMP then Some (jmp_sem op d (if use_reg then s else scast (imm inst)))
          else if cls = EBPF_CLS_JMP32 then
            Some (jmp_sem op (ucast d :: uint32_t) (if use_reg then ucast s else imm inst))
          else None)"

primrec jmp_code :: "jmp_op \<Rightarrow> uint8_t" where
  "jmp_code Jmp_Eq = 0x10" | "jmp_code Jmp_Gt = 0x20" | "jmp_code Jmp_Ge = 0x30"
| "jmp_code Jmp_Set = 0x40" | "jmp_code Jmp_Ne = 0x50" | "jmp_code Jmp_Sgt = 0x60"
| "jmp_code Jmp_Sge = 0x70" | "jmp_code Jmp_Lt = 0xa0" | "jmp_code Jmp_Le = 0xb0"
| "jmp_code Jmp_Slt = 0xc0" | "jmp_code Jmp_Sle = 0xd0"

lemma jmp_op_of_code: "jmp_op_of c = Some op \<Longrightarrow> c AND 0xf0 = jmp_code op"
  by (auto simp: jmp_op_of_def split: if_splits)

lemma jmp_opcode_cases:
  assumes "jmp_op_of c = Some op" and "c AND 0x07 = cls"
  obtains "c = jmp_code op OR cls" and "c AND 0x08 = 0"
    | "c = jmp_code op OR 0x08 OR cls" and "c AND 0x08 = 0x08"
  using opcode_split [of c] and_8_cases [of c] jmp_op_of_code [OF assms(1)] assms(2) that
  by (metis or.right_neutral or.left_neutral)

lemmas exec_cond_jump_defs =
  exec_cond_jump_def exec_jump_unsigned_def exec_jump_test_def exec_jump_signed_def
  u32_def i32_def i64_def

lemma exec_cond_jump_implements:
  assumes "jmp_spec inst reg = Some b"
  shows "exec_cond_jump inst reg = Some b"
proof -
  from assms obtain op where op: "jmp_op_of (opcode inst) = Some op"
    by (auto simp: jmp_spec_def Let_def split: option.splits)
  have cls: "opcode inst AND 0x07 = EBPF_CLS_JMP \<or> opcode inst AND 0x07 = EBPF_CLS_JMP32"
    using assms by (auto simp: jmp_spec_def Let_def split: option.splits if_splits)
  have b: "b = (if opcode inst AND 0x07 = EBPF_CLS_JMP
      then jmp_sem op (reg (dst inst))
        (if opcode inst AND 0x08 = 0x08 then reg (src inst) else scast (imm inst))
      else jmp_sem op (ucast (reg (dst inst)) :: uint32_t)
        (if opcode inst AND 0x08 = 0x08 then ucast (reg (src inst)) else imm inst))"
    using assms op by (auto simp: jmp_spec_def Let_def split: if_splits)
  from op refl [of "opcode inst AND 0x07"] show ?thesis
    by (cases rule: jmp_opcode_cases; use cls b in \<open>elim disjE; cases op;
      simp add: exec_cond_jump_defs opcode_vals c_conv word_less_def word_le_def Let_def\<close>)
qed

section \<open>Properties\<close>

text \<open>
  C2. Whenever the instruction set gives an arithmetic instruction a meaning, the interpreter's
  case for its opcode computes exactly that value: all operations of both widths, register and
  immediate operands, signed and unsigned division with the zero-divisor and
  most-negative-by-minus-one cases, sign-extending moves and masked shift counts.
\<close>

theorem exec_alu_refines_isa:
  assumes "alu_spec inst reg = Some v"
  shows "(if opcode inst AND 0x07 = EBPF_CLS_ALU then exec_alu32 inst reg
          else exec_alu64 inst reg) = Some v"
proof -
  have "opcode inst AND 0x07 = EBPF_CLS_ALU \<or> opcode inst AND 0x07 = EBPF_CLS_ALU64"
    using assms by (auto simp: alu_spec_def Let_def split: option.splits if_splits)
  then show ?thesis
    using exec_alu32_implements [OF assms] exec_alu64_implements [OF assms] by auto
qed

theorem exec_alu_refines_isa_witness:
  "exec_alu32 \<lparr>opcode = EBPF_OP_DIV_REG, dst = 1, src = 2, offset = 1, imm = 0\<rparr>
     ((\<lambda>_. 0)(1 := 0xfffffff9, 2 := 2)) = Some 0xfffffffd"
  using exec_alu_refines_isa [of "\<lparr>opcode = EBPF_OP_DIV_REG, dst = 1, src = 2, offset = 1, imm = 0\<rparr>"
      "(\<lambda>_. 0)(1 := 0xfffffff9, 2 := 2)" "0xfffffffd"]
  by (simp add: alu_spec_def alu_op_of_def opcode_vals c_sdiv_def)

text \<open>
  C3. The interpreter takes a conditional jump exactly when the instruction set's condition
  holds: each of the eleven comparisons, unsigned, signed or bit test, on whole registers or on
  their low halves, with a register or a sign-extended immediate operand.
\<close>

theorem exec_jump_refines_isa:
  "jmp_spec inst reg = Some b \<Longrightarrow> exec_cond_jump inst reg = Some b"
  by (rule exec_cond_jump_implements)

theorem exec_jump_refines_isa_witness:
  "exec_cond_jump \<lparr>opcode = EBPF_OP_JSLT32_IMM, dst = 1, src = 0, offset = 5, imm = 1\<rparr>
     ((\<lambda>_. 0)(1 := 0xffffffff)) = Some True"
  using exec_jump_refines_isa [of "\<lparr>opcode = EBPF_OP_JSLT32_IMM, dst = 1, src = 0, offset = 5, imm = 1\<rparr>"
      "(\<lambda>_. 0)(1 := 0xffffffff)" True]
  by (simp add: jmp_spec_def jmp_op_of_def opcode_vals)

end
