(* ===== verification/Interp_Mem.thy ===== *)
theory Interp_Mem
  imports Interp_Alu
begin

text \<open>
  Memory as the interpreters of \<^verbatim>\<open>vm/ubpf_vm.c\<close> and \<^verbatim>\<open>vm/ubpf_safe.c\<close> access it: loads and
  stores of 1, 2, 4 and 8 bytes, the run-time bounds check and the shadow stack of the
  undefined-behaviour check.
\<close>

section \<open>Memory access\<close>

definition IS_ALIGNED :: "uint64_t \<Rightarrow> nat \<Rightarrow> bool" where
  "IS_ALIGNED x a \<longleftrightarrow> x AND (of_nat a - 1) = 0"

definition load_le :: "memory \<Rightarrow> uint64_t \<Rightarrow> nat \<Rightarrow> uint64_t option" where
  "load_le m a n = map_option le_value (load_bytes m a n)"

definition store_le :: "memory \<Rightarrow> uint64_t \<Rightarrow> uint64_t \<Rightarrow> nat \<Rightarrow> memory option" where
  "store_le m a v n = store_bytes m a (le_bytes n v)"

definition ubpf_mem_load :: "memory \<Rightarrow> uint64_t \<Rightarrow> nat \<Rightarrow> uint64_t option" where
  "ubpf_mem_load m address n =
     (if \<not> IS_ALIGNED address n then load_le m address n
      else if n = 1 then map_option (\<lambda>v. ucast (ucast v :: uint8_t)) (load_le m address 1)
      else if n = 2 then map_option (\<lambda>v. ucast (ucast v :: uint16_t)) (load_le m address 2)
      else if n = 4 then map_option (\<lambda>v. ucast (ucast v :: uint32_t)) (load_le m address 4)
      else if n = 8 then load_le m address 8
      else None)"

definition ubpf_mem_load_sx :: "memory \<Rightarrow> uint64_t \<Rightarrow> nat \<Rightarrow> uint64_t option" where
  "ubpf_mem_load_sx m address n =
     (if \<not> IS_ALIGNED address n then
        (case load_le m address n of
           None \<Rightarrow> None
         | Some v \<Rightarrow>
             if n = 1 then Some (scast (ucast v :: uint8_t))
             else if n = 2 then Some (scast (ucast v :: uint16_t))
             else if n = 4 then Some (scast (ucast v :: uint32_t))
             else None)
      else if n = 1 then map_option (\<lambda>v. scast (ucast v :: uint8_t)) (load_le m address 1)
      else if n = 2 then map_option (\<lambda>v. scast (ucast v :: uint16_t)) (load_le m address 2)
      else if n = 4 then map_option (\<lambda>v. scast (ucast v :: uint32_t)) (load_le m address 4)
      else None)"

definition ubpf_mem_store :: "memory \<Rightarrow> uint64_t \<Rightarrow> uint64_t \<Rightarrow> nat \<Rightarrow> memory option" where
  "ubpf_mem_store m address v n =
     (if \<not> IS_ALIGNED address n then store_le m address v n
      else if n = 1 then store_le m address (ucast (ucast v :: uint8_t)) 1
      else if n = 2 then store_le m address (ucast (ucast v :: uint16_t)) 2
      else if n = 4 then store_le m address (ucast (ucast v :: uint32_t)) 4
      else if n = 8 then store_le m address v 8
      else None)"

section \<open>Run-time bounds check\<close>

text \<open>The memory areas of a run: the context buffer and the stack handed to \<^verbatim>\<open>ubpf_exec_ex\<close>.\<close>

record exec_args =
  arg_mem :: uint64_t
  arg_mem_len :: uint64_t
  arg_stack_start :: uint64_t
  arg_stack_length :: uint64_t

datatype bounds_error =
    Negative_size | Access_overflow | Stack_region_overflow | Mem_region_overflow | Out_of_bounds

definition bounds_check ::
  "ubpf_vm \<Rightarrow> uint64_t \<Rightarrow> int \<Rightarrow> exec_args \<Rightarrow> bounds_error + unit" where
  "bounds_check vm access_start sz args =
     (let mem = arg_mem args; mem_len = arg_mem_len args;
          stack_start = arg_stack_start args; stack_len = arg_stack_length args;
          usz = (word_of_int sz :: uint64_t) in
      if \<not> bounds_check_enabled vm then Inr ()
      else if sz < 0 then Inl Negative_size
      else if usz > UINT64_MAX - access_start then Inl Access_overflow
      else
        let access_end = access_start + usz;
            stack_overflow = (stack_len > UINT64_MAX - stack_start);
            stack_valid = (\<not> stack_overflow);
            stack_end = (if stack_valid then stack_start + stack_len else 0);
            mem_overflow = (mem \<noteq> 0 \<and> mem_len > UINT64_MAX - mem);
            mem_valid = (mem \<noteq> 0 \<and> \<not> mem_overflow);
            mem_end = (if mem_valid then mem + mem_len else 0) in
        if mem_valid \<and> access_start \<ge> mem \<and> access_end \<le> mem_end then Inr ()
        else if stack_valid \<and> access_start \<ge> stack_start \<and> access_end \<le> stack_end then Inr ()
        else if (case bounds_check_function vm of
                   None \<Rightarrow> False | Some f \<Rightarrow> f (bounds_check_user_data vm) access_start usz) then Inr ()
        else if stack_overflow \<and> access_start \<ge> stack_start then Inl Stack_region_overflow
        else if mem_overflow \<and> mem \<noteq> 0 \<and> access_start \<ge> mem then Inl Mem_region_overflow
        else Inl Out_of_bounds)"

section \<open>Shadow stack\<close>

text \<open>
  One bit per byte of the stack, set when the byte has been written. \<^const>\<open>None\<close> is an access
  outside the shadow array.
\<close>

fun mark_shadow_bits :: "uint8_t list \<Rightarrow> nat \<Rightarrow> nat \<Rightarrow> uint8_t list option" where
  "mark_shadow_bits sh test_bit 0 = Some sh"
| "mark_shadow_bits sh test_bit (Suc n) =
     (let bit_offset = test_bit div 8; bit_mask = push_bit (test_bit mod 8) 1 in
      if bit_offset < length sh
      then mark_shadow_bits (sh[bit_offset := sh ! bit_offset OR bit_mask]) (Suc test_bit) n
      else None)"

fun check_shadow_bits :: "uint8_t list \<Rightarrow> nat \<Rightarrow> nat \<Rightarrow> bool option" where
  "check_shadow_bits sh test_bit 0 = Some True"
| "check_shadow_bits sh test_bit (Suc n) =
     (let bit_offset = test_bit div 8; bit_mask = push_bit (test_bit mod 8) 1 in
      if bit_offset < length sh
      then (if sh ! bit_offset AND bit_mask = 0 then Some False else check_shadow_bits sh (Suc test_bit) n)
      else None)"

definition ubpf_mark_shadow_stack ::
  "ubpf_vm \<Rightarrow> exec_args \<Rightarrow> uint8_t list \<Rightarrow> uint64_t \<Rightarrow> nat \<Rightarrow> uint8_t list option" where
  "ubpf_mark_shadow_stack vm args shadow_stack access_start n =
     (let access_end = access_start + of_nat n; stack_start = arg_stack_start args;
          stack_end = stack_start + arg_stack_length args in
      if \<not> undefined_behavior_check_enabled vm then Some shadow_stack
      else if access_start > access_end then Some shadow_stack
      else if access_start \<ge> stack_start \<and> access_end \<le> stack_end
      then mark_shadow_bits shadow_stack (unat (access_start - stack_start)) n
      else Some shadow_stack)"

definition ubpf_check_shadow_stack ::
  "ubpf_vm \<Rightarrow> exec_args \<Rightarrow> uint8_t list \<Rightarrow> uint64_t \<Rightarrow> nat \<Rightarrow> bool option" where
  "ubpf_check_shadow_stack vm args shadow_stack access_start n =
     (let access_end = access_start + of_nat n; stack_start = arg_stack_start args;
          stack_end = stack_start + arg_stack_length args in
      if \<not> undefined_behavior_check_enabled vm then Some True
      else if access_start > access_end then Some True
      else if access_start \<ge> stack_start \<and> access_end \<le> stack_end
      then check_shadow_bits shadow_stack (unat (access_start - stack_start)) n
      else Some True)"

section \<open>Loads and stores\<close>

text \<open>Unfolding of accesses of a literal size.\<close>

lemma le_bytes_numeral [simp]:
  "le_bytes (numeral k) v = ucast v # le_bytes (pred_numeral k) (drop_bit 8 v)"
  by (simp add: numeral_eq_Suc)

lemma load_bytes_numeral [simp]:
  "load_bytes m a (numeral k) =
     (case m a of None \<Rightarrow> None | Some b \<Rightarrow> map_option ((#) b) (load_bytes m (a + 1) (pred_numeral k)))"
  by (simp add: numeral_eq_Suc)

lemma le_value_take_bit: "length bs \<le> 8 \<Longrightarrow> take_bit (8 * length bs) (le_value bs) = le_value bs"
  by (rule bit_word_eqI) (auto simp: bit_take_bit_iff bit_le_value)

lemma ucast_ucast_take_bit:
  "LENGTH('b) \<le> LENGTH('a) \<Longrightarrow> ucast (ucast (x :: 'a::len word) :: 'b::len word) = take_bit LENGTH('b) x"
  by (rule bit_word_eqI) (auto simp: bit_simps)

lemma load_le_take_bit: "load_le m a n = Some v \<Longrightarrow> n \<le> 8 \<Longrightarrow> take_bit (8 * n) v = v"
  using le_value_take_bit by (auto simp: load_le_def dest!: load_bytes_length)

text \<open>Aligned and unaligned accesses are the same operation.\<close>

lemma ubpf_mem_load_eq: "n \<in> {1, 2, 4, 8} \<Longrightarrow> ubpf_mem_load m a n = load_le m a n"
  using load_le_take_bit [of m a n]
  by (cases "load_le m a n") (auto simp: ubpf_mem_load_def ucast_ucast_take_bit)

lemma le_bytes_take_bit: "le_bytes n (take_bit (8 * n) v) = le_bytes n v"
proof (induction n arbitrary: v)
  case (Suc n)
  have "drop_bit 8 (take_bit (8 * Suc n) v) = take_bit (8 * n) (drop_bit 8 v)"
    by (rule bit_word_eqI) (auto simp: bit_simps)
  moreover have "ucast (take_bit (8 * Suc n) v) = (ucast v :: uint8_t)"
    by (rule bit_word_eqI) (auto simp: bit_simps)
  ultimately show ?case using Suc by simp
qed simp

lemma ubpf_mem_store_eq: "n \<in> {1, 2, 4, 8} \<Longrightarrow> ubpf_mem_store m a v n = store_le m a v n"
  using le_bytes_take_bit [of n v]
  by (auto simp: ubpf_mem_store_def store_le_def ucast_ucast_take_bit
      simp del: le_bytes.simps le_bytes_numeral)

lemma ubpf_mem_load_sx_eq:
  "n \<in> {1, 2, 4} \<Longrightarrow> ubpf_mem_load_sx m a n = map_option (signed_take_bit (8 * n - 1)) (load_le m a n)"
proof -
  have "scast (ucast v :: uint8_t) = signed_take_bit 7 v" "scast (ucast v :: uint16_t) = signed_take_bit 15 v"
    "scast (ucast v :: uint32_t) = signed_take_bit 31 v" for v :: uint64_t
    by (rule bit_word_eqI; auto simp: bit_simps min_def)+
  then show "n \<in> {1, 2, 4} \<Longrightarrow> ?thesis"
    by (auto simp: ubpf_mem_load_sx_def split: option.split)
qed

lemma load_le_store_le:
  assumes "store_le m a v n = Some m'" and "n \<le> 8"
  shows "load_le m' a n = Some (take_bit (8 * n) v)"
  using load_store_bytes [of m a "le_bytes n v" m'] assms
  by (simp add: store_le_def load_le_def le_value_le_bytes)

lemma load_le_mapped: "byte_range a n \<subseteq> dom m \<Longrightarrow> \<exists>v. load_le m a n = Some v"
  using load_bytes_mapped [of a n m] by (auto simp: load_le_def)

lemma store_le_mapped: "byte_range a n \<subseteq> dom m \<Longrightarrow> \<exists>m'. store_le m a v n = Some m'"
  using store_bytes_mapped [of a "le_bytes n v" m] by (simp add: store_le_def)

lemma store_le_dom: "store_le m a v n = Some m' \<Longrightarrow> dom m' = dom m"
  by (simp add: store_le_def store_bytes_dom)

lemma store_le_frame: "store_le m a v n = Some m' \<Longrightarrow> x \<notin> byte_range a n \<Longrightarrow> m' x = m x"
  using store_bytes_frame [of m a "le_bytes n v"] by (simp add: store_le_def)

section \<open>What the bounds check accepts\<close>

definition region_contains :: "uint64_t \<Rightarrow> uint64_t \<Rightarrow> uint64_t \<Rightarrow> nat \<Rightarrow> bool" where
  "region_contains base len a n \<longleftrightarrow>
     unat base + unat len < 2 ^ 64 \<and> unat base \<le> unat a \<and> unat a + n \<le> unat base + unat len"

lemma unat_UINT64_MAX: "unat UINT64_MAX = 2 ^ 64 - 1"
  by (simp add: UINT64_MAX_def)

lemma unat_less_64: "unat (a :: uint64_t) < 2 ^ 64"
  using unsigned_less [of a] by simp

lemma le_UINT64_MAX: "(a :: uint64_t) \<le> UINT64_MAX"
  by (simp add: word_le_nat_alt unat_UINT64_MAX) (use unat_less_64 [of a] in simp)

lemma UINT64_MAX_minus_less: "(b :: uint64_t) > UINT64_MAX - a \<longleftrightarrow> unat a + unat b \<ge> 2 ^ 64"
proof -
  have "unat (UINT64_MAX - a) = 2 ^ 64 - 1 - unat a"
    using unat_sub [OF le_UINT64_MAX [of a]] by (simp add: unat_UINT64_MAX)
  then show ?thesis using unat_less_64 [of a] by (auto simp: word_less_nat_alt)
qed

lemma unat_add_no_overflow: "unat a + unat b < 2 ^ 64 \<Longrightarrow> unat (a + b :: uint64_t) = unat a + unat b"
  by (simp add: unat_word_ariths)

lemma byte_range_subset:
  assumes "region_contains base len a n"
  shows "byte_range a n \<subseteq> byte_range base (unat len)"
proof
  fix x assume "x \<in> byte_range a n"
  then obtain i where i: "i < n" "x = a + of_nat i" by (auto simp: byte_range_def)
  define k where "k = unat a - unat base"
  have a: "a = base + of_nat k"
    using assms by (simp add: region_contains_def k_def word_unat_eq_iff unat_word_ariths
        unsigned_of_nat take_bit_nat_eq_self unat_less_64)
  have "k + i < unat len" using assms i(1) by (auto simp: region_contains_def k_def)
  then show "x \<in> byte_range base (unat len)"
    unfolding byte_range_def using i(2) a by (auto simp: add.assoc intro!: image_eqI [of _ _ "k + i"])
qed

text \<open>An access the callback vouches for.\<close>

definition callback_allows :: "ubpf_vm \<Rightarrow> uint64_t \<Rightarrow> nat \<Rightarrow> bool" where
  "callback_allows vm a n \<longleftrightarrow>
     (case bounds_check_function vm of
        None \<Rightarrow> False | Some f \<Rightarrow> f (bounds_check_user_data vm) a (of_nat n))"

lemma bounds_check_accepts_iff:
  assumes "n < 2 ^ 31"
  shows "bounds_check vm a (int n) args = Inr () \<longleftrightarrow>
    \<not> bounds_check_enabled vm \<or>
    unat a + n < 2 ^ 64 \<and>
      (arg_mem args \<noteq> 0 \<and> region_contains (arg_mem args) (arg_mem_len args) a n \<or>
       region_contains (arg_stack_start args) (arg_stack_length args) a n \<or>
       callback_allows vm a n)"
proof -
  have n: "unat (of_nat n :: uint64_t) = n"
    using assms by (simp add: unsigned_of_nat take_bit_nat_eq_self)
  have w: "(word_of_int (int n) :: uint64_t) = of_nat n" by simp
  have region: "(\<not> l > UINT64_MAX - b \<and> a \<ge> b \<and>
      a + of_nat n \<le> (if \<not> l > UINT64_MAX - b then b + l else 0)) = region_contains b l a n"
    if "unat a + n < 2 ^ 64" for b l
    using that
    by (auto simp only: UINT64_MAX_minus_less not_le region_contains_def word_le_nat_alt
        unat_add_no_overflow n if_True simp_thms)
  show ?thesis
  proof (cases "bounds_check_enabled vm \<and> unat a + n < 2 ^ 64")
    case True
    then have "\<not> of_nat n > UINT64_MAX - a" by (simp only: UINT64_MAX_minus_less n) simp
    with True region [of "arg_mem args" "arg_mem_len args"]
      region [of "arg_stack_start args" "arg_stack_length args"]
    show ?thesis unfolding bounds_check_def Let_def callback_allows_def w by (cases "arg_mem args = 0") simp_all
  next
    case False
    then have "\<not> bounds_check_enabled vm \<or> of_nat n > UINT64_MAX - a"
      by (simp only: UINT64_MAX_minus_less n) auto
    with False show ?thesis unfolding bounds_check_def Let_def w by auto
  qed
qed

section \<open>What the shadow stack records\<close>

definition shadow_bit :: "uint8_t list \<Rightarrow> nat \<Rightarrow> bool" where
  "shadow_bit sh i \<longleftrightarrow> i div 8 < length sh \<and> bit (sh ! (i div 8)) (i mod 8)"

lemma and_bit_mask_eq_0: "(x :: uint8_t) AND 2 ^ k = 0 \<longleftrightarrow> \<not> bit x k"
proof -
  have "x AND 2 ^ k = of_bool (bit x k) * 2 ^ k"
    by (rule bit_word_eqI) (auto simp: bit_simps)
  moreover have "bit x k \<Longrightarrow> (2 :: uint8_t) ^ k \<noteq> 0"
    by (auto dest!: bit_imp_le_length)
  ultimately show ?thesis by auto
qed

lemma shadow_bit_update:
  assumes "t div 8 < length sh"
  shows "shadow_bit (sh[t div 8 := sh ! (t div 8) OR 2 ^ (t mod 8)]) i \<longleftrightarrow> shadow_bit sh i \<or> i = t"
proof (cases "i div 8 = t div 8")
  case True
  have "i mod 8 = t mod 8 \<longleftrightarrow> i = t"
    using True by (metis div_mult_mod_eq)
  moreover have "t mod 8 < 8" by simp
  ultimately show ?thesis
    using True assms by (auto simp: shadow_bit_def bit_simps simp del: mod_less_divisor)
next
  case False
  then show ?thesis by (auto simp: shadow_bit_def)
qed

lemma mark_shadow_bits_length: "mark_shadow_bits sh t n = Some sh' \<Longrightarrow> length sh' = length sh"
  by (induction sh t n rule: mark_shadow_bits.induct) (auto simp: Let_def split: if_splits)

lemma mark_shadow_bits_iff:
  "mark_shadow_bits sh t n = Some sh' \<Longrightarrow> shadow_bit sh' i \<longleftrightarrow> shadow_bit sh i \<or> t \<le> i \<and> i < t + n"
  by (induction sh t n rule: mark_shadow_bits.induct)
    (auto simp: Let_def shadow_bit_update split: if_splits)

lemma mark_shadow_bits_defined: "t + n \<le> 8 * length sh \<Longrightarrow> \<exists>sh'. mark_shadow_bits sh t n = Some sh'"
  by (induction sh t n rule: mark_shadow_bits.induct) (auto simp: Let_def)

lemma check_shadow_bits_defined: "t + n \<le> 8 * length sh \<Longrightarrow> \<exists>b. check_shadow_bits sh t n = Some b"
  by (induction sh t n rule: check_shadow_bits.induct) (auto simp: Let_def)

lemma check_shadow_bits_iff:
  "check_shadow_bits sh t n = Some b \<Longrightarrow> b \<longleftrightarrow> (\<forall>i. t \<le> i \<and> i < t + n \<longrightarrow> shadow_bit sh i)"
proof (induction sh t n rule: check_shadow_bits.induct)
  case (2 sh t n)
  have split: "(\<forall>i. t \<le> i \<and> i < t + Suc n \<longrightarrow> P i) \<longleftrightarrow> P t \<and> (\<forall>i. Suc t \<le> i \<and> i < Suc t + n \<longrightarrow> P i)" for P
    by (auto simp: Suc_le_eq nat_less_le)
  from 2 show ?case
    by (auto simp: Let_def split and_bit_mask_eq_0 shadow_bit_def simp del: add_Suc_right split: if_splits)
qed auto

section \<open>Properties\<close>

text \<open>
  C35. A store of 1, 2, 4 or 8 bytes, aligned or not, is read back by a load of the same size
  as the value truncated to that size; it changes no other byte and maps no new address.
\<close>

theorem mem_store_load:
  assumes "n \<in> {1, 2, 4, 8}" and "ubpf_mem_store m a v n = Some m'"
  shows "ubpf_mem_load m' a n = Some (take_bit (8 * n) v) \<and> dom m' = dom m \<and>
    (\<forall>x. x \<notin> byte_range a n \<longrightarrow> m' x = m x)"
  using assms load_le_store_le [of m a v n m'] store_le_dom [of m a v n m'] store_le_frame [of m a v n m']
  by (auto simp: ubpf_mem_load_eq ubpf_mem_store_eq)

theorem mem_store_load_witness:
  "\<exists>m'. ubpf_mem_store (\<lambda>x. if x \<in> {0x1001, 0x1002} then Some 0 else None) 0x1001 0xabcd 2 = Some m' \<and>
     ubpf_mem_load m' 0x1001 2 = Some 0xabcd"
proof -
  let ?m = "\<lambda>x :: uint64_t. if x \<in> {0x1001, 0x1002} then Some (0 :: uint8_t) else None"
  have "\<exists>m'. ubpf_mem_store ?m 0x1001 0xabcd 2 = Some m'"
    by (simp add: ubpf_mem_store_eq store_le_def)
  then obtain m' where "ubpf_mem_store ?m 0x1001 0xabcd 2 = Some m'" by blast
  with mem_store_load [of 2 ?m "0x1001" "0xabcd" m'] show ?thesis by simp
qed

text \<open>
  C34. With bounds checking on, an access is accepted exactly if it does not wrap around the
  address space and lies inside the context buffer, inside the stack, or is vouched for by the
  registered callback; a buffer or stack whose own end overflows is never used.
\<close>

theorem bounds_check_exact:
  assumes "n < 2 ^ 31" and "bounds_check_enabled vm"
  shows "bounds_check vm a (int n) args = Inr () \<longleftrightarrow>
    unat a + n < 2 ^ 64 \<and>
      (arg_mem args \<noteq> 0 \<and> region_contains (arg_mem args) (arg_mem_len args) a n \<or>
       region_contains (arg_stack_start args) (arg_stack_length args) a n \<or>
       callback_allows vm a n)"
  using bounds_check_accepts_iff [OF assms(1)] assms(2) by blast

theorem bounds_check_exact_witness:
  "bounds_check (the (ubpf_create JIT_null (\<lambda>_. True))) 0x1ffc (int 4)
     \<lparr>arg_mem = 0x1000, arg_mem_len = 0x1000, arg_stack_start = 0x5000, arg_stack_length = 0x200\<rparr> = Inr ()"
  using bounds_check_exact [of 4 "the (ubpf_create JIT_null (\<lambda>_. True))" "0x1ffc"
      "\<lparr>arg_mem = 0x1000, arg_mem_len = 0x1000, arg_stack_start = 0x5000, arg_stack_length = 0x200\<rparr>"]
  by (simp add: ubpf_create_def region_contains_def)

text \<open>
  C36. The shadow stack records exactly the bytes written: after marking an access, a later
  check of any range inside the array succeeds just if every byte of the range was marked
  before or belongs to the access.
\<close>

theorem shadow_stack_exact:
  assumes "mark_shadow_bits sh t n = Some sh'" and "u + k \<le> 8 * length sh"
  shows "check_shadow_bits sh' u k =
    Some (\<forall>i. u \<le> i \<and> i < u + k \<longrightarrow> shadow_bit sh i \<or> t \<le> i \<and> i < t + n)"
proof -
  have "u + k \<le> 8 * length sh'" using assms by (simp add: mark_shadow_bits_length)
  from check_shadow_bits_defined [OF this] obtain b where b: "check_shadow_bits sh' u k = Some b" ..
  show ?thesis using check_shadow_bits_iff [OF b] b mark_shadow_bits_iff [OF assms(1)] by simp
qed

theorem shadow_stack_exact_witness:
  "mark_shadow_bits [0, 0] 4 8 = Some [0xf0, 0x0f] \<and>
   check_shadow_bits [0xf0, 0x0f] 6 4 = Some (\<forall>i. 6 \<le> i \<and> i < 6 + 4 \<longrightarrow>
     shadow_bit [0, 0] i \<or> 4 \<le> i \<and> i < 4 + 8)"
proof -
  have "mark_shadow_bits [0, 0] 4 8 = Some [0xf0, 0x0f]"
    by code_simp
  with shadow_stack_exact [of "[0, 0]" 4 8 "[0xf0, 0x0f]" 6 4] show ?thesis by simp
qed

end
