(* ===== verification/Interp.thy ===== *)
theory Interp
  imports Isa_Spec Interp_Mem
begin

text \<open>
  The legacy interpreter, \<^verbatim>\<open>ubpf_exec_ex\<close> of \<^verbatim>\<open>vm/ubpf_vm.c\<close>: the shadow registers of the
  undefined-behaviour check, the cases of the switch, and one iteration of the dispatch loop. An
  access to an unmapped address, an index outside an array the machine owns, a null
  pointer call or a failed assertion is the outcome \<open>Exec_fault\<close>; the theorems of
  \<open>Exec_Safety\<close> show when it cannot happen.
\<close>

section \<open>Shadow registers\<close>

text \<open>A bit mask of the registers that hold an initialised value.\<close>

datatype shadow_error =
    Source_not_initialized uint4_t | Destination_not_initialized uint4_t
  | Unknown_alu_opcode uint8_t | Unknown_jmp_opcode uint8_t | Return_value_not_initialized

definition REGISTER_TO_SHADOW_MASK :: "uint4_t \<Rightarrow> uint16_t" where
  "REGISTER_TO_SHADOW_MASK r = push_bit (unat r) 1"

definition reg_initialized :: "uint16_t \<Rightarrow> uint4_t \<Rightarrow> bool" where
  "reg_initialized shadow_registers r \<longleftrightarrow> shadow_registers AND REGISTER_TO_SHADOW_MASK r \<noteq> 0"

definition argument_registers_mask :: uint16_t where
  "argument_registers_mask = REGISTER_TO_SHADOW_MASK 1 OR REGISTER_TO_SHADOW_MASK 2 OR
     REGISTER_TO_SHADOW_MASK 3 OR REGISTER_TO_SHADOW_MASK 4 OR REGISTER_TO_SHADOW_MASK 5"

text \<open>
  The switch on the instruction class: an error, or whether the destination register is
  initialised after the instruction.
\<close>

definition shadow_destination_after :: "uint16_t \<Rightarrow> ebpf_inst \<Rightarrow> shadow_error + bool" where
  "shadow_destination_after shadow_registers inst =
     (let cls = opcode inst AND EBPF_CLS_MASK;
          use_reg = (opcode inst AND EBPF_SRC_REG \<noteq> 0);
          src_valid = reg_initialized shadow_registers (src inst);
          dst_valid = reg_initialized shadow_registers (dst inst) in
      if cls = EBPF_CLS_LD then Inr True
      else if cls = EBPF_CLS_LDX then
        (if \<not> src_valid then Inl (Source_not_initialized (src inst)) else Inr True)
      else if cls = EBPF_CLS_ST then
        (if dst inst \<noteq> BPF_REG_10 \<and> \<not> dst_valid then Inl (Destination_not_initialized (dst inst))
         else Inr dst_valid)
      else if cls = EBPF_CLS_STX then
        (if dst inst \<noteq> BPF_REG_10 \<and> \<not> src_valid then Inl (Source_not_initialized (src inst))
         else if dst inst \<noteq> BPF_REG_10 \<and> \<not> dst_valid then Inl (Destination_not_initialized (dst inst))
         else Inr dst_valid)
      else if cls = EBPF_CLS_ALU \<or> cls = EBPF_CLS_ALU64 then
        (let op = opcode inst AND EBPF_ALU_OP_MASK in
         if op \<in> {0x00, 0x10, 0x20, 0x30, 0x40, 0x50, 0x60, 0x70, 0x90, 0xa0, 0xc0, 0xb0}
         then Inr (if use_reg then src_valid else True)
         else if op \<in> {0x80, 0xd0} then Inr dst_valid
         else Inl (Unknown_alu_opcode (opcode inst)))
      else
        (let op = opcode inst AND EBPF_JMP_OP_MASK in
         if op \<in> {EBPF_MODE_CALL, EBPF_MODE_JA, EBPF_MODE_EXIT} then Inr dst_valid
         else if op \<in> {EBPF_MODE_JEQ, EBPF_MODE_JGT, EBPF_MODE_JGE, EBPF_MODE_JSET, EBPF_MODE_JNE,
           EBPF_MODE_JSGT, EBPF_MODE_JSGE, EBPF_MODE_JLT, EBPF_MODE_JLE, EBPF_MODE_JSLT, EBPF_MODE_JSLE}
         then
           (if offset inst = 0 then Inr dst_valid
            else if \<not> dst_valid then Inl (Destination_not_initialized (dst inst))
            else if use_reg \<and> \<not> src_valid then Inl (Source_not_initialized (src inst))
            else Inr dst_valid)
         else Inl (Unknown_jmp_opcode (opcode inst))))"

definition ubpf_validate_shadow_register ::
  "ubpf_vm \<Rightarrow> uint16_t \<Rightarrow> ebpf_inst \<Rightarrow> shadow_error + uint16_t" where
  "ubpf_validate_shadow_register vm shadow_registers inst =
     (if \<not> undefined_behavior_check_enabled vm then Inr shadow_registers
      else
        case shadow_destination_after shadow_registers inst of
          Inl e \<Rightarrow> Inl e
        | Inr valid_after \<Rightarrow>
            let sr = (if valid_after then shadow_registers OR REGISTER_TO_SHADOW_MASK (dst inst)
                      else shadow_registers AND NOT (REGISTER_TO_SHADOW_MASK (dst inst)));
                sr = (if opcode inst = EBPF_OP_CALL \<and> src inst = 0
                      then (sr OR REGISTER_TO_SHADOW_MASK 0) AND NOT argument_registers_mask
                      else sr) in
            if opcode inst = EBPF_OP_EXIT then
              (if sr AND REGISTER_TO_SHADOW_MASK 0 = 0 then Inl Return_value_not_initialized
               else Inr (sr AND NOT argument_registers_mask))
            else Inr sr)"

section \<open>State of a run\<close>

record ubpf_stack_frame =
  frame_stack_usage :: uint16_t
  return_address :: uint16_t
  saved_registers :: "uint64_t \<times> uint64_t \<times> uint64_t \<times> uint64_t"

text \<open>
  The local variables of \<^verbatim>\<open>ubpf_exec_ex\<close> that live across iterations, the memory of the
  process, and the calls made to the debug function so far (latest first). The debug function
  receives only pointers to constant data.
\<close>

record exec_state =
  st_pc :: uint16_t
  st_reg :: registers
  st_frame_index :: nat
  st_frames :: "ubpf_stack_frame list"
  st_shadow_stack :: "uint8_t list"
  st_shadow_regs :: uint16_t
  st_limit :: int32_t
  st_mem :: memory
  st_debug :: "(uint16_t \<times> registers \<times> uint16_t \<times> uint8_t list) list"

datatype exec_error =
    Exec_no_code | Exec_no_memory | Exec_pc_out_of_range | Exec_limit_exceeded
  | Exec_register shadow_error | Exec_address_overflow | Exec_address_underflow
  | Exec_bounds bounds_error | Exec_call_depth | Exec_btf_call
  | Exec_unknown_atomic int32_t | Exec_unknown_opcode uint8_t

datatype exec_result = Exec_ok uint64_t | Exec_error exec_error | Exec_fault

text \<open>An iteration stops with a result, or goes on.\<close>

type_synonym outcome = "(exec_result \<times> exec_state) + exec_state"

section \<open>Loads and stores\<close>

definition COMPUTE_EFFECTIVE_ADDR :: "uint64_t \<Rightarrow> int16_t \<Rightarrow> exec_error + uint64_t" where
  "COMPUTE_EFFECTIVE_ADDR base_addr off16 =
     (let off = (scast off16 :: int64_t) in
      if 0 \<le> sint off then
        (if base_addr > UINT64_MAX - off then Inl Exec_address_overflow else Inr (base_addr + off))
      else
        (if base_addr < - off then Inl Exec_address_underflow else Inr (base_addr - (- off))))"

definition BOUNDS_CHECK_LOAD ::
  "ubpf_vm \<Rightarrow> exec_args \<Rightarrow> nat \<Rightarrow> ebpf_inst \<Rightarrow> exec_state \<Rightarrow> (exec_result \<times> exec_state) + (uint64_t \<times> exec_state)" where
  "BOUNDS_CHECK_LOAD vm args n inst s =
     (case COMPUTE_EFFECTIVE_ADDR (st_reg s (src inst)) (offset inst) of
        Inl e \<Rightarrow> Inl (Exec_error e, s)
      | Inr eff_addr \<Rightarrow>
          (case ubpf_check_shadow_stack vm args (st_shadow_stack s) eff_addr n of
             None \<Rightarrow> Inl (Exec_fault, s)
           | Some ok \<Rightarrow>
               let s = (if ok then s
                        else s\<lparr>st_shadow_regs := st_shadow_regs s AND NOT (REGISTER_TO_SHADOW_MASK (dst inst))\<rparr>) in
               (case bounds_check vm eff_addr (int n) args of
                  Inl e \<Rightarrow> Inl (Exec_error (Exec_bounds e), s)
                | Inr _ \<Rightarrow> Inr (eff_addr, s))))"

definition BOUNDS_CHECK_STORE ::
  "ubpf_vm \<Rightarrow> exec_args \<Rightarrow> nat \<Rightarrow> ebpf_inst \<Rightarrow> exec_state \<Rightarrow> (exec_result \<times> exec_state) + (uint64_t \<times> exec_state)" where
  "BOUNDS_CHECK_STORE vm args n inst s =
     (case COMPUTE_EFFECTIVE_ADDR (st_reg s (dst inst)) (offset inst) of
        Inl e \<Rightarrow> Inl (Exec_error e, s)
      | Inr eff_addr \<Rightarrow>
          (case bounds_check vm eff_addr (int n) args of
             Inl e \<Rightarrow> Inl (Exec_error (Exec_bounds e), s)
           | Inr _ \<Rightarrow>
               (case ubpf_mark_shadow_stack vm args (st_shadow_stack s) eff_addr n of
                  None \<Rightarrow> Inl (Exec_fault, s)
                | Some sh \<Rightarrow> Inr (eff_addr, s\<lparr>st_shadow_stack := sh\<rparr>))))"

definition exec_ldx ::
  "(memory \<Rightarrow> uint64_t \<Rightarrow> nat \<Rightarrow> uint64_t option) \<Rightarrow> ubpf_vm \<Rightarrow> exec_args \<Rightarrow> nat \<Rightarrow> ebpf_inst \<Rightarrow> exec_state \<Rightarrow> outcome" where
  "exec_ldx load vm args n inst s =
     (case BOUNDS_CHECK_LOAD vm args n inst s of
        Inl r \<Rightarrow> Inl r
      | Inr (eff_addr, s) \<Rightarrow>
          (case load (st_mem s) eff_addr n of
             None \<Rightarrow> Inl (Exec_fault, s)
           | Some v \<Rightarrow> Inr (s\<lparr>st_reg := (st_reg s)(dst inst := v)\<rparr>)))"

definition exec_stx ::
  "ubpf_vm \<Rightarrow> exec_args \<Rightarrow> uint64_t \<Rightarrow> nat \<Rightarrow> ebpf_inst \<Rightarrow> exec_state \<Rightarrow> outcome" where
  "exec_stx vm args v n inst s =
     (case BOUNDS_CHECK_STORE vm args n inst s of
        Inl r \<Rightarrow> Inl r
      | Inr (eff_addr, s) \<Rightarrow>
          (case ubpf_mem_store (st_mem s) eff_addr v n of
             None \<Rightarrow> Inl (Exec_fault, s)
           | Some m \<Rightarrow> Inr (s\<lparr>st_mem := m\<rparr>)))"

definition exec_load_inst :: "ubpf_vm \<Rightarrow> exec_args \<Rightarrow> ebpf_inst \<Rightarrow> exec_state \<Rightarrow> outcome option" where
  "exec_load_inst vm args inst s =
     (let op = opcode inst in
      if op = EBPF_OP_LDXW then Some (exec_ldx ubpf_mem_load vm args 4 inst s)
      else if op = EBPF_OP_LDXH then Some (exec_ldx ubpf_mem_load vm args 2 inst s)
      else if op = EBPF_OP_LDXB then Some (exec_ldx ubpf_mem_load vm args 1 inst s)
      else if op = EBPF_OP_LDXDW then Some (exec_ldx ubpf_mem_load vm args 8 inst s)
      else if op = EBPF_OP_LDXWSX then Some (exec_ldx ubpf_mem_load_sx vm args 4 inst s)
      else if op = EBPF_OP_LDXHSX then Some (exec_ldx ubpf_mem_load_sx vm args 2 inst s)
      else if op = EBPF_OP_LDXBSX then Some (exec_ldx ubpf_mem_load_sx vm args 1 inst s)
      else None)"

definition exec_store_inst :: "ubpf_vm \<Rightarrow> exec_args \<Rightarrow> ebpf_inst \<Rightarrow> exec_state \<Rightarrow> outcome option" where
  "exec_store_inst vm args inst s =
     (let op = opcode inst; i = (scast (imm inst) :: uint64_t); r = st_reg s (src inst) in
      if op = EBPF_OP_STW then Some (exec_stx vm args i 4 inst s)
      else if op = EBPF_OP_STH then Some (exec_stx vm args i 2 inst s)
      else if op = EBPF_OP_STB then Some (exec_stx vm args i 1 inst s)
      else if op = EBPF_OP_STDW then Some (exec_stx vm args i 8 inst s)
      else if op = EBPF_OP_STXW then Some (exec_stx vm args r 4 inst s)
      else if op = EBPF_OP_STXH then Some (exec_stx vm args r 2 inst s)
      else if op = EBPF_OP_STXB then Some (exec_stx vm args r 1 inst s)
      else if op = EBPF_OP_STXDW then Some (exec_stx vm args r 8 inst s)
      else None)"

section \<open>Control flow\<close>

definition exec_lddw :: "ubpf_vm \<Rightarrow> ebpf_inst \<Rightarrow> exec_state \<Rightarrow> outcome option" where
  "exec_lddw vm inst s =
     (if opcode inst = EBPF_OP_LDDW then
        Some (case ubpf_fetch_instruction vm (st_pc s) of
            None \<Rightarrow> Inl (Exec_fault, s)
          | Some second \<Rightarrow>
              Inr (s\<lparr>st_pc := st_pc s + 1,
                st_reg := (st_reg s)(dst inst :=
                  ucast (imm inst) OR push_bit 32 (scast (imm second)))\<rparr>))
      else None)"

definition exec_jump_inst :: "ebpf_inst \<Rightarrow> exec_state \<Rightarrow> outcome option" where
  "exec_jump_inst inst s =
     (if opcode inst = EBPF_OP_JA then Some (Inr (s\<lparr>st_pc := st_pc s + offset inst\<rparr>))
      else if opcode inst = EBPF_OP_JA32 then Some (Inr (s\<lparr>st_pc := st_pc s + ucast (imm inst)\<rparr>))
      else
        case exec_cond_jump inst (st_reg s) of
          None \<Rightarrow> None
        | Some taken \<Rightarrow> Some (Inr (if taken then s\<lparr>st_pc := st_pc s + offset inst\<rparr> else s)))"

text \<open>An element of the frame array; an index outside it is \<^const>\<open>None\<close>.\<close>

definition frame_at :: "ubpf_stack_frame list \<Rightarrow> nat \<Rightarrow> ubpf_stack_frame option" where
  "frame_at frames i = (if i < length frames then Some (frames ! i) else None)"

definition exec_exit :: "ebpf_inst \<Rightarrow> exec_state \<Rightarrow> outcome option" where
  "exec_exit inst s =
     (if opcode inst = EBPF_OP_EXIT then
        Some (if st_frame_index s > 0 then
            let i = st_frame_index s - 1 in
            (case frame_at (st_frames s) i of
               None \<Rightarrow> Inl (Exec_fault, s)
             | Some frame \<Rightarrow>
                 let (r6, r7, r8, r9) = saved_registers frame in
                 Inr (s\<lparr>st_frame_index := i, st_pc := return_address frame,
                   st_reg := (st_reg s)(BPF_REG_6 := r6, BPF_REG_7 := r7, BPF_REG_8 := r8, BPF_REG_9 := r9,
                     BPF_REG_10 := st_reg s BPF_REG_10 + ucast (frame_stack_usage frame))\<rparr>))
          else Inl (Exec_ok (st_reg s 0), s))
      else None)"

text \<open>
  A call to an external function; a null entry, or an index outside the table, is
  \<^const>\<open>None\<close>.
\<close>

definition call_external ::
  "ubpf_vm \<Rightarrow> uint64_t \<Rightarrow> int32_t \<Rightarrow> registers \<Rightarrow> memory \<Rightarrow> (uint64_t \<times> memory) option" where
  "call_external vm cookie i regs m =
     (case dispatcher vm of
        Some d \<Rightarrow> Some (dispatcher_fn d (regs 1) (regs 2) (regs 3) (regs 4) (regs 5) i cookie m)
      | None \<Rightarrow>
          (if unat i < MAX_EXT_FUNCS then
             (case ext_funcs vm (unat i) of
                None \<Rightarrow> None
              | Some h \<Rightarrow> Some (helper_fn h (regs 1) (regs 2) (regs 3) (regs 4) (regs 5) cookie m))
           else None))"

definition exec_call_external :: "ubpf_vm \<Rightarrow> exec_args \<Rightarrow> ebpf_inst \<Rightarrow> exec_state \<Rightarrow> outcome" where
  "exec_call_external vm args inst s =
     (case call_external vm (arg_mem args) (imm inst) (st_reg s) (st_mem s) of
        None \<Rightarrow> Inl (Exec_fault, s)
      | Some (v, m) \<Rightarrow>
          let s = s\<lparr>st_reg := (st_reg s)(0 := v), st_mem := m\<rparr> in
          if imm inst = unwind_stack_extension_index vm \<and> v = 0 then Inl (Exec_ok v, s) else Inr s)"

definition exec_call_local :: "ebpf_inst \<Rightarrow> exec_state \<Rightarrow> outcome" where
  "exec_call_local inst s =
     (let i = st_frame_index s in
      if i \<ge> UBPF_MAX_CALL_DEPTH then Inl (Exec_error Exec_call_depth, s)
      else
        case frame_at (st_frames s) i of
          None \<Rightarrow> Inl (Exec_fault, s)
        | Some frame \<Rightarrow>
            let regs = st_reg s;
                frame' = frame\<lparr>return_address := st_pc s,
                  saved_registers := (regs BPF_REG_6, regs BPF_REG_7, regs BPF_REG_8, regs BPF_REG_9)\<rparr> in
            Inr (s\<lparr>st_frames := (st_frames s)[i := frame'],
              st_reg := regs(BPF_REG_10 := regs BPF_REG_10 - ucast (frame_stack_usage frame)),
              st_frame_index := i + 1, st_pc := st_pc s + ucast (imm inst)\<rparr>))"

definition exec_call :: "ubpf_vm \<Rightarrow> exec_args \<Rightarrow> ebpf_inst \<Rightarrow> exec_state \<Rightarrow> outcome option" where
  "exec_call vm args inst s =
     (if opcode inst = EBPF_OP_CALL then
        Some (if src inst = 0 then exec_call_external vm args inst s
          else if src inst = 1 then exec_call_local inst s
          else if src inst = 2 then Inl (Exec_error Exec_btf_call, s)
          else Inr s)
      else None)"

section \<open>Atomic operations\<close>

text \<open>
  The switch on the operation: from the operand and the expected value of a
  compare-and-exchange, the update of the value in memory and whether the old value is returned
  in register 0 rather than in the source register. The builtins of \<^verbatim>\<open>vm/ubpf_int.h\<close> return
  the old value.
\<close>

definition atomic_op :: "int32_t \<Rightarrow> 'a::len word \<Rightarrow> 'a word \<Rightarrow> (('a word \<Rightarrow> 'a word) \<times> bool) option" where
  "atomic_op i v expected =
     (let op = i AND ucast EBPF_ALU_OP_MASK in
      if op = ucast EBPF_ALU_OP_ADD then Some (\<lambda>old. old + v, False)
      else if op = ucast EBPF_ALU_OP_OR then Some (\<lambda>old. old OR v, False)
      else if op = ucast EBPF_ALU_OP_AND then Some (\<lambda>old. old AND v, False)
      else if op = ucast EBPF_ALU_OP_XOR then Some (\<lambda>old. old XOR v, False)
      else if op = EBPF_ATOMIC_OP_XCHG AND NOT EBPF_ATOMIC_OP_FETCH then Some (\<lambda>old. v, False)
      else if op = EBPF_ATOMIC_OP_CMPXCHG AND NOT EBPF_ATOMIC_OP_FETCH
      then Some (\<lambda>old. if old = expected then v else old, True)
      else None)"

text \<open>A read-modify-write of \<open>n\<close> bytes: the old value and the new memory.\<close>

definition atomic_update :: "memory \<Rightarrow> uint64_t \<Rightarrow> nat \<Rightarrow> (uint64_t \<Rightarrow> uint64_t) \<Rightarrow> (uint64_t \<times> memory) option" where
  "atomic_update m a n f =
     (case load_le m a n of
        None \<Rightarrow> None
      | Some old \<Rightarrow> map_option (\<lambda>m'. (old, m')) (store_le m a (f old) n))"

definition exec_atomic64 :: "ubpf_vm \<Rightarrow> exec_args \<Rightarrow> ebpf_inst \<Rightarrow> exec_state \<Rightarrow> outcome" where
  "exec_atomic64 vm args inst s =
     (case BOUNDS_CHECK_STORE vm args 8 inst s of
        Inl r \<Rightarrow> Inl r
      | Inr (eff_addr, s) \<Rightarrow>
          (case atomic_op (imm inst) (st_reg s (src inst)) (st_reg s 0) of
             None \<Rightarrow> Inl (Exec_error (Exec_unknown_atomic (imm inst)), s)
           | Some (f, use_r0) \<Rightarrow>
               (case atomic_update (st_mem s) eff_addr 8 f of
                  None \<Rightarrow> Inl (Exec_fault, s)
                | Some (old, m) \<Rightarrow>
                    let atomic_fetch = (imm inst AND EBPF_ATOMIC_OP_FETCH \<noteq> 0);
                        atomic_fetch_index = (if use_r0 then 0 else src inst) in
                    Inr (s\<lparr>st_mem := m,
                      st_reg := (if atomic_fetch then (st_reg s)(atomic_fetch_index := old) else st_reg s)\<rparr>))))"

definition exec_atomic32 :: "ubpf_vm \<Rightarrow> exec_args \<Rightarrow> ebpf_inst \<Rightarrow> exec_state \<Rightarrow> outcome" where
  "exec_atomic32 vm args inst s =
     (case BOUNDS_CHECK_STORE vm args 4 inst s of
        Inl r \<Rightarrow> Inl r
      | Inr (eff_addr, s) \<Rightarrow>
          (case atomic_op (imm inst) (u32 (st_reg s (src inst))) (u32 (st_reg s 0)) of
             None \<Rightarrow> Inl (Exec_error (Exec_unknown_atomic (imm inst)), s)
           | Some (f, use_r0) \<Rightarrow>
               (case atomic_update (st_mem s) eff_addr 4 (\<lambda>old. ucast (f (ucast old))) of
                  None \<Rightarrow> Inl (Exec_fault, s)
                | Some (old, m) \<Rightarrow>
                    let atomic_fetch = (imm inst AND EBPF_ATOMIC_OP_FETCH \<noteq> 0 \<or>
                          imm inst = EBPF_ATOMIC_OP_CMPXCHG \<or> imm inst = EBPF_ATOMIC_OP_XCHG);
                        atomic_fetch_index = (if use_r0 then 0 else src inst) in
                    Inr (s\<lparr>st_mem := m,
                      st_reg := (if atomic_fetch then (st_reg s)(atomic_fetch_index := old) else st_reg s)\<rparr>))))"

definition exec_atomic_inst :: "ubpf_vm \<Rightarrow> exec_args \<Rightarrow> ebpf_inst \<Rightarrow> exec_state \<Rightarrow> outcome option" where
  "exec_atomic_inst vm args inst s =
     (if opcode inst = EBPF_OP_ATOMIC_STORE then Some (exec_atomic64 vm args inst s)
      else if opcode inst = EBPF_OP_ATOMIC32_STORE then Some (exec_atomic32 vm args inst s)
      else None)"

section \<open>One iteration\<close>

text \<open>The value an arithmetic instruction writes to its destination register.\<close>

definition exec_alu :: "ebpf_inst \<Rightarrow> registers \<Rightarrow> uint64_t option" where
  "exec_alu inst regs =
     (case exec_alu32 inst regs of
        Some v \<Rightarrow> Some v
      | None \<Rightarrow> (case exec_endian inst regs of Some v \<Rightarrow> Some v | None \<Rightarrow> exec_alu64 inst regs))"

definition exec_alu_inst :: "ebpf_inst \<Rightarrow> exec_state \<Rightarrow> outcome option" where
  "exec_alu_inst inst s =
     map_option (\<lambda>v. Inr (s\<lparr>st_reg := (st_reg s)(dst inst := v)\<rparr>)) (exec_alu inst (st_reg s))"

text \<open>The groups of cases of the switch, in the order of the source; the first that knows the opcode.\<close>

fun first_case :: "'a option list \<Rightarrow> 'a \<Rightarrow> 'a" where
  "first_case [] d = d"
| "first_case (x # xs) d = (case x of Some y \<Rightarrow> y | None \<Rightarrow> first_case xs d)"

definition exec_switch :: "ubpf_vm \<Rightarrow> exec_args \<Rightarrow> ebpf_inst \<Rightarrow> exec_state \<Rightarrow> outcome" where
  "exec_switch vm args inst s =
     first_case
       [exec_alu_inst inst s, exec_load_inst vm args inst s, exec_store_inst vm args inst s,
        exec_lddw vm inst s, exec_jump_inst inst s, exec_exit inst s, exec_call vm args inst s,
        exec_atomic_inst vm args inst s]
       (Inl (Exec_error (Exec_unknown_opcode (opcode inst)), s))"

text \<open>The truncation after the switch.\<close>

definition mask_alu_result :: "ebpf_inst \<Rightarrow> exec_state \<Rightarrow> exec_state" where
  "mask_alu_result inst s =
     (if opcode inst AND EBPF_CLS_MASK = EBPF_CLS_ALU \<and> opcode inst AND EBPF_ALU_OP_MASK \<noteq> 0xd0
      then s\<lparr>st_reg := (st_reg s)(dst inst := st_reg s (dst inst) AND UINT32_MAX)\<rparr>
      else s)"

text \<open>
  On entry to the program or to a local function, the stack usage of the current frame.
  \<^const>\<open>None\<close>: a null or short array of functions, or a usage that was never computed.
\<close>

definition enter_function :: "ubpf_vm \<Rightarrow> exec_state \<Rightarrow> exec_state option" where
  "enter_function vm s =
     (let pc = st_pc s; i = st_frame_index s in
      case (if pc = 0 then Some True
            else case int_funcs vm of
                None \<Rightarrow> None
              | Some fs \<Rightarrow> if unat pc < length fs then Some (fs ! unat pc) else None) of
        None \<Rightarrow> None
      | Some is_entry \<Rightarrow>
          if is_entry \<and> i < UBPF_MAX_CALL_DEPTH then
            (case (ubpf_stack_usage_for_local_func vm pc, frame_at (st_frames s) i) of
               (Some usage, Some frame) \<Rightarrow>
                 Some (s\<lparr>st_frames := (st_frames s)[i := frame\<lparr>frame_stack_usage := usage\<rparr>]\<rparr>)
             | _ \<Rightarrow> None)
          else Some s)"

text \<open>The rest of an iteration, once the instruction at \<open>cur_pc\<close> is fetched.\<close>

definition call_debug_function :: "ubpf_vm \<Rightarrow> uint16_t \<Rightarrow> exec_state \<Rightarrow> exec_state" where
  "call_debug_function vm cur_pc s =
     (if debug_function vm \<noteq> None
      then s\<lparr>st_debug := (cur_pc, st_reg s, st_shadow_regs s, st_shadow_stack s) # st_debug s\<rparr>
      else s)"

definition exec_instruction :: "ubpf_vm \<Rightarrow> exec_args \<Rightarrow> uint16_t \<Rightarrow> ebpf_inst \<Rightarrow> exec_state \<Rightarrow> outcome" where
  "exec_instruction vm args cur_pc inst s =
     (case ubpf_validate_shadow_register vm (st_shadow_regs s) inst of
        Inl e \<Rightarrow> Inl (Exec_error (Exec_register e), s)
      | Inr sr \<Rightarrow>
          (case exec_switch vm args inst (call_debug_function vm cur_pc (s\<lparr>st_shadow_regs := sr\<rparr>)) of
             Inl r \<Rightarrow> Inl r
           | Inr s \<Rightarrow> Inr (mask_alu_result inst s)))"

definition exec_step :: "ubpf_vm \<Rightarrow> exec_args \<Rightarrow> exec_state \<Rightarrow> outcome" where
  "exec_step vm args s =
     (let cur_pc = st_pc s in
      if cur_pc \<ge> num_insts vm then Inl (Exec_error Exec_pc_out_of_range, s)
      else if instruction_limit vm \<noteq> 0 \<and> sint (st_limit s) \<le> 0 then Inl (Exec_error Exec_limit_exceeded, s)
      else
        let s = (if instruction_limit vm \<noteq> 0 then s\<lparr>st_limit := st_limit s - 1\<rparr> else s) in
        case enter_function vm s of
          None \<Rightarrow> Inl (Exec_fault, s)
        | Some s \<Rightarrow>
            (case ubpf_fetch_instruction vm cur_pc of
               None \<Rightarrow> Inl (Exec_fault, s)
             | Some inst \<Rightarrow> exec_instruction vm args cur_pc inst (s\<lparr>st_pc := cur_pc + 1\<rparr>)))"

section \<open>A run\<close>

definition empty_frame :: ubpf_stack_frame where
  "empty_frame = \<lparr>frame_stack_usage = 0, return_address = 0, saved_registers = (0, 0, 0, 0)\<rparr>"

text \<open>\<open>regs\<close> is the uninitialised register array.\<close>

definition init_state :: "ubpf_vm \<Rightarrow> exec_args \<Rightarrow> registers \<Rightarrow> memory \<Rightarrow> exec_state" where
  "init_state vm args regs m =
     \<lparr>st_pc = 0,
      st_reg = regs(1 := arg_mem args, 2 := arg_mem_len args,
        10 := arg_stack_start args + arg_stack_length args),
      st_frame_index = 0,
      st_frames = replicate UBPF_MAX_CALL_DEPTH empty_frame,
      st_shadow_stack =
        (if undefined_behavior_check_enabled vm then replicate (unat (arg_stack_length args) div 8) 0 else []),
      st_shadow_regs = REGISTER_TO_SHADOW_MASK 1 OR REGISTER_TO_SHADOW_MASK 2 OR REGISTER_TO_SHADOW_MASK 10,
      st_limit = instruction_limit vm, st_mem = m, st_debug = []\<rparr>"

text \<open>
  \<^verbatim>\<open>ubpf_exec_ex\<close> in the legacy profile; \<open>calloc_ok\<close> is the outcome of allocating the shadow
  stack. The result is \<^const>\<open>None\<close> if the run does not return.
\<close>

definition ubpf_exec_ex_legacy ::
  "ubpf_vm \<Rightarrow> exec_args \<Rightarrow> registers \<Rightarrow> memory \<Rightarrow> bool \<Rightarrow> (exec_result \<times> exec_state) option \<times> ubpf_vm" where
  "ubpf_exec_ex_legacy vm args regs m calloc_ok =
     (let s = init_state vm args regs m in
      if insts vm = None then (Some (Exec_error Exec_no_code, s), vm)
      else
        let vm = vm\<lparr>execution_started := True\<rparr> in
        if undefined_behavior_check_enabled vm \<and> \<not> calloc_ok then (Some (Exec_error Exec_no_memory, s), vm)
        else (run_loop (exec_step vm args) s, vm))"

section \<open>Effective addresses\<close>

lemma uint_less_64: "uint (x :: uint64_t) < 2 ^ 64"
  using uint_lt2p [of x] by simp

lemma scast_offset:
  fixes off :: int16_t
  shows "0 \<le> sint off \<Longrightarrow> uint (scast off :: uint64_t) = sint off"
    and "sint off < 0 \<Longrightarrow> uint (- scast off :: uint64_t) = - sint off"
proof -
  have r: "- (2 ^ 15) \<le> sint off" "sint off < 2 ^ 15" using sint_range_size [of off] by (simp_all add: word_size)
  have w: "(scast off :: uint64_t) = word_of_int (sint off)" by (simp add: of_int_sint)
  show "0 \<le> sint off \<Longrightarrow> uint (scast off :: uint64_t) = sint off"
    unfolding w using r by (simp only: uint_word_of_int) simp
  have "(- scast off :: uint64_t) = word_of_int (- sint off)" unfolding w by simp
  then show "sint off < 0 \<Longrightarrow> uint (- scast off :: uint64_t) = - sint off"
    using r by (simp only: uint_word_of_int) simp
qed

lemma sint_offset: "sint (scast (off :: int16_t) :: uint64_t) = sint off"
proof -
  have "- (2 ^ 63) \<le> sint off" "sint off < 2 ^ 63" using sint_range_size [of off] by (simp_all add: word_size)
  then show ?thesis by (simp add: signed_scast_eq signed_take_bit_int_eq_self)
qed

lemma uint_UINT64_MAX_minus: "uint (UINT64_MAX - x) = 2 ^ 64 - 1 - uint x"
proof -
  have "(2 ^ 64 - 1 - uint x) mod 2 ^ 64 = 2 ^ 64 - 1 - uint x"
    using uint_less_64 [of x] uint_ge_0 [of x] by (intro mod_pos_pos_trivial) linarith+
  then show ?thesis by (simp add: uint_word_ariths(2) UINT64_MAX_def)
qed

lemma compute_effective_addr_iff:
  "COMPUTE_EFFECTIVE_ADDR a off = Inr ea \<longleftrightarrow> uint ea = uint a + sint off"
proof (cases "0 \<le> sint off")
  case True
  note w = scast_offset(1) [OF True]
  have off: "0 \<le> sint (scast off :: uint64_t)" using True by (simp add: sint_offset)
  show ?thesis
  proof (cases "uint a + sint off < 2 ^ 64")
    case fits: True
    then have "\<not> a > UINT64_MAX - scast off" and "uint (a + scast off) = uint a + sint off"
      using True by (simp_all add: word_less_def uint_UINT64_MAX_minus w uint_word_ariths(1))
    then show ?thesis using off by (auto simp: COMPUTE_EFFECTIVE_ADDR_def Let_def word_uint_eq_iff)
  next
    case False
    then have "a > UINT64_MAX - scast off" by (simp add: word_less_def uint_UINT64_MAX_minus w)
    then show ?thesis using off False uint_less_64 [of ea] by (auto simp: COMPUTE_EFFECTIVE_ADDR_def Let_def)
  qed
next
  case neg: False
  then have w: "uint (- scast off :: uint64_t) = - sint off" using scast_offset(2) [of off] by simp
  have off: "\<not> 0 \<le> sint (scast off :: uint64_t)" using neg by (simp add: sint_offset)
  show ?thesis
  proof (cases "0 \<le> uint a + sint off")
    case fits: True
    then have "\<not> a < - scast off" and "uint (a - (- scast off)) = uint a + sint off"
      using neg uint_less_64 [of a] unfolding word_less_def uint_word_ariths(2) w by simp_all
    then show ?thesis using off by (auto simp: COMPUTE_EFFECTIVE_ADDR_def Let_def word_uint_eq_iff)
  next
    case False
    then have "a < - scast off" unfolding word_less_def w by simp
    moreover have "uint ea \<noteq> uint a + sint off" using False uint_ge_0 [of ea] by linarith
    ultimately show ?thesis using off by (simp add: COMPUTE_EFFECTIVE_ADDR_def Let_def)
  qed
qed

text \<open>
  C29. Effective addresses: base register plus signed offset, computed over the integers. The
  address is accepted exactly when it is representable in 64 bits; a wrap-around is an error,
  never another address.
\<close>

theorem effective_address_exact:
  "COMPUTE_EFFECTIVE_ADDR a off = Inr ea \<longleftrightarrow> uint ea = uint a + sint off"
  by (rule compute_effective_addr_iff)

end
