(* ===== verification/Exec_Safety.thy ===== *)
theory Exec_Safety
  imports Interp
begin

text \<open>
  Memory safety and termination of the legacy interpreter. Under the contract \<open>program_ok\<close>,
  which loading a program establishes, and with bounds checking on, no run reaches an invalid
  access of any kind, and memory outside the areas the run may touch is unchanged. With an
  instruction limit every run returns.
\<close>

section \<open>The contract of a loaded program\<close>

definition inst_ok :: "ubpf_vm \<Rightarrow> uint16_t \<Rightarrow> ebpf_inst \<Rightarrow> bool" where
  "inst_ok vm pc inst \<longleftrightarrow>
     (opcode inst = EBPF_OP_LDDW \<longrightarrow> pc + 1 < num_insts vm \<and> unat (pc + 1) = unat pc + 1) \<and>
     (opcode inst = EBPF_OP_CALL \<and> src inst = 0 \<longrightarrow>
        dispatcher vm \<noteq> None \<or> unat (imm inst) < MAX_EXT_FUNCS \<and> ext_funcs vm (unat (imm inst)) \<noteq> None)"

definition program_ok :: "ubpf_vm \<Rightarrow> bool" where
  "program_ok vm \<longleftrightarrow>
     (\<exists>base is fs. insts vm = Some (base, is) \<and> length is = unat (num_insts vm) \<and>
        int_funcs vm = Some fs \<and> length fs = unat (num_insts vm) \<and>
        ubpf_stack_usage_for_local_func vm 0 \<noteq> None \<and>
        (\<forall>pc. unat pc < length fs \<and> fs ! unat pc \<longrightarrow> ubpf_stack_usage_for_local_func vm pc \<noteq> None)) \<and>
     (\<forall>pc inst. pc < num_insts vm \<longrightarrow> ubpf_fetch_instruction vm pc = Some inst \<longrightarrow> inst_ok vm pc inst)"

text \<open>The addresses the bounds check lets a program touch.\<close>

definition accessible :: "ubpf_vm \<Rightarrow> exec_args \<Rightarrow> uint64_t set" where
  "accessible vm args =
     (if arg_mem args = 0 then {} else byte_range (arg_mem args) (unat (arg_mem_len args))) \<union>
     byte_range (arg_stack_start args) (unat (arg_stack_length args)) \<union>
     {x. \<exists>a n. n \<le> 8 \<and> callback_allows vm a n \<and> x \<in> byte_range a n}"

definition confined :: "uint64_t set \<Rightarrow> memory \<Rightarrow> memory \<Rightarrow> bool" where
  "confined R m m' \<longleftrightarrow> dom m' = dom m \<and> (\<forall>x. x \<notin> R \<longrightarrow> m' x = m x)"

lemma confined_refl [simp]: "confined R m m"
  by (simp add: confined_def)

lemma confined_trans: "confined R m m' \<Longrightarrow> confined R m' m'' \<Longrightarrow> confined R m m''"
  by (simp add: confined_def)

text \<open>
  What the embedding program promises: the areas are mapped, and helpers neither unmap memory
  nor write outside \<open>R\<close>.
\<close>

definition helpers_confined :: "ubpf_vm \<Rightarrow> uint64_t set \<Rightarrow> bool" where
  "helpers_confined vm R \<longleftrightarrow>
     (\<forall>cookie i regs m v m'. call_external vm cookie i regs m = Some (v, m') \<longrightarrow> confined R m m')"

definition env_ok :: "ubpf_vm \<Rightarrow> exec_args \<Rightarrow> uint64_t set \<Rightarrow> memory \<Rightarrow> bool" where
  "env_ok vm args R m \<longleftrightarrow>
     bounds_check_enabled vm \<and> accessible vm args \<subseteq> dom m \<and> accessible vm args \<subseteq> R \<and>
     helpers_confined vm R \<and>
     (undefined_behavior_check_enabled vm \<longrightarrow> 8 dvd unat (arg_stack_length args))"

definition state_ok :: "ubpf_vm \<Rightarrow> exec_args \<Rightarrow> uint64_t set \<Rightarrow> memory \<Rightarrow> exec_state \<Rightarrow> bool" where
  "state_ok vm args R m s \<longleftrightarrow>
     length (st_frames s) = UBPF_MAX_CALL_DEPTH \<and> st_frame_index s \<le> UBPF_MAX_CALL_DEPTH \<and>
     (undefined_behavior_check_enabled vm \<longrightarrow> unat (arg_stack_length args) \<le> 8 * length (st_shadow_stack s)) \<and>
     confined R m (st_mem s)"

primrec good_outcome :: "(exec_state \<Rightarrow> bool) \<Rightarrow> outcome \<Rightarrow> bool" where
  "good_outcome P (Inl rs) \<longleftrightarrow> fst rs \<noteq> Exec_fault \<and> P (snd rs)"
| "good_outcome P (Inr s) \<longleftrightarrow> P s"

lemma state_ok_simps [simp]:
  "state_ok vm args R m (s\<lparr>st_pc := p\<rparr>) = state_ok vm args R m s"
  "state_ok vm args R m (s\<lparr>st_reg := r\<rparr>) = state_ok vm args R m s"
  "state_ok vm args R m (s\<lparr>st_shadow_regs := sr\<rparr>) = state_ok vm args R m s"
  "state_ok vm args R m (s\<lparr>st_limit := l\<rparr>) = state_ok vm args R m s"
  "state_ok vm args R m (s\<lparr>st_debug := d\<rparr>) = state_ok vm args R m s"
  by (simp_all add: state_ok_def)

section \<open>Accesses\<close>

lemma bounds_check_accessible:
  assumes "bounds_check vm a (int n) args = Inr ()" and "bounds_check_enabled vm" and "n \<le> 8"
  shows "byte_range a n \<subseteq> accessible vm args"
  using bounds_check_accepts_iff [of n vm a args] assms
    byte_range_subset [of "arg_mem args" "arg_mem_len args" a n]
    byte_range_subset [of "arg_stack_start args" "arg_stack_length args" a n]
  by (auto simp: accessible_def)

lemma shadow_range:
  assumes "\<not> a > a + of_nat n" and "a \<ge> b" and "a + of_nat n \<le> b + l" and "n \<le> 8"
  shows "unat (a - b) + n \<le> unat (l :: uint64_t)"
proof -
  have n: "unat (of_nat n :: uint64_t) = n"
    using assms(4) by (simp add: unsigned_of_nat take_bit_nat_eq_self)
  have "unat (a + of_nat n) = (unat a + n) mod 2 ^ 64" by (simp add: unat_word_ariths n)
  moreover have "unat a \<le> unat (a + of_nat n)"
    using assms(1) by (simp only: word_less_nat_alt not_less)
  moreover have "(unat a + n) mod 2 ^ 64 < unat a" if "unat a + n \<ge> 2 ^ 64"
    using that unat_less_64 [of a] assms(4) by (simp add: mod_if) linarith
  ultimately have "unat (a + of_nat n) = unat a + n"
    by (metis leD mod_less not_le)
  moreover have "unat (b + l) \<le> unat b + unat l"
    by (simp add: unat_word_ariths)
  moreover have "unat (a - b) = unat a - unat b" using assms(2) by (rule unat_sub)
  ultimately show ?thesis using assms(2,3) by (simp add: word_le_nat_alt)
qed

lemma check_shadow_stack_defined:
  assumes "undefined_behavior_check_enabled vm \<longrightarrow> unat (arg_stack_length args) \<le> 8 * length sh" and "n \<le> 8"
  shows "\<exists>b. ubpf_check_shadow_stack vm args sh a n = Some b"
  using assms shadow_range [of a n "arg_stack_start args" "arg_stack_length args"]
  by (auto simp: ubpf_check_shadow_stack_def Let_def intro!: check_shadow_bits_defined)

lemma mark_shadow_stack_defined:
  assumes "undefined_behavior_check_enabled vm \<longrightarrow> unat (arg_stack_length args) \<le> 8 * length sh" and "n \<le> 8"
  shows "\<exists>sh'. ubpf_mark_shadow_stack vm args sh a n = Some sh' \<and> length sh' = length sh"
  using assms shadow_range [of a n "arg_stack_start args" "arg_stack_length args"]
    mark_shadow_bits_defined [of "unat (a - arg_stack_start args)" n sh]
  by (auto simp: ubpf_mark_shadow_stack_def Let_def mark_shadow_bits_length)

lemma bounds_check_load_good:
  assumes "env_ok vm args R m" and "state_ok vm args R m s" and "n \<le> 8"
  shows "case BOUNDS_CHECK_LOAD vm args n inst s of
      Inl (r, t) \<Rightarrow> r \<noteq> Exec_fault \<and> state_ok vm args R m t
    | Inr (a, t) \<Rightarrow> state_ok vm args R m t \<and> byte_range a n \<subseteq> accessible vm args"
proof -
  obtain ok where "COMPUTE_EFFECTIVE_ADDR (st_reg s (src inst)) (offset inst) = Inr a \<Longrightarrow>
      ubpf_check_shadow_stack vm args (st_shadow_stack s) a n = Some (ok a)" for a
    using check_shadow_stack_defined [of vm args "st_shadow_stack s" n] assms
    by (metis state_ok_def)
  then show ?thesis
    using assms bounds_check_accessible [of vm _ n args]
    by (auto simp: BOUNDS_CHECK_LOAD_def Let_def env_ok_def split: sum.splits)
qed

lemma bounds_check_store_good:
  assumes "env_ok vm args R m" and "state_ok vm args R m s" and "n \<le> 8"
  shows "case BOUNDS_CHECK_STORE vm args n inst s of
      Inl (r, t) \<Rightarrow> r \<noteq> Exec_fault \<and> state_ok vm args R m t
    | Inr (a, t) \<Rightarrow> state_ok vm args R m t \<and> byte_range a n \<subseteq> accessible vm args"
proof -
  obtain sh where "COMPUTE_EFFECTIVE_ADDR (st_reg s (dst inst)) (offset inst) = Inr a \<Longrightarrow>
      ubpf_mark_shadow_stack vm args (st_shadow_stack s) a n = Some (sh a) \<and>
      length (sh a) = length (st_shadow_stack s)" for a
    using mark_shadow_stack_defined [of vm args "st_shadow_stack s" n] assms
    by (metis state_ok_def)
  moreover from this assms have "COMPUTE_EFFECTIVE_ADDR (st_reg s (dst inst)) (offset inst) = Inr a \<Longrightarrow>
      state_ok vm args R m (s\<lparr>st_shadow_stack := sh a\<rparr>)" for a
    by (simp add: state_ok_def)
  ultimately show ?thesis
    using assms bounds_check_accessible [of vm _ n args]
    by (auto simp: BOUNDS_CHECK_STORE_def env_ok_def split: sum.splits)
qed

lemma accessible_mapped:
  "env_ok vm args R m \<Longrightarrow> state_ok vm args R m s \<Longrightarrow> byte_range a n \<subseteq> accessible vm args \<Longrightarrow>
    byte_range a n \<subseteq> dom (st_mem s) \<and> byte_range a n \<subseteq> R"
  by (auto simp: env_ok_def state_ok_def confined_def)

lemma store_le_state_ok:
  assumes "env_ok vm args R m" and "state_ok vm args R m s" and "byte_range a n \<subseteq> accessible vm args"
    and "store_le (st_mem s) a v n = Some m'"
  shows "state_ok vm args R m (s\<lparr>st_mem := m'\<rparr>)"
proof -
  have "confined R (st_mem s) m'"
    unfolding confined_def
    using accessible_mapped [OF assms(1,2,3)] store_le_dom [OF assms(4)] store_le_frame [OF assms(4)]
    by blast
  with assms(2) show ?thesis by (auto simp: state_ok_def intro: confined_trans)
qed

section \<open>The cases of the switch\<close>

lemma exec_ldx_good:
  assumes "env_ok vm args R m" and "state_ok vm args R m s" and "n \<le> 8"
    and load: "\<And>m a. byte_range a n \<subseteq> dom m \<Longrightarrow> \<exists>v. load m a n = Some v"
  shows "good_outcome (state_ok vm args R m) (exec_ldx load vm args n inst s)"
proof (cases "BOUNDS_CHECK_LOAD vm args n inst s")
  case (Inl r)
  with bounds_check_load_good [OF assms(1-3), of inst] show ?thesis
    by (cases r) (simp add: exec_ldx_def)
next
  case (Inr at)
  then obtain a t where at: "BOUNDS_CHECK_LOAD vm args n inst s = Inr (a, t)" by (cases at) auto
  with bounds_check_load_good [OF assms(1-3), of inst]
  have t: "state_ok vm args R m t" "byte_range a n \<subseteq> accessible vm args" by auto
  with accessible_mapped [OF assms(1) t] load obtain v where "load (st_mem t) a n = Some v" by blast
  with at t show ?thesis by (simp add: exec_ldx_def)
qed

lemma exec_stx_good:
  assumes "env_ok vm args R m" and "state_ok vm args R m s" and n: "n \<in> {1, 2, 4, 8}"
  shows "good_outcome (state_ok vm args R m) (exec_stx vm args v n inst s)"
proof (cases "BOUNDS_CHECK_STORE vm args n inst s")
  case (Inl r)
  with bounds_check_store_good [OF assms(1,2), of n inst] n show ?thesis
    by (cases r) (auto simp: exec_stx_def)
next
  case (Inr at)
  then obtain a t where at: "BOUNDS_CHECK_STORE vm args n inst s = Inr (a, t)" by (cases at) auto
  with bounds_check_store_good [OF assms(1,2), of n inst] n
  have t: "state_ok vm args R m t" "byte_range a n \<subseteq> accessible vm args" by auto
  with accessible_mapped [OF assms(1) t] store_le_mapped obtain m'
    where m': "store_le (st_mem t) a v n = Some m'" by blast
  with store_le_state_ok [OF assms(1) t m'] at show ?thesis
    by (simp add: exec_stx_def ubpf_mem_store_eq [OF n])
qed

lemma exec_load_inst_good:
  assumes "env_ok vm args R m" and "state_ok vm args R m s" and "exec_load_inst vm args inst s = Some out"
  shows "good_outcome (state_ok vm args R m) out"
proof -
  have load: "n \<in> {1, 2, 4, 8} \<Longrightarrow> byte_range a n \<subseteq> dom m \<Longrightarrow> \<exists>v. ubpf_mem_load m a n = Some v" for m a n
    by (simp only: ubpf_mem_load_eq load_le_mapped)
  have sx: "n \<in> {1, 2, 4} \<Longrightarrow> byte_range a n \<subseteq> dom m \<Longrightarrow> \<exists>v. ubpf_mem_load_sx m a n = Some v" for m a n
    using load_le_mapped [of a n m] by (auto simp only: ubpf_mem_load_sx_eq option.map)
  show ?thesis
    using assms(3) exec_ldx_good [OF assms(1,2) _ load] exec_ldx_good [OF assms(1,2) _ sx]
    unfolding exec_load_inst_def Let_def
    by (simp only: insert_iff numeral_eq_iff split: if_splits) auto
qed

lemma exec_store_inst_good:
  assumes "env_ok vm args R m" and "state_ok vm args R m s" and "exec_store_inst vm args inst s = Some out"
  shows "good_outcome (state_ok vm args R m) out"
  using assms(3) exec_stx_good [OF assms(1,2)] unfolding exec_store_inst_def Let_def
  by (auto split: if_splits)

lemma exec_lddw_good:
  assumes "state_ok vm args R m s" and "program_ok vm" and "opcode inst = EBPF_OP_LDDW \<longrightarrow> st_pc s < num_insts vm"
    and "exec_lddw vm inst s = Some out"
  shows "good_outcome (state_ok vm args R m) out"
proof -
  have "\<exists>i. ubpf_fetch_instruction vm (st_pc s) = Some i" if "st_pc s < num_insts vm"
    using that assms(2) by (auto simp: program_ok_def ubpf_fetch_instruction_def word_less_nat_alt)
  then show ?thesis using assms by (auto simp: exec_lddw_def split: if_splits)
qed

lemma exec_jump_inst_good:
  "state_ok vm args R m s \<Longrightarrow> exec_jump_inst inst s = Some out \<Longrightarrow> good_outcome (state_ok vm args R m) out"
  by (auto simp: exec_jump_inst_def split: if_splits option.splits)

lemma exec_alu_inst_good:
  "state_ok vm args R m s \<Longrightarrow> exec_alu_inst inst s = Some out \<Longrightarrow> good_outcome (state_ok vm args R m) out"
  by (auto simp: exec_alu_inst_def)

lemma exec_exit_good:
  assumes "state_ok vm args R m s" and "exec_exit inst s = Some out"
  shows "good_outcome (state_ok vm args R m) out"
  using assms by (auto simp: exec_exit_def frame_at_def state_ok_def Let_def split: if_splits prod.splits)

lemma exec_call_good:
  assumes "env_ok vm args R m" and "state_ok vm args R m s" and "inst_ok vm pc inst"
    and "exec_call vm args inst s = Some out"
  shows "good_outcome (state_ok vm args R m) out"
proof -
  have "good_outcome (state_ok vm args R m) (exec_call_external vm args inst s)"
    if "opcode inst = EBPF_OP_CALL" "src inst = 0"
  proof -
    from that assms(3) obtain v m' where c:
      "call_external vm (arg_mem args) (imm inst) (st_reg s) (st_mem s) = Some (v, m')"
      by (fastforce simp: inst_ok_def call_external_def split: option.splits)
    then have "confined R (st_mem s) m'" using assms(1) by (auto simp: env_ok_def helpers_confined_def)
    with assms(2) c show ?thesis
      by (auto simp: exec_call_external_def Let_def state_ok_def intro: confined_trans)
  qed
  moreover have "good_outcome (state_ok vm args R m) (exec_call_local inst s)"
    using assms(2) by (auto simp: exec_call_local_def frame_at_def state_ok_def Let_def)
  ultimately show ?thesis using assms(2,4) by (auto simp: exec_call_def split: if_splits)
qed

lemma atomic_update_good:
  assumes "env_ok vm args R m" and "state_ok vm args R m s" and "byte_range a n \<subseteq> accessible vm args"
  shows "\<exists>old m'. atomic_update (st_mem s) a n f = Some (old, m') \<and> state_ok vm args R m (s\<lparr>st_mem := m'\<rparr>)"
proof -
  from accessible_mapped [OF assms] have mapped: "byte_range a n \<subseteq> dom (st_mem s)" ..
  then obtain old where "load_le (st_mem s) a n = Some old" using load_le_mapped by blast
  moreover from mapped obtain m' where "store_le (st_mem s) a (f old) n = Some m'"
    using store_le_mapped by blast
  ultimately show ?thesis using store_le_state_ok [OF assms] by (auto simp: atomic_update_def)
qed

lemma exec_atomic_inst_good:
  assumes "env_ok vm args R m" and "state_ok vm args R m s" and "exec_atomic_inst vm args inst s = Some out"
  shows "good_outcome (state_ok vm args R m) out"
proof -
  have upd: "state_ok vm args R m (t\<lparr>st_mem := m', st_reg := r\<rparr>) = state_ok vm args R m (t\<lparr>st_mem := m'\<rparr>)" for t m' r
    by (simp add: state_ok_def)
  have atomic: "atomic_update (st_mem t) a n f = None \<Longrightarrow> state_ok vm args R m t \<Longrightarrow>
        byte_range a n \<subseteq> accessible vm args \<Longrightarrow> False"
      "atomic_update (st_mem t) a n f = Some (old, m') \<Longrightarrow> state_ok vm args R m t \<Longrightarrow>
        byte_range a n \<subseteq> accessible vm args \<Longrightarrow> state_ok vm args R m (t\<lparr>st_mem := m'\<rparr>)" for t a n f old m'
    using atomic_update_good [OF assms(1), of t a n f] by auto
  have "good_outcome (state_ok vm args R m) (exec_atomic64 vm args inst s)"
    using bounds_check_store_good [OF assms(1,2), of 8 inst]
    by (auto simp: exec_atomic64_def Let_def upd dest!: atomic split: sum.splits option.splits)
  moreover have "good_outcome (state_ok vm args R m) (exec_atomic32 vm args inst s)"
    using bounds_check_store_good [OF assms(1,2), of 4 inst]
    by (auto simp: exec_atomic32_def Let_def upd dest!: atomic split: sum.splits option.splits)
  ultimately show ?thesis using assms(3) by (auto simp: exec_atomic_inst_def split: if_splits)
qed

lemma first_case_induct:
  assumes "\<And>x. Some x \<in> set cs \<Longrightarrow> P x" and "P d"
  shows "P (first_case cs d)"
  using assms by (induction cs) (auto split: option.splits)

lemma exec_switch_good:
  assumes "env_ok vm args R m" and "state_ok vm args R m s" and "program_ok vm" and "inst_ok vm pc inst"
    and "opcode inst = EBPF_OP_LDDW \<longrightarrow> st_pc s < num_insts vm"
  shows "good_outcome (state_ok vm args R m) (exec_switch vm args inst s)"
  unfolding exec_switch_def
proof (rule first_case_induct)
  fix x
  assume "Some x \<in> set [exec_alu_inst inst s, exec_load_inst vm args inst s, exec_store_inst vm args inst s,
      exec_lddw vm inst s, exec_jump_inst inst s, exec_exit inst s, exec_call vm args inst s,
      exec_atomic_inst vm args inst s]"
  then have "exec_alu_inst inst s = Some x \<or> exec_load_inst vm args inst s = Some x \<or>
      exec_store_inst vm args inst s = Some x \<or> exec_lddw vm inst s = Some x \<or>
      exec_jump_inst inst s = Some x \<or> exec_exit inst s = Some x \<or> exec_call vm args inst s = Some x \<or>
      exec_atomic_inst vm args inst s = Some x" by auto
  then show "good_outcome (state_ok vm args R m) x"
    using exec_alu_inst_good [OF assms(2)] exec_load_inst_good [OF assms(1,2)]
      exec_store_inst_good [OF assms(1,2)] exec_lddw_good [OF assms(2,3,5)] exec_jump_inst_good [OF assms(2)]
      exec_exit_good [OF assms(2)] exec_call_good [OF assms(1,2,4)] exec_atomic_inst_good [OF assms(1,2)]
    by blast
qed (use assms(2) in simp)

section \<open>The step\<close>

lemma mask_alu_result_state_ok [simp]:
  "state_ok vm args R m (mask_alu_result inst s) = state_ok vm args R m s"
  by (simp add: mask_alu_result_def)

lemma enter_function_total:
  assumes "program_ok vm" and "length (st_frames s) = UBPF_MAX_CALL_DEPTH" and "st_pc s < num_insts vm"
  shows "\<exists>fs. enter_function vm s = Some (s\<lparr>st_frames := fs\<rparr>) \<and> length fs = UBPF_MAX_CALL_DEPTH \<and>
    (\<forall>i. i \<noteq> st_frame_index s \<longrightarrow> fs ! i = st_frames s ! i)"
proof -
  from assms(1) obtain fs where fs: "int_funcs vm = Some fs" "length fs = unat (num_insts vm)"
    "ubpf_stack_usage_for_local_func vm 0 \<noteq> None"
    "\<And>pc. unat pc < length fs \<Longrightarrow> fs ! unat pc \<Longrightarrow> ubpf_stack_usage_for_local_func vm pc \<noteq> None"
    by (auto simp: program_ok_def)
  define entry where "entry \<longleftrightarrow> st_pc s = 0 \<or> fs ! unat (st_pc s)"
  have pc: "unat (st_pc s) < length fs" using assms(3) fs(2) by (simp add: word_less_nat_alt)
  have e: "(if st_pc s = 0 then Some True else case int_funcs vm of None \<Rightarrow> None
      | Some fs \<Rightarrow> if unat (st_pc s) < length fs then Some (fs ! unat (st_pc s)) else None) = Some entry"
    using fs(1) pc by (simp add: entry_def)
  show ?thesis
  proof (cases "entry \<and> st_frame_index s < UBPF_MAX_CALL_DEPTH")
    case True
    then obtain u where "ubpf_stack_usage_for_local_func vm (st_pc s) = Some u" using fs(3,4) pc by (auto simp: entry_def)
    with True assms(2) show ?thesis unfolding enter_function_def Let_def e
      by (intro exI [of _ "(st_frames s)[st_frame_index s := (st_frames s ! st_frame_index s)\<lparr>frame_stack_usage := u\<rparr>]"])
        (simp add: frame_at_def)
  next
    case False
    then show ?thesis using assms(2) unfolding enter_function_def Let_def e by (intro exI [of _ "st_frames s"]) auto
  qed
qed

lemma enter_function_good:
  assumes "program_ok vm" and "state_ok vm args R m s" and "st_pc s < num_insts vm"
  shows "\<exists>t. enter_function vm s = Some t \<and> state_ok vm args R m t \<and> st_pc t = st_pc s"
proof -
  from assms(2) have "length (st_frames s) = UBPF_MAX_CALL_DEPTH" by (simp add: state_ok_def)
  from enter_function_total [OF assms(1) this assms(3)] assms(2) show ?thesis by (auto simp: state_ok_def)
qed

lemma exec_instruction_good:
  assumes "env_ok vm args R m" and "state_ok vm args R m s" and "program_ok vm" and "inst_ok vm pc inst"
    and "opcode inst = EBPF_OP_LDDW \<longrightarrow> st_pc s < num_insts vm"
  shows "good_outcome (state_ok vm args R m) (exec_instruction vm args pc inst s)"
proof (cases "ubpf_validate_shadow_register vm (st_shadow_regs s) inst")
  case (Inl e)
  with assms(2) show ?thesis by (simp add: exec_instruction_def)
next
  case (Inr sr)
  let ?s = "call_debug_function vm pc (s\<lparr>st_shadow_regs := sr\<rparr>)"
  have "state_ok vm args R m ?s" "st_pc ?s = st_pc s"
    using assms(2) by (simp_all add: call_debug_function_def)
  with exec_switch_good [OF assms(1) _ assms(3,4), of ?s] assms(5)
  have "good_outcome (state_ok vm args R m) (exec_switch vm args inst ?s)" by simp
  with Inr show ?thesis
    by (cases "exec_switch vm args inst ?s") (auto simp: exec_instruction_def)
qed

lemma exec_step_good:
  assumes "env_ok vm args R m" and "state_ok vm args R m s" and "program_ok vm"
  shows "good_outcome (state_ok vm args R m) (exec_step vm args s)"
proof -
  define s1 where "s1 = (if instruction_limit vm \<noteq> 0 then s\<lparr>st_limit := st_limit s - 1\<rparr> else s)"
  have s1: "state_ok vm args R m s1" "st_pc s1 = st_pc s" using assms(2) by (simp_all add: s1_def)
  show ?thesis
  proof (cases "st_pc s < num_insts vm")
    case True
    then obtain s2 where s2: "enter_function vm s1 = Some s2" "state_ok vm args R m s2" "st_pc s2 = st_pc s"
      using enter_function_good [OF assms(3) s1(1)] s1(2) by auto
    from True assms(3) obtain inst where inst: "ubpf_fetch_instruction vm (st_pc s) = Some inst"
      by (auto simp: program_ok_def ubpf_fetch_instruction_def word_less_nat_alt)
    with True assms(3) have ok: "inst_ok vm (st_pc s) inst" by (auto simp: program_ok_def)
    with s2(2) have "good_outcome (state_ok vm args R m)
        (exec_instruction vm args (st_pc s) inst (s2\<lparr>st_pc := st_pc s + 1\<rparr>))"
      by (intro exec_instruction_good [OF assms(1) _ assms(3) ok]) (auto simp: inst_ok_def)
    with True assms(2) s2(1) inst show ?thesis
      unfolding exec_step_def Let_def s1_def [symmetric] by simp
  next
    case False
    with assms(2) show ?thesis by (simp add: exec_step_def Let_def not_less)
  qed
qed

section \<open>What an instruction leaves alone\<close>

text \<open>Instructions that write the frame pointer: none of a validated program, but for atomics.\<close>

definition is_atomic :: "ebpf_inst \<Rightarrow> bool" where
  "is_atomic inst \<longleftrightarrow> opcode inst = EBPF_OP_ATOMIC_STORE \<or> opcode inst = EBPF_OP_ATOMIC32_STORE"

definition keeps_frame_pointer :: "ebpf_inst \<Rightarrow> bool" where
  "keeps_frame_pointer inst \<longleftrightarrow>
     (dst inst = BPF_REG_10 \<longrightarrow>
        opcode inst AND EBPF_CLS_MASK \<in> {EBPF_CLS_ST, EBPF_CLS_STX, EBPF_CLS_JMP, EBPF_CLS_JMP32}) \<and>
     (is_atomic inst \<longrightarrow> src inst \<noteq> BPF_REG_10)"

definition same_frames :: "exec_state \<Rightarrow> exec_state \<Rightarrow> bool" where
  "same_frames s t \<longleftrightarrow> st_limit t = st_limit s \<and> st_frames t = st_frames s \<and> st_frame_index t = st_frame_index s"

lemma same_frames_refl [simp]: "same_frames s s"
  by (simp add: same_frames_def)

lemma bounds_check_load_frame:
  "BOUNDS_CHECK_LOAD vm args n inst s = Inr (a, t) \<Longrightarrow> same_frames s t \<and> st_reg t = st_reg s \<and> st_pc t = st_pc s"
  by (auto simp: BOUNDS_CHECK_LOAD_def same_frames_def Let_def split: sum.splits option.splits if_splits)

lemma bounds_check_store_frame:
  "BOUNDS_CHECK_STORE vm args n inst s = Inr (a, t) \<Longrightarrow> same_frames s t \<and> st_reg t = st_reg s \<and> st_pc t = st_pc s"
  by (auto simp: BOUNDS_CHECK_STORE_def same_frames_def split: sum.splits option.splits)

lemma exec_ldx_frame:
  "exec_ldx load vm args n inst s = Inr t \<Longrightarrow>
    same_frames s t \<and> st_pc t = st_pc s \<and> (\<forall>r. r \<noteq> dst inst \<longrightarrow> st_reg t r = st_reg s r)"
  by (auto simp: exec_ldx_def same_frames_def split: sum.splits option.splits dest!: bounds_check_load_frame)

lemma exec_stx_frame:
  "exec_stx vm args v n inst s = Inr t \<Longrightarrow> same_frames s t \<and> st_pc t = st_pc s \<and> st_reg t = st_reg s"
  by (auto simp: exec_stx_def same_frames_def split: sum.splits option.splits dest!: bounds_check_store_frame)

lemma exec_atomic64_frame:
  "exec_atomic64 vm args inst s = Inr t \<Longrightarrow>
    same_frames s t \<and> st_pc t = st_pc s \<and> (\<forall>r. r \<noteq> src inst \<and> r \<noteq> 0 \<longrightarrow> st_reg t r = st_reg s r)"
  by (auto simp: exec_atomic64_def same_frames_def Let_def
      split: sum.splits option.splits if_splits dest!: bounds_check_store_frame)

lemma exec_atomic32_frame:
  "exec_atomic32 vm args inst s = Inr t \<Longrightarrow>
    same_frames s t \<and> st_pc t = st_pc s \<and> (\<forall>r. r \<noteq> src inst \<and> r \<noteq> 0 \<longrightarrow> st_reg t r = st_reg s r)"
  by (auto simp: exec_atomic32_def same_frames_def Let_def
      split: sum.splits option.splits if_splits dest!: bounds_check_store_frame)

lemma exec_alu_class:
  "exec_alu inst regs = Some v \<Longrightarrow> opcode inst AND EBPF_CLS_MASK \<in> {EBPF_CLS_ALU, EBPF_CLS_ALU64}"
  unfolding exec_alu_def exec_alu32_def exec_endian_def exec_alu64_def Let_def
  by (auto simp add: opcode_vals split: if_splits option.splits)

lemma first_case_cases: "first_case cs d = x \<Longrightarrow> Some x \<in> set cs \<or> x = d"
  by (induction cs) (auto split: option.splits)

lemma exec_switch_cases:
  assumes "exec_switch vm args inst s = Inr t"
  obtains "exec_alu_inst inst s = Some (Inr t)" | "exec_load_inst vm args inst s = Some (Inr t)"
    | "exec_store_inst vm args inst s = Some (Inr t)" | "exec_lddw vm inst s = Some (Inr t)"
    | "exec_jump_inst inst s = Some (Inr t)" | "exec_exit inst s = Some (Inr t)"
    | "exec_call vm args inst s = Some (Inr t)" | "exec_atomic_inst vm args inst s = Some (Inr t)"
  using first_case_cases [OF assms [unfolded exec_switch_def]] by auto

lemma exec_call_frame:
  assumes "exec_call vm args inst s = Some (Inr t)" and "src inst \<noteq> 1"
  shows "same_frames s t \<and> (\<forall>r. r \<noteq> 0 \<longrightarrow> st_reg t r = st_reg s r)"
  using assms
  by (auto simp: exec_call_def exec_call_external_def same_frames_def Let_def split: if_splits option.splits)

lemma exec_switch_frame:
  assumes "exec_switch vm args inst s = Inr t" and "opcode inst \<noteq> EBPF_OP_EXIT"
    and "\<not> (opcode inst = EBPF_OP_CALL \<and> src inst = 1)"
  shows "same_frames s t \<and> (keeps_frame_pointer inst \<longrightarrow> st_reg t BPF_REG_10 = st_reg s BPF_REG_10)"
  using assms(1)
proof (cases rule: exec_switch_cases)
  case 1
  then show ?thesis using exec_alu_class [of inst "st_reg s"]
    by (auto simp: exec_alu_inst_def same_frames_def keeps_frame_pointer_def opcode_vals)
next
  case 2
  then have "opcode inst AND EBPF_CLS_MASK = EBPF_CLS_LDX" and
    "same_frames s t \<and> (\<forall>r. r \<noteq> dst inst \<longrightarrow> st_reg t r = st_reg s r)"
    by (auto simp: exec_load_inst_def Let_def opcode_vals split: if_splits dest!: exec_ldx_frame)
  then show ?thesis by (auto simp: keeps_frame_pointer_def opcode_vals)
next
  case 3
  then show ?thesis by (auto simp: exec_store_inst_def Let_def split: if_splits dest!: exec_stx_frame)
next
  case 4
  then show ?thesis
    by (auto simp: exec_lddw_def same_frames_def keeps_frame_pointer_def opcode_vals split: if_splits option.splits)
next
  case 5
  then show ?thesis by (auto simp: exec_jump_inst_def same_frames_def split: if_splits option.splits)
next
  case 6
  with assms(2) show ?thesis by (simp add: exec_exit_def)
next
  case 7
  with assms(3) have "src inst \<noteq> 1" by (auto simp: exec_call_def split: if_splits)
  with exec_call_frame [OF 7] show ?thesis by (simp add: BPF_REG_10_def)
next
  case 8
  then have "is_atomic inst \<and> same_frames s t \<and> (\<forall>r. r \<noteq> src inst \<and> r \<noteq> 0 \<longrightarrow> st_reg t r = st_reg s r)"
    by (auto simp: exec_atomic_inst_def is_atomic_def split: if_splits
        dest!: exec_atomic64_frame exec_atomic32_frame)
  then show ?thesis by (auto simp: keeps_frame_pointer_def BPF_REG_10_def)
qed

lemma exec_switch_limit: "exec_switch vm args inst s = Inr t \<Longrightarrow> st_limit t = st_limit s"
proof (cases "opcode inst = EBPF_OP_EXIT \<or> opcode inst = EBPF_OP_CALL \<and> src inst = 1")
  case True
  assume "exec_switch vm args inst s = Inr t"
  then show ?thesis
  proof (cases rule: exec_switch_cases)
    case 6
    then show ?thesis by (auto simp: exec_exit_def Let_def split: if_splits option.splits prod.splits)
  next
    case 7
    then show ?thesis
      by (auto simp: exec_call_def exec_call_local_def exec_call_external_def Let_def
          split: if_splits option.splits)
  qed (use True in \<open>auto simp: exec_alu_inst_def exec_alu_def exec_alu32_def exec_endian_def exec_alu64_def
      exec_load_inst_def exec_store_inst_def exec_lddw_def exec_atomic_inst_def Let_def opcode_vals
      exec_jump_inst_def exec_cond_jump_defs\<close>)
next
  case False
  assume "exec_switch vm args inst s = Inr t"
  from exec_switch_frame [OF this] False show ?thesis by (simp add: same_frames_def)
qed

text \<open>The parts of an iteration that goes on.\<close>

lemma exec_step_continues:
  assumes "exec_step vm args s = Inr u"
  obtains s1 s2 s3 t inst where
    "s1 = (if instruction_limit vm \<noteq> 0 then s\<lparr>st_limit := st_limit s - 1\<rparr> else s)"
    "st_pc s < num_insts vm" "instruction_limit vm \<noteq> 0 \<longrightarrow> 0 < sint (st_limit s)"
    "enter_function vm s1 = Some s2" "ubpf_fetch_instruction vm (st_pc s) = Some inst"
    "st_pc s3 = st_pc s + 1" "st_reg s3 = st_reg s2" "st_mem s3 = st_mem s2" "same_frames s2 s3"
    "exec_switch vm args inst s3 = Inr t" "u = mask_alu_result inst t"
proof -
  define s1 where "s1 = (if instruction_limit vm \<noteq> 0 then s\<lparr>st_limit := st_limit s - 1\<rparr> else s)"
  have "st_pc s \<ge> num_insts vm \<Longrightarrow> \<exists>r. exec_step vm args s = Inl r"
    "instruction_limit vm \<noteq> 0 \<and> sint (st_limit s) \<le> 0 \<Longrightarrow> \<exists>r. exec_step vm args s = Inl r"
    by (cases "num_insts vm \<le> st_pc s"; simp add: exec_step_def)+
  with assms have g: "\<not> st_pc s \<ge> num_insts vm" "\<not> (instruction_limit vm \<noteq> 0 \<and> sint (st_limit s) \<le> 0)"
    by auto
  with assms obtain s2 inst where e: "enter_function vm s1 = Some s2"
    "ubpf_fetch_instruction vm (st_pc s) = Some inst"
    "exec_instruction vm args (st_pc s) inst (s2\<lparr>st_pc := st_pc s + 1\<rparr>) = Inr u"
    unfolding exec_step_def Let_def s1_def [symmetric] by (auto split: option.splits)
  then obtain sr t where "exec_switch vm args inst
      (call_debug_function vm (st_pc s) (s2\<lparr>st_pc := st_pc s + 1, st_shadow_regs := sr\<rparr>)) = Inr t"
    "u = mask_alu_result inst t"
    by (auto simp: exec_instruction_def split: sum.splits)
  then show thesis
    using that [OF s1_def _ _ e(1,2),
        of "call_debug_function vm (st_pc s) (s2\<lparr>st_pc := st_pc s + 1, st_shadow_regs := sr\<rparr>)" t] g
    by (auto simp: call_debug_function_def same_frames_def)
qed

lemma enter_function_limit: "enter_function vm s = Some t \<Longrightarrow> st_limit t = st_limit s"
  by (auto simp: enter_function_def Let_def split: option.splits if_splits)

lemma mask_alu_result_frame [simp]:
  "st_limit (mask_alu_result inst s) = st_limit s"
  "st_frames (mask_alu_result inst s) = st_frames s"
  "st_frame_index (mask_alu_result inst s) = st_frame_index s"
  "st_pc (mask_alu_result inst s) = st_pc s"
  "st_mem (mask_alu_result inst s) = st_mem s"
  by (simp_all add: mask_alu_result_def)

lemma exec_step_limit:
  assumes "exec_step vm args s = Inr u" and "instruction_limit vm \<noteq> 0"
  shows "0 < sint (st_limit s) \<and> st_limit u = st_limit s - 1"
  using assms(1)
proof (cases rule: exec_step_continues)
  case (1 s1 s2 s3 t inst)
  from exec_switch_limit [OF 1(10)] enter_function_limit [OF 1(4)] 1(1,3,9,11) assms(2)
  show ?thesis by (simp add: same_frames_def)
qed

lemma sint_minus_1: "0 < sint (x :: int32_t) \<Longrightarrow> sint (x - 1) = sint x - 1"
  using sint_range_size [of x] by (simp add: sint_word_ariths signed_take_bit_int_eq_self word_size)

section \<open>The interpreter as a bounded, invariant-preserving machine\<close>

interpretation legacy: step_invariant "exec_step vm args"
    "\<lambda>s. program_ok vm \<and> env_ok vm args R m \<and> state_ok vm args R m s" for vm args R m
proof
  fix s s'
  assume "program_ok vm \<and> env_ok vm args R m \<and> state_ok vm args R m s" and "exec_step vm args s = Inr s'"
  with exec_step_good [of vm args R m s]
  show "program_ok vm \<and> env_ok vm args R m \<and> state_ok vm args R m s'" by simp
qed

interpretation limited: bounded_steps "exec_step vm args"
    "\<lambda>s. instruction_limit vm \<noteq> 0" "\<lambda>s. nat (sint (st_limit s))" for vm args
  by standard (use exec_step_limit sint_minus_1 in force)+

lemma init_state_ok: "env_ok vm args R m \<Longrightarrow> state_ok vm args R m (init_state vm args regs m)"
  by (auto simp: env_ok_def state_ok_def init_state_def)

lemma execution_started_irrelevant [simp]:
  "ubpf_fetch_instruction (vm\<lparr>execution_started := b\<rparr>) = ubpf_fetch_instruction vm"
  "ubpf_stack_usage_for_local_func (vm\<lparr>execution_started := b\<rparr>) = ubpf_stack_usage_for_local_func vm"
  "call_external (vm\<lparr>execution_started := b\<rparr>) = call_external vm"
  "callback_allows (vm\<lparr>execution_started := b\<rparr>) = callback_allows vm"
  by (simp_all add: fun_eq_iff ubpf_fetch_instruction_def ubpf_stack_usage_for_local_func_def
      call_external_def callback_allows_def split: option.split)

lemma execution_started_ok [simp]:
  "program_ok (vm\<lparr>execution_started := b\<rparr>) = program_ok vm"
  "env_ok (vm\<lparr>execution_started := b\<rparr>) args R m = env_ok vm args R m"
  by (simp_all add: program_ok_def inst_ok_def env_ok_def accessible_def helpers_confined_def)

lemma legacy_run_safe:
  assumes "program_ok vm" and "env_ok vm args R m"
    and "fst (ubpf_exec_ex_legacy vm args regs m calloc_ok) = Some (r, t)"
  shows "r \<noteq> Exec_fault \<and> confined R m (st_mem t)"
proof -
  let ?vm = "vm\<lparr>execution_started := True\<rparr>"
  have init: "state_ok ?vm args R m (init_state vm args regs m)"
    using init_state_ok [of ?vm args R m regs] assms(2) by (simp add: init_state_def)
  have run: "r \<noteq> Exec_fault \<and> state_ok ?vm args R m t"
    if "run_loop (exec_step ?vm args) (init_state vm args regs m) = Some (r, t)"
  proof -
    from legacy.run_result [OF that, of R m] init assms(1,2) obtain s
      where "state_ok ?vm args R m s" "exec_step ?vm args s = Inl (r, t)" by auto
    with exec_step_good [of ?vm args R m s] assms(1,2) show ?thesis by simp
  qed
  from init assms(3) run show ?thesis
    by (auto simp: ubpf_exec_ex_legacy_def Let_def state_ok_def split: if_splits)
qed

lemma limited_run:
  assumes "instruction_limit vm \<noteq> 0"
  shows "\<exists>r t. fst (ubpf_exec_ex_legacy vm args regs m calloc_ok) = Some (r, t)"
  using limited.run_terminates [of "vm\<lparr>execution_started := True\<rparr>" args "init_state vm args regs m"] assms
  by (simp add: ubpf_exec_ex_legacy_def Let_def)

end
