(* ===== verification/Load_Correct.thy ===== *)
theory Load_Correct
  imports Validate Exec_Safety
begin

text \<open>
  Loading and running together: what \<^verbatim>\<open>ubpf_load\<close> stores is the validated program, it marks
  the local functions, and the machine it returns meets the contract \<open>program_ok\<close> on which the
  safety of the interpreter rests.
\<close>

section \<open>The target of a local call\<close>

lemma local_target_unat:
  assumes "local_call_in_range is i" and "length is < UBPF_MAX_INSTS" and "i < length is"
  defines "k \<equiv> int i + sint (imm (is ! i)) + 1"
  shows "unat ((of_nat i :: uint32_t) + imm (is ! i) + 1) = nat k"
    and "unat (local_target i (is ! i)) = nat k" and "nat k < length is"
proof -
  have k: "0 \<le> k" "k < 65536" "k < int (length is)"
    using assms by (simp_all add: local_call_in_range_def UBPF_MAX_INSTS_def)
  have "(of_nat i :: uint32_t) + imm (is ! i) + 1 = word_of_int k"
    by (simp add: k_def)
  then show "unat ((of_nat i :: uint32_t) + imm (is ! i) + 1) = nat k"
    using k by (simp add: unsigned_of_int take_bit_int_eq_self)
  have "local_target i (is ! i) = word_of_int k"
    by (simp only: local_target_def k_def add.assoc)
  then show "unat (local_target i (is ! i)) = nat k"
    using k by (simp add: unsigned_of_int take_bit_int_eq_self)
  show "nat k < length is" using k by linarith
qed

section \<open>Storing the program\<close>

lemma mark_int_func_frame:
  assumes "mark_int_func vm i inst = Some vm'"
  shows "\<exists>fs. vm' = vm\<lparr>int_funcs := fs\<rparr>" and "insts vm' = insts vm"
    and "ubpf_fetch_instruction vm' = ubpf_fetch_instruction vm"
proof -
  from assms show ex: "\<exists>fs. vm' = vm\<lparr>int_funcs := fs\<rparr>"
    by (auto simp: mark_int_func_def Let_def split: if_splits option.splits intro: exI [of _ "int_funcs vm"])
  then show "insts vm' = insts vm" by auto
  from ex show "ubpf_fetch_instruction vm' = ubpf_fetch_instruction vm"
    by (auto simp: fun_eq_iff ubpf_fetch_instruction_def split: option.split)
qed

lemma store_instruction_frame:
  "ubpf_store_instruction vm pc inst = Some vm' \<Longrightarrow> \<exists>l. vm' = vm\<lparr>insts := l\<rparr>"
  by (auto simp: ubpf_store_instruction_def split: option.splits if_splits)

lemma load_insts_frame: "load_insts vm i is = Some vm' \<Longrightarrow> \<exists>l fs. vm' = vm\<lparr>insts := l, int_funcs := fs\<rparr>"
proof (induction "is" arbitrary: vm i)
  case Nil
  then have "vm' = vm\<lparr>insts := insts vm, int_funcs := int_funcs vm\<rparr>" by simp
  then show ?case by blast
next
  case (Cons inst "is")
  then obtain vm1 vm2 where "mark_int_func vm i inst = Some vm1"
    "ubpf_store_instruction vm1 (of_nat i) inst = Some vm2" and l: "load_insts vm2 (Suc i) is = Some vm'"
    by (auto split: option.splits)
  with mark_int_func_frame(1) store_instruction_frame obtain fs l2
    where "vm2 = vm\<lparr>int_funcs := fs\<rparr>\<lparr>insts := l2\<rparr>" by blast
  moreover from Cons.IH [OF l] obtain l3 fs3 where "vm' = vm2\<lparr>insts := l3, int_funcs := fs3\<rparr>" by blast
  ultimately show ?case by auto
qed

lemma load_insts_shape:
  assumes "load_insts vm i is = Some vm'" and "insts vm = Some (a, l)"
  shows "\<exists>l'. insts vm' = Some (a, l') \<and> length l' = length l"
  using assms
proof (induction "is" arbitrary: vm i l)
  case (Cons inst "is")
  then obtain vm1 vm2 where v1: "mark_int_func vm i inst = Some vm1"
    and v2: "ubpf_store_instruction vm1 (of_nat i) inst = Some vm2" and l: "load_insts vm2 (Suc i) is = Some vm'"
    by (auto split: option.splits)
  from v2 mark_int_func_frame(2) [OF v1] Cons.prems(2)
  have "\<exists>l2. insts vm2 = Some (a, l2) \<and> length l2 = length l"
    by (auto simp: ubpf_store_instruction_def split: if_splits)
  with Cons.IH [OF l] show ?case by auto
qed auto

text \<open>A fetch gives back the instruction that was loaded.\<close>

lemma load_insts_Cons:
  assumes "load_insts vm i (inst # is) = Some vm'"
  obtains vm1 vm2 where "mark_int_func vm i inst = Some vm1"
    "ubpf_store_instruction vm1 (of_nat i) inst = Some vm2" "load_insts vm2 (Suc i) is = Some vm'"
  using assms by (auto split: option.splits)

lemma load_insts_fetch_before:
  assumes "load_insts vm i is = Some vm'" and "i + length is < UBPF_MAX_INSTS" and "j < i"
  shows "ubpf_fetch_instruction vm' (of_nat j) = ubpf_fetch_instruction vm (of_nat j)"
  using assms
proof (induction "is" arbitrary: vm i)
  case (Cons inst "is")
  from Cons.prems(1) obtain vm1 vm2 where v: "mark_int_func vm i inst = Some vm1"
    "ubpf_store_instruction vm1 (of_nat i) inst = Some vm2" and l: "load_insts vm2 (Suc i) is = Some vm'"
    by (rule load_insts_Cons)
  have "(of_nat j :: uint16_t) \<noteq> of_nat i"
    using Cons.prems by (simp add: UBPF_MAX_INSTS_def word_of_nat_eq_iff take_bit_nat_eq_self)
  with bytecode.fetch_store_other [OF v(2)] Cons.IH [OF l] Cons.prems mark_int_func_frame(3) [OF v(1)]
  show ?case by simp
qed simp

lemma load_insts_fetch:
  assumes "load_insts vm i is = Some vm'" and "i + length is < UBPF_MAX_INSTS" and "k < length is"
  shows "ubpf_fetch_instruction vm' (of_nat (i + k)) = Some (is ! k)"
  using assms
proof (induction "is" arbitrary: vm i k)
  case (Cons inst "is")
  from Cons.prems(1) obtain vm1 vm2 where v: "mark_int_func vm i inst = Some vm1"
    "ubpf_store_instruction vm1 (of_nat i) inst = Some vm2" and l: "load_insts vm2 (Suc i) is = Some vm'"
    by (rule load_insts_Cons)
  show ?case
  proof (cases k)
    case 0
    with load_insts_fetch_before [OF l, of i] bytecode.fetch_store_same [OF v(2)] Cons.prems
    show ?thesis by simp
  next
    case (Suc k')
    with Cons.IH [OF l, of k'] Cons.prems show ?thesis by simp
  qed
qed simp

section \<open>The function marks\<close>

text \<open>The loop marks exactly the targets of the local calls.\<close>

lemma mark_int_func_marks:
  assumes "mark_int_func vm i inst = Some vm'" and "int_funcs vm = Some fs"
  shows "\<exists>fs'. int_funcs vm' = Some fs' \<and> length fs' = length fs \<and>
    (\<forall>q<length fs. fs' ! q \<longleftrightarrow> fs ! q \<or> is_local_call inst \<and> unat ((of_nat i :: uint32_t) + imm inst + 1) = q)"
  using assms by (auto simp: mark_int_func_def Let_def nth_list_update split: if_splits)

lemma load_insts_marks:
  assumes "load_insts vm i is = Some vm'" and "int_funcs vm = Some fs"
  shows "\<exists>fs'. int_funcs vm' = Some fs' \<and> length fs' = length fs \<and>
    (\<forall>q<length fs. fs' ! q \<longleftrightarrow> fs ! q \<or>
      (\<exists>k<length is. is_local_call (is ! k) \<and> unat ((of_nat (i + k) :: uint32_t) + imm (is ! k) + 1) = q))"
  using assms
proof (induction "is" arbitrary: vm i fs)
  case (Cons inst "is")
  from Cons.prems(1) obtain vm1 vm2 where v: "mark_int_func vm i inst = Some vm1"
    "ubpf_store_instruction vm1 (of_nat i) inst = Some vm2" and l: "load_insts vm2 (Suc i) is = Some vm'"
    by (rule load_insts_Cons)
  from mark_int_func_marks [OF v(1) Cons.prems(2)] store_instruction_frame [OF v(2)] obtain fs1 where
    fs1: "int_funcs vm2 = Some fs1" "length fs1 = length fs"
    "\<forall>q<length fs. fs1 ! q \<longleftrightarrow> fs ! q \<or> is_local_call inst \<and> unat ((of_nat i :: uint32_t) + imm inst + 1) = q"
    by auto
  have split: "(\<exists>k<length (inst # is). P k) \<longleftrightarrow> P 0 \<or> (\<exists>k<length is. P (Suc k))" for P
    using Ex_less_Suc2 [of "length is" P] by simp
  from Cons.IH [OF l fs1(1)] fs1(2,3) show ?case
    unfolding split by (auto simp: add.assoc)
qed auto

text \<open>No store of the loop goes outside an array.\<close>

lemma load_insts_defined:
  assumes "insts vm = Some (a, l)" and "int_funcs vm = Some fs" and "i + length is \<le> length l"
    and "length l < UBPF_MAX_INSTS"
    and "\<And>k. k < length is \<Longrightarrow> is_local_call (is ! k) \<Longrightarrow>
      unat ((of_nat (i + k) :: uint32_t) + imm (is ! k) + 1) < length fs"
  shows "\<exists>vm'. load_insts vm i is = Some vm'"
  using assms
proof (induction "is" arbitrary: vm i l fs)
  case (Cons inst "is")
  from Cons.prems(5) [of 0] Cons.prems(2) obtain vm1 fs1 where v1: "mark_int_func vm i inst = Some vm1"
    "int_funcs vm1 = Some fs1" "length fs1 = length fs"
    by (cases "is_local_call inst") (auto simp: mark_int_func_def Let_def)
  have "unat (of_nat i :: uint16_t) = i"
    using Cons.prems(3,4) by (simp add: UBPF_MAX_INSTS_def unsigned_of_nat take_bit_nat_eq_self)
  with Cons.prems mark_int_func_frame(2) [OF v1(1)] obtain vm2 l2
    where v2: "ubpf_store_instruction vm1 (of_nat i) inst = Some vm2" "insts vm2 = Some (a, l2)" "length l2 = length l"
    by (auto simp: ubpf_store_instruction_def)
  with store_instruction_frame [OF v2(1)] v1(2) have "int_funcs vm2 = Some fs1" by auto
  then have "\<exists>vm'. load_insts vm2 (Suc i) is = Some vm'"
    using Cons.prems(3,4) v1(3) v2(2,3) Cons.prems(5) [of "Suc _"] by (intro Cons.IH [of vm2 l2 fs1]) auto
  with v1(1) v2(1) show ?case by simp
qed simp

section \<open>The loaded machine\<close>

lemma length_decode_insts: "length (decode_insts code) = length code div 8"
  by (induction code rule: decode_insts.induct) simp_all

text \<open>The state in which the instructions are stored, and the one that results.\<close>

definition load_start :: "load_env \<Rightarrow> ubpf_vm \<Rightarrow> nat \<Rightarrow> ubpf_vm" where
  "load_start env vm code_len =
     (load_allocate env vm (of_nat code_len))
       \<lparr>num_insts := of_nat (code_len div 8), int_funcs := Some (replicate (code_len div 8) False)\<rparr>"

lemma load_bytecode_eq:
  assumes "code_len div 8 < UBPF_MAX_INSTS" and "code_len < 2 ^ 64"
  shows "load_bytecode env vm code_len is =
    (let vm1 = load_allocate env vm (of_nat code_len) in
     if insts vm1 = None then (Inl Load_out_of_memory, vm1)
     else if \<not> env_int_funcs_ok env
     then (Inl Load_out_of_memory, load_discard (vm1\<lparr>num_insts := of_nat (code_len div 8)\<rparr>))
     else case load_insts (load_start env vm code_len) 0 is of
         None \<Rightarrow> (Inl Load_crash, load_start env vm code_len)
       | Some vm' \<Rightarrow> if readonly_bytecode_enabled vm' \<and> \<not> env_mprotect_ok env
           then (Inl Readonly_failed, load_discard vm') else (Inr (), vm'))"
proof -
  have "unat (of_nat (code_len div 8) :: uint16_t) = code_len div 8"
    using assms by (simp add: UBPF_MAX_INSTS_def unsigned_of_nat take_bit_nat_eq_self)
  then show ?thesis by (simp add: load_bytecode_def load_start_def Let_def cong: option.case_cong)
qed

lemma load_allocate_insts:
  assumes "insts (load_allocate env vm (of_nat n)) \<noteq> None" and "insts vm = None" and "n < 2 ^ 64"
  shows "\<exists>a. insts (load_allocate env vm (of_nat n)) = Some (a, replicate (n div 8) (inst_of_value 0))"
proof -
  have "unat (of_nat n :: uint64_t) = n"
    using assms(3) by (simp add: unsigned_of_nat take_bit_nat_eq_self)
  with assms(1,2) show ?thesis by (auto simp: load_allocate_def Let_def split: option.splits if_splits)
qed

lemma ubpf_load_ok:
  assumes "ubpf_load env vm code = (Inr (), vm')"
  obtains vm1 a where "validate vm (decode_insts code) (env_starts_ok env) = (Inr (), vm1)"
    "load_insts (load_start env vm1 (length code)) 0 (decode_insts code) = Some vm'"
    "insts (load_start env vm1 (length code)) = Some (a, replicate (length code div 8) (inst_of_value 0))"
proof -
  obtain r vm1 where v: "validate vm (decode_insts code) (env_starts_ok env) = (r, vm1)"
    by (cases "validate vm (decode_insts code) (env_starts_ok env)")
  have g: "insts vm = None" using assms by (cases "insts vm") (simp_all add: ubpf_load_def Let_def split: if_splits)
  have b: "r = Inr () \<and> load_bytecode env vm1 (length code) (decode_insts code) = (Inr (), vm')"
    using assms v by (auto simp: ubpf_load_def Let_def split: if_splits sum.splits)
  note ok = validate_ok [OF v [unfolded conjunct1 [OF b]]]
  have len: "length code div 8 < UBPF_MAX_INSTS" using ok(1) by (simp add: length_decode_insts)
  then have "length code < 2 ^ 64" by (simp add: UBPF_MAX_INSTS_def)
  with conjunct2 [OF b] len have l: "load_insts (load_start env vm1 (length code)) 0 (decode_insts code) = Some vm'"
    and i: "insts (load_allocate env vm1 (of_nat (length code))) \<noteq> None"
    by (auto simp: load_bytecode_eq Let_def split: if_splits option.splits)
  have "insts vm1 = None" using extends_usage_fields(1) [OF ok(2)] g by simp
  from load_allocate_insts [OF i this \<open>length code < 2 ^ 64\<close>] l v b that show thesis
    by (auto simp: load_start_def)
qed

lemma load_allocate_frame [simp]:
  "dispatcher (load_allocate env vm n) = dispatcher vm" "ext_funcs (load_allocate env vm n) = ext_funcs vm"
  "local_func_stack_usage (load_allocate env vm n) = local_func_stack_usage vm"
  by (simp_all add: load_allocate_def Let_def split: option.split)

lemma usage_cong:
  "local_func_stack_usage vm = local_func_stack_usage vm' \<Longrightarrow>
    ubpf_stack_usage_for_local_func vm = ubpf_stack_usage_for_local_func vm'"
  by (simp add: fun_eq_iff ubpf_stack_usage_for_local_func_def split: option.split)

text \<open>What is known of the machine after a load.\<close>

lemma ubpf_load_result:
  assumes "ubpf_load env vm code = (Inr (), vm')"
  defines "is \<equiv> decode_insts code"
  shows "length is < UBPF_MAX_INSTS" and "unat (num_insts vm') = length is"
    and "k < length is \<Longrightarrow> ubpf_fetch_instruction vm' (of_nat k) = Some (is ! k)"
    and "\<exists>a l. insts vm' = Some (a, l) \<and> length l = length is"
    and "\<exists>fs. int_funcs vm' = Some fs \<and> length fs = length is \<and>
      (\<forall>q<length is. fs ! q \<longleftrightarrow> (\<exists>k<length is. is_local_call (is ! k) \<and>
        unat ((of_nat k :: uint32_t) + imm (is ! k) + 1) = q))"
    and "k < length is \<Longrightarrow> visited_ok vm' vm' is k \<or> opcode (is ! k) = 0"
    and "usage_aligned vm' 0"
    and "check_for_self_contained_sub_programs is (env_starts_ok env) = None"
proof -
  from assms(1) obtain vm1 a where v: "validate vm is (env_starts_ok env) = (Inr (), vm1)"
    and l: "load_insts (load_start env vm1 (length code)) 0 is = Some vm'"
    and i: "insts (load_start env vm1 (length code)) = Some (a, replicate (length is) (inst_of_value 0))"
    unfolding is_def length_decode_insts by (rule ubpf_load_ok)
  note ok = validate_ok [OF v]
  have n: "length code div 8 = length is" by (simp add: is_def length_decode_insts)
  from load_insts_frame [OF l] obtain l' fs' where
    vm': "vm' = (load_start env vm1 (length code))\<lparr>insts := l', int_funcs := fs'\<rparr>" by blast
  have usage: "ubpf_stack_usage_for_local_func vm' = ubpf_stack_usage_for_local_func vm1"
    by (rule usage_cong) (simp add: vm' load_start_def)
  show len: "length is < UBPF_MAX_INSTS" by (rule ok(1))
  then show "unat (num_insts vm') = length is"
    by (simp add: vm' load_start_def n UBPF_MAX_INSTS_def unsigned_of_nat take_bit_nat_eq_self)
  show "k < length is \<Longrightarrow> ubpf_fetch_instruction vm' (of_nat k) = Some (is ! k)"
    using load_insts_fetch [OF l, of k] len by simp
  show "\<exists>a l. insts vm' = Some (a, l) \<and> length l = length is"
    using load_insts_shape [OF l i] by auto
  show "\<exists>fs. int_funcs vm' = Some fs \<and> length fs = length is \<and>
      (\<forall>q<length is. fs ! q \<longleftrightarrow> (\<exists>k<length is. is_local_call (is ! k) \<and>
        unat ((of_nat k :: uint32_t) + imm (is ! k) + 1) = q))"
    using load_insts_marks [OF l, of "replicate (length is) False"] by (simp add: load_start_def n)
  show "usage_aligned vm' 0" using ok(3) by (simp add: usage_aligned_def usage)
  show "visited_ok vm' vm' is k \<or> opcode (is ! k) = 0" if "k < length is"
    using ok(4) [OF that] extends_usage_fields(3,5) [OF ok(2)]
    by (simp add: visited_ok_def usage_aligned_def usage) (simp add: vm' load_start_def)
  show "check_for_self_contained_sub_programs is (env_starts_ok env) = None" by (rule ok(5))
qed

lemma ubpf_load_program_ok:
  assumes "ubpf_load env vm code = (Inr (), vm')"
  shows "program_ok vm'"
proof -
  define "is" where "is = decode_insts code"
  note res = ubpf_load_result [OF assms, folded is_def]
  from res(5) obtain fs where fs: "int_funcs vm' = Some fs" "length fs = length is"
    "\<And>q. q < length is \<Longrightarrow> fs ! q \<Longrightarrow> \<exists>k<length is. is_local_call (is ! k) \<and>
      unat ((of_nat k :: uint32_t) + imm (is ! k) + 1) = q" by auto
  have visited: "k < length is \<Longrightarrow> opcode (is ! k) \<noteq> 0 \<Longrightarrow> visited_ok vm' vm' is k" for k using res(6) by blast
  have usage: "ubpf_stack_usage_for_local_func vm' pc \<noteq> None" if "unat pc < length is" "fs ! unat pc" for pc
  proof -
    from fs(3) [OF that] obtain k where k: "k < length is" "is_local_call (is ! k)"
      "unat ((of_nat k :: uint32_t) + imm (is ! k) + 1) = unat pc" by blast
    then have "visited_ok vm' vm' is k" by (intro visited) (auto simp: is_local_call_def opcode_vals)
    then have r: "local_call_in_range is k" "usage_aligned vm' (local_target k (is ! k))"
      using k(2) by (auto simp: visited_ok_def)
    with local_target_unat [OF r(1) res(1) k(1)] k(3) have "local_target k (is ! k) = pc"
      by (simp add: word_unat_eq_iff)
    with r(2) show ?thesis by (auto simp: usage_aligned_def)
  qed
  have "inst_ok vm' pc inst" if pc: "pc < num_insts vm'" and f: "ubpf_fetch_instruction vm' pc = Some inst" for pc inst
  proof -
    have k: "unat pc < length is" using pc res(2) by (simp add: word_less_nat_alt)
    with res(3) [OF k] f have inst: "inst = is ! unat pc" by simp
    have "unat (pc + 1) = unat pc + 1" if "unat pc + 1 < length is"
      using that res(1) by (simp add: unat_word_ariths UBPF_MAX_INSTS_def)
    with visited [OF k] res(2) show ?thesis
      by (auto simp: inst_ok_def inst visited_ok_def word_less_nat_alt opcode_vals)
  qed
  with res(2,4,7) fs(1,2) usage show ?thesis
    by (auto simp: program_ok_def usage_aligned_def)
qed

text \<open>Loading succeeds whenever validation and the C library do.\<close>

lemma load_bytecode_result:
  assumes v: "validate vm is ok = (Inr (), vm1)" and n: "code_len div 8 = length is" and "insts vm = None"
  shows "fst (load_bytecode env vm1 code_len is) = Inr () \<longleftrightarrow>
    env_insts_addr env \<noteq> None \<and> env_int_funcs_ok env \<and> (readonly_bytecode_enabled vm \<longrightarrow> env_mprotect_ok env)"
    and "fst (load_bytecode env vm1 code_len is) \<noteq> Inl Load_crash"
proof -
  note ok = validate_ok [OF v]
  have len: "code_len < 2 ^ 64" "code_len div 8 < UBPF_MAX_INSTS"
    using ok(1) n by (simp_all add: UBPF_MAX_INSTS_def)
  have none: "insts vm1 = None" using extends_usage_fields(1) [OF ok(2)] assms(3) by simp
  note alloc = load_allocate_insts [OF _ none len(1), of env]
  have i: "insts (load_allocate env vm1 (of_nat code_len)) = None \<longleftrightarrow> env_insts_addr env = None"
    by (auto simp: load_allocate_def Let_def none split: option.splits)
  have "unat ((of_nat k :: uint32_t) + imm (is ! k) + 1) < length is"
    if "k < length is" "is_local_call (is ! k)" for k
    using ok(4) [OF that(1)] that(2) local_target_unat [OF _ ok(1) that(1)]
    by (auto simp: visited_ok_def is_local_call_def opcode_vals)
  then have l: "\<exists>vm'. load_insts (load_start env vm1 code_len) 0 is = Some vm'"
    if "insts (load_allocate env vm1 (of_nat code_len)) \<noteq> None"
    using alloc [OF that] ok(1) n
    by (auto simp: load_start_def intro!: load_insts_defined [of _ _ _ "replicate (length is) False"])
  have ro: "readonly_bytecode_enabled vm' = readonly_bytecode_enabled vm"
    if "load_insts (load_start env vm1 code_len) 0 is = Some vm'" for vm'
    using load_insts_frame [OF that] extends_usage_fields(6) [OF ok(2)]
    by (auto simp: load_start_def load_allocate_def Let_def split: option.splits)
  show "fst (load_bytecode env vm1 code_len is) \<noteq> Inl Load_crash"
    using l len by (auto simp: load_bytecode_eq Let_def split: option.split)
  show "fst (load_bytecode env vm1 code_len is) = Inr () \<longleftrightarrow>
      env_insts_addr env \<noteq> None \<and> env_int_funcs_ok env \<and> (readonly_bytecode_enabled vm \<longrightarrow> env_mprotect_ok env)"
  proof (cases "env_insts_addr env = None")
    case True
    with i len show ?thesis by (simp add: load_bytecode_eq Let_def)
  next
    case False
    with i l obtain vm' where "load_insts (load_start env vm1 code_len) 0 is = Some vm'" by blast
    with False i len ro [OF this] show ?thesis by (auto simp: load_bytecode_eq Let_def)
  qed
qed

lemma ubpf_load_no_crash:
  assumes "local_func_stack_usage vm \<noteq> None"
  shows "fst (ubpf_load env vm code) \<noteq> Inl Load_crash"
proof -
  define "is" where "is = decode_insts code"
  have n: "length code div 8 = length is" by (simp add: is_def length_decode_insts)
  obtain r vm1 where v: "validate vm is (env_starts_ok env) = (r, vm1)"
    by (cases "validate vm is (env_starts_ok env)")
  have "r \<noteq> Inl Load_crash" using validate_no_crash [OF assms, of "is" "env_starts_ok env"] v by simp
  with v load_bytecode_result(2) [OF _ n, of vm "env_starts_ok env" vm1 env] show ?thesis
    unfolding ubpf_load_def Let_def is_def [symmetric] by (cases "insts vm") (auto split: sum.split)
qed

lemma load_allocate_shape: "\<exists>c i. load_allocate env vm n = vm\<lparr>insts_alloc_size := c, insts := i\<rparr>"
proof (cases "readonly_bytecode_enabled vm")
  case True
  then show ?thesis unfolding load_allocate_def Let_def by (simp only: if_True) blast
next
  case False
  have "vm = vm\<lparr>insts_alloc_size := insts_alloc_size vm, insts := insts vm\<rparr>" by simp
  with False show ?thesis
    unfolding load_allocate_def by (cases "env_insts_addr env") (simp_all only: if_False option.case, blast+)
qed

text \<open>A load changes the bytecode, the function marks and the stack usages only.\<close>

lemma ubpf_load_frame:
  assumes "ubpf_load env vm code = (Inr (), vm')"
  shows "\<exists>u c n l fs. vm' = vm\<lparr>local_func_stack_usage := u, insts_alloc_size := c, num_insts := n,
    insts := l, int_funcs := fs\<rparr>"
proof -
  from assms obtain vm1 a where v: "validate vm (decode_insts code) (env_starts_ok env) = (Inr (), vm1)"
    and l: "load_insts (load_start env vm1 (length code)) 0 (decode_insts code) = Some vm'"
    by (rule ubpf_load_ok)
  from validate_ok(2) [OF v] obtain u where "vm1 = vm\<lparr>local_func_stack_usage := u\<rparr>"
    by (auto simp: extends_usage_def)
  moreover obtain c i where "load_allocate env vm1 (of_nat (length code)) = vm1\<lparr>insts_alloc_size := c, insts := i\<rparr>"
    using load_allocate_shape by blast
  moreover obtain l' fs where "vm' = (load_start env vm1 (length code))\<lparr>insts := l', int_funcs := fs\<rparr>"
    using load_insts_frame [OF l] by blast
  ultimately have "vm' = vm\<lparr>local_func_stack_usage := u, insts_alloc_size := c,
      num_insts := of_nat (length code div 8), insts := l', int_funcs := fs\<rparr>"
    by (simp add: load_start_def)
  then show ?thesis by blast
qed

section \<open>An example\<close>

text \<open>
  A program with a local function, which stores its argument on the stack and loads it back.
\<close>

lemma inst_bytes_length [simp]: "length (inst_bytes i) = 8"
  by (simp add: inst_bytes_def del: le_bytes_numeral)

lemma decode_insts_append: "length bs = 8 \<Longrightarrow> decode_insts (bs @ cs) = inst_of_bytes bs # decode_insts cs"
  by (auto simp: length_Suc_conv numeral_eq_Suc)

lemma concat_inst_bytes_length: "length (concat (map inst_bytes is)) = 8 * length is"
  by (induction "is") simp_all

lemma decode_encode: "decode_insts (concat (map inst_bytes is)) = is"
  by (induction "is") (simp_all add: decode_insts_append)

definition demo_insts :: "ebpf_inst list" where
  "demo_insts =
     [\<lparr>opcode = EBPF_OP_MOV64_IMM, dst = 1, src = 0, offset = 0, imm = 7\<rparr>,
      \<lparr>opcode = EBPF_OP_CALL, dst = 0, src = 1, offset = 0, imm = 1\<rparr>,
      \<lparr>opcode = EBPF_OP_EXIT, dst = 0, src = 0, offset = 0, imm = 0\<rparr>,
      \<lparr>opcode = EBPF_OP_STXDW, dst = 10, src = 1, offset = - 8, imm = 0\<rparr>,
      \<lparr>opcode = EBPF_OP_LDXDW, dst = 0, src = 10, offset = - 8, imm = 0\<rparr>,
      \<lparr>opcode = EBPF_OP_EXIT, dst = 0, src = 0, offset = 0, imm = 0\<rparr>]"

definition demo_code :: "uint8_t list" where "demo_code = concat (map inst_bytes demo_insts)"

definition demo_env :: load_env where
  "demo_env = \<lparr>env_starts_ok = True, env_page_size = 4096, env_insts_addr = Some 0x7f0000,
     env_int_funcs_ok = True, env_mprotect_ok = True\<rparr>"

definition demo_vm :: ubpf_vm where
  "demo_vm = (the (ubpf_create JIT_x86_64 (\<lambda>_. True)))\<lparr>instruction_limit := 1000\<rparr>"

definition demo_args :: exec_args where
  "demo_args = \<lparr>arg_mem = 0, arg_mem_len = 0, arg_stack_start = 0x5000, arg_stack_length = 0x1000\<rparr>"

definition demo_mem :: memory where
  "demo_mem = (\<lambda>x. if x \<in> byte_range 0x5000 0x1000 then Some 0 else None)"

lemma demo_filter: "list_all (\<lambda>i. ubpf_is_valid_instruction i = Inr ()) demo_insts"
  by code_simp

lemma demo_self_contained: "check_for_self_contained_sub_programs demo_insts True = None"
  by code_simp

lemma demo_vm_simps: "stack_usage_calculator demo_vm = None"
  "local_func_stack_usage demo_vm = Some unknown_stack_usage" "insts demo_vm = None"
  by (simp_all add: demo_vm_def ubpf_create_def)

lemma demo_validate: "\<exists>vm1. validate demo_vm demo_insts True = (Inr (), vm1)"
  using demo_filter demo_self_contained
  by (simp add: validate_def UBPF_MAX_INSTS_def demo_insts_def validate_loop.simps validate_inst_def
      validate_switch_def validate_call_def validate_fields_def check_result_def opcode_lists opcode_vals
      ubpf_calculate_stack_usage_for_local_func_def ubpf_stack_usage_for_local_func_def demo_vm_simps
      unknown_stack_usage_def UBPF_EBPF_LOCAL_FUNCTION_STACK_SIZE_def)

lemma demo_decode: "decode_insts demo_code = demo_insts" "length demo_code = 8 * length demo_insts"
  by (simp_all add: demo_code_def decode_encode concat_inst_bytes_length)

lemma encoded_loads:
  assumes "fst (validate vm is True) = Inr ()" and "insts vm = None"
  shows "\<exists>vm'. ubpf_load demo_env vm (concat (map inst_bytes is)) = (Inr (), vm')"
proof -
  obtain vm1 where v: "validate vm is True = (Inr (), vm1)" using assms(1) by (cases "validate vm is True") auto
  have "fst (load_bytecode demo_env vm1 (length (concat (map inst_bytes is))) is) = Inr ()"
    by (subst load_bytecode_result(1) [OF v]) (simp_all add: concat_inst_bytes_length assms(2) demo_env_def)
  with v show ?thesis
    by (cases "load_bytecode demo_env vm1 (length (concat (map inst_bytes is))) is")
      (simp add: ubpf_load_def Let_def decode_encode concat_inst_bytes_length assms(2) UBPF_EBPF_STACK_SIZE_def
        UBPF_MAX_CALL_DEPTH_def demo_env_def)
qed

lemma demo_loads: "\<exists>vm'. ubpf_load demo_env demo_vm demo_code = (Inr (), vm')"
  unfolding demo_code_def
proof (rule encoded_loads)
  show "fst (validate demo_vm demo_insts True) = Inr ()" using demo_validate by auto
qed (simp_all add: demo_vm_simps)

lemma demo_env_ok:
  assumes "ubpf_load demo_env demo_vm demo_code = (Inr (), vm')"
  shows "env_ok vm' demo_args (byte_range 0x5000 0x1000) demo_mem" and "instruction_limit vm' \<noteq> 0"
proof -
  from ubpf_load_frame [OF assms] have f: "bounds_check_enabled vm'" "bounds_check_function vm' = None"
    "dispatcher vm' = None" "ext_funcs vm' = Map.empty" "\<not> undefined_behavior_check_enabled vm'"
    "instruction_limit vm' = 1000"
    by (auto simp: demo_vm_def ubpf_create_def)
  have "dom demo_mem = byte_range 0x5000 0x1000" by (auto simp: demo_mem_def split: if_splits)
  then show "env_ok vm' demo_args (byte_range 0x5000 0x1000) demo_mem"
    by (auto simp: env_ok_def f accessible_def demo_args_def callback_allows_def helpers_confined_def
        call_external_def split: if_splits)
  show "instruction_limit vm' \<noteq> 0" by (simp add: f)
qed

section \<open>Properties\<close>



text \<open>
  C30. Loading never corrupts memory: on a machine whose stack-usage table exists, \<^verbatim>\<open>ubpf_load\<close>
  either succeeds or returns one of its error messages; it never marks a function or stores an
  instruction outside the arrays it has allocated.
\<close>

theorem load_never_crashes:
  "local_func_stack_usage vm \<noteq> None \<Longrightarrow> fst (ubpf_load env vm code) \<noteq> Inl Load_crash"
  by (rule ubpf_load_no_crash)

theorem load_never_crashes_witness:
  "fst (ubpf_load demo_env demo_vm [0x95, 0, 0, 0, 0, 0, 0, 1]) \<noteq> Inl Load_crash"
  by (rule load_never_crashes) (simp add: demo_vm_simps)

text \<open>
  C31. Exactly when loading succeeds: no code is loaded yet, the length is a multiple of 8,
  validation accepts, and the C library provides the memory and, in read-only mode, the
  protection.
\<close>

theorem load_succeeds_iff:
  "fst (ubpf_load env vm code) = Inr () \<longleftrightarrow>
     insts vm = None \<and> length code mod 8 = 0 \<and>
     fst (validate vm (decode_insts code) (env_starts_ok env)) = Inr () \<and>
     env_insts_addr env \<noteq> None \<and> env_int_funcs_ok env \<and> \<not> (readonly_bytecode_enabled vm \<and> \<not> env_mprotect_ok env)"
proof -
  define "is" where "is = decode_insts code"
  have n: "length code div 8 = length is" by (simp add: is_def length_decode_insts)
  have sz: "UBPF_EBPF_STACK_SIZE mod 8 = 0" by (simp add: UBPF_EBPF_STACK_SIZE_def UBPF_MAX_CALL_DEPTH_def)
  obtain r vm1 where v: "validate vm is (env_starts_ok env) = (r, vm1)"
    by (cases "validate vm is (env_starts_ok env)")
  show ?thesis
  proof (cases "insts vm = None \<and> r = Inr ()")
    case True
    with load_bytecode_result(1) [OF v [unfolded conjunct2 [OF True]] n] v sz show ?thesis
      by (simp add: ubpf_load_def Let_def is_def [symmetric])
  next
    case False
    with v show ?thesis
      by (cases r) (auto simp: ubpf_load_def Let_def is_def [symmetric])
  qed
qed

text \<open>
  C32. What was loaded is what is fetched: after a successful load, the instruction at each
  position is the one encoded at that position of the code, whatever the address of the array
  and the pointer secret it is xor-ed with, and no other position can be fetched.
\<close>

theorem load_fetch_roundtrip:
  assumes "ubpf_load env vm code = (Inr (), vm')"
  shows "ubpf_fetch_instruction vm' pc =
    (if unat pc < length (decode_insts code) then Some (decode_insts code ! unat pc) else None)"
proof -
  note res = ubpf_load_result [OF assms]
  have "ubpf_fetch_instruction vm' pc = None" if "\<not> unat pc < length (decode_insts code)"
    using that res(4) by (auto simp: ubpf_fetch_instruction_def)
  with res(3) [of "unat pc"] show ?thesis by auto
qed

theorem load_fetch_roundtrip_witness:
  "\<exists>vm'. ubpf_load demo_env demo_vm demo_code = (Inr (), vm') \<and>
     ubpf_fetch_instruction vm' 3 = Some \<lparr>opcode = EBPF_OP_STXDW, dst = 10, src = 1, offset = - 8, imm = 0\<rparr>"
proof -
  obtain vm' where l: "ubpf_load demo_env demo_vm demo_code = (Inr (), vm')" using demo_loads by blast
  with load_fetch_roundtrip [OF l, of 3] show ?thesis by (simp add: demo_decode demo_insts_def)
qed

text \<open>
  C33. The function marks are exact: after a successful load a position is marked as the
  beginning of a local function just if some local call of the program targets it, and the
  stack usage of each such function, and of the main program, is known and a multiple of 16.
\<close>

theorem load_marks_functions:
  assumes "ubpf_load env vm code = (Inr (), vm')"
  defines "is \<equiv> decode_insts code"
  shows "\<exists>fs. int_funcs vm' = Some fs \<and> length fs = length is \<and>
    (\<forall>q<length is. fs ! q \<longleftrightarrow>
      (\<exists>k<length is. is_local_call (is ! k) \<and> int k + sint (imm (is ! k)) + 1 = int q)) \<and>
    (\<forall>q<length is. (q = 0 \<or> fs ! q) \<longrightarrow> usage_aligned vm' (of_nat q))"
proof -
  note res = ubpf_load_result [OF assms(1), folded is_def]
  have target: "local_call_in_range is k \<and> usage_aligned vm' (local_target k (is ! k)) \<and>
      unat ((of_nat k :: uint32_t) + imm (is ! k) + 1) = nat (int k + sint (imm (is ! k)) + 1) \<and>
      unat (local_target k (is ! k)) = nat (int k + sint (imm (is ! k)) + 1)"
    if "k < length is" "is_local_call (is ! k)" for k
  proof -
    from res(6) [OF that(1)] that(2) have "visited_ok vm' vm' is k" by (auto simp: is_local_call_def opcode_vals)
    with that(2) have r: "local_call_in_range is k" "usage_aligned vm' (local_target k (is ! k))"
      by (auto simp: visited_ok_def)
    with local_target_unat [OF r(1) res(1) that(1)] show ?thesis by simp
  qed
  have int_eq: "is_local_call (is ! k) \<and> unat ((of_nat k :: uint32_t) + imm (is ! k) + 1) = q \<longleftrightarrow>
      is_local_call (is ! k) \<and> int k + sint (imm (is ! k)) + 1 = int q" if "k < length is" for k q
    using target [OF that] by (auto simp: local_call_in_range_def)
  have "(\<exists>k<length is. is_local_call (is ! k) \<and> unat ((of_nat k :: uint32_t) + imm (is ! k) + 1) = q) \<longleftrightarrow>
      (\<exists>k<length is. is_local_call (is ! k) \<and> int k + sint (imm (is ! k)) + 1 = int q)" for q
    using int_eq by blast
  with res(5) obtain fs where fs: "int_funcs vm' = Some fs" "length fs = length is"
    "\<forall>q<length is. fs ! q \<longleftrightarrow> (\<exists>k<length is. is_local_call (is ! k) \<and> int k + sint (imm (is ! k)) + 1 = int q)"
    by auto
  have "usage_aligned vm' (of_nat q)" if "q < length is" "q = 0 \<or> fs ! q" for q
  proof (cases "q = 0")
    case False
    with fs(3) that obtain k where k: "k < length is" "is_local_call (is ! k)"
      "int k + sint (imm (is ! k)) + 1 = int q" by auto
    with target [OF k(1,2)] have "unat (local_target k (is ! k)) = q" by simp
    then have "local_target k (is ! k) = of_nat q" by auto
    with target [OF k(1,2)] show ?thesis by simp
  qed (use res(7) in simp)
  with fs show ?thesis by blast
qed

theorem load_marks_functions_witness:
  "\<exists>vm' fs. ubpf_load demo_env demo_vm demo_code = (Inr (), vm') \<and> int_funcs vm' = Some fs \<and>
     fs ! 3 \<and> \<not> fs ! 1 \<and> usage_aligned vm' 3"
proof -
  obtain vm' where l: "ubpf_load demo_env demo_vm demo_code = (Inr (), vm')" using demo_loads by blast
  have len: "length demo_insts = 6" by (simp add: demo_insts_def)
  have "map is_local_call demo_insts = [False, True, False, False, False, False]"
    by (simp add: demo_insts_def is_local_call_def opcode_vals)
  then have one: "is_local_call (demo_insts ! k) \<longleftrightarrow> k = 1" if "k < 6" for k
    using that nth_map [of k demo_insts is_local_call] by (auto simp: len nth_Cons split: nat.splits)
  have imm: "imm (demo_insts ! 1) = 1" by (simp add: demo_insts_def)
  have call: "(\<exists>k<6. is_local_call (demo_insts ! k) \<and> int k + sint (imm (demo_insts ! k)) + 1 = int q) \<longleftrightarrow> q = 3" for q
  proof
    assume "\<exists>k<6. is_local_call (demo_insts ! k) \<and> int k + sint (imm (demo_insts ! k)) + 1 = int q"
    then show "q = 3" using one imm by auto
  next
    assume "q = 3"
    then show "\<exists>k<6. is_local_call (demo_insts ! k) \<and> int k + sint (imm (demo_insts ! k)) + 1 = int q"
      using one [of 1] imm by (intro exI [of _ 1]) simp
  qed
  from load_marks_functions [OF l, unfolded demo_decode len call] obtain fs
    where fs: "int_funcs vm' = Some fs" "\<forall>q<6. fs ! q = (q = 3)"
      "\<forall>q<6. q = 0 \<or> fs ! q \<longrightarrow> usage_aligned vm' (of_nat q)" by blast
  from fs(2) have "fs ! 3" "\<not> fs ! 1" by simp_all
  moreover from fs(3) [rule_format, of 3] \<open>fs ! 3\<close> have "usage_aligned vm' 3" by simp
  ultimately show ?thesis using l fs(1) by blast
qed

end
