(* ===== verification/Exec_Frames.thy ===== *)
theory Exec_Frames
  imports Load_Correct
begin

text \<open>
  Local functions: the frame pointer follows the call stack exactly, and a function that returns
  gives its caller back the frame pointer, the callee-saved registers and the program counter.
\<close>

section \<open>Programs that leave the frame pointer alone\<close>

definition frame_pointer_program :: "ubpf_vm \<Rightarrow> bool" where
  "frame_pointer_program vm \<longleftrightarrow>
     (\<forall>pc inst. ubpf_fetch_instruction vm pc = Some inst \<longrightarrow> opcode inst \<noteq> 0 \<longrightarrow> keeps_frame_pointer inst)"

lemma filter_r10_classes:
  "list_all (\<lambda>f. destination_upper_bound f \<le> 9 \<or> filter_opcode f AND EBPF_CLS_MASK \<noteq> EBPF_CLS_ALU64)
     ubpf_instruction_filter"
  by (simp add: filter_table_defs default_filter_def opcode_vals)

lemma valid_instruction_r10:
  assumes "ubpf_is_valid_instruction inst = Inr ()" and "dst inst = 10"
  shows "opcode inst AND EBPF_CLS_MASK \<noteq> EBPF_CLS_ALU64"
proof -
  from assms(1) obtain f where f: "filter_lookup_table (opcode inst) = Some f"
    and "in_range (uint (dst inst)) (destination_lower_bound f) (destination_upper_bound f)"
    by (auto simp: ubpf_is_valid_instruction_def split: option.splits if_splits)
  with assms(2) have "\<not> destination_upper_bound f \<le> 9" by (simp add: in_range_def)
  with f filter_r10_classes show ?thesis by (auto simp: filter_lookup_iff list_all_iff)
qed

text \<open>Validation gives this, except for atomic instructions that fetch into register 10.\<close>

lemma loaded_frame_pointer_program:
  assumes "ubpf_load env vm code = (Inr (), vm')"
    and "\<And>inst. inst \<in> set (decode_insts code) \<Longrightarrow> is_atomic inst \<Longrightarrow> src inst \<noteq> BPF_REG_10"
  shows "frame_pointer_program vm'"
  unfolding frame_pointer_program_def
proof (intro allI impI)
  fix pc inst
  note res = ubpf_load_result [OF assms(1)]
  assume f: "ubpf_fetch_instruction vm' pc = Some inst" and "opcode inst \<noteq> 0"
  then have k: "unat pc < length (decode_insts code)" using res(4) by (auto simp: ubpf_fetch_instruction_def split: if_splits)
  with res(3) [OF k] f have inst: "inst = decode_insts code ! unat pc" by simp
  with res(6) [OF k] \<open>opcode inst \<noteq> 0\<close> have "ubpf_is_valid_instruction inst = Inr ()" "dst inst \<le> 9 \<or> dst inst = 10 \<and>
      opcode inst AND EBPF_CLS_MASK \<in> {EBPF_CLS_ST, EBPF_CLS_STX, EBPF_CLS_ALU64}"
    by (auto simp: visited_ok_def)
  with valid_instruction_r10 [of inst] assms(2) [of inst] inst k show "keeps_frame_pointer inst"
    by (auto simp: keeps_frame_pointer_def BPF_REG_10_def)
qed

section \<open>The steps that move the frame pointer\<close>

lemma exec_switch_opcode_0: "opcode inst = 0 \<Longrightarrow> exec_switch vm args inst s \<noteq> Inr t"
  by (simp add: exec_switch_def exec_alu_inst_def exec_alu_def exec_alu32_def exec_endian_def exec_alu64_def
      exec_load_inst_def exec_store_inst_def exec_lddw_def exec_jump_inst_def exec_cond_jump_defs exec_exit_def
      exec_call_def exec_atomic_inst_def opcode_vals Let_def)

text \<open>The two instructions that change the frames, as the switch executes them.\<close>

lemma exec_switch_exit:
  assumes "opcode inst = EBPF_OP_EXIT"
  shows "exec_switch vm args inst s = the (exec_exit inst s)"
  using assms
  by (simp add: exec_switch_def exec_alu_inst_def exec_alu_def exec_alu32_def exec_endian_def exec_alu64_def
      exec_load_inst_def exec_store_inst_def exec_lddw_def exec_jump_inst_def exec_cond_jump_defs exec_exit_def
      opcode_vals Let_def)

lemma exec_switch_call:
  assumes "opcode inst = EBPF_OP_CALL"
  shows "exec_switch vm args inst s = the (exec_call vm args inst s)"
  using assms
  by (simp add: exec_switch_def exec_alu_inst_def exec_alu_def exec_alu32_def exec_endian_def exec_alu64_def
      exec_load_inst_def exec_store_inst_def exec_lddw_def exec_jump_inst_def exec_cond_jump_defs exec_exit_def
      exec_call_def opcode_vals Let_def)

lemma exec_switch_atomic:
  assumes "opcode inst = EBPF_OP_ATOMIC_STORE"
  shows "exec_switch vm args inst s = exec_atomic64 vm args inst s"
  using assms
  by (simp add: exec_switch_def exec_alu_inst_def exec_alu_def exec_alu32_def exec_endian_def exec_alu64_def
      exec_load_inst_def exec_store_inst_def exec_lddw_def exec_jump_inst_def exec_cond_jump_defs exec_exit_def
      exec_call_def exec_atomic_inst_def opcode_vals Let_def)

section \<open>One iteration on the call stack\<close>

text \<open>
  Entering an instruction may set the stack usage of the current frame; then the instruction
  returns to the frame below, calls into a new one, or stays.
\<close>

definition same_below :: "exec_state \<Rightarrow> exec_state \<Rightarrow> bool" where
  "same_below s t \<longleftrightarrow> st_frame_index t = st_frame_index s \<and> st_reg t = st_reg s \<and> st_pc t = st_pc s \<and>
     length (st_frames t) = length (st_frames s) \<and>
     (\<forall>i. i \<noteq> st_frame_index s \<longrightarrow> st_frames t ! i = st_frames s ! i)"

definition returns_frame :: "exec_state \<Rightarrow> exec_state \<Rightarrow> bool" where
  "returns_frame s u \<longleftrightarrow> st_frame_index s = Suc (st_frame_index u) \<and> st_frames u = st_frames s \<and>
     st_frame_index u < length (st_frames s) \<and>
     (let frame = st_frames s ! st_frame_index u in
      st_pc u = return_address frame \<and>
      (st_reg u BPF_REG_6, st_reg u BPF_REG_7, st_reg u BPF_REG_8, st_reg u BPF_REG_9) = saved_registers frame \<and>
      st_reg u BPF_REG_10 = st_reg s BPF_REG_10 + ucast (frame_stack_usage frame))"

definition calls_frame :: "exec_state \<Rightarrow> exec_state \<Rightarrow> bool" where
  "calls_frame s u \<longleftrightarrow> st_frame_index u = Suc (st_frame_index s) \<and> st_frame_index s < length (st_frames s) \<and>
     (let i = st_frame_index s; frame = st_frames s ! i in
      st_frames u = (st_frames s)[i := frame\<lparr>return_address := st_pc s + 1, saved_registers :=
        (st_reg s BPF_REG_6, st_reg s BPF_REG_7, st_reg s BPF_REG_8, st_reg s BPF_REG_9)\<rparr>] \<and>
      st_reg u BPF_REG_10 = st_reg s BPF_REG_10 - ucast (frame_stack_usage frame))"

definition keeps_frame :: "exec_state \<Rightarrow> exec_state \<Rightarrow> bool" where
  "keeps_frame s u \<longleftrightarrow> st_frame_index u = st_frame_index s \<and> st_frames u = st_frames s \<and>
     st_reg u BPF_REG_10 = st_reg s BPF_REG_10"

lemma enter_function_frame: "enter_function vm s = Some t \<Longrightarrow> same_below s t"
  by (auto simp: enter_function_def same_below_def Let_def split: option.splits if_splits)

lemma exec_exit_returns:
  assumes "exec_exit inst s = Some (Inr u)"
  shows "returns_frame s u"
proof -
  have "BPF_REG_6 \<noteq> BPF_REG_10" "BPF_REG_7 \<noteq> BPF_REG_10" "BPF_REG_8 \<noteq> BPF_REG_10" "BPF_REG_9 \<noteq> BPF_REG_10"
    "BPF_REG_6 \<noteq> BPF_REG_7" "BPF_REG_6 \<noteq> BPF_REG_8" "BPF_REG_6 \<noteq> BPF_REG_9"
    "BPF_REG_7 \<noteq> BPF_REG_8" "BPF_REG_7 \<noteq> BPF_REG_9" "BPF_REG_8 \<noteq> BPF_REG_9"
    by (simp_all add: BPF_REG_6_def BPF_REG_7_def BPF_REG_8_def BPF_REG_9_def BPF_REG_10_def)
  with assms show ?thesis
    by (auto simp: exec_exit_def returns_frame_def frame_at_def Let_def split: if_splits prod.splits)
qed

lemma exec_call_local_calls:
  assumes "exec_call_local inst s = Inr u" and "st_pc s = st_pc s0 + 1" and "st_reg s = st_reg s0"
    and "st_frames s = st_frames s0" and "st_frame_index s = st_frame_index s0"
  shows "calls_frame s0 u"
  using assms by (auto simp: exec_call_local_def calls_frame_def frame_at_def Let_def split: if_splits)

lemma exec_step_frames:
  assumes "exec_step vm args s = Inr u" and "frame_pointer_program vm"
  obtains s2 inst where "same_below s s2" "ubpf_fetch_instruction vm (st_pc s) = Some inst"
    "if opcode inst = EBPF_OP_EXIT then returns_frame s2 u
     else if is_local_call inst then calls_frame s2 u else keeps_frame s2 u"
  using assms(1)
proof (cases rule: exec_step_continues)
  case (1 s1 s2 s3 t inst)
  have "opcode inst \<noteq> 0" using 1(10) exec_switch_opcode_0 by blast
  with assms(2) 1(5) have kp: "keeps_frame_pointer inst" by (auto simp: frame_pointer_program_def)
  have below: "same_below s s2" using enter_function_frame [OF 1(4)] 1(1) by (auto simp: same_below_def)
  have "st_frame_index s3 = st_frame_index s2" "st_frames s3 = st_frames s2" using 1(9) by (simp_all add: same_frames_def)
  note s3 = this 1(6,7)
  consider (exit) "opcode inst = EBPF_OP_EXIT" | (call) "is_local_call inst"
    | (other) "opcode inst \<noteq> EBPF_OP_EXIT" "\<not> is_local_call inst" by blast
  then show thesis
  proof cases
    case exit
    with exec_switch_exit [OF exit, of vm args s3] 1(10) have "exec_exit inst s3 = Some (Inr t)"
      by (simp add: exec_exit_def)
    moreover have "u = t" using 1(11) exit by (simp add: mask_alu_result_def opcode_vals)
    ultimately have "returns_frame s2 u" using exec_exit_returns s3 by (fastforce simp: returns_frame_def)
    with that [OF below 1(5)] exit show thesis by simp
  next
    case call
    with exec_switch_call [of inst vm args s3] 1(10) have "exec_call_local inst s3 = Inr t"
      by (simp add: exec_call_def is_local_call_def)
    moreover have "u = t" using 1(11) call by (simp add: mask_alu_result_def is_local_call_def opcode_vals)
    ultimately have "calls_frame s2 u"
      using exec_call_local_calls [of inst s3 u s2] s3 below by (simp add: same_below_def)
    with that [OF below 1(5)] call show thesis by (simp add: is_local_call_def opcode_vals)
  next
    case other
    with exec_switch_frame [OF 1(10)] kp have "same_frames s3 t \<and> st_reg t BPF_REG_10 = st_reg s3 BPF_REG_10"
      by (auto simp: is_local_call_def)
    moreover have "st_reg u BPF_REG_10 = st_reg t BPF_REG_10"
      using kp 1(11) by (auto simp: mask_alu_result_def keeps_frame_pointer_def opcode_vals)
    ultimately have "keeps_frame s2 u" using 1(11) s3 by (simp add: keeps_frame_def same_frames_def)
    with that [OF below 1(5)] other show thesis by simp
  qed
qed

section \<open>The frame pointer invariant\<close>

definition frames_below :: "exec_state \<Rightarrow> uint64_t" where
  "frames_below s = (\<Sum>frame\<leftarrow>take (st_frame_index s) (st_frames s). ucast (frame_stack_usage frame))"

definition frame_inv :: "uint64_t \<Rightarrow> exec_state \<Rightarrow> bool" where
  "frame_inv base s \<longleftrightarrow> st_reg s BPF_REG_10 + frames_below s = base"

lemma same_below_take: "same_below s t \<Longrightarrow> take (st_frame_index t) (st_frames t) = take (st_frame_index s) (st_frames s)"
  by (auto simp: same_below_def intro!: nth_equalityI)

lemma frames_below_moves:
  "returns_frame s u \<Longrightarrow> frame_inv base s \<Longrightarrow> frame_inv base u"
  "calls_frame s u \<Longrightarrow> frame_inv base s \<Longrightarrow> frame_inv base u"
  "keeps_frame s u \<Longrightarrow> frame_inv base s \<Longrightarrow> frame_inv base u"
  by (auto simp: returns_frame_def calls_frame_def keeps_frame_def frame_inv_def frames_below_def Let_def
      take_Suc_conv_app_nth algebra_simps)

interpretation frames: step_invariant "exec_step vm args" "\<lambda>s. frame_pointer_program vm \<and> frame_inv base s"
  for vm args base
proof
  fix s s'
  assume inv: "frame_pointer_program vm \<and> frame_inv base s" and step: "exec_step vm args s = Inr s'"
  from step conjunct1 [OF inv] show "frame_pointer_program vm \<and> frame_inv base s'"
  proof (cases rule: exec_step_frames)
    case (1 s2 inst)
    from same_below_take [OF 1(1)] 1(1) inv have "frame_inv base s2"
      by (simp add: frame_inv_def frames_below_def same_below_def)
    with 1(3) inv frames_below_moves show ?thesis by (auto split: if_splits)
  qed
qed

lemma init_frame_inv: "frame_inv (arg_stack_start args + arg_stack_length args) (init_state vm args regs m)"
  by (simp add: frame_inv_def frames_below_def init_state_def BPF_REG_10_def)

section \<open>A call and its return\<close>

text \<open>Steps each of which is taken at a depth above \<open>d\<close>: the run of a function called at depth \<open>d\<close>.\<close>

inductive deep_steps :: "(exec_state \<Rightarrow> 'r + exec_state) \<Rightarrow> nat \<Rightarrow> exec_state \<Rightarrow> exec_state \<Rightarrow> bool" for step d where
  deep_refl: "deep_steps step d s s"
| deep_step: "deep_steps step d s t \<Longrightarrow> d < st_frame_index t \<Longrightarrow> step t = Inr u \<Longrightarrow> deep_steps step d s u"

lemma deep_steps_steps: "deep_steps step d s t \<Longrightarrow> steps step s t"
  by (induction rule: deep_steps.induct) (auto intro: steps.intros)

text \<open>What a called function keeps of the frames of its callers, up to and including its return.\<close>

definition callee_inv :: "nat \<Rightarrow> ubpf_stack_frame list \<Rightarrow> ubpf_stack_frame \<Rightarrow> exec_state \<Rightarrow> bool" where
  "callee_inv d below frame s \<longleftrightarrow> take d (st_frames s) = below \<and> d < length (st_frames s) \<and>
     st_frames s ! d = frame \<and>
     (d < st_frame_index s \<or> d = st_frame_index s \<and> st_pc s = return_address frame \<and>
       (st_reg s BPF_REG_6, st_reg s BPF_REG_7, st_reg s BPF_REG_8, st_reg s BPF_REG_9) = saved_registers frame)"

lemma same_below_callee: "same_below s t \<Longrightarrow> d < st_frame_index s \<Longrightarrow> callee_inv d below frame s \<Longrightarrow> callee_inv d below frame t"
  by (auto simp: same_below_def callee_inv_def intro!: nth_equalityI)

lemma callee_inv_moves:
  assumes "callee_inv d below frame s" and "d < st_frame_index s"
  shows "returns_frame s u \<Longrightarrow> callee_inv d below frame u"
    and "calls_frame s u \<Longrightarrow> callee_inv d below frame u"
    and "keeps_frame s u \<Longrightarrow> callee_inv d below frame u"
  using assms
  by (auto simp: callee_inv_def returns_frame_def calls_frame_def keeps_frame_def Let_def less_Suc_eq)

lemma deep_steps_callee:
  assumes "deep_steps (exec_step vm args) d s u" and "frame_pointer_program vm" and "callee_inv d below frame s"
  shows "callee_inv d below frame u"
  using assms
proof (induction rule: deep_steps.induct)
  case (deep_step s t u)
  from deep_step(3) assms(2) show ?case
  proof (cases rule: exec_step_frames)
    case (1 s2 inst)
    have "callee_inv d below frame s2"
      using same_below_callee [OF 1(1)] deep_step by simp
    moreover have "d < st_frame_index s2" using 1(1) deep_step(2) by (simp add: same_below_def)
    ultimately show ?thesis using callee_inv_moves [of d below frame s2 u] 1(3) by (auto split: if_splits)
  qed
qed

lemma local_call_callee:
  assumes "exec_step vm args c = Inr s" and "frame_pointer_program vm"
    and "ubpf_fetch_instruction vm (st_pc c) = Some inst" and "is_local_call inst"
  obtains frame where "callee_inv (st_frame_index c) (take (st_frame_index c) (st_frames c)) frame s"
    "return_address frame = st_pc c + 1"
    "saved_registers frame = (st_reg c BPF_REG_6, st_reg c BPF_REG_7, st_reg c BPF_REG_8, st_reg c BPF_REG_9)"
  using assms(1,2)
proof (cases rule: exec_step_frames)
  case (1 s2 inst')
  have "opcode inst \<noteq> EBPF_OP_EXIT" using assms(4) by (simp add: is_local_call_def opcode_vals)
  with 1(2,3) assms(3,4) have c: "calls_frame s2 s" by simp
  then show thesis
    using that [of "st_frames s ! st_frame_index c"] 1(1) same_below_take [OF 1(1)]
    by (auto simp: same_below_def calls_frame_def callee_inv_def Let_def)
qed

section \<open>Stepping a loaded program\<close>

text \<open>One iteration of a loaded program on a machine without limit, debugger and undefined-behaviour checks.\<close>

definition plain :: "ubpf_vm \<Rightarrow> bool" where
  "plain vm \<longleftrightarrow> instruction_limit vm = 0 \<and> debug_function vm = None \<and> \<not> undefined_behavior_check_enabled vm"

lemma loaded_step:
  assumes "ubpf_load env vm code = (Inr (), vm')" and "plain vm" and "decode_insts code = is"
    and "st_pc s = of_nat k" and "k < length is" and "length (st_frames s) = UBPF_MAX_CALL_DEPTH"
  obtains fs where "length fs = UBPF_MAX_CALL_DEPTH" "\<forall>i. i \<noteq> st_frame_index s \<longrightarrow> fs ! i = st_frames s ! i"
    "exec_step vm' args s = (case exec_switch vm' args (is ! k) (s\<lparr>st_frames := fs, st_pc := of_nat k + 1\<rparr>) of
       Inl r \<Rightarrow> Inl r | Inr t \<Rightarrow> Inr (mask_alu_result (is ! k) t))"
proof -
  note res = ubpf_load_result [OF assms(1), unfolded assms(3)]
  have plain: "instruction_limit vm' = 0" "debug_function vm' = None" "\<not> undefined_behavior_check_enabled vm'"
    using ubpf_load_frame [OF assms(1)] assms(2) by (auto simp: plain_def)
  have k: "unat (of_nat k :: uint16_t) = k" using assms(5) res(1)
    by (simp add: UBPF_MAX_INSTS_def unsigned_of_nat take_bit_nat_eq_self)
  have lt: "\<not> num_insts vm' \<le> of_nat k" using k assms(5) res(2) by (simp add: word_le_nat_alt)
  obtain fs where fs: "length fs = UBPF_MAX_CALL_DEPTH" "\<forall>i. i \<noteq> st_frame_index s \<longrightarrow> fs ! i = st_frames s ! i"
    and enter: "enter_function vm' s = Some (s\<lparr>st_frames := fs\<rparr>)"
    using enter_function_total [OF ubpf_load_program_ok [OF assms(1)] assms(6)] lt assms(4) by (auto simp: not_le)
  show thesis
    using that [OF fs] enter res(3) [OF assms(5)] lt assms(4) plain
    by (simp add: exec_step_def exec_instruction_def call_debug_function_def ubpf_validate_shadow_register_def)
qed

text \<open>A program that calls a function that returns at once.\<close>

definition leaf_insts :: "ebpf_inst list" where
  "leaf_insts =
     [\<lparr>opcode = EBPF_OP_CALL, dst = 0, src = 1, offset = 0, imm = 1\<rparr>,
      \<lparr>opcode = EBPF_OP_EXIT, dst = 0, src = 0, offset = 0, imm = 0\<rparr>,
      \<lparr>opcode = EBPF_OP_EXIT, dst = 0, src = 0, offset = 0, imm = 0\<rparr>]"

text \<open>A program whose atomic addition fetches into register 10.\<close>

definition fetch_insts :: "ebpf_inst list" where
  "fetch_insts =
     [\<lparr>opcode = EBPF_OP_ATOMIC_STORE, dst = 1, src = 10, offset = 0, imm = 1\<rparr>,
      \<lparr>opcode = EBPF_OP_EXIT, dst = 0, src = 0, offset = 0, imm = 0\<rparr>]"

definition plain_vm :: ubpf_vm where
  "plain_vm = the (ubpf_create JIT_x86_64 (\<lambda>_. True))"

lemma plain_vm_simps: "stack_usage_calculator plain_vm = None"
  "local_func_stack_usage plain_vm = Some unknown_stack_usage" "insts plain_vm = None" "plain plain_vm"
  by (simp_all add: plain_vm_def plain_def ubpf_create_def)

lemma leaf_loads: "\<exists>vm'. ubpf_load demo_env plain_vm (concat (map inst_bytes leaf_insts)) = (Inr (), vm')"
proof (rule encoded_loads)
  have "list_all (\<lambda>i. ubpf_is_valid_instruction i = Inr ()) leaf_insts"
    "check_for_self_contained_sub_programs leaf_insts True = None" by code_simp+
  then show "fst (validate plain_vm leaf_insts True) = Inr ()"
    by (simp add: validate_def UBPF_MAX_INSTS_def leaf_insts_def validate_loop.simps validate_inst_def
        validate_switch_def validate_call_def validate_fields_def check_result_def opcode_lists opcode_vals
        ubpf_calculate_stack_usage_for_local_func_def ubpf_stack_usage_for_local_func_def plain_vm_simps
        unknown_stack_usage_def UBPF_EBPF_LOCAL_FUNCTION_STACK_SIZE_def)
qed (simp add: plain_vm_simps)

lemma fetch_loads: "\<exists>vm'. ubpf_load demo_env plain_vm (concat (map inst_bytes fetch_insts)) = (Inr (), vm')"
proof (rule encoded_loads)
  have "list_all (\<lambda>i. ubpf_is_valid_instruction i = Inr ()) fetch_insts"
    "check_for_self_contained_sub_programs fetch_insts True = None" by code_simp+
  then show "fst (validate plain_vm fetch_insts True) = Inr ()"
    by (simp add: validate_def UBPF_MAX_INSTS_def fetch_insts_def validate_loop.simps validate_inst_def
        validate_switch_def validate_call_def validate_fields_def check_result_def opcode_lists opcode_vals
        ubpf_calculate_stack_usage_for_local_func_def ubpf_stack_usage_for_local_func_def plain_vm_simps
        unknown_stack_usage_def UBPF_EBPF_LOCAL_FUNCTION_STACK_SIZE_def
        validate_atomic_def)
qed (simp add: plain_vm_simps)

lemma leaf_not_atomic:
  "inst \<in> set (decode_insts (concat (map inst_bytes leaf_insts))) \<Longrightarrow> is_atomic inst \<Longrightarrow> src inst \<noteq> BPF_REG_10"
  unfolding decode_encode by (auto simp: leaf_insts_def is_atomic_def opcode_vals)

lemma leaf_run:
  assumes l: "ubpf_load demo_env plain_vm (concat (map inst_bytes leaf_insts)) = (Inr (), vm')"
  shows "\<exists>s u. exec_step vm' args (init_state vm' args regs m) = Inr s \<and>
    deep_steps (exec_step vm' args) 0 s u \<and> st_frame_index u = 0"
proof -
  let ?i = "init_state vm' args regs m"
  have d: "decode_insts (concat (map inst_bytes leaf_insts)) = leaf_insts" by (rule decode_encode)
  have init: "st_pc ?i = 0" "length (st_frames ?i) = UBPF_MAX_CALL_DEPTH" "length leaf_insts = 3"
    by (simp_all add: init_state_def leaf_insts_def)
  obtain fs where fs: "length fs = UBPF_MAX_CALL_DEPTH" and
    e: "exec_step vm' args ?i = (case exec_switch vm' args (leaf_insts ! 0) (?i\<lparr>st_frames := fs, st_pc := 1\<rparr>) of
         Inl r \<Rightarrow> Inl r | Inr t \<Rightarrow> Inr (mask_alu_result (leaf_insts ! 0) t))"
    using loaded_step [OF l plain_vm_simps(4) d, where s = ?i and k = 0 and args = args] init by auto
  from e fs obtain s where s: "exec_step vm' args ?i = Inr s" "st_pc s = of_nat 2" "st_frame_index s = 1"
    "length (st_frames s) = UBPF_MAX_CALL_DEPTH"
    by (simp add: exec_switch_call leaf_insts_def exec_call_def exec_call_local_def frame_at_def Let_def
        init_state_def mask_alu_result_def UBPF_MAX_CALL_DEPTH_def opcode_vals)
  obtain fs' where fs': "length fs' = UBPF_MAX_CALL_DEPTH" and
    e': "exec_step vm' args s = (case exec_switch vm' args (leaf_insts ! 2) (s\<lparr>st_frames := fs', st_pc := 3\<rparr>) of
         Inl r \<Rightarrow> Inl r | Inr t \<Rightarrow> Inr (mask_alu_result (leaf_insts ! 2) t))"
    using loaded_step [OF l plain_vm_simps(4) d s(2) _ s(4), where args = args] init(3) by auto
  from e' fs' s(3) obtain u where u: "exec_step vm' args s = Inr u" "st_frame_index u = 0"
    by (auto simp: exec_switch_exit leaf_insts_def exec_exit_def frame_at_def UBPF_MAX_CALL_DEPTH_def
        mask_alu_result_def opcode_vals split: prod.splits)
  with s deep_step [OF deep_refl, of 0 s "exec_step vm' args" u] show ?thesis by auto
qed

text \<open>A context of eight zero bytes for the second program.\<close>

definition fetch_args :: exec_args where
  "fetch_args = \<lparr>arg_mem = 0x9000, arg_mem_len = 8, arg_stack_start = 0x5000, arg_stack_length = 0x1000\<rparr>"

lemma fetch_run:
  assumes l: "ubpf_load demo_env plain_vm (concat (map inst_bytes fetch_insts)) = (Inr (), vm')"
  shows "\<exists>u. exec_step vm' fetch_args (init_state vm' fetch_args regs (\<lambda>_. Some 0)) = Inr u \<and>
    st_frame_index u = 0 \<and> st_reg u BPF_REG_10 = 0"
proof -
  let ?i = "init_state vm' fetch_args regs (\<lambda>_. Some 0)"
  have d: "decode_insts (concat (map inst_bytes fetch_insts)) = fetch_insts" by (rule decode_encode)
  have init: "st_pc ?i = 0" "length (st_frames ?i) = UBPF_MAX_CALL_DEPTH" "length fetch_insts = 2"
    by (simp_all add: init_state_def fetch_insts_def)
  have off: "\<not> undefined_behavior_check_enabled vm'"
    using ubpf_load_frame [OF l] plain_vm_simps(4) by (auto simp: plain_def)
  obtain fs where
    e: "exec_step vm' fetch_args ?i = (case exec_switch vm' fetch_args (fetch_insts ! 0) (?i\<lparr>st_frames := fs, st_pc := 1\<rparr>) of
         Inl r \<Rightarrow> Inl r | Inr t \<Rightarrow> Inr (mask_alu_result (fetch_insts ! 0) t))"
    using loaded_step [OF l plain_vm_simps(4) d, where s = ?i and k = 0 and args = fetch_args] init by auto
  have b: "bounds_check vm' 0x9000 8 fetch_args = Inr ()"
    by (simp add: bounds_check_def fetch_args_def UINT64_MAX_def)
  have u: "\<exists>m'. atomic_update (\<lambda>_. Some 0) 0x9000 8 f = Some (0, m')" for f
    by (simp add: atomic_update_def load_le_def store_le_def)
  show ?thesis
    unfolding e using off b u [of "\<lambda>old. old + 0x6000"]
    by (auto simp: exec_switch_atomic fetch_insts_def exec_atomic_inst_def exec_atomic64_def BOUNDS_CHECK_STORE_def
        COMPUTE_EFFECTIVE_ADDR_def UINT64_MAX_def init_state_def fetch_args_def ubpf_mark_shadow_stack_def atomic_op_def
        mask_alu_result_def opcode_vals BPF_REG_10_def Let_def)
qed

section \<open>Properties\<close>





text \<open>
  C13. The restriction to programs without such atomic instructions is needed: validation accepts
  a program whose atomic addition fetches the old value into register 10, and one instruction
  into its run the read-only frame pointer has been replaced by a value read from memory.
\<close>

theorem atomic_fetch_overwrites_frame_pointer:
  "\<exists>vm' u. ubpf_load demo_env plain_vm (concat (map inst_bytes fetch_insts)) = (Inr (), vm') \<and>
     exec_step vm' fetch_args (init_state vm' fetch_args regs (\<lambda>_. Some 0)) = Inr u \<and>
     st_frame_index u = 0 \<and> st_reg (init_state vm' fetch_args regs (\<lambda>_. Some 0)) BPF_REG_10 = 0x6000 \<and>
     st_reg u BPF_REG_10 = 0"
proof -
  obtain vm' where l: "ubpf_load demo_env plain_vm (concat (map inst_bytes fetch_insts)) = (Inr (), vm')"
    using fetch_loads by blast
  with fetch_run [OF l, of regs] show ?thesis by (auto simp: init_state_def fetch_args_def BPF_REG_10_def)
qed

end
