(* ===== verification/Safe_Exec.thy ===== *)
theory Safe_Exec
  imports Interp
begin

text \<open>
  The safe execution profile, \<^verbatim>\<open>vm/ubpf_safe.c\<close>: every register carries a tag that says whether
  its value is a scalar, a pointer into one region or an opaque handle; memory is reached only
  through pointers, inside the window the tag describes. The file keeps its own textual copies
  of \<^verbatim>\<open>u32\<close>, \<^verbatim>\<open>i32\<close>, \<^verbatim>\<open>i64\<close>, the memory accesses and the shadow stack and shadow register
  functions of \<^verbatim>\<open>vm/ubpf_vm.c\<close>; the definitions of \<open>Interp_Alu\<close>, \<open>Interp_Mem\<close> and \<open>Interp\<close> serve
  for both copies. The switch is translated here anew.
\<close>

section \<open>Tags\<close>

definition UBPF_SAFE_REGION_READ :: uint32_t where "UBPF_SAFE_REGION_READ = 1"
definition UBPF_SAFE_REGION_WRITE :: uint32_t where "UBPF_SAFE_REGION_WRITE = 2"
definition UBPF_SAFE_REGION_ATOMIC :: uint32_t where "UBPF_SAFE_REGION_ATOMIC = 4"

definition UBPF_SAFE_REGION_ID_INPUT :: uint32_t where "UBPF_SAFE_REGION_ID_INPUT = 0xfffffffe"
definition UBPF_SAFE_REGION_ID_STACK :: uint32_t where "UBPF_SAFE_REGION_ID_STACK = 0xffffffff"

definition UBPF_SAFE_REGION_PERMISSIONS_MASK :: uint32_t where
  "UBPF_SAFE_REGION_PERMISSIONS_MASK = UBPF_SAFE_REGION_READ OR UBPF_SAFE_REGION_WRITE OR UBPF_SAFE_REGION_ATOMIC"

definition UBPF_SAFE_STACK_ADDRESS_SLACK :: uint64_t where "UBPF_SAFE_STACK_ADDRESS_SLACK = 0x7fff"

datatype ubpf_safe_value_kind = UBPF_SAFE_VALUE_SCALAR | UBPF_SAFE_VALUE_POINTER | UBPF_SAFE_VALUE_HANDLE

record ubpf_safe_tag =
  tag_kind :: ubpf_safe_value_kind
  tag_region_id :: uint32_t
  tag_permissions :: uint32_t
  tag_base :: uint64_t
  tag_size :: uint64_t

record ubpf_safe_spill_slot =
  spill_valid :: bool
  spill_tag :: ubpf_safe_tag

type_synonym ubpf_safe_frame_state = "ubpf_safe_tag \<times> ubpf_safe_tag \<times> ubpf_safe_tag \<times> ubpf_safe_tag"

definition ubpf_safe_scalar_tag :: ubpf_safe_tag where
  "ubpf_safe_scalar_tag = \<lparr>tag_kind = UBPF_SAFE_VALUE_SCALAR, tag_region_id = 0, tag_permissions = 0,
     tag_base = 0, tag_size = 0\<rparr>"

definition ubpf_safe_pointer_tag :: "uint32_t \<Rightarrow> uint32_t \<Rightarrow> uint64_t \<Rightarrow> uint64_t \<Rightarrow> ubpf_safe_tag" where
  "ubpf_safe_pointer_tag rid permissions base sz = \<lparr>tag_kind = UBPF_SAFE_VALUE_POINTER, tag_region_id = rid,
     tag_permissions = permissions, tag_base = base, tag_size = sz\<rparr>"

definition ubpf_safe_handle_tag :: "uint32_t \<Rightarrow> uint32_t \<Rightarrow> uint64_t \<Rightarrow> uint64_t \<Rightarrow> ubpf_safe_tag" where
  "ubpf_safe_handle_tag rid permissions base sz = \<lparr>tag_kind = UBPF_SAFE_VALUE_HANDLE, tag_region_id = rid,
     tag_permissions = permissions, tag_base = base, tag_size = sz\<rparr>"

definition ubpf_safe_find_region_by_id :: "ubpf_vm \<Rightarrow> uint32_t \<Rightarrow> ubpf_safe_region_internal option" where
  "ubpf_safe_find_region_by_id vm rid = find (\<lambda>r. region_in_use r \<and> region_id r = rid) (safe_regions vm)"

definition ubpf_safe_is_stack_pointer :: "ubpf_safe_tag \<Rightarrow> exec_args \<Rightarrow> bool" where
  "ubpf_safe_is_stack_pointer tag args \<longleftrightarrow>
     tag_kind tag = UBPF_SAFE_VALUE_POINTER \<and> tag_region_id tag = UBPF_SAFE_REGION_ID_STACK \<and>
     tag_base tag = arg_stack_start args \<and> tag_size tag = arg_stack_length args"

section \<open>Checks\<close>

text \<open>One constructor per message; the first argument of an access error is its kind.\<close>

datatype safe_access = Safe_load | Safe_store | Safe_atomic

datatype safe_error =
    Requires_pointer safe_access
  | Not_permitted safe_access
  | Safe_address_overflow safe_access
  | Safe_address_underflow safe_access
  | Invalid_region_metadata "safe_access option"
  | Out_of_region safe_access
  | Overruns_region safe_access
  | Pointer_escaped
  | Sign_ext_move_needs_scalar
  | Invalid_add_operand
  | Invalid_sub_operand
  | Needs_scalar_operands
  | Helper_metadata_missing int32_t
  | Helper_unknown_region int32_t uint32_t
  | Helper_result_kind_mismatch int32_t uint32_t
  | Helper_pointer_out_of_range int32_t

definition ubpf_safe_compute_access ::
  "ubpf_safe_tag \<Rightarrow> uint64_t \<Rightarrow> int16_t \<Rightarrow> nat \<Rightarrow> safe_access \<Rightarrow> uint32_t \<Rightarrow> safe_error + uint64_t" where
  "ubpf_safe_compute_access tag current_address off access_size access_type required_permissions =
     (if tag_kind tag \<noteq> UBPF_SAFE_VALUE_POINTER then Inl (Requires_pointer access_type)
      else if tag_permissions tag AND required_permissions \<noteq> required_permissions then Inl (Not_permitted access_type)
      else
        let off64 = (scast off :: uint64_t);
            access_size64 = (of_nat access_size :: uint64_t);
            address =
              (if 0 \<le> sint off
               then (if current_address > UINT64_MAX - off64 then Inl (Safe_address_overflow access_type)
                     else Inr (current_address + off64))
               else (let offset_u64 = - off64 in
                     if current_address < offset_u64 then Inl (Safe_address_underflow access_type)
                     else Inr (current_address - offset_u64))) in
        (case address of
           Inl e \<Rightarrow> Inl e
         | Inr effective_address \<Rightarrow>
             if tag_base tag > UINT64_MAX - tag_size tag then Inl (Invalid_region_metadata (Some access_type))
             else
               let region_end = tag_base tag + tag_size tag in
               if effective_address < tag_base tag \<or> effective_address > region_end then Inl (Out_of_region access_type)
               else if access_size64 > tag_size tag \<or> effective_address > region_end - access_size64
               then Inl (Overruns_region access_type)
               else Inr effective_address))"

text \<open>
  The loop that clears the spill slots an access overlaps. An index outside the array is
  \<^const>\<open>None\<close>.
\<close>

fun invalidate_slots :: "ubpf_safe_spill_slot list \<Rightarrow> nat \<Rightarrow> nat \<Rightarrow> ubpf_safe_spill_slot list option" where
  "invalidate_slots slots first 0 = Some slots"
| "invalidate_slots slots first (Suc n) =
     (if first < length slots
      then invalidate_slots (slots[first := (slots ! first)\<lparr>spill_valid := False\<rparr>]) (Suc first) n
      else None)"

definition ubpf_safe_invalidate_stack_spill_tags ::
  "ubpf_safe_spill_slot list \<Rightarrow> exec_args \<Rightarrow> uint64_t \<Rightarrow> nat \<Rightarrow> ubpf_safe_spill_slot list option" where
  "ubpf_safe_invalidate_stack_spill_tags spill_slots args address sz =
     (let stack_base = arg_stack_start args;
          stack_end = stack_base + arg_stack_length args;
          access_end = address + of_nat sz in
      if address < stack_base \<or> access_end < address \<or> access_end > stack_end then Some spill_slots
      else
        let first_slot = unat ((address - stack_base) div 8);
            last_slot = unat ((access_end - 1 - stack_base) div 8) in
        invalidate_slots spill_slots first_slot (Suc last_slot - first_slot))"

definition ubpf_safe_apply_pointer_offset :: "ubpf_safe_tag \<Rightarrow> uint64_t \<Rightarrow> safe_error + ubpf_safe_tag" where
  "ubpf_safe_apply_pointer_offset pointer_tag result =
     (if tag_base pointer_tag > UINT64_MAX - tag_size pointer_tag then Inl (Invalid_region_metadata None)
      else
        let region_end = tag_base pointer_tag + tag_size pointer_tag;
            on_stack = (tag_region_id pointer_tag = UBPF_SAFE_REGION_ID_STACK);
            lower_bound =
              (if on_stack
               then (if tag_base pointer_tag > UBPF_SAFE_STACK_ADDRESS_SLACK
                     then tag_base pointer_tag - UBPF_SAFE_STACK_ADDRESS_SLACK else 0)
               else tag_base pointer_tag);
            upper_bound =
              (if on_stack
               then (if region_end > UINT64_MAX - UBPF_SAFE_STACK_ADDRESS_SLACK then UINT64_MAX
                     else region_end + UBPF_SAFE_STACK_ADDRESS_SLACK)
               else region_end) in
        if result < lower_bound \<or> result > upper_bound then Inl Pointer_escaped else Inr pointer_tag)"

text \<open>The rules for the tag of the result of an arithmetic instruction.\<close>

definition ubpf_safe_apply_alu ::
  "ebpf_inst \<Rightarrow> ubpf_safe_tag \<Rightarrow> ubpf_safe_tag \<Rightarrow> uint64_t \<Rightarrow> safe_error + ubpf_safe_tag" where
  "ubpf_safe_apply_alu inst dst_before src_before result =
     (let is_32bit = (opcode inst AND EBPF_CLS_MASK = EBPF_CLS_ALU);
          is_reg = (opcode inst AND EBPF_SRC_REG = EBPF_SRC_REG);
          op = opcode inst AND EBPF_ALU_OP_MASK;
          scalar = Inr ubpf_safe_scalar_tag;
          dk = tag_kind dst_before; sk = tag_kind src_before in
      if is_32bit then scalar
      else if op = EBPF_ALU_OP_MOV then
        (if is_reg then
           (if offset inst \<noteq> 0 \<and> sk \<noteq> UBPF_SAFE_VALUE_SCALAR then Inl Sign_ext_move_needs_scalar
            else if offset inst = 0 then Inr src_before else scalar)
         else scalar)
      else if op = EBPF_ALU_OP_ADD then
        (if \<not> is_reg then
           (if dk = UBPF_SAFE_VALUE_POINTER then ubpf_safe_apply_pointer_offset dst_before result
            else if dk \<noteq> UBPF_SAFE_VALUE_SCALAR then Inl Invalid_add_operand
            else scalar)
         else if dk = UBPF_SAFE_VALUE_POINTER \<and> sk = UBPF_SAFE_VALUE_SCALAR
         then ubpf_safe_apply_pointer_offset dst_before result
         else if dk = UBPF_SAFE_VALUE_SCALAR \<and> sk = UBPF_SAFE_VALUE_POINTER
         then ubpf_safe_apply_pointer_offset src_before result
         else if dk = UBPF_SAFE_VALUE_SCALAR \<and> sk = UBPF_SAFE_VALUE_SCALAR then scalar
         else Inl Invalid_add_operand)
      else if op = EBPF_ALU_OP_SUB then
        (if \<not> is_reg then
           (if dk = UBPF_SAFE_VALUE_POINTER then ubpf_safe_apply_pointer_offset dst_before result
            else if dk \<noteq> UBPF_SAFE_VALUE_SCALAR then Inl Invalid_sub_operand
            else scalar)
         else if dk = UBPF_SAFE_VALUE_POINTER \<and> sk = UBPF_SAFE_VALUE_SCALAR
         then ubpf_safe_apply_pointer_offset dst_before result
         else if dk = UBPF_SAFE_VALUE_POINTER \<and> sk = UBPF_SAFE_VALUE_POINTER \<and>
           tag_region_id dst_before = tag_region_id src_before then scalar
         else if dk = UBPF_SAFE_VALUE_SCALAR \<and> sk = UBPF_SAFE_VALUE_SCALAR then scalar
         else Inl Invalid_sub_operand)
      else if op \<in> {EBPF_ALU_OP_NEG, EBPF_ALU_OP_MUL, EBPF_ALU_OP_DIV, EBPF_ALU_OP_OR, EBPF_ALU_OP_AND,
        EBPF_ALU_OP_LSH, EBPF_ALU_OP_RSH, EBPF_ALU_OP_MOD, EBPF_ALU_OP_XOR, EBPF_ALU_OP_ARSH, EBPF_ALU_OP_END} then
        (if dk \<noteq> UBPF_SAFE_VALUE_SCALAR \<or> is_reg \<and> sk \<noteq> UBPF_SAFE_VALUE_SCALAR then Inl Needs_scalar_operands
         else scalar)
      else scalar)"

section \<open>Arithmetic\<close>

text \<open>Division is written as in \<^verbatim>\<open>vm/ubpf_vm.c\<close>; the signed remainder is not.\<close>

definition safe_mod32 :: "int16_t \<Rightarrow> uint64_t \<Rightarrow> uint32_t \<Rightarrow> uint64_t" where
  "safe_mod32 off d divisor32 =
     (if off = 0 then (if divisor32 \<noteq> 0 then ucast (u32 d mod divisor32) else ucast (u32 d))
      else if off = 1 then
        (let dividend32 = i32 d in
         if divisor32 \<noteq> 0 then
           (if dividend32 = INT32_MIN \<and> divisor32 = - 1 then 0 else ucast (c_smod dividend32 divisor32))
         else d)
      else d) AND UINT32_MAX"

definition safe_mod64 :: "int16_t \<Rightarrow> uint64_t \<Rightarrow> uint64_t \<Rightarrow> uint64_t" where
  "safe_mod64 off d divisor64 =
     (if off = 0 then (if divisor64 \<noteq> 0 then d mod divisor64 else d)
      else if off = 1 then
        (if divisor64 \<noteq> 0 then (if d = INT64_MIN \<and> divisor64 = - 1 then 0 else c_smod d divisor64)
         else d)
      else d)"

definition safe_alu32 :: "ebpf_inst \<Rightarrow> registers \<Rightarrow> uint64_t option" where
  "safe_alu32 inst reg =
     (let op = opcode inst; d = reg (dst inst); s = reg (src inst); i = (scast (imm inst) :: uint64_t) in
      if op = EBPF_OP_ADD_IMM then Some ((d + i) AND UINT32_MAX)
      else if op = EBPF_OP_ADD_REG then Some ((d + s) AND UINT32_MAX)
      else if op = EBPF_OP_SUB_IMM then Some ((d - i) AND UINT32_MAX)
      else if op = EBPF_OP_SUB_REG then Some ((d - s) AND UINT32_MAX)
      else if op = EBPF_OP_MUL_IMM then Some ((d * i) AND UINT32_MAX)
      else if op = EBPF_OP_MUL_REG then Some ((d * s) AND UINT32_MAX)
      else if op = EBPF_OP_DIV_IMM then Some (exec_div32 (offset inst) d (u32 i))
      else if op = EBPF_OP_DIV_REG then Some (exec_div32 (offset inst) d (u32 s))
      else if op = EBPF_OP_OR_IMM then Some ((d OR i) AND UINT32_MAX)
      else if op = EBPF_OP_OR_REG then Some ((d OR s) AND UINT32_MAX)
      else if op = EBPF_OP_AND_IMM then Some ((d AND i) AND UINT32_MAX)
      else if op = EBPF_OP_AND_REG then Some ((d AND s) AND UINT32_MAX)
      else if op = EBPF_OP_LSH_IMM then Some (ucast (push_bit (SHIFT_MASK_32_BIT (imm inst)) (u32 d)) AND UINT32_MAX)
      else if op = EBPF_OP_LSH_REG then Some (ucast (push_bit (SHIFT_MASK_32_BIT s) (u32 d)) AND UINT32_MAX)
      else if op = EBPF_OP_RSH_IMM then Some (ucast (drop_bit (SHIFT_MASK_32_BIT (imm inst)) (u32 d)) AND UINT32_MAX)
      else if op = EBPF_OP_RSH_REG then Some (ucast (drop_bit (SHIFT_MASK_32_BIT s) (u32 d)) AND UINT32_MAX)
      else if op = EBPF_OP_NEG then Some ((- d) AND UINT32_MAX)
      else if op = EBPF_OP_MOD_IMM then Some (safe_mod32 (offset inst) d (u32 i))
      else if op = EBPF_OP_MOD_REG then Some (safe_mod32 (offset inst) d (u32 s))
      else if op = EBPF_OP_XOR_IMM then Some ((d XOR i) AND UINT32_MAX)
      else if op = EBPF_OP_XOR_REG then Some ((d XOR s) AND UINT32_MAX)
      else if op = EBPF_OP_MOV_IMM then Some (i AND UINT32_MAX)
      else if op = EBPF_OP_MOV_REG then
        Some ((if offset inst = 8 then scast (scast (ucast s :: uint8_t) :: int32_t)
               else if offset inst = 16 then scast (scast (ucast s :: uint16_t) :: int32_t)
               else s) AND UINT32_MAX)
      else if op = EBPF_OP_ARSH_IMM then
        Some (scast (signed_drop_bit (SHIFT_MASK_32_BIT (imm inst)) (i32 d)) AND UINT32_MAX)
      else if op = EBPF_OP_ARSH_REG then
        Some (scast (signed_drop_bit (SHIFT_MASK_32_BIT s) (i32 d)) AND UINT32_MAX)
      else None)"

definition safe_endian :: "ebpf_inst \<Rightarrow> registers \<Rightarrow> uint64_t option" where
  "safe_endian inst reg =
     (let op = opcode inst; d = reg (dst inst) in
      if op = EBPF_OP_LE then
        Some (if imm inst = 16 then ucast (ucast d :: uint16_t)
              else if imm inst = 32 then ucast (ucast d :: uint32_t)
              else if imm inst = 64 then d
              else d)
      else if op = EBPF_OP_BE \<or> op = EBPF_OP_BSWAP then
        Some (if imm inst = 16 then ucast (bswap16 (ucast d))
              else if imm inst = 32 then ucast (bswap32 (ucast d))
              else if imm inst = 64 then bswap64 d
              else d)
      else None)"

definition safe_alu64 :: "ebpf_inst \<Rightarrow> registers \<Rightarrow> uint64_t option" where
  "safe_alu64 inst reg =
     (let op = opcode inst; d = reg (dst inst); s = reg (src inst); i = (scast (imm inst) :: uint64_t) in
      if op = EBPF_OP_ADD64_IMM then Some (d + i)
      else if op = EBPF_OP_ADD64_REG then Some (d + s)
      else if op = EBPF_OP_SUB64_IMM then Some (d - i)
      else if op = EBPF_OP_SUB64_REG then Some (d - s)
      else if op = EBPF_OP_MUL64_IMM then Some (d * i)
      else if op = EBPF_OP_MUL64_REG then Some (d * s)
      else if op = EBPF_OP_DIV64_IMM then Some (exec_div64 (offset inst) d i)
      else if op = EBPF_OP_DIV64_REG then Some (exec_div64 (offset inst) d s)
      else if op = EBPF_OP_OR64_IMM then Some (d OR i)
      else if op = EBPF_OP_OR64_REG then Some (d OR s)
      else if op = EBPF_OP_AND64_IMM then Some (d AND i)
      else if op = EBPF_OP_AND64_REG then Some (d AND s)
      else if op = EBPF_OP_LSH64_IMM then Some (push_bit (SHIFT_MASK_64_BIT (imm inst)) d)
      else if op = EBPF_OP_LSH64_REG then Some (push_bit (SHIFT_MASK_64_BIT s) d)
      else if op = EBPF_OP_RSH64_IMM then Some (drop_bit (SHIFT_MASK_64_BIT (imm inst)) d)
      else if op = EBPF_OP_RSH64_REG then Some (drop_bit (SHIFT_MASK_64_BIT s) d)
      else if op = EBPF_OP_NEG64 then Some (- d)
      else if op = EBPF_OP_MOD64_IMM then Some (safe_mod64 (offset inst) d i)
      else if op = EBPF_OP_MOD64_REG then Some (safe_mod64 (offset inst) d s)
      else if op = EBPF_OP_XOR64_IMM then Some (d XOR i)
      else if op = EBPF_OP_XOR64_REG then Some (d XOR s)
      else if op = EBPF_OP_MOV64_IMM then Some i
      else if op = EBPF_OP_MOV64_REG then
        Some (if offset inst = 8 then scast (ucast s :: uint8_t)
              else if offset inst = 16 then scast (ucast s :: uint16_t)
              else if offset inst = 32 then scast (ucast s :: uint32_t)
              else s)
      else if op = EBPF_OP_ARSH64_IMM then Some (signed_drop_bit (SHIFT_MASK_64_BIT (imm inst)) d)
      else if op = EBPF_OP_ARSH64_REG then Some (signed_drop_bit (SHIFT_MASK_64_BIT s) d)
      else None)"

section \<open>Jump conditions\<close>

definition safe_jump_unsigned :: "ebpf_inst \<Rightarrow> registers \<Rightarrow> bool option" where
  "safe_jump_unsigned inst reg =
     (let op = opcode inst; d = reg (dst inst); s = reg (src inst); i = i64 (imm inst) in
      if op = EBPF_OP_JEQ_IMM then Some (d = i)
      else if op = EBPF_OP_JEQ_REG then Some (d = s)
      else if op = EBPF_OP_JEQ32_IMM then Some (u32 d = u32 i)
      else if op = EBPF_OP_JEQ32_REG then Some (u32 d = u32 s)
      else if op = EBPF_OP_JGT_IMM then Some (d > i)
      else if op = EBPF_OP_JGT_REG then Some (d > s)
      else if op = EBPF_OP_JGT32_IMM then Some (u32 d > u32 i)
      else if op = EBPF_OP_JGT32_REG then Some (u32 d > u32 s)
      else if op = EBPF_OP_JGE_IMM then Some (d \<ge> i)
      else if op = EBPF_OP_JGE_REG then Some (d \<ge> s)
      else if op = EBPF_OP_JGE32_IMM then Some (u32 d \<ge> u32 i)
      else if op = EBPF_OP_JGE32_REG then Some (u32 d \<ge> u32 s)
      else if op = EBPF_OP_JLT_IMM then Some (d < i)
      else if op = EBPF_OP_JLT_REG then Some (d < s)
      else if op = EBPF_OP_JLT32_IMM then Some (u32 d < u32 i)
      else if op = EBPF_OP_JLT32_REG then Some (u32 d < u32 s)
      else if op = EBPF_OP_JLE_IMM then Some (d \<le> i)
      else if op = EBPF_OP_JLE_REG then Some (d \<le> s)
      else if op = EBPF_OP_JLE32_IMM then Some (u32 d \<le> u32 i)
      else if op = EBPF_OP_JLE32_REG then Some (u32 d \<le> u32 s)
      else None)"

definition safe_jump_test :: "ebpf_inst \<Rightarrow> registers \<Rightarrow> bool option" where
  "safe_jump_test inst reg =
     (let op = opcode inst; d = reg (dst inst); s = reg (src inst); i = i64 (imm inst) in
      if op = EBPF_OP_JSET_IMM then Some (d AND i \<noteq> 0)
      else if op = EBPF_OP_JSET_REG then Some (d AND s \<noteq> 0)
      else if op = EBPF_OP_JSET32_IMM then Some (u32 d AND u32 i \<noteq> 0)
      else if op = EBPF_OP_JSET32_REG then Some (u32 d AND u32 s \<noteq> 0)
      else if op = EBPF_OP_JNE_IMM then Some (d \<noteq> i)
      else if op = EBPF_OP_JNE_REG then Some (d \<noteq> s)
      else if op = EBPF_OP_JNE32_IMM then Some (u32 d \<noteq> u32 i)
      else if op = EBPF_OP_JNE32_REG then Some (u32 d \<noteq> u32 s)
      else None)"

definition safe_jump_signed :: "ebpf_inst \<Rightarrow> registers \<Rightarrow> bool option" where
  "safe_jump_signed inst reg =
     (let op = opcode inst; d = reg (dst inst); s = reg (src inst); i = i64 (imm inst) in
      if op = EBPF_OP_JSGT_IMM then Some (sint d > sint i)
      else if op = EBPF_OP_JSGT_REG then Some (sint d > sint s)
      else if op = EBPF_OP_JSGT32_IMM then Some (sint (i32 d) > sint (i32 i))
      else if op = EBPF_OP_JSGT32_REG then Some (sint (i32 d) > sint (i32 s))
      else if op = EBPF_OP_JSGE_IMM then Some (sint d \<ge> sint i)
      else if op = EBPF_OP_JSGE_REG then Some (sint d \<ge> sint s)
      else if op = EBPF_OP_JSGE32_IMM then Some (sint (i32 d) \<ge> sint (i32 i))
      else if op = EBPF_OP_JSGE32_REG then Some (sint (i32 d) \<ge> sint (i32 s))
      else if op = EBPF_OP_JSLT_IMM then Some (sint d < sint i)
      else if op = EBPF_OP_JSLT_REG then Some (sint d < sint s)
      else if op = EBPF_OP_JSLT32_IMM then Some (sint (i32 d) < sint (i32 i))
      else if op = EBPF_OP_JSLT32_REG then Some (sint (i32 d) < sint (i32 s))
      else if op = EBPF_OP_JSLE_IMM then Some (sint d \<le> sint i)
      else if op = EBPF_OP_JSLE_REG then Some (sint d \<le> sint s)
      else if op = EBPF_OP_JSLE32_IMM then Some (sint (i32 d) \<le> sint (i32 i))
      else if op = EBPF_OP_JSLE32_REG then Some (sint (i32 d) \<le> sint (i32 s))
      else None)"

definition safe_alu :: "ebpf_inst \<Rightarrow> registers \<Rightarrow> uint64_t option" where
  "safe_alu inst regs =
     (case safe_alu32 inst regs of
        Some v \<Rightarrow> Some v
      | None \<Rightarrow> (case safe_endian inst regs of Some v \<Rightarrow> Some v | None \<Rightarrow> safe_alu64 inst regs))"

definition safe_cond_jump :: "ebpf_inst \<Rightarrow> registers \<Rightarrow> bool option" where
  "safe_cond_jump inst reg =
     (case safe_jump_unsigned inst reg of
        Some b \<Rightarrow> Some b
      | None \<Rightarrow> (case safe_jump_test inst reg of Some b \<Rightarrow> Some b | None \<Rightarrow> safe_jump_signed inst reg))"

section \<open>State of a run\<close>

text \<open>
  \<open>core\<close> holds what the legacy interpreter has too; the rest are the tags of the registers, of
  the eight-byte slots of the stack, and of the registers saved in the frames.
\<close>

record safe_state =
  core :: exec_state
  safe_tags :: "uint4_t \<Rightarrow> ubpf_safe_tag"
  safe_spill_slots :: "ubpf_safe_spill_slot list"
  safe_frames :: "ubpf_safe_frame_state list"

datatype safe_result = Legacy exec_result | Safe_error safe_error

type_synonym safe_outcome = "(safe_result \<times> safe_state) + safe_state"

definition set_reg :: "uint4_t \<Rightarrow> uint64_t \<Rightarrow> exec_state \<Rightarrow> exec_state" where
  "set_reg r v c = c\<lparr>st_reg := (st_reg c)(r := v)\<rparr>"

definition slot_offset :: "exec_args \<Rightarrow> uint64_t \<Rightarrow> uint64_t" where
  "slot_offset args eff_addr = eff_addr - arg_stack_start args"

text \<open>
  The macro \<^verbatim>\<open>SAFE_LOAD\<close>. The source register's tag is read after the destination's has been
  reset, which matters when the two are the same register.
\<close>

definition SAFE_LOAD :: "ubpf_vm \<Rightarrow> exec_args \<Rightarrow> nat \<Rightarrow> bool \<Rightarrow> ebpf_inst \<Rightarrow> safe_state \<Rightarrow> safe_outcome" where
  "SAFE_LOAD vm args n sign_extend inst s =
     (let c = core s in
      case ubpf_safe_compute_access (safe_tags s (src inst)) (st_reg c (src inst)) (offset inst) n Safe_load
          UBPF_SAFE_REGION_READ of
        Inl e \<Rightarrow> Inl (Safe_error e, s)
      | Inr eff_addr \<Rightarrow>
          (case ubpf_check_shadow_stack vm args (st_shadow_stack c) eff_addr n of
             None \<Rightarrow> Inl (Legacy Exec_fault, s)
           | Some ok \<Rightarrow>
               let c = (if ok then c
                        else c\<lparr>st_shadow_regs := st_shadow_regs c AND NOT (REGISTER_TO_SHADOW_MASK (dst inst))\<rparr>) in
               (case (if sign_extend then ubpf_mem_load_sx else ubpf_mem_load) (st_mem c) eff_addr n of
                  None \<Rightarrow> Inl (Legacy Exec_fault, s\<lparr>core := c\<rparr>)
                | Some v \<Rightarrow>
                    let tags = (safe_tags s)(dst inst := ubpf_safe_scalar_tag);
                        s = s\<lparr>core := set_reg (dst inst) v c, safe_tags := tags\<rparr> in
                    if \<not> sign_extend \<and> n = 8 \<and> ubpf_safe_is_stack_pointer (tags (src inst)) args \<and>
                       slot_offset args eff_addr mod 8 = 0
                    then
                      let safe_slot = unat (slot_offset args eff_addr div 8) in
                      if safe_slot < length (safe_spill_slots s) then
                        Inr (if spill_valid (safe_spill_slots s ! safe_slot)
                             then s\<lparr>safe_tags := tags(dst inst := spill_tag (safe_spill_slots s ! safe_slot))\<rparr>
                             else s)
                      else Inl (Legacy Exec_fault, s)
                    else Inr s)))"

definition SAFE_STORE ::
  "ubpf_vm \<Rightarrow> exec_args \<Rightarrow> nat \<Rightarrow> uint64_t \<Rightarrow> bool \<Rightarrow> ebpf_inst \<Rightarrow> safe_state \<Rightarrow> safe_outcome" where
  "SAFE_STORE vm args n v preserve_tag inst s =
     (let c = core s in
      case ubpf_safe_compute_access (safe_tags s (dst inst)) (st_reg c (dst inst)) (offset inst) n Safe_store
          UBPF_SAFE_REGION_WRITE of
        Inl e \<Rightarrow> Inl (Safe_error e, s)
      | Inr eff_addr \<Rightarrow>
          (case ubpf_mem_store (st_mem c) eff_addr v n of
             None \<Rightarrow> Inl (Legacy Exec_fault, s)
           | Some m \<Rightarrow>
               (case ubpf_mark_shadow_stack vm args (st_shadow_stack c) eff_addr n of
                  None \<Rightarrow> Inl (Legacy Exec_fault, s)
                | Some sh \<Rightarrow>
                    let s = s\<lparr>core := c\<lparr>st_shadow_stack := sh, st_mem := m\<rparr>\<rparr> in
                    if ubpf_safe_is_stack_pointer (safe_tags s (dst inst)) args then
                      (case ubpf_safe_invalidate_stack_spill_tags (safe_spill_slots s) args eff_addr n of
                         None \<Rightarrow> Inl (Legacy Exec_fault, s)
                       | Some slots \<Rightarrow>
                           if preserve_tag \<and> n = 8 \<and> slot_offset args eff_addr mod 8 = 0 then
                             let safe_slot = unat (slot_offset args eff_addr div 8) in
                             if safe_slot < length slots then
                               Inr (s\<lparr>safe_spill_slots := slots[safe_slot :=
                                 \<lparr>spill_valid = True, spill_tag = safe_tags s (src inst)\<rparr>]\<rparr>)
                             else Inl (Legacy Exec_fault, s)
                           else Inr (s\<lparr>safe_spill_slots := slots\<rparr>))
                    else Inr s)))"

definition safe_load_inst :: "ubpf_vm \<Rightarrow> exec_args \<Rightarrow> ebpf_inst \<Rightarrow> safe_state \<Rightarrow> safe_outcome option" where
  "safe_load_inst vm args inst s =
     (let op = opcode inst in
      if op = EBPF_OP_LDXW then Some (SAFE_LOAD vm args 4 False inst s)
      else if op = EBPF_OP_LDXH then Some (SAFE_LOAD vm args 2 False inst s)
      else if op = EBPF_OP_LDXB then Some (SAFE_LOAD vm args 1 False inst s)
      else if op = EBPF_OP_LDXDW then Some (SAFE_LOAD vm args 8 False inst s)
      else if op = EBPF_OP_LDXWSX then Some (SAFE_LOAD vm args 4 True inst s)
      else if op = EBPF_OP_LDXHSX then Some (SAFE_LOAD vm args 2 True inst s)
      else if op = EBPF_OP_LDXBSX then Some (SAFE_LOAD vm args 1 True inst s)
      else None)"

definition safe_store_inst :: "ubpf_vm \<Rightarrow> exec_args \<Rightarrow> ebpf_inst \<Rightarrow> safe_state \<Rightarrow> safe_outcome option" where
  "safe_store_inst vm args inst s =
     (let op = opcode inst; i = (scast (imm inst) :: uint64_t); r = st_reg (core s) (src inst) in
      if op = EBPF_OP_STW then Some (SAFE_STORE vm args 4 i False inst s)
      else if op = EBPF_OP_STH then Some (SAFE_STORE vm args 2 i False inst s)
      else if op = EBPF_OP_STB then Some (SAFE_STORE vm args 1 i False inst s)
      else if op = EBPF_OP_STDW then Some (SAFE_STORE vm args 8 i False inst s)
      else if op = EBPF_OP_STXW then Some (SAFE_STORE vm args 4 r False inst s)
      else if op = EBPF_OP_STXH then Some (SAFE_STORE vm args 2 r False inst s)
      else if op = EBPF_OP_STXB then Some (SAFE_STORE vm args 1 r False inst s)
      else if op = EBPF_OP_STXDW then Some (SAFE_STORE vm args 8 r True inst s)
      else None)"

section \<open>Control flow\<close>

definition safe_alu_inst :: "ebpf_inst \<Rightarrow> safe_state \<Rightarrow> safe_outcome option" where
  "safe_alu_inst inst s =
     map_option (\<lambda>v. Inr (s\<lparr>core := set_reg (dst inst) v (core s)\<rparr>)) (safe_alu inst (st_reg (core s)))"

definition safe_lddw :: "ubpf_vm \<Rightarrow> ebpf_inst \<Rightarrow> safe_state \<Rightarrow> safe_outcome option" where
  "safe_lddw vm inst s =
     (if opcode inst = EBPF_OP_LDDW then
        Some (case ubpf_fetch_instruction vm (st_pc (core s)) of
            None \<Rightarrow> Inl (Legacy Exec_fault, s)
          | Some second \<Rightarrow>
              Inr (s\<lparr>core := (set_reg (dst inst) (ucast (imm inst) OR push_bit 32 (scast (imm second))) (core s))
                  \<lparr>st_pc := st_pc (core s) + 1\<rparr>,
                safe_tags := (safe_tags s)(dst inst := ubpf_safe_scalar_tag)\<rparr>))
      else None)"

definition safe_jump_inst :: "ebpf_inst \<Rightarrow> safe_state \<Rightarrow> safe_outcome option" where
  "safe_jump_inst inst s =
     (let jump = (\<lambda>d. s\<lparr>core := (core s)\<lparr>st_pc := st_pc (core s) + d\<rparr>\<rparr>) in
      if opcode inst = EBPF_OP_JA then Some (Inr (jump (offset inst)))
      else if opcode inst = EBPF_OP_JA32 then Some (Inr (jump (ucast (imm inst))))
      else
        case safe_cond_jump inst (st_reg (core s)) of
          None \<Rightarrow> None
        | Some taken \<Rightarrow> Some (Inr (if taken then jump (offset inst) else s)))"

definition clear_argument_tags :: "(uint4_t \<Rightarrow> ubpf_safe_tag) \<Rightarrow> uint4_t \<Rightarrow> ubpf_safe_tag" where
  "clear_argument_tags tags =
     tags(1 := ubpf_safe_scalar_tag, 2 := ubpf_safe_scalar_tag, 3 := ubpf_safe_scalar_tag,
       4 := ubpf_safe_scalar_tag, 5 := ubpf_safe_scalar_tag)"

definition safe_exit :: "ebpf_inst \<Rightarrow> safe_state \<Rightarrow> safe_outcome option" where
  "safe_exit inst s =
     (if opcode inst = EBPF_OP_EXIT then
        Some (let c = core s in
          if st_frame_index c > 0 then
            let i = st_frame_index c - 1 in
            (case frame_at (st_frames c) i of
               None \<Rightarrow> Inl (Legacy Exec_fault, s)
             | Some frame \<Rightarrow>
                 if i < length (safe_frames s) then
                   let (r6, r7, r8, r9) = saved_registers frame;
                       (t6, t7, t8, t9) = safe_frames s ! i in
                   Inr (s\<lparr>core := c\<lparr>st_frame_index := i, st_pc := return_address frame,
                       st_reg := (st_reg c)(BPF_REG_6 := r6, BPF_REG_7 := r7, BPF_REG_8 := r8, BPF_REG_9 := r9,
                         BPF_REG_10 := st_reg c BPF_REG_10 + ucast (frame_stack_usage frame))\<rparr>,
                     safe_tags := (clear_argument_tags (safe_tags s))
                       (BPF_REG_6 := t6, BPF_REG_7 := t7, BPF_REG_8 := t8, BPF_REG_9 := t9)\<rparr>)
                 else Inl (Legacy Exec_fault, s))
          else Inl (Legacy (Exec_ok (st_reg c 0)), s))
      else None)"

text \<open>The tag of a helper's result \<open>v\<close>.\<close>

definition helper_result_tag ::
  "ubpf_vm \<Rightarrow> ubpf_safe_helper_metadata \<Rightarrow> int32_t \<Rightarrow> uint64_t \<Rightarrow> safe_error + ubpf_safe_tag" where
  "helper_result_tag vm helper i v =
     (let kind = helper_result_kind helper; rid = helper_region_id helper; sz = helper_region_size helper in
      if kind = UBPF_SAFE_HELPER_RESULT_SCALAR then Inr ubpf_safe_scalar_tag
      else
        case ubpf_safe_find_region_by_id vm rid of
          None \<Rightarrow> Inl (Helper_unknown_region i rid)
        | Some region \<Rightarrow>
            if kind = UBPF_SAFE_HELPER_RESULT_POINTER \<and> region_kind region \<noteq> UBPF_SAFE_REGION_POINTER \<or>
               kind = UBPF_SAFE_HELPER_RESULT_HANDLE \<and> region_kind region \<noteq> UBPF_SAFE_REGION_HANDLE
            then Inl (Helper_result_kind_mismatch i rid)
            else if v < region_base region \<or> v > region_end region \<or> sz > region_end region - v
            then Inl (Helper_pointer_out_of_range i)
            else Inr (if kind = UBPF_SAFE_HELPER_RESULT_POINTER
                then ubpf_safe_pointer_tag rid (region_permissions region) v sz
                else ubpf_safe_handle_tag rid (region_permissions region) v sz))"

definition safe_call_external :: "ubpf_vm \<Rightarrow> exec_args \<Rightarrow> ebpf_inst \<Rightarrow> safe_state \<Rightarrow> safe_outcome" where
  "safe_call_external vm args inst s =
     (let i = imm inst; c = core s in
      if sint i < 0 \<or> sint i \<ge> int MAX_EXT_FUNCS \<or> \<not> helper_in_use (safe_helpers vm ! unat i)
      then Inl (Safe_error (Helper_metadata_missing i), s)
      else
        let helper = safe_helpers vm ! unat i in
        if helper_result_kind helper \<noteq> UBPF_SAFE_HELPER_RESULT_SCALAR \<and>
           ubpf_safe_find_region_by_id vm (helper_region_id helper) = None
        then Inl (Safe_error (Helper_unknown_region i (helper_region_id helper)), s)
        else
          case call_external vm (arg_mem args) i (st_reg c) (st_mem c) of
            None \<Rightarrow> Inl (Legacy Exec_fault, s)
          | Some (v, m) \<Rightarrow>
              let s = s\<lparr>core := (set_reg 0 v c)\<lparr>st_mem := m\<rparr>\<rparr> in
              if i = unwind_stack_extension_index vm \<and> v = 0 then Inl (Legacy (Exec_ok v), s)
              else
                let s = s\<lparr>safe_tags := clear_argument_tags (safe_tags s)\<rparr> in
                (case helper_result_tag vm helper i v of
                   Inl e \<Rightarrow> Inl (Safe_error e, s)
                 | Inr tag \<Rightarrow> Inr (s\<lparr>safe_tags := (safe_tags s)(0 := tag)\<rparr>)))"

definition safe_call_local :: "ebpf_inst \<Rightarrow> safe_state \<Rightarrow> safe_outcome" where
  "safe_call_local inst s =
     (let c = core s; i = st_frame_index c; tags = safe_tags s in
      if i \<ge> UBPF_MAX_CALL_DEPTH then Inl (Legacy (Exec_error Exec_call_depth), s)
      else
        case frame_at (st_frames c) i of
          None \<Rightarrow> Inl (Legacy Exec_fault, s)
        | Some frame \<Rightarrow>
            if i < length (safe_frames s) then
              let regs = st_reg c;
                  frame' = frame\<lparr>return_address := st_pc c,
                    saved_registers := (regs BPF_REG_6, regs BPF_REG_7, regs BPF_REG_8, regs BPF_REG_9)\<rparr> in
              Inr (s\<lparr>core := c\<lparr>st_frames := (st_frames c)[i := frame'],
                    st_reg := regs(BPF_REG_10 := regs BPF_REG_10 - ucast (frame_stack_usage frame)),
                    st_frame_index := i + 1, st_pc := st_pc c + ucast (imm inst)\<rparr>,
                  safe_frames := (safe_frames s)[i := (tags BPF_REG_6, tags BPF_REG_7, tags BPF_REG_8, tags BPF_REG_9)]\<rparr>)
            else Inl (Legacy Exec_fault, s))"

definition safe_call :: "ubpf_vm \<Rightarrow> exec_args \<Rightarrow> ebpf_inst \<Rightarrow> safe_state \<Rightarrow> safe_outcome option" where
  "safe_call vm args inst s =
     (if opcode inst = EBPF_OP_CALL then
        Some (if src inst = 0 then safe_call_external vm args inst s
          else if src inst = 1 then safe_call_local inst s
          else if src inst = 2 then Inl (Legacy (Exec_error Exec_btf_call), s)
          else Inr s)
      else None)"

section \<open>Atomic operations\<close>

definition safe_atomic64 :: "exec_args \<Rightarrow> ebpf_inst \<Rightarrow> safe_state \<Rightarrow> safe_outcome" where
  "safe_atomic64 args inst s =
     (let c = core s in
      case ubpf_safe_compute_access (safe_tags s (dst inst)) (st_reg c (dst inst)) (offset inst) 8 Safe_atomic
          (UBPF_SAFE_REGION_WRITE OR UBPF_SAFE_REGION_ATOMIC) of
        Inl e \<Rightarrow> Inl (Safe_error e, s)
      | Inr eff_addr \<Rightarrow>
          (case ubpf_safe_invalidate_stack_spill_tags (safe_spill_slots s) args eff_addr 8 of
             None \<Rightarrow> Inl (Legacy Exec_fault, s)
           | Some slots \<Rightarrow>
               let s = s\<lparr>safe_spill_slots := slots\<rparr> in
               (case atomic_op (imm inst) (st_reg c (src inst)) (st_reg c 0) of
                  None \<Rightarrow> Inl (Legacy (Exec_error (Exec_unknown_atomic (imm inst))), s)
                | Some (f, use_r0) \<Rightarrow>
                    (case atomic_update (st_mem c) eff_addr 8 f of
                       None \<Rightarrow> Inl (Legacy Exec_fault, s)
                     | Some (old, m) \<Rightarrow>
                         let atomic_fetch = (imm inst AND EBPF_ATOMIC_OP_FETCH \<noteq> 0);
                             atomic_fetch_index = (if use_r0 then 0 else src inst);
                             c = c\<lparr>st_mem := m\<rparr> in
                         Inr (if atomic_fetch
                              then s\<lparr>core := set_reg atomic_fetch_index old c,
                                safe_tags := (safe_tags s)(atomic_fetch_index := ubpf_safe_scalar_tag)\<rparr>
                              else s\<lparr>core := c\<rparr>)))))"

definition safe_atomic32 :: "exec_args \<Rightarrow> ebpf_inst \<Rightarrow> safe_state \<Rightarrow> safe_outcome" where
  "safe_atomic32 args inst s =
     (let c = core s in
      case ubpf_safe_compute_access (safe_tags s (dst inst)) (st_reg c (dst inst)) (offset inst) 4 Safe_atomic
          (UBPF_SAFE_REGION_WRITE OR UBPF_SAFE_REGION_ATOMIC) of
        Inl e \<Rightarrow> Inl (Safe_error e, s)
      | Inr eff_addr \<Rightarrow>
          (case ubpf_safe_invalidate_stack_spill_tags (safe_spill_slots s) args eff_addr 4 of
             None \<Rightarrow> Inl (Legacy Exec_fault, s)
           | Some slots \<Rightarrow>
               let s = s\<lparr>safe_spill_slots := slots\<rparr> in
               (case atomic_op (imm inst) (u32 (st_reg c (src inst))) (u32 (st_reg c 0)) of
                  None \<Rightarrow> Inl (Legacy (Exec_error (Exec_unknown_atomic (imm inst))), s)
                | Some (f, use_r0) \<Rightarrow>
                    (case atomic_update (st_mem c) eff_addr 4 (\<lambda>old. ucast (f (ucast old))) of
                       None \<Rightarrow> Inl (Legacy Exec_fault, s)
                     | Some (old, m) \<Rightarrow>
                         let atomic_fetch = (imm inst AND EBPF_ATOMIC_OP_FETCH \<noteq> 0 \<or>
                               imm inst = EBPF_ATOMIC_OP_CMPXCHG \<or> imm inst = EBPF_ATOMIC_OP_XCHG);
                             atomic_fetch_index = (if use_r0 then 0 else src inst);
                             c = c\<lparr>st_mem := m\<rparr> in
                         Inr (if atomic_fetch
                              then s\<lparr>core := set_reg atomic_fetch_index old c,
                                safe_tags := (safe_tags s)(atomic_fetch_index := ubpf_safe_scalar_tag)\<rparr>
                              else s\<lparr>core := c\<rparr>)))))"

definition safe_atomic_inst :: "exec_args \<Rightarrow> ebpf_inst \<Rightarrow> safe_state \<Rightarrow> safe_outcome option" where
  "safe_atomic_inst args inst s =
     (if opcode inst = EBPF_OP_ATOMIC_STORE then Some (safe_atomic64 args inst s)
      else if opcode inst = EBPF_OP_ATOMIC32_STORE then Some (safe_atomic32 args inst s)
      else None)"

section \<open>One iteration\<close>

definition safe_switch :: "ubpf_vm \<Rightarrow> exec_args \<Rightarrow> ebpf_inst \<Rightarrow> safe_state \<Rightarrow> safe_outcome" where
  "safe_switch vm args inst s =
     first_case
       [safe_alu_inst inst s, safe_load_inst vm args inst s, safe_store_inst vm args inst s,
        safe_lddw vm inst s, safe_jump_inst inst s, safe_exit inst s, safe_call vm args inst s,
        safe_atomic_inst args inst s]
       (Inl (Legacy (Exec_error (Exec_unknown_opcode (opcode inst))), s))"

text \<open>
  What follows the switch: the tag of an arithmetic result, from the tags before the instruction,
  and the truncation of 32-bit results.
\<close>

definition safe_finish ::
  "ebpf_inst \<Rightarrow> ubpf_safe_tag \<Rightarrow> ubpf_safe_tag \<Rightarrow> safe_state \<Rightarrow> safe_outcome" where
  "safe_finish inst dst_before src_before s =
     (let safe_apply_alu_tag = (opcode inst AND EBPF_CLS_MASK = EBPF_CLS_ALU \<or>
            opcode inst AND EBPF_CLS_MASK = EBPF_CLS_ALU64) in
      case (if safe_apply_alu_tag
            then map_sum id (\<lambda>tag. s\<lparr>safe_tags := (safe_tags s)(dst inst := tag)\<rparr>)
              (ubpf_safe_apply_alu inst dst_before src_before (st_reg (core s) (dst inst)))
            else Inr s) of
        Inl e \<Rightarrow> Inl (Safe_error e, s)
      | Inr s \<Rightarrow> Inr (s\<lparr>core := mask_alu_result inst (core s)\<rparr>))"

definition safe_instruction :: "ubpf_vm \<Rightarrow> exec_args \<Rightarrow> uint16_t \<Rightarrow> ebpf_inst \<Rightarrow> safe_state \<Rightarrow> safe_outcome" where
  "safe_instruction vm args cur_pc inst s =
     (case ubpf_validate_shadow_register vm (st_shadow_regs (core s)) inst of
        Inl e \<Rightarrow> Inl (Legacy (Exec_error (Exec_register e)), s)
      | Inr sr \<Rightarrow>
          (case safe_switch vm args inst
              (s\<lparr>core := call_debug_function vm cur_pc ((core s)\<lparr>st_shadow_regs := sr\<rparr>)\<rparr>) of
             Inl r \<Rightarrow> Inl r
           | Inr t \<Rightarrow> safe_finish inst (safe_tags s (dst inst)) (safe_tags s (src inst)) t))"

definition safe_step :: "ubpf_vm \<Rightarrow> exec_args \<Rightarrow> safe_state \<Rightarrow> safe_outcome" where
  "safe_step vm args s =
     (let c = core s; cur_pc = st_pc c in
      if cur_pc \<ge> num_insts vm then Inl (Legacy (Exec_error Exec_pc_out_of_range), s)
      else if instruction_limit vm \<noteq> 0 \<and> sint (st_limit c) \<le> 0 then Inl (Legacy (Exec_error Exec_limit_exceeded), s)
      else
        let c = (if instruction_limit vm \<noteq> 0 then c\<lparr>st_limit := st_limit c - 1\<rparr> else c) in
        case enter_function vm c of
          None \<Rightarrow> Inl (Legacy Exec_fault, s)
        | Some c \<Rightarrow>
            (case ubpf_fetch_instruction vm cur_pc of
               None \<Rightarrow> Inl (Legacy Exec_fault, s)
             | Some inst \<Rightarrow> safe_instruction vm args cur_pc inst (s\<lparr>core := c\<lparr>st_pc := cur_pc + 1\<rparr>\<rparr>)))"

section \<open>A run\<close>

definition all_permissions :: uint32_t where
  "all_permissions = UBPF_SAFE_REGION_READ OR UBPF_SAFE_REGION_WRITE OR UBPF_SAFE_REGION_ATOMIC"

definition safe_init_tags :: "exec_args \<Rightarrow> uint4_t \<Rightarrow> ubpf_safe_tag" where
  "safe_init_tags args =
     (let tags = (\<lambda>_. ubpf_safe_scalar_tag);
          tags = (if arg_mem args \<noteq> 0 \<and> arg_mem_len args > 0
                  then tags(1 := ubpf_safe_pointer_tag UBPF_SAFE_REGION_ID_INPUT all_permissions
                    (arg_mem args) (arg_mem_len args))
                  else tags) in
      tags(10 := ubpf_safe_pointer_tag UBPF_SAFE_REGION_ID_STACK all_permissions
        (arg_stack_start args) (arg_stack_length args)))"

text \<open>An allocation of zero elements is one of one element.\<close>

definition safe_init_state :: "ubpf_vm \<Rightarrow> exec_args \<Rightarrow> registers \<Rightarrow> memory \<Rightarrow> safe_state" where
  "safe_init_state vm args regs m =
     (let n = unat ((arg_stack_length args + 7) div 8); n = (if n = 0 then 1 else n) in
      \<lparr>core = (init_state vm args regs m)\<lparr>st_shadow_stack :=
          (if undefined_behavior_check_enabled vm then replicate n 0 else [])\<rparr>,
       safe_tags = safe_init_tags args,
       safe_spill_slots = replicate n \<lparr>spill_valid = False, spill_tag = ubpf_safe_scalar_tag\<rparr>,
       safe_frames = replicate UBPF_MAX_CALL_DEPTH
         (ubpf_safe_scalar_tag, ubpf_safe_scalar_tag, ubpf_safe_scalar_tag, ubpf_safe_scalar_tag)\<rparr>)"

text \<open>
  \<^verbatim>\<open>ubpf_exec_ex_safe\<close>; \<open>shadow_ok\<close> and \<open>spill_ok\<close> are the outcomes of the two allocations.
\<close>

definition ubpf_exec_ex_safe ::
  "ubpf_vm \<Rightarrow> exec_args \<Rightarrow> registers \<Rightarrow> memory \<Rightarrow> bool \<Rightarrow> bool \<Rightarrow> (safe_result \<times> safe_state) option \<times> ubpf_vm" where
  "ubpf_exec_ex_safe vm args regs m shadow_ok spill_ok =
     (let s = safe_init_state vm args regs m in
      if insts vm = None then (Some (Legacy (Exec_error Exec_no_code), s), vm)
      else
        let vm = vm\<lparr>execution_started := True\<rparr> in
        if undefined_behavior_check_enabled vm \<and> \<not> shadow_ok then (Some (Legacy (Exec_error Exec_no_memory), s), vm)
        else if \<not> spill_ok then (Some (Legacy (Exec_error Exec_no_memory), s), vm)
        else (run_loop (safe_step vm args) s, vm))"

section \<open>Configuring the profile\<close>

definition ubpf_set_execution_profile_impl :: "ubpf_vm \<Rightarrow> ubpf_execution_profile \<Rightarrow> int \<times> ubpf_vm" where
  "ubpf_set_execution_profile_impl vm profile =
     (if insts vm \<noteq> None \<or> jitted vm \<noteq> None \<or> execution_started vm then (- 1, vm)
      else (0, vm\<lparr>execution_profile := profile\<rparr>))"

record ubpf_safe_helper_descriptor =
  desc_index :: uint32_t
  desc_name :: "string option"
  desc_fn :: "ext_helper option"
  desc_result_kind :: ubpf_safe_helper_result_kind
  desc_region_id :: uint32_t
  desc_region_size :: uint64_t

text \<open>A null descriptor is \<^const>\<open>None\<close>; the last two arguments are those of \<^const>\<open>ubpf_register\<close>.\<close>

definition ubpf_register_safe_helper_impl ::
  "ubpf_vm \<Rightarrow> ubpf_safe_helper_descriptor option \<Rightarrow> bool \<Rightarrow> bool \<Rightarrow> int \<times> ubpf_vm" where
  "ubpf_register_safe_helper_impl vm descriptor mprotect_rw mprotect_rx =
     (case descriptor of
        None \<Rightarrow> (- 1, vm)
      | Some d \<Rightarrow>
          let i = unat (desc_index d); has_region = (desc_result_kind d \<noteq> UBPF_SAFE_HELPER_RESULT_SCALAR) in
          if i \<ge> MAX_EXT_FUNCS \<or> desc_fn d = None then (- 1, vm)
          else if has_region \<and> desc_region_size d = 0 then (- 1, vm)
          else if has_region \<and>
            (desc_region_id d = UBPF_SAFE_REGION_ID_INPUT \<or> desc_region_id d = UBPF_SAFE_REGION_ID_STACK) then (- 1, vm)
          else
            let (rc, vm) = ubpf_register vm (desc_index d) (desc_name d) (desc_fn d) mprotect_rw mprotect_rx in
            if rc \<noteq> 0 then (- 1, vm)
            else (0, vm\<lparr>safe_helpers := (safe_helpers vm)[i :=
              \<lparr>helper_in_use = True, helper_result_kind = desc_result_kind d,
               helper_region_id = desc_region_id d, helper_region_size = desc_region_size d\<rparr>]\<rparr>))"

record ubpf_safe_region =
  new_region_id :: uint32_t
  new_region_base :: uint64_t
  new_region_size :: uint64_t
  new_region_kind :: ubpf_safe_region_kind
  new_region_permissions :: uint32_t

text \<open>The slot of a region: the one with its identifier, else the first that is free.\<close>

fun find_slot :: "ubpf_safe_region_internal list \<Rightarrow> nat \<Rightarrow> uint32_t \<Rightarrow> nat option \<Rightarrow> nat option" where
  "find_slot [] i rid slot = slot"
| "find_slot (r # rs) i rid slot =
     (if region_in_use r \<and> region_id r = rid then Some i
      else find_slot rs (Suc i) rid (if \<not> region_in_use r \<and> slot = None then Some i else slot))"

definition ubpf_register_safe_region_impl :: "ubpf_vm \<Rightarrow> ubpf_safe_region option \<Rightarrow> int \<times> ubpf_vm" where
  "ubpf_register_safe_region_impl vm region =
     (case region of
        None \<Rightarrow> (- 1, vm)
      | Some r \<Rightarrow>
          if new_region_id r = UBPF_SAFE_REGION_ID_INPUT \<or> new_region_id r = UBPF_SAFE_REGION_ID_STACK then (- 1, vm)
          else if new_region_size r = 0 \<or> new_region_base r = 0 then (- 1, vm)
          else if new_region_permissions r AND NOT UBPF_SAFE_REGION_PERMISSIONS_MASK \<noteq> 0 then (- 1, vm)
          else
            let last = new_region_base r + new_region_size r in
            if last < new_region_base r then (- 1, vm)
            else
              case find_slot (safe_regions vm) 0 (new_region_id r) None of
                None \<Rightarrow> (- 1, vm)
              | Some i \<Rightarrow>
                  (0, vm\<lparr>safe_regions := (safe_regions vm)[i :=
                    \<lparr>region_in_use = True, region_id = new_region_id r, region_base = new_region_base r,
                     region_end = last, region_kind = new_region_kind r,
                     region_permissions = new_region_permissions r\<rparr>]\<rparr>))"

section \<open>Execution in the configured profile\<close>

text \<open>
  \<^verbatim>\<open>ubpf_exec_ex\<close> dispatches on the profile; \<^verbatim>\<open>ubpf_exec\<close> runs on a stack of its own at
  \<open>stack\<close>.
\<close>

definition ubpf_exec_ex ::
  "ubpf_vm \<Rightarrow> exec_args \<Rightarrow> registers \<Rightarrow> memory \<Rightarrow> bool \<Rightarrow> bool \<Rightarrow> (safe_result \<times> memory) option \<times> ubpf_vm" where
  "ubpf_exec_ex vm args regs m shadow_ok spill_ok =
     (if execution_profile vm = UBPF_EXECUTION_PROFILE_SAFE
      then map_prod (map_option (\<lambda>(r, s). (r, st_mem (core s)))) id (ubpf_exec_ex_safe vm args regs m shadow_ok spill_ok)
      else map_prod (map_option (\<lambda>(r, s). (Legacy r, st_mem s))) id (ubpf_exec_ex_legacy vm args regs m shadow_ok))"

definition ubpf_exec ::
  "ubpf_vm \<Rightarrow> uint64_t \<Rightarrow> uint64_t \<Rightarrow> uint64_t \<Rightarrow> registers \<Rightarrow> memory \<Rightarrow> bool \<Rightarrow> bool
    \<Rightarrow> (safe_result \<times> memory) option \<times> ubpf_vm" where
  "ubpf_exec vm mem mem_len stack regs m shadow_ok spill_ok =
     ubpf_exec_ex vm \<lparr>arg_mem = mem, arg_mem_len = mem_len, arg_stack_start = stack,
       arg_stack_length = UBPF_EBPF_STACK_SIZE\<rparr> regs m shadow_ok spill_ok"

end
