(* ===== verification/Safe_Correct.thy ===== *)
theory Safe_Correct
  imports Safe_Exec Load_Correct
begin

text \<open>
  The safe profile refines the legacy interpreter: a run that it
  completes is the run of the legacy interpreter without bounds checks.
\<close>

section \<open>The arithmetic of both interpreters agrees\<close>

lemma safe_mod_eq: "safe_mod32 = exec_mod32" "safe_mod64 = exec_mod64"
  by (simp_all add: fun_eq_iff safe_mod32_def exec_mod32_def safe_mod64_def exec_mod64_def Let_def)

lemma safe_alu_eq: "safe_alu = exec_alu"
  by (simp add: fun_eq_iff safe_alu_def exec_alu_def safe_alu32_def exec_alu32_def safe_alu64_def exec_alu64_def
      safe_endian_def exec_endian_def safe_mod_eq Let_def)

lemma safe_cond_jump_eq: "safe_cond_jump = exec_cond_jump"
  by (simp add: fun_eq_iff safe_cond_jump_def exec_cond_jump_def safe_jump_unsigned_def exec_jump_unsigned_def
      safe_jump_test_def exec_jump_test_def safe_jump_signed_def exec_jump_signed_def Let_def)

section \<open>The safe profile refines the legacy interpreter\<close>

text \<open>
  The outcome of a safe operation against that of the legacy one on the core of the state: equal,
  unless the safe profile stops on a violation (or an invalid access of its own, which the
  second half of the theory excludes).
\<close>

definition refines :: "safe_outcome \<Rightarrow> outcome \<Rightarrow> bool" where
  "refines out l \<longleftrightarrow>
     (case out of
        Inr s \<Rightarrow> l = Inr (core s)
      | Inl (r, s) \<Rightarrow> (case r of Legacy e \<Rightarrow> e = Exec_fault \<or> l = Inl (e, core s) | Safe_error _ \<Rightarrow> True))"

lemma refines_simps [simp]:
  "refines (Inr s) l \<longleftrightarrow> l = Inr (core s)"
  "refines (Inl (Safe_error e, s)) l"
  "refines (Inl (Legacy r, s)) l \<longleftrightarrow> r = Exec_fault \<or> l = Inl (r, core s)"
  by (simp_all add: refines_def)

lemma first_case_refines:
  "list_all2 (rel_option refines) xs ys \<Longrightarrow> refines d e \<Longrightarrow> refines (first_case xs d) (first_case ys e)"
  by (induction rule: list_all2_induct) (auto simp: rel_option_iff split: option.splits)

lemma compute_access_address:
  "ubpf_safe_compute_access tag a off n k p = Inr ea \<Longrightarrow> COMPUTE_EFFECTIVE_ADDR a off = Inr ea"
  by (auto simp: ubpf_safe_compute_access_def COMPUTE_EFFECTIVE_ADDR_def Let_def sint_offset split: if_splits sum.splits)

text \<open>
  The machine of the legacy run: the same, without bounds checks. Nothing a safe run reads of the
  machine depends on that flag.
\<close>

definition unbounded :: "ubpf_vm \<Rightarrow> ubpf_vm" where
  "unbounded vm = vm\<lparr>bounds_check_enabled := False\<rparr>"

lemma unbounded_simps [simp]:
  "ubpf_fetch_instruction (unbounded vm) = ubpf_fetch_instruction vm"
  "enter_function (unbounded vm) = enter_function vm"
  "call_external (unbounded vm) = call_external vm"
  "call_debug_function (unbounded vm) = call_debug_function vm"
  "ubpf_validate_shadow_register (unbounded vm) = ubpf_validate_shadow_register vm"
  "num_insts (unbounded vm) = num_insts vm" "instruction_limit (unbounded vm) = instruction_limit vm"
  "unwind_stack_extension_index (unbounded vm) = unwind_stack_extension_index vm"
  by (simp_all add: fun_eq_iff unbounded_def ubpf_fetch_instruction_def enter_function_def call_external_def
      call_debug_function_def ubpf_validate_shadow_register_def ubpf_stack_usage_for_local_func_def Let_def
      cong: option.case_cong if_cong prod.case_cong)

lemma unbounded_access:
  assumes "\<not> undefined_behavior_check_enabled vm"
  shows "bounds_check (unbounded vm) a n args = Inr ()" and "ubpf_check_shadow_stack vm args sh a k = Some True"
    and "ubpf_mark_shadow_stack vm args sh a k = Some sh" and "ubpf_check_shadow_stack (unbounded vm) args sh a k = Some True"
    and "ubpf_mark_shadow_stack (unbounded vm) args sh a k = Some sh"
  using assms by (simp_all add: unbounded_def bounds_check_def ubpf_check_shadow_stack_def ubpf_mark_shadow_stack_def)

lemma SAFE_LOAD_refines:
  assumes "\<not> undefined_behavior_check_enabled vm"
  shows "refines (SAFE_LOAD vm args n sx inst s)
    (exec_ldx (if sx then ubpf_mem_load_sx else ubpf_mem_load) (unbounded vm) args n inst (core s))"
  using assms
  by (auto simp: SAFE_LOAD_def exec_ldx_def BOUNDS_CHECK_LOAD_def unbounded_access Let_def set_reg_def
      dest!: compute_access_address split: sum.splits option.splits)

lemma SAFE_STORE_refines:
  assumes "\<not> undefined_behavior_check_enabled vm"
  shows "refines (SAFE_STORE vm args n v keep inst s) (exec_stx (unbounded vm) args v n inst (core s))"
  using assms
  by (auto simp: SAFE_STORE_def exec_stx_def BOUNDS_CHECK_STORE_def unbounded_access Let_def
      dest!: compute_access_address split: sum.splits option.splits)

lemma safe_groups_refine:
  assumes "\<not> undefined_behavior_check_enabled vm"
  shows "rel_option refines (safe_load_inst vm args inst s) (exec_load_inst (unbounded vm) args inst (core s))"
    and "rel_option refines (safe_store_inst vm args inst s) (exec_store_inst (unbounded vm) args inst (core s))"
  using SAFE_LOAD_refines [OF assms, of args _ True inst s] SAFE_LOAD_refines [OF assms, of args _ False inst s]
    SAFE_STORE_refines [OF assms]
  by (simp_all add: safe_load_inst_def exec_load_inst_def safe_store_inst_def exec_store_inst_def Let_def)

lemma safe_register_groups_refine:
  "rel_option refines (safe_alu_inst inst s) (exec_alu_inst inst (core s))"
  "rel_option refines (safe_lddw vm inst s) (exec_lddw (unbounded vm) inst (core s))"
  "rel_option refines (safe_jump_inst inst s) (exec_jump_inst inst (core s))"
proof -
  show "rel_option refines (safe_alu_inst inst s) (exec_alu_inst inst (core s))"
    by (cases "exec_alu inst (st_reg (core s))") (simp_all add: safe_alu_inst_def exec_alu_inst_def safe_alu_eq set_reg_def)
  show "rel_option refines (safe_lddw vm inst s) (exec_lddw (unbounded vm) inst (core s))"
    by (auto simp: safe_lddw_def exec_lddw_def set_reg_def split: option.splits)
  show "rel_option refines (safe_jump_inst inst s) (exec_jump_inst inst (core s))"
    by (auto simp: safe_jump_inst_def exec_jump_inst_def safe_cond_jump_eq Let_def split: option.splits)
qed

lemma safe_call_groups_refine:
  "rel_option refines (safe_exit inst s) (exec_exit inst (core s))"
  "rel_option refines (safe_call vm args inst s) (exec_call (unbounded vm) args inst (core s))"
proof -
  show "rel_option refines (safe_exit inst s) (exec_exit inst (core s))"
    by (auto simp: safe_exit_def exec_exit_def Let_def split: option.splits prod.splits)
  have "refines (safe_call_external vm args inst s) (exec_call_external (unbounded vm) args inst (core s))"
    by (auto simp: safe_call_external_def exec_call_external_def Let_def set_reg_def split: option.splits sum.splits)
  moreover have "refines (safe_call_local inst s) (exec_call_local inst (core s))"
    by (auto simp: safe_call_local_def exec_call_local_def Let_def split: option.splits)
  ultimately show "rel_option refines (safe_call vm args inst s) (exec_call (unbounded vm) args inst (core s))"
    by (auto simp: safe_call_def exec_call_def)
qed

lemma safe_atomic_refines:
  assumes "\<not> undefined_behavior_check_enabled vm"
  shows "rel_option refines (safe_atomic_inst args inst s) (exec_atomic_inst (unbounded vm) args inst (core s))"
proof -
  have "refines (safe_atomic64 args inst s) (exec_atomic64 (unbounded vm) args inst (core s))"
    by (auto simp: safe_atomic64_def exec_atomic64_def BOUNDS_CHECK_STORE_def unbounded_access [OF assms] Let_def set_reg_def
        dest!: compute_access_address split: sum.splits option.splits)
  moreover have "refines (safe_atomic32 args inst s) (exec_atomic32 (unbounded vm) args inst (core s))"
    by (auto simp: safe_atomic32_def exec_atomic32_def BOUNDS_CHECK_STORE_def unbounded_access [OF assms] Let_def set_reg_def
        dest!: compute_access_address split: sum.splits option.splits)
  ultimately show ?thesis by (auto simp: safe_atomic_inst_def exec_atomic_inst_def)
qed

lemma safe_switch_refines:
  assumes "\<not> undefined_behavior_check_enabled vm"
  shows "refines (safe_switch vm args inst s) (exec_switch (unbounded vm) args inst (core s))"
  unfolding safe_switch_def exec_switch_def
  by (rule first_case_refines)
    (simp_all add: safe_groups_refine [OF assms] safe_register_groups_refine safe_call_groups_refine safe_atomic_refines [OF assms])

lemma map_sum_id_Inr: "map_sum id f x = Inr y \<longleftrightarrow> (\<exists>z. x = Inr z \<and> y = f z)"
  by (cases x) auto

lemma safe_instruction_refines:
  assumes "\<not> undefined_behavior_check_enabled vm"
  shows "refines (safe_instruction vm args cur_pc inst s) (exec_instruction (unbounded vm) args cur_pc inst (core s))"
proof -
  have "ubpf_validate_shadow_register vm sr inst = Inr sr" for sr
    using assms by (simp add: ubpf_validate_shadow_register_def)
  with safe_switch_refines [OF assms, of args inst "s\<lparr>core := call_debug_function vm cur_pc (core s)\<rparr>"]
  show ?thesis
    by (auto simp: safe_instruction_def exec_instruction_def safe_finish_def refines_def Let_def map_sum_id_Inr
        split: sum.splits safe_result.splits if_splits)
qed

lemma safe_step_refines:
  assumes "\<not> undefined_behavior_check_enabled vm"
  shows "refines (safe_step vm args s) (exec_step (unbounded vm) args (core s))"
proof -
  have "refines (safe_instruction vm args pc inst (s\<lparr>core := c\<rparr>)) (exec_instruction (unbounded vm) args pc inst c)" for pc inst c
    using safe_instruction_refines [OF assms, of args pc inst "s\<lparr>core := c\<rparr>"] by simp
  then show ?thesis by (auto simp: safe_step_def exec_step_def Let_def split: option.splits)
qed

text \<open>The results both interpreters have; a violation has no counterpart.\<close>

definition legacy_result :: "safe_result \<times> safe_state \<Rightarrow> (exec_result \<times> exec_state) option" where
  "legacy_result rs =
     (case fst rs of Legacy r \<Rightarrow> if r = Exec_fault then None else Some (r, core (snd rs)) | Safe_error _ \<Rightarrow> None)"

definition quiet :: "ubpf_vm \<Rightarrow> ubpf_vm" where
  "quiet vm = vm\<lparr>undefined_behavior_check_enabled := False\<rparr>"

interpretation safe_legacy: step_simulation "safe_step (quiet vm) args" "exec_step (unbounded (quiet vm)) args" core legacy_result
  for vm args
proof
  fix s s'
  show "safe_step (quiet vm) args s = Inr s' \<Longrightarrow> exec_step (unbounded (quiet vm)) args (core s) = Inr (core s')"
    using safe_step_refines [of "quiet vm" args s] by (simp add: quiet_def)
next
  fix s r q
  show "safe_step (quiet vm) args s = Inl r \<Longrightarrow> legacy_result r = Some q \<Longrightarrow>
      exec_step (unbounded (quiet vm)) args (core s) = Inl q"
    using safe_step_refines [of "quiet vm" args s]
    by (auto simp: quiet_def legacy_result_def refines_def split: safe_result.splits if_splits)
qed

lemma safe_init_core:
  "\<not> undefined_behavior_check_enabled vm \<Longrightarrow> core (safe_init_state vm args regs m) = init_state (unbounded vm) args regs m"
  by (simp add: safe_init_state_def init_state_def unbounded_def Let_def)

lemma quiet_eq: "\<not> undefined_behavior_check_enabled vm \<Longrightarrow> quiet vm = vm"
  by (simp add: quiet_def)

lemma safe_run_simulated:
  assumes "\<not> undefined_behavior_check_enabled vm"
    and "fst (ubpf_exec_ex_safe vm args regs m shadow_ok True) = Some (Legacy r, t)" and "r \<noteq> Exec_fault"
  shows "fst (ubpf_exec_ex_legacy (unbounded vm) args regs m calloc_ok) = Some (r, core t)"
proof (cases "insts vm")
  case None
  with assms show ?thesis
    by (auto simp: ubpf_exec_ex_safe_def ubpf_exec_ex_legacy_def Let_def safe_init_core unbounded_def)
next
  case (Some code)
  let ?vm = "vm\<lparr>execution_started := True\<rparr>"
  have q: "quiet ?vm = ?vm" by (rule quiet_eq) (use assms(1) in simp)
  have "run_loop (safe_step ?vm args) (safe_init_state vm args regs m) = Some (Legacy r, t)"
    using assms(1,2) Some by (simp add: ubpf_exec_ex_safe_def Let_def)
  moreover have "unbounded ?vm = (unbounded vm)\<lparr>execution_started := True\<rparr>" by (simp add: unbounded_def)
  ultimately have "run_loop (exec_step ((unbounded vm)\<lparr>execution_started := True\<rparr>) args) (init_state (unbounded vm) args regs m) =
      Some (r, core t)"
    using safe_legacy.sim_run [of ?vm, unfolded q, of args "safe_init_state vm args regs m" "(Legacy r, t)" "(r, core t)"] assms(1,3)
    by (simp add: legacy_result_def safe_init_core)
  with Some assms(1) show ?thesis
    by (simp add: ubpf_exec_ex_legacy_def Let_def unbounded_def)
qed

text \<open>A program that only exits, returning register 0.\<close>

definition exit_vm :: ubpf_vm where
  "exit_vm = (the (ubpf_create JIT_null (\<lambda>_. True)))
     \<lparr>insts := Some (0, [\<lparr>opcode = EBPF_OP_EXIT, dst = 0, src = 0, offset = 0, imm = 0\<rparr>]), num_insts := 1,
      int_funcs := Some [False], execution_profile := UBPF_EXECUTION_PROFILE_SAFE,
      local_func_stack_usage := Some (unknown_stack_usage(0 :=
        \<lparr>stack_usage_calculated = UBPF_STACK_USAGE_DEFAULT, stack_usage = 0\<rparr>))\<rparr>"

lemma exit_vm_simps: "insts exit_vm = Some (0, [\<lparr>opcode = EBPF_OP_EXIT, dst = 0, src = 0, offset = 0, imm = 0\<rparr>])"
  "num_insts exit_vm = 1" "pointer_secret exit_vm = 0" "instruction_limit exit_vm = 0" "debug_function exit_vm = None"
  "\<not> undefined_behavior_check_enabled exit_vm" "ubpf_stack_usage_for_local_func exit_vm 0 = Some 256"
  by (simp_all add: exit_vm_def ubpf_create_def ubpf_stack_usage_for_local_func_def UBPF_EBPF_LOCAL_FUNCTION_STACK_SIZE_def)

lemma safe_switch_exit:
  assumes "opcode inst = EBPF_OP_EXIT"
  shows "safe_switch vm args inst s = the (safe_exit inst s)"
  using assms
  by (simp add: safe_switch_def safe_alu_inst_def safe_alu_eq exec_alu_def exec_alu32_def exec_endian_def exec_alu64_def
      safe_load_inst_def safe_store_inst_def safe_lddw_def safe_jump_inst_def safe_cond_jump_eq exec_cond_jump_defs
      safe_exit_def opcode_vals Let_def)

lemma exit_run:
  "\<exists>t. fst (ubpf_exec_ex_safe exit_vm args (\<lambda>_. 42) m True True) = Some (Legacy (Exec_ok 42), t)"
  by (simp add: ubpf_exec_ex_safe_def Let_def exit_vm_simps run_loop.simps safe_step_def enter_function_def
      ubpf_fetch_instruction_def safe_init_state_def init_state_def frame_at_def UBPF_MAX_CALL_DEPTH_def
      safe_instruction_def ubpf_validate_shadow_register_def call_debug_function_def safe_switch_exit safe_exit_def)

section \<open>Properties\<close>

text \<open>
  C16. The safe profile refines the legacy interpreter. Whenever a run in the safe profile (without
  undefined-behaviour checks) ends with a result of the program or an error the legacy interpreter
  has too, the legacy interpreter without bounds checks, on the same machine, memory and
  registers, ends with the same result, and in the same state: registers, memory, frames,
  remaining instructions, calls of the debug function. What the safe profile adds is only to stop.
\<close>

theorem safe_run_refines_legacy:
  assumes "\<not> undefined_behavior_check_enabled vm"
    and "fst (ubpf_exec_ex_safe vm args regs m shadow_ok True) = Some (Legacy r, t)" and "r \<noteq> Exec_fault"
  shows "fst (ubpf_exec_ex_legacy (vm\<lparr>bounds_check_enabled := False\<rparr>) args regs m calloc_ok) = Some (r, core t)"
  using safe_run_simulated [OF assms] by (simp add: unbounded_def)

theorem safe_run_refines_legacy_witness:
  "\<exists>t. fst (ubpf_exec_ex_safe exit_vm demo_args (\<lambda>_. 42) demo_mem True True) = Some (Legacy (Exec_ok 42), t) \<and>
     fst (ubpf_exec_ex_legacy (exit_vm\<lparr>bounds_check_enabled := False\<rparr>) demo_args (\<lambda>_. 42) demo_mem True) = Some (Exec_ok 42, core t)"
proof -
  obtain t where "fst (ubpf_exec_ex_safe exit_vm demo_args (\<lambda>_. 42) demo_mem True True) = Some (Legacy (Exec_ok 42), t)"
    using exit_run by blast
  with safe_run_refines_legacy [OF exit_vm_simps(6) this] show ?thesis by auto
qed

end
