(* ===== verification/Safe_Safety.thy ===== *)
theory Safe_Safety
  imports Safe_Exec Load_Correct
begin

text \<open>
  The safe profile confines the program: every access lies in the window of a tag, and every tag
  describes the input, the stack or a part of a registered region.
\<close>

section \<open>The access check\<close>

lemma compute_access_checks:
  "ubpf_safe_compute_access tag a off n k p = Inr ea \<longleftrightarrow>
     tag_kind tag = UBPF_SAFE_VALUE_POINTER \<and> tag_permissions tag AND p = p \<and>
     COMPUTE_EFFECTIVE_ADDR a off = Inr ea \<and> \<not> tag_base tag > UINT64_MAX - tag_size tag \<and>
     \<not> (ea < tag_base tag \<or> ea > tag_base tag + tag_size tag) \<and>
     \<not> (of_nat n > tag_size tag \<or> ea > tag_base tag + tag_size tag - of_nat n)"
  by (auto simp: ubpf_safe_compute_access_def COMPUTE_EFFECTIVE_ADDR_def Let_def sint_offset split: if_splits sum.splits)

lemma uint_of_nat_small: "n \<le> 8 \<Longrightarrow> uint (of_nat n :: uint64_t) = int n"
  by (simp add: uint_nat unsigned_of_nat take_bit_nat_eq_self)

lemma compute_access_iff:
  assumes "n \<le> 8"
  shows "ubpf_safe_compute_access tag a off n k p = Inr ea \<longleftrightarrow>
     tag_kind tag = UBPF_SAFE_VALUE_POINTER \<and> tag_permissions tag AND p = p \<and> uint ea = uint a + sint off \<and>
     uint (tag_base tag) + uint (tag_size tag) < 2 ^ 64 \<and>
     uint (tag_base tag) \<le> uint ea \<and> uint ea + int n \<le> uint (tag_base tag) + uint (tag_size tag)"
proof (cases "uint (tag_base tag) + uint (tag_size tag) < 2 ^ 64")
  case True
  note n = uint_of_nat_small [OF assms]
  have e: "uint (tag_base tag + tag_size tag) = uint (tag_base tag) + uint (tag_size tag)"
    using True by (simp add: uint_word_ariths(1))
  have "uint (tag_base tag + tag_size tag - of_nat n) = uint (tag_base tag) + uint (tag_size tag) - int n"
    if "int n \<le> uint (tag_size tag)"
    using that True uint_ge_0 [of "tag_base tag"] unfolding uint_word_ariths(2) e n
    by (intro mod_pos_pos_trivial) (linarith | simp)+
  with True e n show ?thesis
    unfolding compute_access_checks compute_effective_addr_iff word_less_def uint_UINT64_MAX_minus
    by (cases "int n \<le> uint (tag_size tag)") auto
next
  case False
  then show ?thesis unfolding compute_access_checks word_less_def uint_UINT64_MAX_minus by auto
qed

section \<open>What the embedding program grants\<close>

definition window :: "uint64_t \<Rightarrow> int \<Rightarrow> uint64_t set" where
  "window b e = {x. uint b \<le> uint x \<and> uint x < e}"

text \<open>The input, the stack, and the pointer regions with at least the permissions \<open>p\<close>.\<close>

definition granted :: "ubpf_vm \<Rightarrow> exec_args \<Rightarrow> uint32_t \<Rightarrow> uint64_t set" where
  "granted vm args p =
     (if arg_mem args = 0 then {} else window (arg_mem args) (uint (arg_mem args) + uint (arg_mem_len args))) \<union>
     window (arg_stack_start args) (uint (arg_stack_start args) + uint (arg_stack_length args)) \<union>
     {x. \<exists>r \<in> set (safe_regions vm). region_in_use r \<and> region_kind r = UBPF_SAFE_REGION_POINTER \<and>
        region_permissions r AND p = p \<and> x \<in> window (region_base r) (uint (region_end r))}"

text \<open>The tags a program may hold: those of the input and the stack, and parts of regions.\<close>

definition tag_ok :: "ubpf_vm \<Rightarrow> exec_args \<Rightarrow> ubpf_safe_tag \<Rightarrow> bool" where
  "tag_ok vm args tag \<longleftrightarrow> (tag_kind tag = UBPF_SAFE_VALUE_POINTER \<longrightarrow>
     arg_mem args \<noteq> 0 \<and> tag = ubpf_safe_pointer_tag UBPF_SAFE_REGION_ID_INPUT all_permissions
       (arg_mem args) (arg_mem_len args) \<or>
     tag = ubpf_safe_pointer_tag UBPF_SAFE_REGION_ID_STACK all_permissions
       (arg_stack_start args) (arg_stack_length args) \<or>
     (\<exists>r \<in> set (safe_regions vm). region_in_use r \<and> region_kind r = UBPF_SAFE_REGION_POINTER \<and>
        tag_region_id tag = region_id r \<and> tag_permissions tag = region_permissions r \<and>
        uint (region_base r) \<le> uint (tag_base tag) \<and>
        uint (tag_base tag) + uint (tag_size tag) \<le> uint (region_end r)))"

lemma tag_ok_scalar [simp]: "tag_ok vm args ubpf_safe_scalar_tag"
  by (simp add: tag_ok_def ubpf_safe_scalar_tag_def)

lemma byte_range_window:
  assumes "uint b \<le> uint a" and "uint a + int n \<le> e" and "e < 2 ^ 64"
  shows "byte_range a n \<subseteq> window b e"
proof
  fix x
  assume "x \<in> byte_range a n"
  then obtain i where i: "i < n" "x = a + of_nat i" by (auto simp: byte_range_def)
  have "x = word_of_int (uint a + int i)" by (simp add: i(2))
  then have "uint x = (uint a + int i) mod 2 ^ 64" by (simp only: uint_word_of_int) simp
  also have "\<dots> = uint a + int i"
    using i(1) assms(2,3) uint_ge_0 [of a] by (intro mod_pos_pos_trivial) linarith+
  finally have "uint x = uint a + int i" .
  then show "x \<in> window b e" using i(1) assms by (simp add: window_def)
qed

lemma compute_access_granted:
  assumes "ubpf_safe_compute_access tag a off n k p = Inr ea" and "tag_ok vm args tag" and "n \<le> 8"
  shows "byte_range ea n \<subseteq> granted vm args p"
proof -
  from assms(1) have c: "tag_kind tag = UBPF_SAFE_VALUE_POINTER" "tag_permissions tag AND p = p"
    "uint (tag_base tag) + uint (tag_size tag) < 2 ^ 64" "uint (tag_base tag) \<le> uint ea"
    "uint ea + int n \<le> uint (tag_base tag) + uint (tag_size tag)"
    using compute_access_iff [OF assms(3)] by blast+
  from byte_range_window [OF c(4,5,3)]
  have w: "byte_range ea n \<subseteq> window (tag_base tag) (uint (tag_base tag) + uint (tag_size tag))" .
  from assms(2) c(1) consider
      (input) "arg_mem args \<noteq> 0" "tag_base tag = arg_mem args" "tag_size tag = arg_mem_len args"
    | (stack) "tag_base tag = arg_stack_start args" "tag_size tag = arg_stack_length args"
    | (region) r where "r \<in> set (safe_regions vm)" "region_in_use r" "region_kind r = UBPF_SAFE_REGION_POINTER"
        "tag_permissions tag = region_permissions r" "uint (region_base r) \<le> uint (tag_base tag)"
        "uint (tag_base tag) + uint (tag_size tag) \<le> uint (region_end r)"
    unfolding tag_ok_def ubpf_safe_pointer_tag_def by auto
  then show ?thesis
  proof cases
    case region
    then have "window (tag_base tag) (uint (tag_base tag) + uint (tag_size tag)) \<subseteq>
        window (region_base r) (uint (region_end r))" by (auto simp: window_def)
    with w region c(2) show ?thesis by (fastforce simp: granted_def)
  qed (use w in \<open>auto simp: granted_def\<close>)
qed

section \<open>The invariant\<close>

text \<open>
  Readable and writable areas are mapped, the writable ones lie in \<open>R\<close>, helpers write only in
  \<open>R\<close>, and the size of the stack can be rounded up to a multiple of eight.
\<close>

definition safe_env_ok :: "ubpf_vm \<Rightarrow> exec_args \<Rightarrow> uint64_t set \<Rightarrow> memory \<Rightarrow> bool" where
  "safe_env_ok vm args R m \<longleftrightarrow>
     granted vm args UBPF_SAFE_REGION_READ \<subseteq> dom m \<and>
     granted vm args UBPF_SAFE_REGION_WRITE \<subseteq> dom m \<and> granted vm args UBPF_SAFE_REGION_WRITE \<subseteq> R \<and>
     helpers_confined vm R \<and> unat (arg_stack_length args) + 7 < 2 ^ 64"

definition slot_ok :: "ubpf_vm \<Rightarrow> exec_args \<Rightarrow> ubpf_safe_spill_slot \<Rightarrow> bool" where
  "slot_ok vm args slot \<longleftrightarrow> (spill_valid slot \<longrightarrow> tag_ok vm args (spill_tag slot))"

definition frame_tags_ok :: "ubpf_vm \<Rightarrow> exec_args \<Rightarrow> ubpf_safe_frame_state \<Rightarrow> bool" where
  "frame_tags_ok vm args f \<longleftrightarrow>
     (case f of (t6, t7, t8, t9) \<Rightarrow> tag_ok vm args t6 \<and> tag_ok vm args t7 \<and> tag_ok vm args t8 \<and> tag_ok vm args t9)"

definition tags_ok :: "ubpf_vm \<Rightarrow> exec_args \<Rightarrow> safe_state \<Rightarrow> bool" where
  "tags_ok vm args s \<longleftrightarrow>
     (\<forall>r. tag_ok vm args (safe_tags s r)) \<and>
     unat (arg_stack_length args) \<le> 8 * length (safe_spill_slots s) \<and>
     (\<forall>slot \<in> set (safe_spill_slots s). slot_ok vm args slot) \<and>
     length (safe_frames s) = UBPF_MAX_CALL_DEPTH \<and> (\<forall>f \<in> set (safe_frames s). frame_tags_ok vm args f)"

definition safe_ok :: "ubpf_vm \<Rightarrow> exec_args \<Rightarrow> uint64_t set \<Rightarrow> memory \<Rightarrow> safe_state \<Rightarrow> bool" where
  "safe_ok vm args R m s \<longleftrightarrow> state_ok vm args R m (core s) \<and> tags_ok vm args s"

primrec safe_good :: "(safe_state \<Rightarrow> bool) \<Rightarrow> safe_outcome \<Rightarrow> bool" where
  "safe_good P (Inl rs) \<longleftrightarrow> fst rs \<noteq> Legacy Exec_fault \<and> P (snd rs)"
| "safe_good P (Inr s) \<longleftrightarrow> P s"

lemma tags_ok_core [simp]: "tags_ok vm args (s\<lparr>core := c\<rparr>) = tags_ok vm args s"
  by (simp add: tags_ok_def)

lemma tags_ok_tag: "tags_ok vm args s \<Longrightarrow> tag_ok vm args (safe_tags s r)"
  by (simp add: tags_ok_def)

lemma tags_ok_update:
  "tags_ok vm args s \<Longrightarrow> tag_ok vm args t \<Longrightarrow> tags_ok vm args (s\<lparr>safe_tags := (safe_tags s)(r := t)\<rparr>)"
  by (simp add: tags_ok_def)

lemma set_reg_state_ok [simp]: "state_ok vm args R m (set_reg r v c) = state_ok vm args R m c"
  by (simp add: set_reg_def)

section \<open>Spill slots\<close>

lemma invalidate_slots_spec:
  "first + n \<le> length slots \<Longrightarrow>
     \<exists>slots'. invalidate_slots slots first n = Some slots' \<and> length slots' = length slots \<and>
       (\<forall>i<length slots. slots' ! i =
         (if first \<le> i \<and> i < first + n then (slots ! i)\<lparr>spill_valid := False\<rparr> else slots ! i))"
proof (induction n arbitrary: slots first)
  case (Suc n)
  let ?s = "slots[first := (slots ! first)\<lparr>spill_valid := False\<rparr>]"
  from Suc.IH [of "Suc first" ?s] Suc.prems obtain slots' where
    "invalidate_slots ?s (Suc first) n = Some slots'" "length slots' = length slots"
    "\<forall>i<length slots. slots' ! i =
       (if Suc first \<le> i \<and> i < Suc first + n then (?s ! i)\<lparr>spill_valid := False\<rparr> else ?s ! i)" by auto
  with Suc.prems show ?case by (auto simp: nth_list_update)
qed auto

lemma access_slots:
  fixes a b l :: uint64_t
  assumes "\<not> (a < b \<or> a + of_nat n < a \<or> a + of_nat n > b + l)" and "0 < n" and "n \<le> 8"
  shows "unat (a - b) + n \<le> unat l" and "unat ((a - b) div 8) = unat (a - b) div 8"
    and "unat ((a + of_nat n - 1 - b) div 8) = (unat (a - b) + n - 1) div 8"
proof -
  show r: "unat (a - b) + n \<le> unat l" using shadow_range [of a n b l] assms by (auto simp: not_less)
  show "unat ((a - b) div 8) = unat (a - b) div 8" by (simp add: unat_div)
  have e: "a + of_nat n - 1 - b = (a - b) + of_nat (n - 1)" using assms(2) by (simp add: of_nat_diff)
  have "unat ((a - b) + of_nat (n - 1)) = unat (a - b) + (n - 1)"
    using r unat_less_64 [of l] assms(2)
    by (simp only: unat_word_ariths unat_of_nat) (simp add: mod_less)
  with assms(2) show "unat ((a + of_nat n - 1 - b) div 8) = (unat (a - b) + n - 1) div 8"
    unfolding e by (simp add: unat_div)
qed

text \<open>The slots a write to the stack overlaps lose their tags; no other slot changes.\<close>

lemma invalidate_spec:
  fixes a :: uint64_t
  assumes "unat (arg_stack_length args) \<le> 8 * length slots" and "0 < n" and "n \<le> 8"
  defines "pos \<equiv> unat (a - arg_stack_start args)"
    and "on_stack \<equiv> \<not> (a < arg_stack_start args \<or> a + of_nat n < a \<or> a + of_nat n > arg_stack_start args + arg_stack_length args)"
  shows "\<exists>slots'. ubpf_safe_invalidate_stack_spill_tags slots args a n = Some slots' \<and>
    length slots' = length slots \<and>
    (\<forall>i<length slots. slots' ! i =
      (if on_stack \<and> pos < 8 * i + 8 \<and> 8 * i < pos + n then (slots ! i)\<lparr>spill_valid := False\<rparr> else slots ! i))"
proof (cases on_stack)
  case False
  then show ?thesis by (auto simp: ubpf_safe_invalidate_stack_spill_tags_def Let_def on_stack_def)
next
  case True
  note r = access_slots [OF True [unfolded on_stack_def] assms(2,3), folded pos_def]
  have "pos div 8 \<le> (pos + n - 1) div 8" by (intro div_le_mono) (use assms(2) in simp)
  moreover have "(pos + n - 1) div 8 < length slots" using r(1) assms(1,2) by (simp add: div_less_iff_less_mult)
  ultimately have len: "pos div 8 + (Suc ((pos + n - 1) div 8) - pos div 8) = Suc ((pos + n - 1) div 8)"
    and "Suc ((pos + n - 1) div 8) \<le> length slots" by simp_all
  moreover have "pos div 8 \<le> i \<longleftrightarrow> pos < 8 * i + 8" for i
    using div_less_iff_less_mult [of 8 pos "Suc i"] by (simp add: less_Suc_eq_le algebra_simps)
  moreover have "i < Suc ((pos + n - 1) div 8) \<longleftrightarrow> 8 * i < pos + n" for i
    using less_eq_div_iff_mult_less_eq [of 8 i "pos + n - 1"] assms(2) by (auto simp: less_Suc_eq_le algebra_simps)
  ultimately show ?thesis
    using invalidate_slots_spec [of "pos div 8" "Suc ((pos + n - 1) div 8) - pos div 8" slots] True r(2,3)
    by (simp add: ubpf_safe_invalidate_stack_spill_tags_def Let_def on_stack_def split del: if_split)
qed

lemma invalidate_ok:
  assumes "tags_ok vm args s" and "0 < n" and "n \<le> 8"
  shows "\<exists>slots. ubpf_safe_invalidate_stack_spill_tags (safe_spill_slots s) args a n = Some slots \<and>
    length slots = length (safe_spill_slots s) \<and> tags_ok vm args (s\<lparr>safe_spill_slots := slots\<rparr>)"
proof -
  from assms(1) have "unat (arg_stack_length args) \<le> 8 * length (safe_spill_slots s)" by (simp add: tags_ok_def)
  from invalidate_spec [OF this assms(2,3), of a] obtain slots where
    slots: "ubpf_safe_invalidate_stack_spill_tags (safe_spill_slots s) args a n = Some slots"
      "length slots = length (safe_spill_slots s)"
      "\<forall>i<length slots. slots ! i = safe_spill_slots s ! i \<or>
        slots ! i = (safe_spill_slots s ! i)\<lparr>spill_valid := False\<rparr>"
    by (auto split: if_splits)
  have "slot_ok vm args (slots ! i)" if "i < length slots" for i
    using slots(2,3) that assms(1) by (auto simp: tags_ok_def slot_ok_def)
  with assms(1) slots show ?thesis by (auto simp: tags_ok_def in_set_conv_nth)
qed

section \<open>Memory instructions\<close>

lemma stack_slot_in_range:
  fixes slots :: "ubpf_safe_spill_slot list"
  assumes "ubpf_safe_compute_access tag a off 8 k p = Inr ea" and "ubpf_safe_is_stack_pointer tag args"
    and "unat (arg_stack_length args) \<le> 8 * length slots"
  shows "unat (slot_offset args ea div 8) < length slots"
proof -
  from assms(1,2) have "uint (arg_stack_start args) \<le> uint ea"
    "uint ea + 8 \<le> uint (arg_stack_start args) + uint (arg_stack_length args)"
    using compute_access_iff [of 8 tag a off k p ea] by (simp_all add: ubpf_safe_is_stack_pointer_def)
  then have le: "arg_stack_start args \<le> ea"
    and "int (unat ea) + 8 \<le> int (unat (arg_stack_start args)) + int (unat (arg_stack_length args))"
    by (simp_all add: word_le_def)
  then have "unat (ea - arg_stack_start args) + 8 \<le> unat (arg_stack_length args)"
    using unat_sub [OF le] le [unfolded word_le_nat_alt] by linarith
  with assms(3) have "unat (ea - arg_stack_start args) div 8 < length slots" by (intro less_mult_imp_div_less) linarith
  then show ?thesis by (simp add: slot_offset_def unat_div)
qed

lemma safe_mapped:
  assumes "safe_env_ok vm args R m" and "state_ok vm args R m c"
  shows "byte_range a n \<subseteq> granted vm args UBPF_SAFE_REGION_READ \<Longrightarrow> byte_range a n \<subseteq> dom (st_mem c)"
    and "byte_range a n \<subseteq> granted vm args UBPF_SAFE_REGION_WRITE \<Longrightarrow> byte_range a n \<subseteq> dom (st_mem c) \<and> byte_range a n \<subseteq> R"
  using assms by (auto simp: safe_env_ok_def state_ok_def confined_def)

lemma safe_store_ok:
  assumes "safe_env_ok vm args R m" and "state_ok vm args R m c"
    and "byte_range a n \<subseteq> granted vm args UBPF_SAFE_REGION_WRITE"
  shows "\<exists>m'. store_le (st_mem c) a v n = Some m' \<and> state_ok vm args R m (c\<lparr>st_mem := m'\<rparr>)"
proof -
  note w = safe_mapped(2) [OF assms]
  with store_le_mapped obtain m' where m': "store_le (st_mem c) a v n = Some m'" by blast
  have "confined R (st_mem c) m'"
    unfolding confined_def using w store_le_dom [OF m'] store_le_frame [OF m'] by blast
  with m' assms(2) show ?thesis by (auto simp: state_ok_def intro: confined_trans)
qed

lemma SAFE_LOAD_good:
  assumes "safe_env_ok vm args R m" and "safe_ok vm args R m s" and "n \<in> {1, 2, 4, 8}" and "sx \<Longrightarrow> n \<noteq> 8"
  shows "safe_good (safe_ok vm args R m) (SAFE_LOAD vm args n sx inst s)"
proof (cases "ubpf_safe_compute_access (safe_tags s (src inst)) (st_reg (core s) (src inst)) (offset inst) n Safe_load UBPF_SAFE_REGION_READ")
  case (Inl e)
  with assms(2) show ?thesis by (simp add: SAFE_LOAD_def Let_def)
next
  case (Inr ea)
  from assms(2) have ok: "state_ok vm args R m (core s)" "tags_ok vm args s" by (simp_all add: safe_ok_def)
  have n: "n \<le> 8" using assms(3) by auto
  from compute_access_granted [OF Inr tags_ok_tag [OF ok(2)] n] safe_mapped(1) [OF assms(1) ok(1)]
  have mapped: "byte_range ea n \<subseteq> dom (st_mem (core s))" by blast
  from load_le_mapped [OF mapped] obtain w where w: "load_le (st_mem (core s)) ea n = Some w" by blast
  have "\<exists>v. (if sx then ubpf_mem_load_sx else ubpf_mem_load) (st_mem (core s)) ea n = Some v"
    using w assms(3,4) by (cases sx) (auto simp only: ubpf_mem_load_eq ubpf_mem_load_sx_eq option.map if_True if_False
        insert_iff empty_iff simp_thms)
  moreover obtain ok' where "ubpf_check_shadow_stack vm args (st_shadow_stack (core s)) ea n = Some ok'"
    using check_shadow_stack_defined [of vm args "st_shadow_stack (core s)" n ea] ok(1) n by (auto simp: state_ok_def)
  moreover have "unat (slot_offset args ea div 8) < length (safe_spill_slots s)"
    if "n = 8" "ubpf_safe_is_stack_pointer (safe_tags s (src inst)) args"
    using stack_slot_in_range [OF Inr [unfolded that(1)] that(2)] ok(2) by (simp add: tags_ok_def)
  moreover have "\<not> ubpf_safe_is_stack_pointer ubpf_safe_scalar_tag args"
    by (simp add: ubpf_safe_is_stack_pointer_def ubpf_safe_scalar_tag_def)
  ultimately show ?thesis
    using Inr ok by (auto simp: SAFE_LOAD_def Let_def safe_ok_def tags_ok_def slot_ok_def split: if_splits)
qed

lemma SAFE_STORE_good:
  assumes "safe_env_ok vm args R m" and "safe_ok vm args R m s" and "n \<in> {1, 2, 4, 8}"
  shows "safe_good (safe_ok vm args R m) (SAFE_STORE vm args n v keep inst s)"
proof (cases "ubpf_safe_compute_access (safe_tags s (dst inst)) (st_reg (core s) (dst inst)) (offset inst) n Safe_store UBPF_SAFE_REGION_WRITE")
  case (Inl e)
  with assms(2) show ?thesis by (simp add: SAFE_STORE_def Let_def)
next
  case (Inr ea)
  from assms(2) have ok: "state_ok vm args R m (core s)" "tags_ok vm args s" by (simp_all add: safe_ok_def)
  have n: "0 < n" "n \<le> 8" using assms(3) by auto
  from safe_store_ok [OF assms(1) ok(1) compute_access_granted [OF Inr tags_ok_tag [OF ok(2)] n(2)]]
  obtain m' where m': "ubpf_mem_store (st_mem (core s)) ea v n = Some m'"
    "state_ok vm args R m ((core s)\<lparr>st_mem := m'\<rparr>)" using ubpf_mem_store_eq [OF assms(3)] by metis
  obtain sh where sh: "ubpf_mark_shadow_stack vm args (st_shadow_stack (core s)) ea n = Some sh"
    "length sh = length (st_shadow_stack (core s))"
    using mark_shadow_stack_defined [of vm args "st_shadow_stack (core s)" n ea] ok(1) n by (auto simp: state_ok_def)
  from invalidate_ok [OF ok(2) n] obtain slots where slots:
    "ubpf_safe_invalidate_stack_spill_tags (safe_spill_slots s) args ea n = Some slots"
    "length slots = length (safe_spill_slots s)" "tags_ok vm args (s\<lparr>safe_spill_slots := slots\<rparr>)" by blast
  define c where "c = (core s)\<lparr>st_shadow_stack := sh, st_mem := m'\<rparr>"
  have c: "state_ok vm args R m c" using m'(2) sh(2) by (simp add: c_def state_ok_def)
  have kept: "tags_ok vm args (s\<lparr>core := c, safe_spill_slots := slots[i := \<lparr>spill_valid = True, spill_tag = safe_tags s r\<rparr>]\<rparr>)" for i r
    using slots(3) set_update_subset_insert [of slots i] tags_ok_tag [OF ok(2)]
    by (fastforce simp: tags_ok_def slot_ok_def)
  have "tags_ok vm args (s\<lparr>core := c, safe_spill_slots := slots\<rparr>)" using slots(3) by (simp add: tags_ok_def)
  moreover have "unat (slot_offset args ea div 8) < length slots"
    if "n = 8" "ubpf_safe_is_stack_pointer (safe_tags s (dst inst)) args"
    using stack_slot_in_range [OF Inr [unfolded that(1)] that(2)] ok(2) slots(2) by (simp add: tags_ok_def)
  ultimately show ?thesis
    using Inr ok c kept m'(1) sh(1) slots(1) by (simp add: SAFE_STORE_def Let_def safe_ok_def c_def [symmetric])
qed

lemma safe_memory_groups_good:
  assumes "safe_env_ok vm args R m" and "safe_ok vm args R m s"
  shows "safe_load_inst vm args inst s = Some out \<Longrightarrow> safe_good (safe_ok vm args R m) out"
    and "safe_store_inst vm args inst s = Some out \<Longrightarrow> safe_good (safe_ok vm args R m) out"
  using SAFE_LOAD_good [OF assms] SAFE_STORE_good [OF assms]
  by (auto simp: safe_load_inst_def safe_store_inst_def Let_def split: if_splits)

lemma atomic_update_ok:
  assumes "safe_env_ok vm args R m" and "state_ok vm args R m c"
    and "byte_range a n \<subseteq> granted vm args (UBPF_SAFE_REGION_WRITE OR UBPF_SAFE_REGION_ATOMIC)"
  shows "\<exists>old m'. atomic_update (st_mem c) a n f = Some (old, m') \<and> state_ok vm args R m (c\<lparr>st_mem := m'\<rparr>)"
proof -
  have "p AND 6 = 6 \<Longrightarrow> p AND 2 = 2" for p :: uint32_t
  proof -
    assume "p AND 6 = 6"
    then have "(p AND 6) AND 2 = 6 AND 2" by simp
    then show "p AND 2 = 2" by (simp add: and.assoc)
  qed
  then have "granted vm args (UBPF_SAFE_REGION_WRITE OR UBPF_SAFE_REGION_ATOMIC) \<subseteq> granted vm args UBPF_SAFE_REGION_WRITE"
    by (auto simp: granted_def UBPF_SAFE_REGION_WRITE_def UBPF_SAFE_REGION_ATOMIC_def)
  with assms(3) have w: "byte_range a n \<subseteq> granted vm args UBPF_SAFE_REGION_WRITE" by blast
  from safe_mapped(2) [OF assms(1,2) w] load_le_mapped obtain old where "load_le (st_mem c) a n = Some old" by blast
  with safe_store_ok [OF assms(1,2) w, of "f old"] show ?thesis by (auto simp: atomic_update_def)
qed

lemma safe_atomic_good:
  assumes "safe_env_ok vm args R m" and "safe_ok vm args R m s" and "safe_atomic_inst args inst s = Some out"
  shows "safe_good (safe_ok vm args R m) out"
proof -
  from assms(2) have ok: "state_ok vm args R m (core s)" "tags_ok vm args s" by (simp_all add: safe_ok_def)
  let ?perm = "UBPF_SAFE_REGION_WRITE OR UBPF_SAFE_REGION_ATOMIC"
  let ?access = "\<lambda>n. ubpf_safe_compute_access (safe_tags s (dst inst)) (st_reg (core s) (dst inst)) (offset inst) n Safe_atomic ?perm"
  have upd: "\<exists>slots. ubpf_safe_invalidate_stack_spill_tags (safe_spill_slots s) args ea n = Some slots \<and>
      tags_ok vm args (s\<lparr>safe_spill_slots := slots\<rparr>)" "\<exists>old m'. atomic_update (st_mem (core s)) ea n f = Some (old, m') \<and>
      state_ok vm args R m ((core s)\<lparr>st_mem := m'\<rparr>)" if "?access n = Inr ea" "n \<in> {4, 8}" for n ea f
    using invalidate_ok [OF ok(2), of n ea] that(2)
      atomic_update_ok [OF assms(1) ok(1) compute_access_granted [OF that(1) tags_ok_tag [OF ok(2)]], of f] by auto
  have fin: "safe_ok vm args R m (s\<lparr>safe_spill_slots := slots, core := set_reg r v c, safe_tags := (safe_tags s)(r := ubpf_safe_scalar_tag)\<rparr>)"
      "safe_ok vm args R m (s\<lparr>safe_spill_slots := slots, core := c\<rparr>)" "safe_ok vm args R m (s\<lparr>safe_spill_slots := slots\<rparr>)"
    if "tags_ok vm args (s\<lparr>safe_spill_slots := slots\<rparr>)" "state_ok vm args R m c" for slots r v c
    using that ok(1) by (auto simp: safe_ok_def tags_ok_def)
  have "safe_good (safe_ok vm args R m) (safe_atomic64 args inst s)"
  proof (cases "?access 8")
    case (Inr ea)
    from upd(1) [OF Inr] obtain slots where slots:
      "ubpf_safe_invalidate_stack_spill_tags (safe_spill_slots s) args ea 8 = Some slots"
      "tags_ok vm args (s\<lparr>safe_spill_slots := slots\<rparr>)" by auto
    show ?thesis
    proof (cases "atomic_op (imm inst) (st_reg (core s) (src inst)) (st_reg (core s) 0)")
      case (Some fu)
      from upd(2) [OF Inr, of "fst fu"] obtain old m' where
        "atomic_update (st_mem (core s)) ea 8 (fst fu) = Some (old, m')"
        "state_ok vm args R m ((core s)\<lparr>st_mem := m'\<rparr>)" by auto
      with Inr slots Some fin [OF slots(2)] show ?thesis
        by (cases fu) (simp add: safe_atomic64_def Let_def)
    qed (use Inr slots fin(3) [OF slots(2) ok(1)] in \<open>simp add: safe_atomic64_def Let_def\<close>)
  qed (use assms(2) in \<open>simp add: safe_atomic64_def Let_def\<close>)
  moreover have "safe_good (safe_ok vm args R m) (safe_atomic32 args inst s)"
  proof (cases "?access 4")
    case (Inr ea)
    from upd(1) [OF Inr] obtain slots where slots:
      "ubpf_safe_invalidate_stack_spill_tags (safe_spill_slots s) args ea 4 = Some slots"
      "tags_ok vm args (s\<lparr>safe_spill_slots := slots\<rparr>)" by auto
    show ?thesis
    proof (cases "atomic_op (imm inst) (u32 (st_reg (core s) (src inst))) (u32 (st_reg (core s) 0))")
      case (Some fu)
      from upd(2) [OF Inr, of "\<lambda>old. ucast (fst fu (ucast old))"] obtain old m' where
        "atomic_update (st_mem (core s)) ea 4 (\<lambda>old. ucast (fst fu (ucast old))) = Some (old, m')"
        "state_ok vm args R m ((core s)\<lparr>st_mem := m'\<rparr>)" by auto
      with Inr slots Some fin [OF slots(2)] show ?thesis
        by (cases fu) (simp add: safe_atomic32_def Let_def)
    qed (use Inr slots fin(3) [OF slots(2) ok(1)] in \<open>simp add: safe_atomic32_def Let_def\<close>)
  qed (use assms(2) in \<open>simp add: safe_atomic32_def Let_def\<close>)
  ultimately show ?thesis using assms(3) by (auto simp: safe_atomic_inst_def split: if_splits)
qed

section \<open>The other instructions\<close>

lemma safe_register_groups_good:
  assumes "safe_ok vm args R m s"
  shows "safe_alu_inst inst s = Some out \<Longrightarrow> safe_good (safe_ok vm args R m) out"
    and "safe_jump_inst inst s = Some out \<Longrightarrow> safe_good (safe_ok vm args R m) out"
  using assms by (auto simp: safe_alu_inst_def safe_jump_inst_def safe_ok_def Let_def split: if_splits option.splits)

lemma safe_lddw_good:
  assumes "safe_ok vm args R m s" and "program_ok vm" and "opcode inst = EBPF_OP_LDDW \<longrightarrow> st_pc (core s) < num_insts vm"
    and "safe_lddw vm inst s = Some out"
  shows "safe_good (safe_ok vm args R m) out"
proof -
  have "\<exists>i. ubpf_fetch_instruction vm (st_pc (core s)) = Some i" if "st_pc (core s) < num_insts vm"
    using that assms(2) by (auto simp: program_ok_def ubpf_fetch_instruction_def word_less_nat_alt)
  then show ?thesis using assms by (auto simp: safe_lddw_def safe_ok_def tags_ok_def split: if_splits)
qed

lemma clear_argument_tags_ok: "\<forall>r. tag_ok vm args (tags r) \<Longrightarrow> tag_ok vm args (clear_argument_tags tags r)"
  by (simp add: clear_argument_tags_def)

lemma safe_exit_good:
  assumes "safe_ok vm args R m s" and "safe_exit inst s = Some out"
  shows "safe_good (safe_ok vm args R m) out"
proof (cases "st_frame_index (core s) > 0")
  case True
  then obtain i where idx: "st_frame_index (core s) = Suc i" by (cases "st_frame_index (core s)") auto
  from assms(1) have ok: "state_ok vm args R m (core s)" "tags_ok vm args s" by (simp_all add: safe_ok_def)
  then have i: "i < length (st_frames (core s))" "i < length (safe_frames s)" "i < UBPF_MAX_CALL_DEPTH"
    using idx by (auto simp: state_ok_def tags_ok_def)
  obtain t6 t7 t8 t9 where f: "safe_frames s ! i = (t6, t7, t8, t9)" by (cases "safe_frames s ! i") auto
  have "frame_tags_ok vm args (safe_frames s ! i)" using ok(2) nth_mem [OF i(2)] by (simp add: tags_ok_def)
  with f have "tags_ok vm args (s\<lparr>core := c, safe_tags := (clear_argument_tags (safe_tags s))
      (BPF_REG_6 := t6, BPF_REG_7 := t7, BPF_REG_8 := t8, BPF_REG_9 := t9)\<rparr>)" for c
    using ok(2) by (auto simp: tags_ok_def frame_tags_ok_def clear_argument_tags_ok)
  moreover have "state_ok vm args R m ((core s)\<lparr>st_frame_index := i, st_pc := p, st_reg := r\<rparr>)" for p r
    using ok(1) i(3) by (simp add: state_ok_def)
  ultimately show ?thesis
    using assms(2) idx i f by (auto simp: safe_exit_def frame_at_def safe_ok_def Let_def split: if_splits prod.splits)
qed (use assms in \<open>auto simp: safe_exit_def split: if_splits\<close>)

lemma helper_result_tag_ok:
  assumes "helper_result_tag vm helper i v = Inr tag"
  shows "tag_ok vm args tag"
proof (cases "tag_kind tag = UBPF_SAFE_VALUE_POINTER")
  case True
  with assms obtain r where r: "ubpf_safe_find_region_by_id vm (helper_region_id helper) = Some r"
    "region_kind r = UBPF_SAFE_REGION_POINTER" "\<not> v < region_base r" "\<not> v > region_end r"
    "\<not> helper_region_size helper > region_end r - v"
    "tag = ubpf_safe_pointer_tag (helper_region_id helper) (region_permissions r) v (helper_region_size helper)"
    by (auto simp: helper_result_tag_def Let_def ubpf_safe_scalar_tag_def ubpf_safe_handle_tag_def split: if_splits option.splits)
  from r(1) have "r \<in> set (safe_regions vm)" "region_in_use r" "region_id r = helper_region_id helper"
    by (auto simp: ubpf_safe_find_region_by_id_def find_Some_iff)
  moreover have "uint v + uint (helper_region_size helper) \<le> uint (region_end r)"
    using r(4,5) uint_sub_lem [of v "region_end r"] by (simp add: word_less_def not_less)
  moreover have "uint (region_base r) \<le> uint v" using r(3) by (simp add: word_less_def)
  ultimately show ?thesis using r(2,6) by (auto simp: tag_ok_def ubpf_safe_pointer_tag_def)
qed (simp add: tag_ok_def)

lemma safe_call_good:
  assumes "safe_env_ok vm args R m" and "safe_ok vm args R m s" and "inst_ok vm pc inst"
    and "safe_call vm args inst s = Some out"
  shows "safe_good (safe_ok vm args R m) out"
proof -
  from assms(2) have ok: "state_ok vm args R m (core s)" "tags_ok vm args s" by (simp_all add: safe_ok_def)
  have "safe_good (safe_ok vm args R m) (safe_call_external vm args inst s)"
    if "opcode inst = EBPF_OP_CALL" "src inst = 0"
  proof -
    from that assms(3) obtain v m' where c:
      "call_external vm (arg_mem args) (imm inst) (st_reg (core s)) (st_mem (core s)) = Some (v, m')"
      by (fastforce simp: inst_ok_def call_external_def split: option.splits)
    then have "confined R (st_mem (core s)) m'" using assms(1) by (auto simp: safe_env_ok_def helpers_confined_def)
    with ok(1) have k: "state_ok vm args R m ((set_reg r v (core s))\<lparr>st_mem := m'\<rparr>)" for r
      by (auto simp: state_ok_def set_reg_def intro: confined_trans)
    have "tags_ok vm args (s\<lparr>core := k, safe_tags := clear_argument_tags (safe_tags s)\<rparr>)"
        "tag_ok vm args tag \<Longrightarrow> tags_ok vm args (s\<lparr>core := k, safe_tags := (clear_argument_tags (safe_tags s))(0 := tag)\<rparr>)" for k tag
      using ok(2) by (auto simp: tags_ok_def clear_argument_tags_ok)
    with k c ok helper_result_tag_ok show ?thesis
      by (auto simp: safe_call_external_def Let_def safe_ok_def split: sum.splits)
  qed
  moreover have "safe_good (safe_ok vm args R m) (safe_call_local inst s)"
  proof (cases "st_frame_index (core s) \<ge> UBPF_MAX_CALL_DEPTH")
    case False
    define i where "i = st_frame_index (core s)"
    have i: "i < length (st_frames (core s))" "i < length (safe_frames s)" "i < UBPF_MAX_CALL_DEPTH"
      using False ok by (simp_all add: state_ok_def tags_ok_def i_def)
    let ?f = "(safe_tags s BPF_REG_6, safe_tags s BPF_REG_7, safe_tags s BPF_REG_8, safe_tags s BPF_REG_9)"
    have "tags_ok vm args (s\<lparr>core := k, safe_frames := (safe_frames s)[i := ?f]\<rparr>)" for k
      using ok(2) set_update_subset_insert [of "safe_frames s" i ?f] by (auto simp: tags_ok_def frame_tags_ok_def)
    with ok(1) i show ?thesis
      by (auto simp: safe_call_local_def frame_at_def safe_ok_def state_ok_def Let_def i_def [symmetric])
  qed (use assms(2) in \<open>simp add: safe_call_local_def Let_def\<close>)
  ultimately show ?thesis using assms(2,4) by (auto simp: safe_call_def split: if_splits)
qed

lemma safe_switch_good:
  assumes "safe_env_ok vm args R m" and "safe_ok vm args R m s" and "program_ok vm" and "inst_ok vm pc inst"
    and "opcode inst = EBPF_OP_LDDW \<longrightarrow> st_pc (core s) < num_insts vm"
  shows "safe_good (safe_ok vm args R m) (safe_switch vm args inst s)"
  unfolding safe_switch_def
proof (rule first_case_induct)
  fix x
  assume "Some x \<in> set [safe_alu_inst inst s, safe_load_inst vm args inst s, safe_store_inst vm args inst s,
      safe_lddw vm inst s, safe_jump_inst inst s, safe_exit inst s, safe_call vm args inst s,
      safe_atomic_inst args inst s]"
  then have "safe_alu_inst inst s = Some x \<or> safe_load_inst vm args inst s = Some x \<or>
      safe_store_inst vm args inst s = Some x \<or> safe_lddw vm inst s = Some x \<or>
      safe_jump_inst inst s = Some x \<or> safe_exit inst s = Some x \<or> safe_call vm args inst s = Some x \<or>
      safe_atomic_inst args inst s = Some x" by auto
  then show "safe_good (safe_ok vm args R m) x"
    using safe_register_groups_good [OF assms(2)] safe_memory_groups_good [OF assms(1,2)]
      safe_lddw_good [OF assms(2,3,5)] safe_exit_good [OF assms(2)] safe_call_good [OF assms(1,2,4)]
      safe_atomic_good [OF assms(1,2)]
    by blast
qed (use assms(2) in simp)

section \<open>The step\<close>

text \<open>Arithmetic never makes a new tag.\<close>

lemma apply_alu_tag:
  "ubpf_safe_apply_alu inst d s r = Inr tag \<Longrightarrow> tag = ubpf_safe_scalar_tag \<or> tag = d \<or> tag = s"
  by (auto simp: ubpf_safe_apply_alu_def ubpf_safe_apply_pointer_offset_def Let_def split: if_splits)

lemma safe_finish_good:
  assumes "safe_ok vm args R m s" and "tag_ok vm args d" and "tag_ok vm args sr"
  shows "safe_good (safe_ok vm args R m) (safe_finish inst d sr s)"
proof (cases "ubpf_safe_apply_alu inst d sr (st_reg (core s) (dst inst))")
  case (Inr tag)
  with apply_alu_tag [OF Inr] assms have "tag_ok vm args tag" by auto
  with Inr assms(1) show ?thesis by (auto simp: safe_finish_def Let_def safe_ok_def tags_ok_def)
qed (use assms(1) in \<open>auto simp: safe_finish_def Let_def safe_ok_def\<close>)

lemma safe_instruction_good:
  assumes "safe_env_ok vm args R m" and "safe_ok vm args R m s" and "program_ok vm" and "inst_ok vm pc inst"
    and "opcode inst = EBPF_OP_LDDW \<longrightarrow> st_pc (core s) < num_insts vm"
  shows "safe_good (safe_ok vm args R m) (safe_instruction vm args pc inst s)"
proof (cases "ubpf_validate_shadow_register vm (st_shadow_regs (core s)) inst")
  case (Inl e)
  with assms(2) show ?thesis by (simp add: safe_instruction_def)
next
  case (Inr sr)
  let ?s = "s\<lparr>core := call_debug_function vm pc ((core s)\<lparr>st_shadow_regs := sr\<rparr>)\<rparr>"
  have "safe_ok vm args R m ?s" "st_pc (core ?s) = st_pc (core s)"
    using assms(2) by (simp_all add: call_debug_function_def safe_ok_def)
  with safe_switch_good [OF assms(1) _ assms(3,4), of ?s] assms(5)
  have good: "safe_good (safe_ok vm args R m) (safe_switch vm args inst ?s)" by simp
  have "tag_ok vm args (safe_tags s r)" for r using assms(2) by (simp add: safe_ok_def tags_ok_def)
  with good Inr safe_finish_good show ?thesis
    by (cases "safe_switch vm args inst ?s") (auto simp: safe_instruction_def)
qed

lemma safe_step_good:
  assumes "safe_env_ok vm args R m" and "safe_ok vm args R m s" and "program_ok vm"
  shows "safe_good (safe_ok vm args R m) (safe_step vm args s)"
proof -
  define c1 where "c1 = (if instruction_limit vm \<noteq> 0 then (core s)\<lparr>st_limit := st_limit (core s) - 1\<rparr> else core s)"
  have ok: "state_ok vm args R m (core s)" "tags_ok vm args s" using assms(2) by (simp_all add: safe_ok_def)
  then have c1: "state_ok vm args R m c1" "st_pc c1 = st_pc (core s)" by (simp_all add: c1_def)
  show ?thesis
  proof (cases "st_pc (core s) < num_insts vm")
    case True
    then obtain c2 where c2: "enter_function vm c1 = Some c2" "state_ok vm args R m c2" "st_pc c2 = st_pc (core s)"
      using enter_function_good [OF assms(3) c1(1)] c1(2) by auto
    from True assms(3) obtain inst where inst: "ubpf_fetch_instruction vm (st_pc (core s)) = Some inst"
      by (auto simp: program_ok_def ubpf_fetch_instruction_def word_less_nat_alt)
    with True assms(3) have i: "inst_ok vm (st_pc (core s)) inst" by (auto simp: program_ok_def)
    with c2(2) ok(2) have "safe_good (safe_ok vm args R m)
        (safe_instruction vm args (st_pc (core s)) inst (s\<lparr>core := c2\<lparr>st_pc := st_pc (core s) + 1\<rparr>\<rparr>))"
      by (intro safe_instruction_good [OF assms(1) _ assms(3) i]) (auto simp: inst_ok_def safe_ok_def)
    with True assms(2) c2(1) inst show ?thesis
      unfolding safe_step_def Let_def c1_def [symmetric] by simp
  next
    case False
    with assms(2) show ?thesis by (simp add: safe_step_def Let_def not_less)
  qed
qed

interpretation safe: step_invariant "safe_step vm args"
    "\<lambda>s. program_ok vm \<and> safe_env_ok vm args R m \<and> safe_ok vm args R m s" for vm args R m
proof
  fix s s'
  assume "program_ok vm \<and> safe_env_ok vm args R m \<and> safe_ok vm args R m s" and "safe_step vm args s = Inr s'"
  with safe_step_good [of vm args R m s]
  show "program_ok vm \<and> safe_env_ok vm args R m \<and> safe_ok vm args R m s'" by simp
qed

section \<open>A run\<close>

lemma rounded_up: "unat l + 7 < 2 ^ 64 \<Longrightarrow> unat l \<le> 8 * unat ((l + 7) div 8 :: uint64_t)"
proof -
  assume "unat l + 7 < 2 ^ 64"
  then have "unat (l + 7) = unat l + 7" by (simp add: unat_word_ariths)
  then show ?thesis by (simp add: unat_div)
qed

lemma safe_init_ok:
  assumes "safe_env_ok vm args R m"
  shows "safe_ok vm args R m (safe_init_state vm args regs m)"
proof -
  define n where "n = (if unat ((arg_stack_length args + 7) div 8) = 0 then 1 else unat ((arg_stack_length args + 7) div 8))"
  have n: "unat (arg_stack_length args) \<le> 8 * n"
    using rounded_up [of "arg_stack_length args"] assms by (auto simp: n_def safe_env_ok_def)
  have "tag_ok vm args (safe_init_tags args r)" for r
    by (auto simp: safe_init_tags_def tag_ok_def ubpf_safe_scalar_tag_def Let_def)
  with n show ?thesis
    unfolding safe_ok_def safe_init_state_def Let_def n_def [symmetric]
    by (auto simp: state_ok_def tags_ok_def init_state_def slot_ok_def frame_tags_ok_def)
qed

lemma execution_started_safe [simp]:
  "safe_env_ok (vm\<lparr>execution_started := b\<rparr>) args R m = safe_env_ok vm args R m"
  "safe_init_state (vm\<lparr>execution_started := b\<rparr>) = safe_init_state vm"
  by (simp_all add: fun_eq_iff safe_env_ok_def granted_def helpers_confined_def safe_init_state_def init_state_def)

lemma safe_run_good:
  assumes "program_ok vm" and "safe_env_ok vm args R m"
    and "fst (ubpf_exec_ex_safe vm args regs m shadow_ok spill_ok) = Some (r, t)"
  shows "r \<noteq> Legacy Exec_fault \<and> confined R m (st_mem (core t))"
proof -
  let ?vm = "vm\<lparr>execution_started := True\<rparr>"
  have init: "safe_ok ?vm args R m (safe_init_state vm args regs m)"
    using safe_init_ok [of ?vm args R m regs] assms(2) by simp
  have run: "r \<noteq> Legacy Exec_fault \<and> safe_ok ?vm args R m t"
    if "run_loop (safe_step ?vm args) (safe_init_state vm args regs m) = Some (r, t)"
  proof -
    from safe.run_result [OF that, of R m] init assms(1,2) obtain s
      where "safe_ok ?vm args R m s" "safe_step ?vm args s = Inl (r, t)" by auto
    with safe_step_good [of ?vm args R m s] assms(1,2) show ?thesis by simp
  qed
  have "st_mem (core (safe_init_state vm args regs m)) = m"
    by (simp add: safe_init_state_def init_state_def Let_def)
  then show ?thesis
    using assms(3) run by (auto simp: ubpf_exec_ex_safe_def safe_ok_def state_ok_def Let_def split: if_splits)
qed

section \<open>The instruction limit\<close>

definition same_limit :: "safe_state \<Rightarrow> safe_outcome \<Rightarrow> bool" where
  "same_limit s out \<longleftrightarrow> (\<forall>t. out = Inr t \<longrightarrow> st_limit (core t) = st_limit (core s))"

lemma set_reg_limit [simp]: "st_limit (set_reg r v c) = st_limit c"
  by (simp add: set_reg_def)

lemma safe_memory_limit:
  "same_limit s (SAFE_LOAD vm args n sx inst s)" "same_limit s (SAFE_STORE vm args n v keep inst s)"
  "same_limit s (safe_atomic64 args inst s)" "same_limit s (safe_atomic32 args inst s)"
  by (auto simp: same_limit_def SAFE_LOAD_def SAFE_STORE_def safe_atomic64_def safe_atomic32_def Let_def
      split: sum.splits option.splits if_splits)

lemma safe_control_limit:
  "safe_alu_inst inst s = Some out \<Longrightarrow> same_limit s out" "safe_lddw vm inst s = Some out \<Longrightarrow> same_limit s out"
  "safe_jump_inst inst s = Some out \<Longrightarrow> same_limit s out" "safe_exit inst s = Some out \<Longrightarrow> same_limit s out"
  "same_limit s (safe_call_external vm args inst s)" "same_limit s (safe_call_local inst s)"
  by (auto simp: same_limit_def safe_alu_inst_def safe_lddw_def safe_jump_inst_def safe_exit_def safe_call_external_def
      safe_call_local_def Let_def split: sum.splits option.splits if_splits prod.splits)

lemma safe_switch_limit: "same_limit s (safe_switch vm args inst s)"
  unfolding safe_switch_def
proof (rule first_case_induct)
  fix out
  assume "Some out \<in> set [safe_alu_inst inst s, safe_load_inst vm args inst s, safe_store_inst vm args inst s,
      safe_lddw vm inst s, safe_jump_inst inst s, safe_exit inst s, safe_call vm args inst s, safe_atomic_inst args inst s]"
  then consider "safe_alu_inst inst s = Some out" | "safe_load_inst vm args inst s = Some out"
    | "safe_store_inst vm args inst s = Some out" | "safe_lddw vm inst s = Some out"
    | "safe_jump_inst inst s = Some out" | "safe_exit inst s = Some out" | "safe_call vm args inst s = Some out"
    | "safe_atomic_inst args inst s = Some out" by auto
  then show "same_limit s out"
    using safe_memory_limit [of s] safe_control_limit(1,3,4) [of inst s out] safe_control_limit(2) [of vm inst s out]
      safe_control_limit(5) [of s vm args inst] safe_control_limit(6) [of s inst]
    by cases (auto simp: safe_load_inst_def safe_store_inst_def safe_call_def safe_atomic_inst_def Let_def
        same_limit_def split: if_splits)
qed (simp add: same_limit_def)

lemma safe_step_limit:
  assumes "safe_step vm args s = Inr t" and "instruction_limit vm \<noteq> 0"
  shows "0 < sint (st_limit (core s)) \<and> st_limit (core t) = st_limit (core s) - 1"
proof -
  have g: "\<not> num_insts vm \<le> st_pc (core s)" "\<not> sint (st_limit (core s)) \<le> 0"
    using assms by (auto simp: safe_step_def Let_def split: if_splits)
  let ?c = "(core s)\<lparr>st_limit := st_limit (core s) - 1\<rparr>"
  from assms g obtain c inst where c: "enter_function vm ?c = Some c"
    "safe_instruction vm args (st_pc (core s)) inst (s\<lparr>core := c\<lparr>st_pc := st_pc (core s) + 1\<rparr>\<rparr>) = Inr t"
    by (auto simp: safe_step_def Let_def split: option.splits)
  from c(2) obtain sr s' where s': "safe_switch vm args inst (s\<lparr>core :=
      call_debug_function vm (st_pc (core s)) (c\<lparr>st_pc := st_pc (core s) + 1, st_shadow_regs := sr\<rparr>)\<rparr>) = Inr s'"
    "safe_finish inst (safe_tags s (dst inst)) (safe_tags s (src inst)) s' = Inr t"
    by (auto simp: safe_instruction_def split: sum.splits)
  have "st_limit (core s') = st_limit c"
    using safe_switch_limit [unfolded same_limit_def] s'(1) by (force simp: call_debug_function_def)
  moreover have "st_limit (core t) = st_limit (core s')"
    using s'(2) by (auto simp: safe_finish_def Let_def map_sum_def split: sum.splits if_splits)
  ultimately show ?thesis using g(2) enter_function_limit [OF c(1)] by simp
qed

interpretation safe_limited: bounded_steps "safe_step vm args"
    "\<lambda>s. instruction_limit vm \<noteq> 0" "\<lambda>s. nat (sint (st_limit (core s)))" for vm args
  by standard (use safe_step_limit sint_minus_1 in force)+

section \<open>A safe machine\<close>

text \<open>A program that jumps to itself for ever.\<close>

definition spinning_vm :: ubpf_vm where
  "spinning_vm = (the (ubpf_create JIT_null (\<lambda>_. True)))
     \<lparr>insts := Some (0, [\<lparr>opcode = EBPF_OP_JA, dst = 0, src = 0, offset = - 1, imm = 0\<rparr>]), num_insts := 1,
      int_funcs := Some [False],
      local_func_stack_usage := Some (unknown_stack_usage(0 :=
        \<lparr>stack_usage_calculated = UBPF_STACK_USAGE_DEFAULT, stack_usage = 0\<rparr>)),
      instruction_limit := 1000\<rparr>"

text \<open>A region of eight bytes the program may only read, beside the input and the stack.\<close>

definition safe_demo_region :: ubpf_safe_region_internal where
  "safe_demo_region = \<lparr>region_in_use = True, region_id = 7, region_base = 0x8000, region_end = 0x8008,
     region_kind = UBPF_SAFE_REGION_POINTER, region_permissions = UBPF_SAFE_REGION_READ\<rparr>"

definition safe_demo_vm :: ubpf_vm where
  "safe_demo_vm = demo_vm\<lparr>execution_profile := UBPF_EXECUTION_PROFILE_SAFE, safe_regions := [safe_demo_region]\<rparr>"

definition safe_demo_mem :: memory where
  "safe_demo_mem = (\<lambda>x. if x \<in> window 0x5000 0x6000 \<union> window 0x8000 0x8008 then Some 0 else None)"

lemma safe_demo_loads: "\<exists>vm'. ubpf_load demo_env safe_demo_vm demo_code = (Inr (), vm')"
  unfolding demo_code_def
proof (rule encoded_loads)
  show "fst (validate safe_demo_vm demo_insts True) = Inr ()"
    using demo_filter demo_self_contained
    by (simp add: validate_def UBPF_MAX_INSTS_def demo_insts_def validate_loop.simps validate_inst_def
        validate_switch_def validate_call_def validate_fields_def check_result_def opcode_lists opcode_vals
        ubpf_calculate_stack_usage_for_local_func_def ubpf_stack_usage_for_local_func_def safe_demo_vm_def demo_vm_simps
        unknown_stack_usage_def UBPF_EBPF_LOCAL_FUNCTION_STACK_SIZE_def)
qed (simp add: safe_demo_vm_def demo_vm_simps)

lemma safe_demo_env_ok:
  assumes "ubpf_load demo_env safe_demo_vm demo_code = (Inr (), vm')"
  shows "safe_env_ok vm' demo_args (window 0x5000 0x6000) safe_demo_mem" and "instruction_limit vm' \<noteq> 0"
proof -
  from ubpf_load_frame [OF assms] have f: "safe_regions vm' = [safe_demo_region]" "dispatcher vm' = None"
    "ext_funcs vm' = Map.empty" "instruction_limit vm' = 1000"
    by (auto simp: safe_demo_vm_def demo_vm_def ubpf_create_def)
  have "dom safe_demo_mem = window 0x5000 0x6000 \<union> window 0x8000 0x8008"
    by (auto simp: safe_demo_mem_def split: if_splits)
  then show "safe_env_ok vm' demo_args (window 0x5000 0x6000) safe_demo_mem"
    by (auto simp: safe_env_ok_def granted_def f demo_args_def safe_demo_region_def UBPF_SAFE_REGION_READ_def
        UBPF_SAFE_REGION_WRITE_def helpers_confined_def call_external_def split: if_splits)
  show "instruction_limit vm' \<noteq> 0" by (simp add: f)
qed

lemma exec_ex_limited:
  assumes "instruction_limit vm \<noteq> 0"
  shows "\<exists>r. fst (ubpf_exec_ex vm args regs m shadow_ok spill_ok) = Some r"
    and "\<exists>r. fst (ubpf_exec_ex_safe vm args regs m shadow_ok spill_ok) = Some r"
proof -
  show s: "\<exists>r. fst (ubpf_exec_ex_safe vm args regs m shadow_ok spill_ok) = Some r"
    using assms safe_limited.run_terminates [of "vm\<lparr>execution_started := True\<rparr>"]
    by (auto simp: ubpf_exec_ex_safe_def Let_def)
  show "\<exists>r. fst (ubpf_exec_ex vm args regs m shadow_ok spill_ok) = Some r"
    using s limited_run [OF assms, of args regs m shadow_ok] by (auto simp: ubpf_exec_ex_def)
qed

section \<open>Properties\<close>

text \<open>
  C15. Memory safety of the safe profile. Load any byte string, run it in the safe profile on a
  machine whose granted areas are mapped and whose helpers write only inside \<open>R\<close>: if the run
  returns, it performed no invalid access (no load or store outside the areas granted with the
  right permission, no index outside the spill slots, frames, shadow stack, function marks or
  bytecode, no call through a null pointer), and no byte outside \<open>R\<close> has changed, where \<open>R\<close> need
  only contain the input, the stack and the writable regions. The bounds check of the legacy
  profile plays no role: the guarantee rests on the tags alone.
\<close>

theorem safe_run_memory_safe:
  assumes "ubpf_load env vm code = (Inr (), vm')" and "safe_env_ok vm' args R m"
    and "fst (ubpf_exec_ex_safe vm' args regs m shadow_ok spill_ok) = Some (r, t)"
  shows "r \<noteq> Legacy Exec_fault \<and> confined R m (st_mem (core t))"
  using safe_run_good [OF ubpf_load_program_ok [OF assms(1)] assms(2,3)] .

theorem safe_run_memory_safe_witness:
  "\<exists>vm' r t. ubpf_load demo_env safe_demo_vm demo_code = (Inr (), vm') \<and>
     fst (ubpf_exec_ex_safe vm' demo_args (\<lambda>_. 0) safe_demo_mem True True) = Some (r, t) \<and>
     r \<noteq> Legacy Exec_fault \<and> confined (window 0x5000 0x6000) safe_demo_mem (st_mem (core t))"
proof -
  obtain vm' where l: "ubpf_load demo_env safe_demo_vm demo_code = (Inr (), vm')" using safe_demo_loads by blast
  obtain r t where "fst (ubpf_exec_ex_safe vm' demo_args (\<lambda>_. 0) safe_demo_mem True True) = Some (r, t)"
    using exec_ex_limited(2) [OF safe_demo_env_ok(2) [OF l]] by fastforce
  with safe_run_memory_safe [OF l safe_demo_env_ok(1) [OF l] this] l show ?thesis by blast
qed

text \<open>
  C17. The choke point of the safe profile, exactly: an access of up to eight bytes is let through
  just if the base register holds a pointer, its tag has the required permissions, and the
  accessed bytes, computed over the integers, lie inside the tag's window; the address returned
  is that of the access.
\<close>

theorem safe_access_exact:
  assumes "n \<le> 8"
  shows "ubpf_safe_compute_access tag a off n k p = Inr ea \<longleftrightarrow>
     tag_kind tag = UBPF_SAFE_VALUE_POINTER \<and> tag_permissions tag AND p = p \<and> uint ea = uint a + sint off \<and>
     uint (tag_base tag) + uint (tag_size tag) < 2 ^ 64 \<and>
     uint (tag_base tag) \<le> uint ea \<and> uint ea + int n \<le> uint (tag_base tag) + uint (tag_size tag)"
  using assms by (rule compute_access_iff)

theorem safe_access_exact_witness:
  "ubpf_safe_compute_access (ubpf_safe_pointer_tag 7 1 0x8000 8) 0x8008 (- 8) 8 Safe_load 1 = Inr 0x8000 \<and>
   ubpf_safe_compute_access (ubpf_safe_pointer_tag 7 1 0x8000 8) 0x8008 (- 7) 8 Safe_load 1 \<noteq> Inr 0x8001"
  using safe_access_exact [of 8 "ubpf_safe_pointer_tag 7 1 0x8000 8" "0x8008" "- 8" Safe_load 1 "0x8000"]
    safe_access_exact [of 8 "ubpf_safe_pointer_tag 7 1 0x8000 8" "0x8008" "- 7" Safe_load 1 "0x8001"]
  by (simp add: ubpf_safe_pointer_tag_def)

text \<open>
  C14. With an instruction limit every run returns, in the legacy and in the safe profile.
\<close>

theorem limited_run_returns:
  "instruction_limit vm \<noteq> 0 \<Longrightarrow> \<exists>r. fst (ubpf_exec_ex vm args regs m shadow_ok spill_ok) = Some r"
  by (rule exec_ex_limited(1))

theorem limited_run_returns_witness:
  "(\<exists>r. fst (ubpf_exec_ex spinning_vm demo_args (\<lambda>_. 0) demo_mem True True) = Some r) \<and>
   (\<exists>r. fst (ubpf_exec_ex (spinning_vm\<lparr>execution_profile := UBPF_EXECUTION_PROFILE_SAFE\<rparr>) demo_args (\<lambda>_. 0) demo_mem True True) = Some r)"
  by (intro conjI limited_run_returns) (simp_all add: spinning_vm_def)

end
