(* ===== verification/Safe_Tags.thy ===== *)
theory Safe_Tags
  imports Safe_Safety
begin

text \<open>
  What happens to tags in the safe profile: spilling to the stack and reloading, pointer
  arithmetic, and the table of regions the tags of helper results come from.
\<close>

section \<open>Spilling\<close>

text \<open>The parts of a store through a stack pointer that succeeds.\<close>

definition spills :: "exec_args \<Rightarrow> bool \<Rightarrow> nat \<Rightarrow> uint64_t \<Rightarrow> bool" where
  "spills args keep n ea \<longleftrightarrow> keep \<and> n = 8 \<and> slot_offset args ea mod 8 = 0"

lemma SAFE_STORE_stack:
  assumes "SAFE_STORE vm args n v keep inst s = Inr t" and "ubpf_safe_is_stack_pointer (safe_tags s (dst inst)) args"
  obtains ea m' sh slots where
    "ubpf_safe_compute_access (safe_tags s (dst inst)) (st_reg (core s) (dst inst)) (offset inst) n Safe_store
       UBPF_SAFE_REGION_WRITE = Inr ea"
    "ubpf_mem_store (st_mem (core s)) ea v n = Some m'"
    "ubpf_safe_invalidate_stack_spill_tags (safe_spill_slots s) args ea n = Some slots"
    "core t = (core s)\<lparr>st_shadow_stack := sh, st_mem := m'\<rparr>" "safe_tags t = safe_tags s"
    "safe_spill_slots t =
       (if spills args keep n ea
        then slots[unat (slot_offset args ea div 8) := \<lparr>spill_valid = True, spill_tag = safe_tags s (src inst)\<rparr>]
        else slots)"
    "spills args keep n ea \<longrightarrow> unat (slot_offset args ea div 8) < length slots"
proof -
  from assms(1) obtain ea where ea: "ubpf_safe_compute_access (safe_tags s (dst inst)) (st_reg (core s) (dst inst))
      (offset inst) n Safe_store UBPF_SAFE_REGION_WRITE = Inr ea"
    by (auto simp: SAFE_STORE_def Let_def split: sum.splits)
  from assms(1) ea obtain m' where m': "ubpf_mem_store (st_mem (core s)) ea v n = Some m'"
    by (auto simp: SAFE_STORE_def Let_def split: option.splits)
  from assms(1) ea m' obtain sh where sh: "ubpf_mark_shadow_stack vm args (st_shadow_stack (core s)) ea n = Some sh"
    by (auto simp: SAFE_STORE_def Let_def split: option.splits)
  from assms ea m' sh obtain slots where
    slots: "ubpf_safe_invalidate_stack_spill_tags (safe_spill_slots s) args ea n = Some slots"
    by (auto simp: SAFE_STORE_def Let_def split: option.splits)
  show thesis
    by (rule that [OF ea m' slots, of sh])
      (use assms ea m' sh slots in \<open>auto simp: SAFE_STORE_def Let_def spills_def split: if_splits del: mod_0_imp_dvd\<close>)
qed

lemma compute_access_same:
  assumes "ubpf_safe_compute_access tag a off n k p = Inr ea" and "tag_permissions tag AND p' = p'"
  shows "ubpf_safe_compute_access tag a off n k' p' = Inr ea"
  using assms by (simp add: compute_access_checks)

lemma mem_store_load_8:
  assumes "ubpf_mem_store m a v 8 = Some m'"
  shows "ubpf_mem_load m' a 8 = Some v"
  using assms load_le_store_le [of m a v 8 m'] by (simp add: ubpf_mem_store_eq ubpf_mem_load_eq)

text \<open>Spilling a register through a stack pointer and reloading it.\<close>

lemma spill_reload_ok:
  assumes "safe_env_ok vm args R m" and "safe_ok vm args R m s"
    and "ubpf_safe_is_stack_pointer (safe_tags s (dst st)) args"
    and "tag_permissions (safe_tags s (dst st)) AND UBPF_SAFE_REGION_READ = UBPF_SAFE_REGION_READ"
    and "slot_offset args (st_reg (core s) (dst st) + scast (offset st)) mod 8 = 0"
    and "SAFE_STORE vm args 8 (st_reg (core s) (src st)) True st s = Inr s1"
    and "src ld = dst st" and "offset ld = offset st"
  shows "\<exists>s2. SAFE_LOAD vm args 8 False ld s1 = Inr s2 \<and>
    st_reg (core s2) (dst ld) = st_reg (core s) (src st) \<and> safe_tags s2 (dst ld) =
      (if dst ld = src ld then ubpf_safe_scalar_tag else safe_tags s (src st))"
proof -
  let ?tag = "safe_tags s (dst st)"
  from assms(6,3) obtain ea m' sh slots where st:
    "ubpf_safe_compute_access ?tag (st_reg (core s) (dst st)) (offset st) 8 Safe_store UBPF_SAFE_REGION_WRITE = Inr ea"
    "ubpf_mem_store (st_mem (core s)) ea (st_reg (core s) (src st)) 8 = Some m'"
    "ubpf_safe_invalidate_stack_spill_tags (safe_spill_slots s) args ea 8 = Some slots"
    "core s1 = (core s)\<lparr>st_shadow_stack := sh, st_mem := m'\<rparr>" "safe_tags s1 = safe_tags s"
    "safe_spill_slots s1 = (if spills args True 8 ea
       then slots[unat (slot_offset args ea div 8) := \<lparr>spill_valid = True, spill_tag = safe_tags s (src st)\<rparr>] else slots)"
    "spills args True 8 ea \<longrightarrow> unat (slot_offset args ea div 8) < length slots"
    by (rule SAFE_STORE_stack)
  from st(1) have "ea = st_reg (core s) (dst st) + scast (offset st)"
    unfolding compute_access_checks COMPUTE_EFFECTIVE_ADDR_def by (auto simp: Let_def split: if_splits)
  with assms(5) have aligned: "slot_offset args ea mod 8 = 0" by simp
  have acc: "ubpf_safe_compute_access (safe_tags s1 (src ld)) (st_reg (core s1) (src ld)) (offset ld) 8 Safe_load
      UBPF_SAFE_REGION_READ = Inr ea"
    using compute_access_same [OF st(1) assms(4), of Safe_load] st(4,5) assms(7,8) by simp
  have "safe_ok vm args R m s1" using SAFE_STORE_good [OF assms(1,2), of 8] assms(6) by (metis insertI1 insertI2 safe_good.simps(2))
  then obtain ok where sh: "ubpf_check_shadow_stack vm args (st_shadow_stack (core s1)) ea 8 = Some ok"
    using check_shadow_stack_defined [of vm args "st_shadow_stack (core s1)" 8 ea] by (auto simp: safe_ok_def state_ok_def)
  have load: "ubpf_mem_load (st_mem (core s1)) ea 8 = Some (st_reg (core s) (src st))"
    using mem_store_load_8 [OF st(2)] st(4) by simp
  show ?thesis
    using acc sh load st(5,6,7) aligned assms(3,7)
    by (auto simp: SAFE_LOAD_def Let_def set_reg_def spills_def ubpf_safe_is_stack_pointer_def ubpf_safe_scalar_tag_def
        simp del: mod_0_imp_dvd)
qed

lemma stack_access_on_stack:
  assumes "ubpf_safe_compute_access tag a off n k p = Inr ea" and "ubpf_safe_is_stack_pointer tag args" and "n \<le> 8"
  shows "\<not> (ea < arg_stack_start args \<or> ea + of_nat n < ea \<or> ea + of_nat n > arg_stack_start args + arg_stack_length args)"
proof -
  from assms have c: "uint (arg_stack_start args) + uint (arg_stack_length args) < 2 ^ 64"
    "uint (arg_stack_start args) \<le> uint ea"
    "uint ea + int n \<le> uint (arg_stack_start args) + uint (arg_stack_length args)"
    using compute_access_iff [OF assms(3)] by (auto simp: ubpf_safe_is_stack_pointer_def)
  have "uint (ea + of_nat n) = (uint ea + int n) mod 2 ^ 64"
    by (simp add: uint_word_ariths(1) uint_of_nat_small [OF assms(3)])
  then have "uint (ea + of_nat n) = uint ea + int n"
    using c uint_ge_0 [of ea] by (simp only:) (intro mod_pos_pos_trivial, linarith+)
  moreover have "uint (arg_stack_start args + arg_stack_length args) = uint (arg_stack_start args) + uint (arg_stack_length args)"
    using c(1) by (simp add: uint_word_ariths(1))
  ultimately show ?thesis using c by (simp add: word_less_def)
qed

lemma store_clears_slots:
  assumes "safe_ok vm args R m s" and "ubpf_safe_is_stack_pointer (safe_tags s (dst inst)) args" and "0 < n" and "n \<le> 8"
    and "SAFE_STORE vm args n v keep inst s = Inr t"
    and "\<not> spills args keep n (st_reg (core s) (dst inst) + scast (offset inst))" and "i < length (safe_spill_slots s)"
  defines "pos \<equiv> unat (slot_offset args (st_reg (core s) (dst inst) + scast (offset inst)))"
  shows "safe_spill_slots t ! i =
    (if pos < 8 * i + 8 \<and> 8 * i < pos + n then (safe_spill_slots s ! i)\<lparr>spill_valid := False\<rparr> else safe_spill_slots s ! i)"
proof -
  from assms(5,2) obtain ea m' sh slots where st:
    "ubpf_safe_compute_access (safe_tags s (dst inst)) (st_reg (core s) (dst inst)) (offset inst) n Safe_store UBPF_SAFE_REGION_WRITE = Inr ea"
    "ubpf_mem_store (st_mem (core s)) ea v n = Some m'"
    "ubpf_safe_invalidate_stack_spill_tags (safe_spill_slots s) args ea n = Some slots"
    "core t = (core s)\<lparr>st_shadow_stack := sh, st_mem := m'\<rparr>" "safe_tags t = safe_tags s"
    "safe_spill_slots t = (if spills args keep n ea
       then slots[unat (slot_offset args ea div 8) := \<lparr>spill_valid = True, spill_tag = safe_tags s (src inst)\<rparr>] else slots)"
    "spills args keep n ea \<longrightarrow> unat (slot_offset args ea div 8) < length slots"
    by (rule SAFE_STORE_stack)
  have ea: "ea = st_reg (core s) (dst inst) + scast (offset inst)"
    using st(1) unfolding compute_access_checks COMPUTE_EFFECTIVE_ADDR_def by (auto simp: Let_def split: if_splits)
  have len: "unat (arg_stack_length args) \<le> 8 * length (safe_spill_slots s)"
    using assms(1) by (simp add: safe_ok_def tags_ok_def)
  from invalidate_spec [OF len assms(3,4), of ea] st(3,6) assms(6,7) stack_access_on_stack [OF st(1) assms(2,4)] ea
  show ?thesis by (auto simp: pos_def slot_offset_def)
qed

section \<open>Pointer arithmetic\<close>

text \<open>
  The integers a pointer with a given tag may take: the window and its end; on the stack, up to
  the largest 16-bit offset beyond it, within the address space.
\<close>

definition pointer_values :: "ubpf_safe_tag \<Rightarrow> uint64_t set" where
  "pointer_values tag =
     (let slack = (if tag_region_id tag = UBPF_SAFE_REGION_ID_STACK then 2 ^ 15 - 1 else 0) in
      {v. uint (tag_base tag) - slack \<le> uint v \<and> uint v \<le> uint (tag_base tag) + uint (tag_size tag) + slack})"

lemma pointer_offset_iff:
  "ubpf_safe_apply_pointer_offset tag r = Inr tag' \<longleftrightarrow>
     tag' = tag \<and> uint (tag_base tag) + uint (tag_size tag) < 2 ^ 64 \<and> r \<in> pointer_values tag"
proof (cases "uint (tag_base tag) + uint (tag_size tag) < 2 ^ 64")
  case True
  then have e: "uint (tag_base tag + tag_size tag) = uint (tag_base tag) + uint (tag_size tag)"
    by (simp add: uint_word_ariths(1))
  have s: "uint UBPF_SAFE_STACK_ADDRESS_SLACK = 2 ^ 15 - 1" by (simp add: UBPF_SAFE_STACK_ADDRESS_SLACK_def)
  have u: "uint UINT64_MAX = 2 ^ 64 - 1" by (simp add: UINT64_MAX_def)
  show ?thesis
  proof (cases "tag_region_id tag = UBPF_SAFE_REGION_ID_STACK")
    case stack: True
    let ?S = UBPF_SAFE_STACK_ADDRESS_SLACK and ?e = "tag_base tag + tag_size tag"
    have "uint (if tag_base tag > ?S then tag_base tag - ?S else 0) = max 0 (uint (tag_base tag) - (2 ^ 15 - 1))"
      using uint_sub_lem [of ?S "tag_base tag"] s by (auto simp: word_less_def max_def)
    moreover have "uint (if ?e > UINT64_MAX - ?S then UINT64_MAX else ?e + ?S) = min (2 ^ 64 - 1) (uint ?e + (2 ^ 15 - 1))"
      using uint_add_lem [of ?e ?S] s u by (auto simp: word_less_def uint_UINT64_MAX_minus min_def)
    moreover have "uint r \<le> 2 ^ 64 - 1" using uint_less_64 [of r] by linarith
    ultimately show ?thesis
      using True stack uint_ge_0 [of r] unfolding ubpf_safe_apply_pointer_offset_def Let_def word_less_def [of r] word_less_def [of _ r]
      by (auto simp: pointer_values_def word_less_def uint_UINT64_MAX_minus e less_max_iff_disj)
  next
    case False
    with True e show ?thesis
      by (auto simp: ubpf_safe_apply_pointer_offset_def pointer_values_def Let_def word_less_def uint_UINT64_MAX_minus)
  qed
next
  case False
  then show ?thesis
    by (simp add: ubpf_safe_apply_pointer_offset_def word_less_def uint_UINT64_MAX_minus)
qed

section \<open>The table of regions\<close>

definition region_ok :: "ubpf_safe_region_internal \<Rightarrow> bool" where
  "region_ok r \<longleftrightarrow> region_base r \<noteq> 0 \<and> region_base r < region_end r \<and>
     region_id r \<noteq> UBPF_SAFE_REGION_ID_INPUT \<and> region_id r \<noteq> UBPF_SAFE_REGION_ID_STACK \<and>
     region_permissions r AND NOT UBPF_SAFE_REGION_PERMISSIONS_MASK = 0"

definition regions_ok :: "ubpf_vm \<Rightarrow> bool" where
  "regions_ok vm \<longleftrightarrow> length (safe_regions vm) = UBPF_MAX_SAFE_REGIONS \<and>
     (\<forall>r \<in> set (safe_regions vm). region_in_use r \<longrightarrow> region_ok r) \<and>
     (\<forall>i < length (safe_regions vm). \<forall>j < length (safe_regions vm).
        region_in_use (safe_regions vm ! i) \<longrightarrow> region_in_use (safe_regions vm ! j) \<longrightarrow>
        region_id (safe_regions vm ! i) = region_id (safe_regions vm ! j) \<longrightarrow> i = j)"

lemma find_slot_spec:
  "find_slot rs k rid slot = Some i \<Longrightarrow>
     slot = Some i \<and> (\<forall>r \<in> set rs. \<not> (region_in_use r \<and> region_id r = rid)) \<or>
     k \<le> i \<and> i < k + length rs \<and>
       (region_in_use (rs ! (i - k)) \<and> region_id (rs ! (i - k)) = rid \<or>
        \<not> region_in_use (rs ! (i - k)) \<and> (\<forall>r \<in> set rs. \<not> (region_in_use r \<and> region_id r = rid)))"
proof (induction rs arbitrary: k slot)
  case (Cons r rs)
  show ?case
  proof (cases "region_in_use r \<and> region_id r = rid")
    case False
    with Cons.prems have f: "find_slot rs (Suc k) rid (if \<not> region_in_use r \<and> slot = None then Some k else slot) = Some i"
      by simp
    from Cons.IH [OF f] False show ?thesis
      by (auto simp: nth_Cons' Suc_diff_Suc split: if_splits)
  qed (use Cons.prems in auto)
qed simp

text \<open>A slot as \<^const>\<open>find_slot\<close> returns it is the only one for its identifier.\<close>

lemma find_slot_unique:
  assumes "find_slot (safe_regions vm) 0 rid None = Some i" and "regions_ok vm"
  shows "i < length (safe_regions vm)"
    and "j < length (safe_regions vm) \<Longrightarrow> j \<noteq> i \<Longrightarrow> region_in_use (safe_regions vm ! j) \<Longrightarrow> region_id (safe_regions vm ! j) \<noteq> rid"
    and "region_in_use (safe_regions vm ! i) \<Longrightarrow> region_id (safe_regions vm ! i) = rid"
  using find_slot_spec [OF assms(1)] assms(2) nth_mem [of j "safe_regions vm"] by (auto simp: regions_ok_def)

lemma find_region_iff:
  assumes "regions_ok vm"
  shows "ubpf_safe_find_region_by_id vm rid = Some r \<longleftrightarrow>
    (\<exists>i<length (safe_regions vm). safe_regions vm ! i = r \<and> region_in_use r \<and> region_id r = rid)"
proof
  assume "ubpf_safe_find_region_by_id vm rid = Some r"
  then show "\<exists>i<length (safe_regions vm). safe_regions vm ! i = r \<and> region_in_use r \<and> region_id r = rid"
    by (auto simp: ubpf_safe_find_region_by_id_def find_Some_iff)
next
  assume "\<exists>i<length (safe_regions vm). safe_regions vm ! i = r \<and> region_in_use r \<and> region_id r = rid"
  then obtain i where i: "i < length (safe_regions vm)" "safe_regions vm ! i = r" "region_in_use r" "region_id r = rid"
    by blast
  then obtain r' where r': "ubpf_safe_find_region_by_id vm rid = Some r'"
    by (cases "ubpf_safe_find_region_by_id vm rid")
      (auto simp: ubpf_safe_find_region_by_id_def find_None_iff in_set_conv_nth)
  then obtain j where "j < length (safe_regions vm)" "safe_regions vm ! j = r'" "region_in_use r'" "region_id r' = rid"
    by (auto simp: ubpf_safe_find_region_by_id_def find_Some_iff)
  with i assms have "j = i" by (simp add: regions_ok_def)
  with r' i \<open>safe_regions vm ! j = r'\<close> show "ubpf_safe_find_region_by_id vm rid = Some r" by simp
qed

lemma option_eqI: "(\<And>r. x = Some r \<longleftrightarrow> y = Some r) \<Longrightarrow> x = y"
  by (cases x; cases y) auto

lemma region_update_ok:
  assumes "regions_ok vm" and "find_slot (safe_regions vm) 0 (region_id new) None = Some i"
    and "region_in_use new" and "region_ok new"
  defines "vm' \<equiv> vm\<lparr>safe_regions := (safe_regions vm)[i := new]\<rparr>"
  shows "regions_ok vm'" and "ubpf_safe_find_region_by_id vm' (region_id new) = Some new"
    and "rid \<noteq> region_id new \<Longrightarrow> ubpf_safe_find_region_by_id vm' rid = ubpf_safe_find_region_by_id vm rid"
proof -
  note u = find_slot_unique [OF assms(2,1)]
  have "region_ok r" if "r \<in> set ((safe_regions vm)[i := new])" "region_in_use r" for r
    using that assms(1,4) set_update_subset_insert [of "safe_regions vm" i new] by (auto simp: regions_ok_def)
  then show ok: "regions_ok vm'"
    using assms(1) u(1,2) unfolding regions_ok_def vm'_def by (auto simp: nth_list_update) metis
  show "ubpf_safe_find_region_by_id vm' (region_id new) = Some new"
    using find_region_iff [OF ok, of "region_id new" new] u(1) assms(3) by (auto simp: vm'_def)
  show "ubpf_safe_find_region_by_id vm' rid = ubpf_safe_find_region_by_id vm rid" if "rid \<noteq> region_id new"
  proof (rule option_eqI)
    fix r
    show "ubpf_safe_find_region_by_id vm' rid = Some r \<longleftrightarrow> ubpf_safe_find_region_by_id vm rid = Some r"
      unfolding find_region_iff [OF ok] find_region_iff [OF assms(1)]
      using u(1,3) that by (auto simp: vm'_def nth_list_update split: if_splits) metis
  qed
qed

lemma create_regions_ok: "ubpf_create target calloc_ok = Some vm \<Longrightarrow> regions_ok vm"
  by (auto simp: ubpf_create_def regions_ok_def unused_region_def split: if_splits)

text \<open>A state in which the first slot of the stack holds a spilled pointer to \<^const>\<open>safe_demo_region\<close>.\<close>

definition spill_state :: safe_state where
  "spill_state = (let s = safe_init_state safe_demo_vm demo_args (\<lambda>_. 0) safe_demo_mem in
     s\<lparr>core := set_reg 2 0x8000 (set_reg 1 0x5000 (core s)),
       safe_tags := (safe_tags s)(1 := safe_tags s 10, 2 := ubpf_safe_pointer_tag 7 UBPF_SAFE_REGION_READ 0x8000 8)\<rparr>)"

definition spill_inst :: ebpf_inst where
  "spill_inst = \<lparr>opcode = EBPF_OP_STXDW, dst = 1, src = 2, offset = 0, imm = 0\<rparr>"

definition reload_inst :: "uint4_t \<Rightarrow> ebpf_inst" where
  "reload_inst r = \<lparr>opcode = EBPF_OP_LDXDW, dst = r, src = 1, offset = 0, imm = 0\<rparr>"

lemma spill_state_simps:
  "st_reg (core spill_state) 1 = 0x5000" "st_reg (core spill_state) 2 = 0x8000"
  "safe_tags spill_state 1 = ubpf_safe_pointer_tag UBPF_SAFE_REGION_ID_STACK all_permissions 0x5000 0x1000"
  "safe_tags spill_state 2 = ubpf_safe_pointer_tag 7 UBPF_SAFE_REGION_READ 0x8000 8"
  by (simp_all add: spill_state_def safe_init_state_def safe_init_tags_def init_state_def set_reg_def demo_args_def Let_def)

lemma spill_state_ok:
  "safe_env_ok safe_demo_vm demo_args (window 0x5000 0x6000) safe_demo_mem"
  "safe_ok safe_demo_vm demo_args (window 0x5000 0x6000) safe_demo_mem spill_state"
proof -
  have "dom safe_demo_mem = window 0x5000 0x6000 \<union> window 0x8000 0x8008"
    by (auto simp: safe_demo_mem_def split: if_splits)
  then show env: "safe_env_ok safe_demo_vm demo_args (window 0x5000 0x6000) safe_demo_mem"
    by (auto simp: safe_env_ok_def granted_def safe_demo_vm_def demo_vm_def ubpf_create_def demo_args_def safe_demo_region_def
        UBPF_SAFE_REGION_READ_def UBPF_SAFE_REGION_WRITE_def helpers_confined_def call_external_def split: if_splits)
  have "tag_ok safe_demo_vm demo_args (ubpf_safe_pointer_tag 7 UBPF_SAFE_REGION_READ 0x8000 8)"
    by (simp add: tag_ok_def ubpf_safe_pointer_tag_def safe_demo_vm_def safe_demo_region_def)
  with safe_init_ok [OF env, of "\<lambda>_. 0"]
  show "safe_ok safe_demo_vm demo_args (window 0x5000 0x6000) safe_demo_mem spill_state"
    by (simp add: spill_state_def Let_def safe_ok_def tags_ok_def)
qed

lemma spill_access:
  "ubpf_safe_compute_access (safe_tags spill_state 1) 0x5000 0 8 Safe_store UBPF_SAFE_REGION_WRITE = Inr 0x5000"
  by (simp add: compute_access_iff spill_state_simps ubpf_safe_pointer_tag_def all_permissions_def
      UBPF_SAFE_REGION_READ_def UBPF_SAFE_REGION_WRITE_def UBPF_SAFE_REGION_ATOMIC_def)

lemma spill_works: "\<exists>s1. SAFE_STORE safe_demo_vm demo_args 8 (st_reg (core spill_state) 2) True spill_inst spill_state = Inr s1"
proof -
  have "safe_good (safe_ok safe_demo_vm demo_args (window 0x5000 0x6000) safe_demo_mem)
      (SAFE_STORE safe_demo_vm demo_args 8 (st_reg (core spill_state) 2) True spill_inst spill_state)"
    using SAFE_STORE_good [OF spill_state_ok, of 8] by simp
  then show ?thesis using spill_access
    by (auto simp: SAFE_STORE_def spill_inst_def spill_state_simps Let_def split: option.splits if_splits)
qed

lemmas spill_simps = spill_inst_def reload_inst_def spill_state_simps slot_offset_def demo_args_def
  ubpf_safe_is_stack_pointer_def ubpf_safe_pointer_tag_def all_permissions_def UBPF_SAFE_REGION_READ_def
  UBPF_SAFE_REGION_WRITE_def UBPF_SAFE_REGION_ATOMIC_def

text \<open>The operations that only take scalars.\<close>

definition scalar_ops :: "uint8_t set" where
  "scalar_ops = {EBPF_ALU_OP_NEG, EBPF_ALU_OP_MUL, EBPF_ALU_OP_DIV, EBPF_ALU_OP_OR, EBPF_ALU_OP_AND,
     EBPF_ALU_OP_LSH, EBPF_ALU_OP_RSH, EBPF_ALU_OP_MOD, EBPF_ALU_OP_XOR, EBPF_ALU_OP_ARSH, EBPF_ALU_OP_END}"

lemma plain_store_works: "\<exists>t. SAFE_STORE safe_demo_vm demo_args 8 0 False spill_inst spill_state = Inr t"
proof -
  have "safe_good (safe_ok safe_demo_vm demo_args (window 0x5000 0x6000) safe_demo_mem)
      (SAFE_STORE safe_demo_vm demo_args 8 0 False spill_inst spill_state)"
    using SAFE_STORE_good [OF spill_state_ok, of 8] by simp
  then show ?thesis using spill_access
    by (auto simp: SAFE_STORE_def spill_inst_def spill_state_simps Let_def split: option.splits if_splits)
qed

definition demo_region :: ubpf_safe_region where
  "demo_region = \<lparr>new_region_id = 7, new_region_base = 0x8000, new_region_size = 8,
     new_region_kind = UBPF_SAFE_REGION_POINTER, new_region_permissions = 1\<rparr>"

lemma find_slot_keeps: "find_slot rs k rid (Some j) \<noteq> None"
  by (induction rs arbitrary: k) simp_all

lemma demo_region_registers: "\<exists>vm'. ubpf_register_safe_region_impl demo_vm (Some demo_region) = (0, vm')"
proof -
  have "safe_regions demo_vm = unused_region # replicate (UBPF_MAX_SAFE_REGIONS - 1) unused_region"
    by (simp add: demo_vm_def ubpf_create_def UBPF_MAX_SAFE_REGIONS_def replicate_Suc [symmetric] del: replicate_Suc)
  moreover obtain i where "find_slot (replicate (UBPF_MAX_SAFE_REGIONS - 1) unused_region) 1 7 (Some 0) = Some i"
    using find_slot_keeps [of "replicate (UBPF_MAX_SAFE_REGIONS - 1) unused_region" 1 7 0] by blast
  ultimately show ?thesis
    by (simp add: ubpf_register_safe_region_impl_def demo_region_def unused_region_def UBPF_SAFE_REGION_ID_INPUT_def
        UBPF_SAFE_REGION_ID_STACK_def UBPF_SAFE_REGION_PERMISSIONS_MASK_def UBPF_SAFE_REGION_READ_def
        UBPF_SAFE_REGION_WRITE_def UBPF_SAFE_REGION_ATOMIC_def)
qed

section \<open>Properties\<close>



text \<open>
  C19. Stale tags do not survive. A store through a stack pointer that is not itself a spill clears
  the tag of every slot it touches, even with one byte, and leaves every other slot as it was.
\<close>

theorem overlapping_store_clears_tags:
  assumes "safe_ok vm args R m s" and "ubpf_safe_is_stack_pointer (safe_tags s (dst inst)) args" and "0 < n" and "n \<le> 8"
    and "SAFE_STORE vm args n v keep inst s = Inr t"
    and "\<not> spills args keep n (st_reg (core s) (dst inst) + scast (offset inst))" and "i < length (safe_spill_slots s)"
  defines "pos \<equiv> unat (slot_offset args (st_reg (core s) (dst inst) + scast (offset inst)))"
  shows "safe_spill_slots t ! i =
    (if pos < 8 * i + 8 \<and> 8 * i < pos + n then (safe_spill_slots s ! i)\<lparr>spill_valid := False\<rparr> else safe_spill_slots s ! i)"
  unfolding pos_def by (rule store_clears_slots [OF assms(1-7)])

theorem overlapping_store_clears_tags_witness:
  "\<exists>t. SAFE_STORE safe_demo_vm demo_args 8 0 False spill_inst spill_state = Inr t \<and>
     \<not> spill_valid (safe_spill_slots t ! 0)"
proof -
  obtain t where t: "SAFE_STORE safe_demo_vm demo_args 8 0 False spill_inst spill_state = Inr t"
    using plain_store_works by blast
  have s: "ubpf_safe_is_stack_pointer (safe_tags spill_state (dst spill_inst)) demo_args"
    by (simp add: spill_inst_def spill_state_simps ubpf_safe_is_stack_pointer_def ubpf_safe_pointer_tag_def demo_args_def)
  have n: "\<not> spills demo_args False 8 (st_reg (core spill_state) (dst spill_inst) + scast (offset spill_inst))"
    "0 < length (safe_spill_slots spill_state)"
    by (simp_all add: spills_def spill_state_def safe_init_state_def Let_def)
  from overlapping_store_clears_tags [OF spill_state_ok(2) s _ _ t n] show ?thesis
    using t by (auto simp: spill_inst_def spill_state_simps slot_offset_def demo_args_def)
qed

text \<open>
  C20. No pointer is forged by arithmetic. If an instruction leaves a pointer or a handle in its
  destination, then it is a 64-bit instruction, and either a plain move of the source register, or
  an addition or subtraction that moves one pointer by a scalar: the tag is that pointer's own,
  and the new value stays within its window (within 32767 bytes of it, for the stack).
\<close>

theorem pointer_arithmetic_sound:
  assumes "ubpf_safe_apply_alu inst d s r = Inr tag" and "tag_kind tag \<noteq> UBPF_SAFE_VALUE_SCALAR"
  shows "opcode inst AND EBPF_CLS_MASK \<noteq> EBPF_CLS_ALU \<and>
    (let op = opcode inst AND EBPF_ALU_OP_MASK; reg = (opcode inst AND EBPF_SRC_REG = EBPF_SRC_REG) in
     op = EBPF_ALU_OP_MOV \<and> reg \<and> offset inst = 0 \<and> tag = s \<or>
     op \<in> {EBPF_ALU_OP_ADD, EBPF_ALU_OP_SUB} \<and> tag_kind tag = UBPF_SAFE_VALUE_POINTER \<and> r \<in> pointer_values tag \<and>
       (tag = d \<and> (reg \<longrightarrow> tag_kind s = UBPF_SAFE_VALUE_SCALAR) \<or>
        op = EBPF_ALU_OP_ADD \<and> reg \<and> tag = s \<and> tag_kind d = UBPF_SAFE_VALUE_SCALAR))"
  using assms
  by (auto simp: ubpf_safe_apply_alu_def Let_def pointer_offset_iff ubpf_safe_scalar_tag_def split: if_splits)

theorem pointer_arithmetic_sound_witness:
  "ubpf_safe_apply_alu \<lparr>opcode = EBPF_OP_ADD64_IMM, dst = 1, src = 0, offset = 0, imm = 8\<rparr>
     (ubpf_safe_pointer_tag 7 1 0x8000 8) ubpf_safe_scalar_tag 0x8008 = Inr (ubpf_safe_pointer_tag 7 1 0x8000 8) \<and>
   0x8008 \<in> pointer_values (ubpf_safe_pointer_tag 7 1 0x8000 8)"
proof -
  have a: "ubpf_safe_apply_alu \<lparr>opcode = EBPF_OP_ADD64_IMM, dst = 1, src = 0, offset = 0, imm = 8\<rparr>
      (ubpf_safe_pointer_tag 7 1 0x8000 8) ubpf_safe_scalar_tag 0x8008 = Inr (ubpf_safe_pointer_tag 7 1 0x8000 8)"
    by code_simp
  from pointer_arithmetic_sound [OF a] show ?thesis using a
    by (simp add: ubpf_safe_pointer_tag_def opcode_vals Let_def)
qed

text \<open>
  C21. Misuse of pointers and handles is an error. For 64-bit arithmetic: adding two values neither
  of which is a scalar, subtracting a pointer or a handle from a scalar, subtracting pointers of
  different regions, and any multiplication, division, logical, shift, negation or byte-swap
  operation on a pointer or a handle are all rejected.
\<close>

theorem pointer_misuse_rejected:
  assumes "opcode inst AND EBPF_CLS_MASK = EBPF_CLS_ALU64"
  defines "op \<equiv> opcode inst AND EBPF_ALU_OP_MASK" and "reg \<equiv> opcode inst AND EBPF_SRC_REG = EBPF_SRC_REG"
  assumes "op = EBPF_ALU_OP_ADD \<and> reg \<and> tag_kind d \<noteq> UBPF_SAFE_VALUE_SCALAR \<and> tag_kind s \<noteq> UBPF_SAFE_VALUE_SCALAR \<or>
    op = EBPF_ALU_OP_SUB \<and> reg \<and> tag_kind d = UBPF_SAFE_VALUE_SCALAR \<and> tag_kind s \<noteq> UBPF_SAFE_VALUE_SCALAR \<or>
    op = EBPF_ALU_OP_SUB \<and> reg \<and> tag_kind d \<noteq> UBPF_SAFE_VALUE_SCALAR \<and> tag_kind s \<noteq> UBPF_SAFE_VALUE_SCALAR \<and>
      tag_region_id d \<noteq> tag_region_id s \<or>
    op \<in> scalar_ops \<and>
      (tag_kind d \<noteq> UBPF_SAFE_VALUE_SCALAR \<or> reg \<and> tag_kind s \<noteq> UBPF_SAFE_VALUE_SCALAR)"
  shows "\<exists>e. ubpf_safe_apply_alu inst d s r = Inl e"
proof -
  have cls: "EBPF_CLS_ALU64 \<noteq> EBPF_CLS_ALU" by (simp add: opcode_vals)
  note apply_alu = ubpf_safe_apply_alu_def [of inst d s r, unfolded Let_def assms(1), folded op_def reg_def, simplified cls simp_thms if_False]
  from assms(4) consider (add) "op = EBPF_ALU_OP_ADD" "reg" "tag_kind d \<noteq> UBPF_SAFE_VALUE_SCALAR" "tag_kind s \<noteq> UBPF_SAFE_VALUE_SCALAR"
    | (sub) "op = EBPF_ALU_OP_SUB" "reg" "tag_kind s \<noteq> UBPF_SAFE_VALUE_SCALAR"
        "tag_kind d = UBPF_SAFE_VALUE_SCALAR \<or> tag_region_id d \<noteq> tag_region_id s"
    | (other) "op \<in> scalar_ops" "tag_kind d \<noteq> UBPF_SAFE_VALUE_SCALAR \<or> reg \<and> tag_kind s \<noteq> UBPF_SAFE_VALUE_SCALAR"
    unfolding scalar_ops_def by blast
  then show ?thesis
  proof cases
    case other
    then have "op \<noteq> EBPF_ALU_OP_MOV" "op \<noteq> EBPF_ALU_OP_ADD" "op \<noteq> EBPF_ALU_OP_SUB"
      by (auto simp: scalar_ops_def opcode_vals)
    with other show ?thesis unfolding apply_alu scalar_ops_def by simp
  qed (unfold apply_alu, auto simp: opcode_vals)
qed

theorem pointer_misuse_rejected_witness:
  "\<exists>e. ubpf_safe_apply_alu \<lparr>opcode = EBPF_OP_ADD64_REG, dst = 1, src = 2, offset = 0, imm = 0\<rparr>
     (ubpf_safe_pointer_tag 7 1 0x8000 8) (ubpf_safe_pointer_tag 7 1 0x8000 8) 0x10000 = Inl e"
  using pointer_misuse_rejected [of "\<lparr>opcode = EBPF_OP_ADD64_REG, dst = 1, src = 2, offset = 0, imm = 0\<rparr>"
    "ubpf_safe_pointer_tag 7 1 0x8000 8" "ubpf_safe_pointer_tag 7 1 0x8000 8" "0x10000"]
  by (simp add: opcode_vals ubpf_safe_pointer_tag_def)

text \<open>
  C22. The table of regions works as a map from identifiers. On a table whose regions are valid and
  have distinct identifiers (a fresh machine's is), registering a region keeps it so; the new
  region is found under its identifier with its bounds, kind and permissions, replacing an older
  one of the same identifier, and every other identifier is looked up as before.
\<close>

theorem register_region_lookup:
  assumes "regions_ok vm" and "ubpf_register_safe_region_impl vm (Some r) = (0, vm')"
  shows "regions_ok vm' \<and> ubpf_safe_find_region_by_id vm' rid =
    (if rid = new_region_id r
     then Some \<lparr>region_in_use = True, region_id = rid, region_base = new_region_base r,
       region_end = new_region_base r + new_region_size r, region_kind = new_region_kind r,
       region_permissions = new_region_permissions r\<rparr>
     else ubpf_safe_find_region_by_id vm rid)"
proof -
  let ?new = "\<lparr>region_in_use = True, region_id = new_region_id r, region_base = new_region_base r,
    region_end = new_region_base r + new_region_size r, region_kind = new_region_kind r,
    region_permissions = new_region_permissions r\<rparr>"
  from assms(2) obtain i where i: "find_slot (safe_regions vm) 0 (new_region_id r) None = Some i"
    and vm': "vm' = vm\<lparr>safe_regions := (safe_regions vm)[i := ?new]\<rparr>"
    and valid: "new_region_id r \<noteq> UBPF_SAFE_REGION_ID_INPUT" "new_region_id r \<noteq> UBPF_SAFE_REGION_ID_STACK"
      "new_region_size r \<noteq> 0" "new_region_base r \<noteq> 0"
      "new_region_permissions r AND NOT UBPF_SAFE_REGION_PERMISSIONS_MASK = 0"
      "\<not> new_region_base r + new_region_size r < new_region_base r"
    by (auto simp: ubpf_register_safe_region_impl_def Let_def split: if_splits option.splits)
  have "new_region_base r < new_region_base r + new_region_size r" using valid(3,6) by (auto simp: not_less less_le)
  with valid have "region_ok ?new" by (simp add: region_ok_def)
  with region_update_ok [OF assms(1), of ?new i] i show ?thesis by (auto simp: vm')
qed

theorem register_region_lookup_witness:
  "\<exists>vm'. ubpf_register_safe_region_impl demo_vm (Some demo_region) = (0, vm') \<and> regions_ok vm' \<and>
     ubpf_safe_find_region_by_id vm' 7 = Some \<lparr>region_in_use = True, region_id = 7, region_base = 0x8000,
       region_end = 0x8008, region_kind = UBPF_SAFE_REGION_POINTER, region_permissions = 1\<rparr>"
proof -
  have ok: "regions_ok demo_vm" by (simp add: demo_vm_def regions_ok_def ubpf_create_def unused_region_def)
  obtain vm' where r: "ubpf_register_safe_region_impl demo_vm (Some demo_region) = (0, vm')"
    using demo_region_registers by blast
  from register_region_lookup [OF ok r, of 7] r show ?thesis by (simp add: demo_region_def)
qed

text \<open>
  C23. The profile is fixed once code is loaded: after a successful \<^verbatim>\<open>ubpf_load\<close>, selecting a
  profile fails and changes nothing.
\<close>

theorem profile_fixed_after_load:
  assumes "ubpf_load env vm code = (Inr (), vm')"
  shows "ubpf_set_execution_profile_impl vm' profile = (- 1, vm')"
  using ubpf_load_result(4) [OF assms] by (auto simp: ubpf_set_execution_profile_impl_def)

theorem profile_fixed_after_load_witness:
  "\<exists>vm'. ubpf_load demo_env safe_demo_vm demo_code = (Inr (), vm') \<and>
     ubpf_set_execution_profile_impl vm' UBPF_EXECUTION_PROFILE_LEGACY = (- 1, vm')"
proof -
  obtain vm' where l: "ubpf_load demo_env safe_demo_vm demo_code = (Inr (), vm')" using safe_demo_loads by blast
  with profile_fixed_after_load [OF l] show ?thesis by blast
qed

text \<open>
  C24. One reload loses the tag. Loading a spilled pointer into the register that addressed the slot
  succeeds and yields the pointer's value, but as a scalar, although no write has touched the slot.
\<close>

theorem reload_into_base_loses_tag:
  "\<exists>s1 s2. SAFE_STORE safe_demo_vm demo_args 8 0x8000 True spill_inst spill_state = Inr s1 \<and>
     SAFE_LOAD safe_demo_vm demo_args 8 False (reload_inst 1) s1 = Inr s2 \<and>
     st_reg (core s2) 1 = 0x8000 \<and> safe_tags s2 1 = ubpf_safe_scalar_tag"
proof -
  obtain s1 where s1: "SAFE_STORE safe_demo_vm demo_args 8 (st_reg (core spill_state) (src spill_inst)) True spill_inst spill_state = Inr s1"
    using spill_works by (auto simp: spill_inst_def)
  have "\<exists>s2. SAFE_LOAD safe_demo_vm demo_args 8 False (reload_inst 1) s1 = Inr s2 \<and>
      st_reg (core s2) (dst (reload_inst 1)) = st_reg (core spill_state) (src spill_inst) \<and>
      safe_tags s2 (dst (reload_inst 1)) =
        (if dst (reload_inst 1) = src (reload_inst 1) then ubpf_safe_scalar_tag else safe_tags spill_state (src spill_inst))"
    by (rule spill_reload_ok [OF spill_state_ok _ _ _ s1]) (simp_all add: spill_simps)
  with s1 show ?thesis by (auto simp: spill_inst_def reload_inst_def spill_state_simps)
qed

end
