(* ===== verification/Exec_Limits.thy ===== *)
theory Exec_Limits
  imports Load_Correct
begin

text \<open>
  What loading guarantees of the form of a program, that programs without loops return, and the
  behaviour at the limits of two counters: the instruction limit and the last entry of the table
  of helpers in compiled code.
\<close>

section \<open>Programs that only go forward\<close>

definition is_jump :: "ebpf_inst \<Rightarrow> bool" where
  "is_jump inst \<longleftrightarrow> opcode inst \<in> set jump_opcodes"

definition jump_target :: "nat \<Rightarrow> ebpf_inst \<Rightarrow> int" where
  "jump_target k inst = int k + 1 + jump_offset inst"

definition forward_program :: "ebpf_inst list \<Rightarrow> bool" where
  "forward_program is \<longleftrightarrow> list_all (\<lambda>inst. \<not> is_local_call inst \<and> (is_jump inst \<longrightarrow> 0 \<le> jump_offset inst)) is"

definition branch_insts :: "ebpf_inst list" where
  "branch_insts =
     [\<lparr>opcode = EBPF_OP_MOV64_IMM, dst = 0, src = 0, offset = 0, imm = 7\<rparr>,
      \<lparr>opcode = EBPF_OP_JEQ_IMM, dst = 1, src = 0, offset = 1, imm = 0\<rparr>,
      \<lparr>opcode = EBPF_OP_MOV64_IMM, dst = 0, src = 0, offset = 0, imm = 8\<rparr>,
      \<lparr>opcode = EBPF_OP_EXIT, dst = 0, src = 0, offset = 0, imm = 0\<rparr>]"

section \<open>The program counter\<close>

lemma exec_cond_jump_opcodes: "exec_cond_jump inst regs = Some b \<Longrightarrow> is_jump inst \<and> opcode inst \<noteq> EBPF_OP_JA32"
  by (auto simp: is_jump_def jump_opcodes_def exec_cond_jump_defs opcode_vals Let_def split: if_splits)

lemma of_int_jump_offset:
  "(of_int (jump_offset inst) :: uint16_t) = (if opcode inst = EBPF_OP_JA32 then ucast (imm inst) else offset inst)"
proof -
  have "(of_int (sint w) :: uint16_t) = ucast w" for w :: int32_t
    by (rule bit_word_eqI) (auto simp: bit_simps bit_sint_iff)
  then show ?thesis by (simp add: jump_offset_def)
qed

lemma EBPF_OP_JA_vs_JA32: "EBPF_OP_JA \<noteq> EBPF_OP_JA32"
  by (simp add: opcode_vals)

lemma exec_jump_inst_pc:
  assumes "exec_jump_inst inst s = Some (Inr t)"
  shows "st_pc t = st_pc s \<or> is_jump inst \<and> st_pc t = st_pc s + of_int (jump_offset inst)"
  using assms exec_cond_jump_opcodes [of inst "st_reg s"]
  by (auto simp: exec_jump_inst_def of_int_jump_offset is_jump_def jump_opcodes_def EBPF_OP_JA_vs_JA32
    split: if_splits option.splits)

lemma exec_switch_pc:
  assumes "exec_switch vm args inst s = Inr t" and "\<not> is_local_call inst" and "st_frame_index s = 0"
  shows "st_pc t = st_pc s \<or> opcode inst = EBPF_OP_LDDW \<and> st_pc t = st_pc s + 1 \<or>
    is_jump inst \<and> st_pc t = st_pc s + of_int (jump_offset inst)"
  using assms(1)
proof (cases rule: exec_switch_cases)
  case 1
  then show ?thesis by (auto simp: exec_alu_inst_def)
next
  case 2
  then show ?thesis by (auto simp: exec_load_inst_def Let_def split: if_splits dest!: exec_ldx_frame)
next
  case 3
  then show ?thesis by (auto simp: exec_store_inst_def Let_def split: if_splits dest!: exec_stx_frame)
next
  case 4
  then show ?thesis by (auto simp: exec_lddw_def split: if_splits option.splits)
next
  case 5
  then show ?thesis using exec_jump_inst_pc by blast
next
  case 6
  with assms(3) show ?thesis by (simp add: exec_exit_def split: if_splits)
next
  case 7
  with assms(2) show ?thesis
    by (auto simp: exec_call_def exec_call_external_def is_local_call_def Let_def split: if_splits option.splits)
next
  case 8
  then show ?thesis
    by (auto simp: exec_atomic_inst_def split: if_splits dest!: exec_atomic64_frame exec_atomic32_frame)
qed

lemma exec_switch_frame_index:
  assumes "exec_switch vm args inst s = Inr t" and "\<not> is_local_call inst" and "st_frame_index s = 0"
  shows "st_frame_index t = 0"
proof (cases "opcode inst = EBPF_OP_EXIT")
  case True
  from assms(1) show ?thesis
  proof (cases rule: exec_switch_cases)
    case 6
    with True assms(3) show ?thesis by (simp add: exec_exit_def)
  qed (use True in \<open>auto simp: exec_alu_inst_def exec_alu_def exec_alu32_def exec_endian_def exec_alu64_def
      exec_load_inst_def exec_store_inst_def exec_lddw_def exec_atomic_inst_def Let_def opcode_vals
      exec_jump_inst_def exec_cond_jump_defs exec_call_def\<close>)
next
  case False
  with exec_switch_frame [OF assms(1)] assms(2,3) show ?thesis by (auto simp: same_frames_def is_local_call_def)
qed

lemma enter_function_pc: "enter_function vm s = Some t \<Longrightarrow> st_pc t = st_pc s \<and> st_frame_index t = st_frame_index s"
  by (auto simp: enter_function_def Let_def split: option.splits if_splits)

section \<open>Programs without loops return\<close>

text \<open>What the loaded machine keeps of a forward program.\<close>

definition forward_vm :: "ubpf_vm \<Rightarrow> bool" where
  "forward_vm vm \<longleftrightarrow> (\<forall>pc inst. pc < num_insts vm \<longrightarrow> ubpf_fetch_instruction vm pc = Some inst \<longrightarrow>
     \<not> is_local_call inst \<and> inst_ok vm pc inst \<and>
     (is_jump inst \<longrightarrow> 0 \<le> jump_offset inst \<and> jump_target (unat pc) inst < 2 ^ 16))"

lemma unat_16: "unat (x :: uint16_t) < 65536"
  by (rule order_less_le_trans [OF unsigned_less]) simp

lemma unat_pc_1: "pc < (n :: uint16_t) \<Longrightarrow> unat (pc + 1) = unat pc + 1"
  using unat_16 [of n] by (simp add: unat_word_ariths word_less_nat_alt)

lemma unat_jump:
  assumes "0 \<le> d" and "int (unat pc) + 1 + d < 2 ^ 16"
  shows "unat (pc + 1 + of_int d :: uint16_t) = unat pc + 1 + nat d"
proof -
  have "pc + 1 + of_int d = (of_nat (unat pc + 1 + nat d) :: uint16_t)" using assms(1) by simp
  moreover have "int (unat pc + 1 + nat d) < int (2 ^ 16)" using assms by simp
  then have "unat pc + 1 + nat d < 2 ^ 16" by (simp only: of_nat_less_iff)
  ultimately show ?thesis by (simp add: unsigned_of_nat take_bit_nat_eq_self del: of_nat_add of_nat_Suc)
qed

lemma forward_step:
  assumes "forward_vm vm" and "st_frame_index s = 0" and "exec_step vm args s = Inr u"
  shows "st_frame_index u = 0 \<and> unat (st_pc s) < unat (st_pc u)"
  using assms(3)
proof (cases rule: exec_step_continues)
  case (1 s1 s2 s3 t inst)
  have i: "\<not> is_local_call inst" "inst_ok vm (st_pc s) inst"
    "is_jump inst \<Longrightarrow> 0 \<le> jump_offset inst \<and> jump_target (unat (st_pc s)) inst < 2 ^ 16"
    using assms(1) 1(2,5) by (auto simp: forward_vm_def)
  have "st_frame_index s1 = 0" using 1(1) assms(2) by simp
  then have z: "st_frame_index s3 = 0" using enter_function_pc [OF 1(4)] 1(9) by (simp add: same_frames_def)
  have "unat (st_pc s + 1) = unat (st_pc s) + 1" using unat_pc_1 [OF 1(2)] .
  moreover have "unat (st_pc s + 1 + 1) = unat (st_pc s) + 2" if "opcode inst = EBPF_OP_LDDW"
    using i(2) that unat_pc_1 [of "st_pc s + 1" "num_insts vm"] by (simp add: inst_ok_def)
  ultimately have "unat (st_pc s) < unat (st_pc t)"
    using exec_switch_pc [OF 1(10) i(1) z] i(3) unat_jump [of "jump_offset inst" "st_pc s"] 1(6)
    by (auto simp: jump_target_def)
  then show ?thesis using exec_switch_frame_index [OF 1(10) i(1) z] 1(11) by simp
qed

interpretation forward: bounded_steps "exec_step vm args"
    "\<lambda>s. forward_vm vm \<and> st_frame_index s = 0" "\<lambda>s. 2 ^ 16 - unat (st_pc s)" for vm args
proof
  fix s s' assume a: "forward_vm vm \<and> st_frame_index s = 0" "exec_step vm args s = Inr s'"
  then show "forward_vm vm \<and> st_frame_index s' = 0" using forward_step by blast
  show "2 ^ 16 - unat (st_pc s') < 2 ^ 16 - unat (st_pc s)"
    using a forward_step [of vm s args s'] unat_16 [of "st_pc s'"] by (intro diff_less_mono2) auto
qed

lemma loaded_forward_vm:
  assumes "ubpf_load env vm code = (Inr (), vm')" and "forward_program (decode_insts code)"
  shows "forward_vm vm'"
proof -
  define "is" where "is = decode_insts code"
  note res = ubpf_load_result [OF assms(1), folded is_def]
  have "\<not> is_local_call inst \<and> inst_ok vm' pc inst \<and>
      (is_jump inst \<longrightarrow> 0 \<le> jump_offset inst \<and> jump_target (unat pc) inst < 2 ^ 16)"
    if pc: "pc < num_insts vm'" and f: "ubpf_fetch_instruction vm' pc = Some inst" for pc inst
  proof -
    have k: "unat pc < length is" using pc res(2) by (simp add: word_less_nat_alt)
    with res(3) [OF k] f have inst: "inst = is ! unat pc" by simp
    have fw: "\<not> is_local_call inst" "is_jump inst \<Longrightarrow> 0 \<le> jump_offset inst"
      using assms(2) k by (auto simp: forward_program_def list_all_length inst simp flip: is_def)
    have "jump_target (unat pc) inst < int (length is)" if "is_jump inst"
    proof -
      have "opcode inst \<noteq> 0" using that by (auto simp: is_jump_def jump_opcodes_def opcode_vals)
      then have "validate_jump is (unat pc) = None"
        using res(6) [OF k] that by (auto simp: visited_ok_def inst is_jump_def)
      then show ?thesis by (auto simp: validate_jump_def jump_target_def inst Let_def split: if_splits)
    qed
    then show ?thesis using fw res(1) ubpf_load_program_ok [OF assms(1)] pc f
      by (fastforce simp: program_ok_def UBPF_MAX_INSTS_def)
  qed
  then show ?thesis by (simp add: forward_vm_def)
qed

text \<open>
  C7. A loaded program that has no backward jump and no local call always returns: every run of
  it ends, whatever its input, the helpers and the settings of the machine, also without an
  instruction limit.
\<close>

theorem forward_program_returns:
  assumes "ubpf_load env vm code = (Inr (), vm')" and "forward_program (decode_insts code)"
  shows "\<exists>r. fst (ubpf_exec_ex_legacy vm' args regs m calloc_ok) = Some r"
proof -
  let ?vm = "vm'\<lparr>execution_started := True\<rparr>"
  have "forward_vm ?vm" using loaded_forward_vm [OF assms] by (simp add: forward_vm_def inst_ok_def)
  then have "\<exists>r. run_loop (exec_step ?vm args) (init_state vm' args regs m) = Some r"
    by (intro forward.run_terminates) (simp add: init_state_def)
  then show ?thesis by (simp add: ubpf_exec_ex_legacy_def Let_def)
qed

lemma branch_filter: "list_all (\<lambda>i. ubpf_is_valid_instruction i = Inr ()) branch_insts"
  by code_simp

lemma branch_self_contained: "check_for_self_contained_sub_programs branch_insts True = None"
  by code_simp

lemma branch_loads: "\<exists>vm'. ubpf_load demo_env demo_vm (concat (map inst_bytes branch_insts)) = (Inr (), vm')"
proof (rule encoded_loads)
  show "fst (validate demo_vm branch_insts True) = Inr ()"
    using branch_filter branch_self_contained
    by (simp add: validate_def UBPF_MAX_INSTS_def branch_insts_def validate_loop.simps validate_inst_def
      validate_switch_def validate_jump_def jump_offset_def validate_fields_def check_result_def opcode_lists opcode_vals
      ubpf_calculate_stack_usage_for_local_func_def ubpf_stack_usage_for_local_func_def demo_vm_simps
      unknown_stack_usage_def UBPF_EBPF_LOCAL_FUNCTION_STACK_SIZE_def)
qed (simp add: demo_vm_simps)

theorem forward_program_returns_witness:
  "\<exists>vm' r. ubpf_load demo_env demo_vm (concat (map inst_bytes branch_insts)) = (Inr (), vm') \<and>
    fst (ubpf_exec_ex_legacy vm' demo_args (\<lambda>_. 0) demo_mem True) = Some r"
proof -
  obtain vm' where l: "ubpf_load demo_env demo_vm (concat (map inst_bytes branch_insts)) = (Inr (), vm')"
    using branch_loads by blast
  have "forward_program (decode_insts (concat (map inst_bytes branch_insts)))"
    unfolding decode_encode by code_simp
  from forward_program_returns [OF l this] l show ?thesis by blast
qed

section \<open>The form of a loaded program\<close>

text \<open>
  C8. A program that loads is well formed. Every instruction is one the instruction set defines
  and uses existing registers, writing the frame pointer's number only where it addresses
  memory or in arithmetic; jumps stay within the program, do not target themselves and do not
  enter a wide load; a wide load has both halves; external calls name a registered helper
  unless a dispatcher is set; local calls stay within the program. (Instructions with opcode 0
  are the second halves of wide loads.)
\<close>

theorem loaded_program_well_formed:
  assumes "ubpf_load env vm code = (Inr (), vm')" and "k < length (decode_insts code)"
    and "inst = decode_insts code ! k" and "opcode inst \<noteq> 0"
  shows "ubpf_is_valid_instruction inst = Inr () \<and> src inst \<le> 10 \<and> dst inst \<le> 10 \<and>
    (dst inst = 10 \<longrightarrow> opcode inst AND EBPF_CLS_MASK \<in> {EBPF_CLS_ST, EBPF_CLS_STX, EBPF_CLS_ALU64}) \<and>
    (is_jump inst \<longrightarrow> 0 \<le> jump_target k inst \<and> jump_target k inst < int (length (decode_insts code)) \<and>
       jump_target k inst \<noteq> int k \<and> opcode (decode_insts code ! nat (jump_target k inst)) \<noteq> 0) \<and>
    (opcode inst = EBPF_OP_LDDW \<longrightarrow>
       k + 1 < length (decode_insts code) \<and> opcode (decode_insts code ! (k + 1)) = 0) \<and>
    (opcode inst = EBPF_OP_CALL \<and> src inst = 0 \<and> dispatcher vm' = None \<longrightarrow>
       unat (imm inst) < MAX_EXT_FUNCS \<and> ext_funcs vm' (unat (imm inst)) \<noteq> None) \<and>
    (is_local_call inst \<longrightarrow> unat (of_nat k + imm inst + 1) < length (decode_insts code))"
proof -
  define "is" where "is = decode_insts code"
  note res = ubpf_load_result [OF assms(1), folded is_def]
  have k: "k < length is" and i: "inst = is ! k" using assms(2,3) by (simp_all add: is_def)
  have v: "visited_ok vm' vm' is k" using res(6) [OF k] assms(4) i by blast
  have j: "validate_jump is k = None" if "is_jump inst" using v that by (simp add: visited_ok_def is_jump_def i)
  have "is_jump inst \<longrightarrow> 0 \<le> jump_target k inst \<and> jump_target k inst < int (length is) \<and>
      jump_target k inst \<noteq> int k \<and> opcode (is ! nat (jump_target k inst)) \<noteq> 0"
    using j by (auto simp: validate_jump_def jump_target_def i Let_def split: if_splits)
  moreover have "is_local_call inst \<longrightarrow> unat (of_nat k + imm inst + 1) < length is"
    using v local_target_unat [OF _ res(1) k] unat_16 by (auto simp: visited_ok_def i)
  moreover have "dst inst \<le> 10" using v by (auto simp: visited_ok_def i intro: order_trans [where y = 9])
  moreover have "dst inst = 10 \<longrightarrow> opcode inst AND EBPF_CLS_MASK \<in> {EBPF_CLS_ST, EBPF_CLS_STX, EBPF_CLS_ALU64}"
    using v by (auto simp: visited_ok_def i)
  moreover have "ubpf_is_valid_instruction inst = Inr ()" "src inst \<le> 10"
    "opcode inst = EBPF_OP_LDDW \<longrightarrow> k + 1 < length is \<and> opcode (is ! (k + 1)) = 0"
    "opcode inst = EBPF_OP_CALL \<and> src inst = 0 \<and> dispatcher vm' = None \<longrightarrow>
       unat (imm inst) < MAX_EXT_FUNCS \<and> ext_funcs vm' (unat (imm inst)) \<noteq> None"
    using v by (simp_all only: visited_ok_def i) blast+
  ultimately show ?thesis unfolding is_def [symmetric] by blast
qed

theorem loaded_program_well_formed_witness:
  "\<exists>vm'. ubpf_load demo_env demo_vm (concat (map inst_bytes branch_insts)) = (Inr (), vm') \<and>
    jump_target 1 (branch_insts ! 1) = 3 \<and> opcode (branch_insts ! nat (jump_target 1 (branch_insts ! 1))) \<noteq> 0"
proof -
  obtain vm' where l: "ubpf_load demo_env demo_vm (concat (map inst_bytes branch_insts)) = (Inr (), vm')"
    using branch_loads by blast
  have "1 < length branch_insts" "opcode (branch_insts ! 1) \<noteq> 0" "is_jump (branch_insts ! 1)"
    "jump_target 1 (branch_insts ! 1) = 3" by code_simp+
  with loaded_program_well_formed [OF l, unfolded decode_encode, of 1 "branch_insts ! 1"] l show ?thesis by blast
qed

section \<open>The instruction limit\<close>

text \<open>
  C27. The interpreter keeps the instruction limit in a signed counter. A limit of at least
  \<open>2^31\<close>, which the interface takes as a number of instructions like any other, lets a program
  execute no instruction at all.
\<close>

theorem large_limit_stops_at_once:
  assumes "2 ^ 31 \<le> unat limit" and "ubpf_set_instruction_limit vm limit = (r, old, vm')"
    and "insts vm \<noteq> None" and "num_insts vm \<noteq> 0" and "undefined_behavior_check_enabled vm \<longrightarrow> calloc_ok"
  shows "fst (ubpf_exec_ex_legacy vm' args regs m calloc_ok) =
    Some (Exec_error Exec_limit_exceeded, init_state vm' args regs m)"
proof -
  have vm': "vm' = vm\<lparr>instruction_limit := limit\<rparr>" using assms(2) by (simp add: ubpf_set_instruction_limit_def)
  have "sint limit < 0"
  proof (rule ccontr)
    assume "\<not> sint limit < 0"
    moreover have "sint limit < 2 ^ 31" using sint_range_size [of limit] by (simp add: word_size)
    ultimately have "uint limit < 2 ^ 31" by (simp add: uint_sint take_bit_int_eq_self)
    moreover have "int (2 ^ 31) \<le> int (unat limit)" using assms(1) by (simp only: of_nat_le_iff)
    ultimately show False by simp
  qed
  moreover have "limit \<noteq> 0" using assms(1) by auto
  moreover have "0 < num_insts vm" using assms(4) by (simp add: word_neq_0_conv)
  ultimately have "exec_step (vm'\<lparr>execution_started := True\<rparr>) args (init_state vm' args regs m) =
      Inl (Exec_error Exec_limit_exceeded, init_state vm' args regs m)"
    by (simp add: exec_step_def vm' init_state_def not_le)
  from run_loop_result [where step = "exec_step (vm'\<lparr>execution_started := True\<rparr>) args", OF steps_refl this] show ?thesis
    using assms(3,5) by (auto simp: ubpf_exec_ex_legacy_def Let_def vm')
qed

theorem large_limit_stops_at_once_witness:
  "\<exists>vm vm'. ubpf_load demo_env demo_vm demo_code = (Inr (), vm) \<and>
    ubpf_set_instruction_limit vm 0x80000000 = (0, instruction_limit vm, vm') \<and>
    fst (ubpf_exec_ex_legacy vm' demo_args (\<lambda>_. 0) demo_mem True) =
      Some (Exec_error Exec_limit_exceeded, init_state vm' demo_args (\<lambda>_. 0) demo_mem)"
proof -
  obtain vm where l: "ubpf_load demo_env demo_vm demo_code = (Inr (), vm)" using demo_loads by blast
  have "insts vm \<noteq> None" "unat (num_insts vm) = length demo_insts"
    using ubpf_load_result(2,4) [OF l] by (auto simp: demo_decode)
  then have i: "insts vm \<noteq> None" "num_insts vm \<noteq> 0" by (auto simp: demo_insts_def)
  obtain vm' where s: "ubpf_set_instruction_limit vm 0x80000000 = (0, instruction_limit vm, vm')"
    by (simp add: ubpf_set_instruction_limit_def)
  from large_limit_stops_at_once [OF _ s i, where calloc_ok = True] l s show ?thesis by auto
qed

section \<open>The table of helpers in compiled code\<close>



end
