(* ===== verification/Elf_Loader.thy ===== *)
theory Elf_Loader
  imports Load_Correct
begin

text \<open>
  The ELF loader, \<^verbatim>\<open>vm/ubpf_loader.c\<close>: it checks the header of a relocatable object, reads
  its sections and function symbols, copies the functions one after the other into a program
  image, applies the relocations to the image and hands it to \<^verbatim>\<open>ubpf_load\<close>.

  The file is a list of bytes. A pointer into it is its offset, a 64-bit number, and every
  field the code reads through a pointer is read separately: a read outside the file is the
  error \<open>Elf_crash\<close>, and so is every other undefined behaviour of the loader (an
  uninitialised or missing entry of \<^verbatim>\<open>sections\<close>, a write past the end of an allocation).
\<close>

unbundle bit_operations_syntax

section \<open>Errors and reads\<close>

text \<open>One constructor per message, \<open>Elf_crash\<close>, and the errors of \<^verbatim>\<open>ubpf_load\<close>.\<close>

datatype elf_error =
    Elf_crash
  | No_elf_header
  | Wrong_magic
  | Wrong_class
  | Wrong_byte_order
  | Wrong_version
  | Wrong_os_abi
  | Wrong_type
  | Wrong_machine uint16_t
  | Too_many_sections
  | Bad_section_header
  | Bad_section
  | No_string_table
  | No_symbol_table
  | No_memory_for_functions
  | Bad_function_name
  | Bad_function_section
  | No_memory_for_function
  | Main_not_found
  | No_memory_for_program
  | Bad_symtab_index
  | Bad_symbol_index
  | Bad_symbol_name
  | Relocation_outside_functions
  | Bad_64_64_offset
  | Bad_64_64_section_index
  | Bad_64_64_section
  | Bad_64_64_size
  | Bad_64_64_instruction
  | No_data_relocation_function
  | Unknown_call_target
  | Unknown_helper string
  | Elf_load load_error

type_synonym 'a elf = "elf_error + 'a"

definition elf_bind :: "'a elf \<Rightarrow> ('a \<Rightarrow> 'b elf) \<Rightarrow> 'b elf" where
  "elf_bind r f = (case r of Inl e \<Rightarrow> Inl e | Inr x \<Rightarrow> f x)"

definition elf_read :: "nat \<Rightarrow> uint8_t list \<Rightarrow> uint64_t \<Rightarrow> 'a::len word elf" where
  "elf_read n mem p =
     (if unat p + n \<le> length mem then Inr (ucast (le_value (take n (drop (unat p) mem))))
      else Inl Elf_crash)"

definition elf_write :: "uint8_t list \<Rightarrow> uint64_t \<Rightarrow> uint8_t list \<Rightarrow> uint8_t list elf" where
  "elf_write mem p bs =
     (if unat p + length bs \<le> length mem then Inr (patch_bytes mem (unat p) bs) else Inl Elf_crash)"

definition elf_nth :: "'a list \<Rightarrow> nat \<Rightarrow> 'a elf" where
  "elf_nth xs i = (if i < length xs then Inr (xs ! i) else Inl Elf_crash)"

text \<open>The C string at the head of the bytes, and its comparison with a string.\<close>

fun c_string :: "uint8_t list \<Rightarrow> string elf" where
  "c_string [] = Inl Elf_crash"
| "c_string (b # bs) = (if b = 0 then Inr [] else elf_bind (c_string bs) (\<lambda>s. Inr (char_of (unat b) # s)))"

fun c_streq :: "uint8_t list \<Rightarrow> string \<Rightarrow> bool elf" where
  "c_streq [] cs = Inl Elf_crash"
| "c_streq (b # bs) [] = Inr (b = 0)"
| "c_streq (b # bs) (c # cs) = (if unat b = of_char c then c_streq bs cs else Inr False)"

section \<open>The structures of the file\<close>

text \<open>The fields the loader reads of \<^verbatim>\<open>Elf64_Ehdr\<close>, \<^verbatim>\<open>Elf64_Shdr\<close>, \<^verbatim>\<open>Elf64_Sym\<close> and \<^verbatim>\<open>Elf64_Rel\<close>.\<close>

definition e_ident :: "uint8_t list \<Rightarrow> uint64_t \<Rightarrow> uint8_t elf" where "e_ident elf i = elf_read 1 elf i"
definition e_type :: "uint8_t list \<Rightarrow> uint16_t elf" where "e_type elf = elf_read 2 elf 16"
definition e_machine :: "uint8_t list \<Rightarrow> uint16_t elf" where "e_machine elf = elf_read 2 elf 18"
definition e_shoff :: "uint8_t list \<Rightarrow> uint64_t elf" where "e_shoff elf = elf_read 8 elf 40"
definition e_shentsize :: "uint8_t list \<Rightarrow> uint16_t elf" where "e_shentsize elf = elf_read 2 elf 58"
definition e_shnum :: "uint8_t list \<Rightarrow> uint16_t elf" where "e_shnum elf = elf_read 2 elf 60"
abbreviation (input) sizeof_Elf64_Ehdr :: uint64_t where "sizeof_Elf64_Ehdr \<equiv> 64"

definition sh_name :: "uint8_t list \<Rightarrow> uint64_t \<Rightarrow> uint32_t elf" where "sh_name elf p = elf_read 4 elf p"
definition sh_type :: "uint8_t list \<Rightarrow> uint64_t \<Rightarrow> uint32_t elf" where "sh_type elf p = elf_read 4 elf (p + 4)"
definition sh_flags :: "uint8_t list \<Rightarrow> uint64_t \<Rightarrow> uint64_t elf" where "sh_flags elf p = elf_read 8 elf (p + 8)"
definition sh_offset :: "uint8_t list \<Rightarrow> uint64_t \<Rightarrow> uint64_t elf" where "sh_offset elf p = elf_read 8 elf (p + 24)"
definition sh_size :: "uint8_t list \<Rightarrow> uint64_t \<Rightarrow> uint64_t elf" where "sh_size elf p = elf_read 8 elf (p + 32)"
definition sh_link :: "uint8_t list \<Rightarrow> uint64_t \<Rightarrow> uint32_t elf" where "sh_link elf p = elf_read 4 elf (p + 40)"
definition sh_info :: "uint8_t list \<Rightarrow> uint64_t \<Rightarrow> uint32_t elf" where "sh_info elf p = elf_read 4 elf (p + 44)"

definition st_name :: "uint8_t list \<Rightarrow> uint64_t \<Rightarrow> uint32_t elf" where "st_name elf p = elf_read 4 elf p"
definition st_info :: "uint8_t list \<Rightarrow> uint64_t \<Rightarrow> uint8_t elf" where "st_info elf p = elf_read 1 elf (p + 4)"
definition st_shndx :: "uint8_t list \<Rightarrow> uint64_t \<Rightarrow> uint16_t elf" where "st_shndx elf p = elf_read 2 elf (p + 6)"
definition st_value :: "uint8_t list \<Rightarrow> uint64_t \<Rightarrow> uint64_t elf" where "st_value elf p = elf_read 8 elf (p + 8)"
definition st_size :: "uint8_t list \<Rightarrow> uint64_t \<Rightarrow> uint64_t elf" where "st_size elf p = elf_read 8 elf (p + 16)"
abbreviation (input) sizeof_Elf64_Sym :: uint64_t where "sizeof_Elf64_Sym \<equiv> 24"

definition r_offset :: "uint8_t list \<Rightarrow> uint64_t \<Rightarrow> uint64_t elf" where "r_offset elf p = elf_read 8 elf p"
definition r_info :: "uint8_t list \<Rightarrow> uint64_t \<Rightarrow> uint64_t elf" where "r_info elf p = elf_read 8 elf (p + 8)"
abbreviation (input) sizeof_Elf64_Rel :: uint64_t where "sizeof_Elf64_Rel \<equiv> 16"

definition ELF64_ST_TYPE :: "uint8_t \<Rightarrow> uint8_t" where "ELF64_ST_TYPE i = i AND 0xf"
definition ELF64_R_SYM :: "uint64_t \<Rightarrow> uint64_t" where "ELF64_R_SYM i = drop_bit 32 i"
definition ELF64_R_TYPE :: "uint64_t \<Rightarrow> uint64_t" where "ELF64_R_TYPE i = i AND 0xffffffff"

text \<open>The constants of the format.\<close>

abbreviation (input) EI_CLASS :: uint64_t where "EI_CLASS \<equiv> 4"
abbreviation (input) EI_DATA :: uint64_t where "EI_DATA \<equiv> 5"
abbreviation (input) EI_VERSION :: uint64_t where "EI_VERSION \<equiv> 6"
abbreviation (input) EI_OSABI :: uint64_t where "EI_OSABI \<equiv> 7"
abbreviation (input) ELFCLASS64 :: uint8_t where "ELFCLASS64 \<equiv> 2"
abbreviation (input) ELFDATA2LSB :: uint8_t where "ELFDATA2LSB \<equiv> 1"
abbreviation (input) ELFOSABI_NONE :: uint8_t where "ELFOSABI_NONE \<equiv> 0"
abbreviation (input) ELFMAG :: "uint8_t list" where "ELFMAG \<equiv> [0x7f, 0x45, 0x4c, 0x46]"
abbreviation (input) ET_REL :: uint16_t where "ET_REL \<equiv> 1"
abbreviation (input) EM_NONE :: uint16_t where "EM_NONE \<equiv> 0"
abbreviation (input) EM_BPF :: uint16_t where "EM_BPF \<equiv> 247"
abbreviation (input) MAX_SECTIONS :: uint16_t where "MAX_SECTIONS \<equiv> 32"
abbreviation (input) SHT_PROGBITS :: uint32_t where "SHT_PROGBITS \<equiv> 1"
abbreviation (input) SHT_SYMTAB :: uint32_t where "SHT_SYMTAB \<equiv> 2"
abbreviation (input) SHT_STRTAB :: uint32_t where "SHT_STRTAB \<equiv> 3"
abbreviation (input) SHT_REL :: uint32_t where "SHT_REL \<equiv> 9"
abbreviation (input) SHF_WRITE :: uint64_t where "SHF_WRITE \<equiv> 1"
abbreviation (input) SHF_ALLOC :: uint64_t where "SHF_ALLOC \<equiv> 2"
abbreviation (input) SHF_EXECINSTR :: uint64_t where "SHF_EXECINSTR \<equiv> 4"
abbreviation (input) STT_FUNC :: uint8_t where "STT_FUNC \<equiv> 2"
abbreviation (input) R_BPF_64_64 :: uint64_t where "R_BPF_64_64 \<equiv> 1"
abbreviation (input) R_BPF_64_32_LEGACY :: uint64_t where "R_BPF_64_32_LEGACY \<equiv> 2"
abbreviation (input) R_BPF_64_32 :: uint64_t where "R_BPF_64_32 \<equiv> 10"

section \<open>Header and sections\<close>

text \<open>\<^verbatim>\<open>bounds_check\<close> of the loader: the offset, when the range lies within the file.\<close>

definition elf_bounds_check :: "uint8_t list \<Rightarrow> uint64_t \<Rightarrow> uint64_t \<Rightarrow> uint64_t option" where
  "elf_bounds_check elf off sz =
     (if off + sz > of_nat (length elf) \<or> off + sz < off then None else Some off)"

definition guard :: "bool \<Rightarrow> elf_error \<Rightarrow> unit elf" where
  "guard ok e = (if ok then Inr () else Inl e)"

definition check_ident :: "uint8_t list \<Rightarrow> unit elf" where
  "check_ident elf =
     elf_bind (guard (take 4 elf = ELFMAG) Wrong_magic) (\<lambda>_.
     elf_bind (e_ident elf EI_CLASS) (\<lambda>c. elf_bind (guard (c = ELFCLASS64) Wrong_class) (\<lambda>_.
     elf_bind (e_ident elf EI_DATA) (\<lambda>d. elf_bind (guard (d = ELFDATA2LSB) Wrong_byte_order) (\<lambda>_.
     elf_bind (e_ident elf EI_VERSION) (\<lambda>v. elf_bind (guard (v = 1) Wrong_version) (\<lambda>_.
     elf_bind (e_ident elf EI_OSABI) (\<lambda>o'. guard (o' = ELFOSABI_NONE) Wrong_os_abi))))))))"

text \<open>The checks on the header; the result is the number of sections.\<close>

definition check_header :: "uint8_t list \<Rightarrow> uint16_t elf" where
  "check_header elf =
     elf_bind (guard (elf_bounds_check elf 0 sizeof_Elf64_Ehdr \<noteq> None) No_elf_header) (\<lambda>_.
     elf_bind (check_ident elf) (\<lambda>_.
     elf_bind (e_type elf) (\<lambda>t. elf_bind (guard (t = ET_REL) Wrong_type) (\<lambda>_.
     elf_bind (e_machine elf) (\<lambda>m.
     elf_bind (guard (m = EM_NONE \<or> m = EM_BPF) (Wrong_machine m)) (\<lambda>_.
     elf_bind (e_shnum elf) (\<lambda>n.
     elf_bind (guard (n \<le> MAX_SECTIONS) Too_many_sections) (\<lambda>_. Inr n))))))))"

record elf_section =
  shdr :: uint64_t
  sec_data :: uint64_t
  sec_size :: uint64_t

text \<open>The loop over the section headers; the size it checks is that of a pointer.\<close>

fun parse_sections :: "uint8_t list \<Rightarrow> uint16_t \<Rightarrow> uint64_t \<Rightarrow> nat \<Rightarrow> elf_section list elf" where
  "parse_sections elf shentsize current 0 = Inr []"
| "parse_sections elf shentsize current (Suc n) =
     (case elf_bounds_check elf current 8 of
        None \<Rightarrow> Inl Bad_section_header
      | Some hdr \<Rightarrow>
          elf_bind (sh_offset elf hdr) (\<lambda>off. elf_bind (sh_size elf hdr) (\<lambda>sz.
            case elf_bounds_check elf off sz of
              None \<Rightarrow> Inl Bad_section
            | Some dat \<Rightarrow>
                elf_bind (parse_sections elf shentsize (current + ucast shentsize) n) (\<lambda>ss.
                Inr (\<lparr>shdr = hdr, sec_data = dat, sec_size = sz\<rparr> # ss)))))"

text \<open>The first section of a type: the string table and the symbol table are found this way.\<close>

fun find_section :: "uint8_t list \<Rightarrow> uint32_t \<Rightarrow> elf_section list \<Rightarrow> elf_section option elf" where
  "find_section elf ty [] = Inr None"
| "find_section elf ty (s # ss) =
     elf_bind (sh_type elf (shdr s)) (\<lambda>t. if t = ty then Inr (Some s) else find_section elf ty ss)"

definition require :: "elf_error \<Rightarrow> 'a option \<Rightarrow> 'a elf" where
  "require e x = (case x of None \<Rightarrow> Inl e | Some v \<Rightarrow> Inr v)"

definition section_has :: "uint8_t list \<Rightarrow> uint64_t \<Rightarrow> uint32_t \<Rightarrow> uint64_t \<Rightarrow> bool elf" where
  "section_has elf hdr ty flags =
     elf_bind (sh_type elf hdr) (\<lambda>t. if t \<noteq> ty then Inr False
       else elf_bind (sh_flags elf hdr) (\<lambda>f. Inr (f = flags)))"

section \<open>Functions\<close>

record relocated_function =
  rf_name :: uint64_t
  rf_shdr :: uint64_t
  native_data :: uint64_t
  linked_data :: uint64_t
  native_section_start :: uint64_t
  rf_size :: uint64_t
  landed :: uint64_t

text \<open>
  The array \<^verbatim>\<open>relocated_functions\<close>: its entry 0, which is the main function, and the entries
  from 1 on; and \<^verbatim>\<open>linked_program_size\<close>, a 32-bit sum.
\<close>

record function_table =
  main_fn :: "relocated_function option"
  other_fns :: "relocated_function list"
  linked_program_size :: uint32_t

text \<open>
  What the C library answers: the array for so many functions, the record of the function with
  the given symbol index, the image of the given size.
\<close>

record elf_env =
  env_functions_ok :: "uint64_t \<Rightarrow> bool"
  env_function_ok :: "nat \<Rightarrow> bool"
  env_image_ok :: "uint32_t \<Rightarrow> bool"
  env_load :: load_env

definition is_main ::
  "uint8_t list \<Rightarrow> string option \<Rightarrow> uint64_t \<Rightarrow> relocated_function \<Rightarrow> bool elf" where
  "is_main elf main_function_name strtab rf =
     (case main_function_name of
        Some nm \<Rightarrow> c_streq (drop (unat (rf_name rf)) elf) nm
      | None \<Rightarrow>
          elf_bind (sh_name elf (rf_shdr rf)) (\<lambda>n.
          elf_bind (c_streq (drop (unat (strtab + ucast n)) elf) ''.text'') (\<lambda>b.
          Inr (b \<and> native_section_start rf = 0))))"

text \<open>
  One function symbol, up to the record that describes it. The message of the check for an
  executable section formats the number \<^verbatim>\<open>st_name\<close> as a string, so that reaching it is
  undefined.
\<close>

definition read_function ::
  "uint8_t list \<Rightarrow> elf_section list \<Rightarrow> elf_section \<Rightarrow> uint64_t \<Rightarrow> relocated_function elf" where
  "read_function elf sections strtab symb =
     elf_bind (st_name elf symb) (\<lambda>name.
     elf_bind (guard (name < ucast (sec_size strtab)) Bad_function_name) (\<lambda>_.
     elf_bind (st_shndx elf symb) (\<lambda>shndx.
     elf_bind (guard (unat shndx \<le> length sections) Bad_function_section) (\<lambda>_.
     elf_bind (elf_nth sections (unat shndx)) (\<lambda>s.
     elf_bind (section_has elf (shdr s) SHT_PROGBITS (SHF_ALLOC OR SHF_EXECINSTR)) (\<lambda>ok.
     elf_bind (guard ok Elf_crash) (\<lambda>_.
     elf_bind (st_value elf symb) (\<lambda>v.
     elf_bind (st_size elf symb) (\<lambda>sz.
     Inr \<lparr>rf_name = sec_data strtab + ucast name, rf_shdr = shdr s, native_data = sec_data s + v,
       linked_data = 0, native_section_start = v, rf_size = sz, landed = 0\<rparr>)))))))))"

text \<open>Entering it into the array: a main function replaces entry 0, any other is appended.\<close>

definition enter_table ::
  "elf_env \<Rightarrow> uint64_t \<Rightarrow> nat \<Rightarrow> bool \<Rightarrow> relocated_function \<Rightarrow> function_table \<Rightarrow> function_table elf" where
  "enter_table env total_symbols i main rf tab =
     (let tab = tab\<lparr>linked_program_size := linked_program_size tab + ucast (rf_size rf)\<rparr> in
      if main then elf_bind (guard (env_function_ok env i) No_memory_for_function)
        (\<lambda>_. Inr (tab\<lparr>main_fn := Some rf\<rparr>))
      else elf_bind (guard (Suc (length (other_fns tab)) < unat total_symbols) Elf_crash) (\<lambda>_.
        elf_bind (guard (env_function_ok env i) No_memory_for_function) (\<lambda>_.
        Inr (tab\<lparr>other_fns := other_fns tab @ [rf]\<rparr>))))"

definition collect_symbol ::
  "elf_env \<Rightarrow> uint8_t list \<Rightarrow> string option \<Rightarrow> elf_section list \<Rightarrow> elf_section \<Rightarrow> uint64_t \<Rightarrow> uint64_t \<Rightarrow>
   nat \<Rightarrow> function_table \<Rightarrow> function_table elf" where
  "collect_symbol env elf main_function_name sections strtab symbols total_symbols i tab =
     (let symb = symbols + of_nat i * sizeof_Elf64_Sym in
      elf_bind (st_info elf symb) (\<lambda>info.
      if ELF64_ST_TYPE info \<noteq> STT_FUNC then Inr tab
      else elf_bind (read_function elf sections strtab symb) (\<lambda>rf.
        elf_bind (is_main elf main_function_name (sec_data strtab) rf) (\<lambda>m.
        enter_table env total_symbols i m rf tab))))"

fun elf_fold :: "('a \<Rightarrow> 's \<Rightarrow> 's elf) \<Rightarrow> 'a list \<Rightarrow> 's \<Rightarrow> 's elf" where
  "elf_fold f [] s = Inr s"
| "elf_fold f (x # xs) s = elf_bind (f x s) (elf_fold f xs)"

text \<open>
  All symbols, and the check that there is a main function; reading entry 0 of an array of
  none is undefined. The sizes of the two tables are kept in variables of type \<^verbatim>\<open>int\<close>.
\<close>

definition total_symbols :: "elf_section \<Rightarrow> uint64_t" where
  "total_symbols symtab = scast (ucast (sec_size symtab) :: int32_t) div sizeof_Elf64_Sym"

definition collect_functions ::
  "elf_env \<Rightarrow> uint8_t list \<Rightarrow> string option \<Rightarrow> elf_section list \<Rightarrow> elf_section \<Rightarrow> elf_section \<Rightarrow>
   (relocated_function list \<times> uint32_t) elf" where
  "collect_functions env elf main_function_name sections strtab symtab =
     (let n = total_symbols symtab in
      elf_bind (guard (env_functions_ok env n) No_memory_for_functions) (\<lambda>_.
      elf_bind (elf_fold (collect_symbol env elf main_function_name sections strtab (sec_data symtab) n)
        [0..<unat n] \<lparr>main_fn = None, other_fns = [], linked_program_size = 0\<rparr>) (\<lambda>tab.
      elf_bind (guard (n \<noteq> 0) Elf_crash) (\<lambda>_.
      elf_bind (require Main_not_found (main_fn tab)) (\<lambda>m.
      Inr (m # other_fns tab, linked_program_size tab))))))"

text \<open>Copying the functions into the image.\<close>

definition elf_memcpy ::
  "uint8_t list \<Rightarrow> uint64_t \<Rightarrow> uint8_t list \<Rightarrow> uint64_t \<Rightarrow> uint64_t \<Rightarrow> uint8_t list elf" where
  "elf_memcpy to_mem to from_mem from n =
     (if n = 0 then Inr to_mem
      else if unat from + unat n \<le> length from_mem
      then elf_write to_mem to (take (unat n) (drop (unat from) from_mem)) else Inl Elf_crash)"

fun copy_functions ::
  "uint8_t list \<Rightarrow> relocated_function list \<Rightarrow> uint64_t \<Rightarrow> uint8_t list \<Rightarrow>
   (relocated_function list \<times> uint8_t list) elf" where
  "copy_functions elf [] spot img = Inr ([], img)"
| "copy_functions elf (rf # rfs) spot img =
     elf_bind (elf_memcpy img spot elf (native_data rf) (rf_size rf)) (\<lambda>img.
     elf_bind (copy_functions elf rfs (spot + rf_size rf) img) (\<lambda>(rfs, img).
     Inr (rf\<lparr>landed := spot div 8, linked_data := spot\<rparr> # rfs, img)))"

section \<open>Relocations\<close>

text \<open>The function of the section that covers the offset, and the one that starts there.\<close>

definition source_function :: "relocated_function list \<Rightarrow> uint64_t \<Rightarrow> uint64_t \<Rightarrow> relocated_function option" where
  "source_function fns hdr off =
     find (\<lambda>rf. hdr = rf_shdr rf \<and> off \<ge> native_section_start rf \<and> off < native_section_start rf + rf_size rf) fns"

definition target_function :: "relocated_function list \<Rightarrow> uint64_t \<Rightarrow> uint32_t \<Rightarrow> relocated_function option" where
  "target_function fns hdr off = find (\<lambda>rf. hdr = rf_shdr rf \<and> ucast off = native_section_start rf) fns"

definition relocate_64_64 ::
  "ubpf_vm \<Rightarrow> uint8_t list \<Rightarrow> elf_section list \<Rightarrow> elf_section \<Rightarrow> uint64_t \<Rightarrow> uint64_t \<Rightarrow> uint64_t \<Rightarrow>
   uint64_t \<Rightarrow> uint8_t list \<Rightarrow> uint8_t list elf" where
  "relocate_64_64 vm elf sections applies_to off symb sym_name inst img =
     elf_bind (guard (off + 8 \<le> sec_size applies_to) Bad_64_64_offset) (\<lambda>_.
     elf_bind (st_shndx elf symb) (\<lambda>shndx.
     elf_bind (guard (unat shndx \<le> length sections) Bad_64_64_section_index) (\<lambda>_.
     elf_bind (elf_nth sections (unat shndx)) (\<lambda>mp.
     elf_bind (section_has elf (shdr mp) SHT_PROGBITS (SHF_ALLOC OR SHF_WRITE)) (\<lambda>ok.
     elf_bind (guard ok Bad_64_64_section) (\<lambda>_.
     elf_bind (st_size elf symb) (\<lambda>sz. elf_bind (st_value elf symb) (\<lambda>v.
     elf_bind (guard (sz + v \<le> sec_size mp) Bad_64_64_size) (\<lambda>_.
     elf_bind (elf_read 1 img inst) (\<lambda>opc.
     elf_bind (guard (opc = EBPF_OP_LDDW) Bad_64_64_instruction) (\<lambda>_.
     elf_bind (guard (off + 16 \<le> sec_size applies_to) Bad_64_64_offset) (\<lambda>_.
     elf_bind (require No_data_relocation_function (data_relocation_function vm)) (\<lambda>f.
     elf_bind (c_string (drop (unat sym_name) elf)) (\<lambda>name.
     let v = f (data_relocation_user_data vm)
       (take (unat (sec_size mp)) (drop (unat (sec_data mp)) elf)) name v sz in
     elf_bind (elf_write img (inst + 4) (le_bytes 4 v)) (\<lambda>img.
     elf_write img (inst + 12) (le_bytes 4 (drop_bit 32 v)))))))))))))))))"

definition relocate_call ::
  "uint8_t list \<Rightarrow> elf_section list \<Rightarrow> relocated_function list \<Rightarrow> uint64_t \<Rightarrow> uint64_t \<Rightarrow> uint64_t \<Rightarrow>
   uint8_t list \<Rightarrow> uint8_t list elf" where
  "relocate_call elf sections fns symb inst index img =
     elf_bind (st_shndx elf symb) (\<lambda>shndx.
     elf_bind (elf_read 4 img (inst + 4)) (\<lambda>im :: int32_t.
     elf_bind (elf_nth sections (unat shndx)) (\<lambda>s.
     elf_bind (require Unknown_call_target (target_function fns (shdr s) ((im + 1) * 8))) (\<lambda>target.
     elf_write img (inst + 4) (le_bytes 4 (landed target - (index + 1)))))))"

definition relocate_helper ::
  "ubpf_vm \<Rightarrow> uint8_t list \<Rightarrow> uint64_t \<Rightarrow> uint64_t \<Rightarrow> uint8_t list \<Rightarrow> uint8_t list elf" where
  "relocate_helper vm elf sym_name inst img =
     elf_bind (c_string (drop (unat sym_name) elf)) (\<lambda>name.
     let im = ubpf_lookup_registered_function vm name in
     elf_bind (guard (im \<noteq> - 1) (Unknown_helper name)) (\<lambda>_.
     elf_write img (inst + 4) (le_bytes 4 (ucast im))))"

text \<open>
  One relocation, the \<open>j\<close>-th of its section. The two types for calls ask for the \<^verbatim>\<open>src\<close> field
  of the instruction, the high half of its second byte; an unknown type is skipped.
\<close>

definition process_relocation ::
  "ubpf_vm \<Rightarrow> uint8_t list \<Rightarrow> elf_section list \<Rightarrow> elf_section \<Rightarrow> relocated_function list \<Rightarrow>
   elf_section \<Rightarrow> elf_section \<Rightarrow> elf_section \<Rightarrow> nat \<Rightarrow> uint8_t list \<Rightarrow> uint8_t list elf" where
  "process_relocation vm elf sections strtab fns relo_section applies_to symtab j img =
     (let rel = sec_data relo_section + of_nat j * sizeof_Elf64_Rel in
      elf_bind (r_offset elf rel) (\<lambda>off. elf_bind (r_info elf rel) (\<lambda>info.
      elf_bind (guard (ELF64_R_SYM info < ucast (ucast (sec_size symtab div sizeof_Elf64_Sym) :: uint32_t))
        Bad_symbol_index) (\<lambda>_.
      let symb = sec_data symtab + ELF64_R_SYM info * sizeof_Elf64_Sym in
      elf_bind (st_name elf symb) (\<lambda>name.
      elf_bind (guard (name < ucast (sec_size strtab)) Bad_symbol_name) (\<lambda>_.
      let sym_name = sec_data strtab + ucast name in
      elf_bind (require Relocation_outside_functions (source_function fns (shdr applies_to) off)) (\<lambda>rf.
      let inst = linked_data rf + (off - native_section_start rf);
          index = landed rf + (off - native_section_start rf) div 8 in
      if ELF64_R_TYPE info = R_BPF_64_64
      then relocate_64_64 vm elf sections applies_to off symb sym_name inst img
      else if ELF64_R_TYPE info = R_BPF_64_32_LEGACY \<or> ELF64_R_TYPE info = R_BPF_64_32
      then elf_bind (elf_read 1 img (inst + 1)) (\<lambda>regs :: uint8_t.
        if drop_bit 4 regs = 1 then relocate_call elf sections fns symb inst index img
        else relocate_helper vm elf sym_name inst img)
      else Inr img)))))))"

text \<open>
  One section: those that do not hold relocations, or relocate a section that is not
  executable, are skipped. \<^verbatim>\<open>sh_info\<close> and \<^verbatim>\<open>sh_link\<close> are read into variables of type \<^verbatim>\<open>int\<close>,
  and the latter alone is compared with the number of sections.
\<close>

definition process_section ::
  "ubpf_vm \<Rightarrow> uint8_t list \<Rightarrow> elf_section list \<Rightarrow> elf_section \<Rightarrow> relocated_function list \<Rightarrow>
   elf_section \<Rightarrow> uint8_t list \<Rightarrow> uint8_t list elf" where
  "process_section vm elf sections strtab fns relo_section img =
     elf_bind (sh_type elf (shdr relo_section)) (\<lambda>t. if t \<noteq> SHT_REL then Inr img
     else elf_bind (sh_info elf (shdr relo_section)) (\<lambda>info.
       elf_bind (sh_link elf (shdr relo_section)) (\<lambda>link.
       elf_bind (elf_nth sections (unat info)) (\<lambda>applies_to.
       elf_bind (section_has elf (shdr applies_to) SHT_PROGBITS (SHF_ALLOC OR SHF_EXECINSTR)) (\<lambda>ok.
       if \<not> ok then Inr img
       else elf_bind (guard (sint (link :: int32_t) < int (length sections)) Bad_symtab_index) (\<lambda>_.
         elf_bind (elf_nth sections (unat link)) (\<lambda>symtab.
         elf_fold (process_relocation vm elf sections strtab fns relo_section applies_to symtab)
           [0..<unat (sec_size relo_section div sizeof_Elf64_Rel)] img)))))))"

section \<open>The loader\<close>

text \<open>\<^verbatim>\<open>ubpf_load_elf_ex\<close> up to the call of \<^verbatim>\<open>ubpf_load\<close>: the linked program.\<close>

definition elf_link :: "elf_env \<Rightarrow> ubpf_vm \<Rightarrow> uint8_t list \<Rightarrow> string option \<Rightarrow> uint8_t list elf" where
  "elf_link env vm elf main_function_name =
     elf_bind (check_header elf) (\<lambda>section_count.
     elf_bind (e_shoff elf) (\<lambda>shoff. elf_bind (e_shentsize elf) (\<lambda>shentsize.
     elf_bind (parse_sections elf shentsize shoff (unat section_count)) (\<lambda>sections.
     elf_bind (find_section elf SHT_STRTAB sections) (\<lambda>s.
     elf_bind (require No_string_table s) (\<lambda>strtab.
     elf_bind (find_section elf SHT_SYMTAB sections) (\<lambda>s.
     elf_bind (require No_symbol_table s) (\<lambda>symtab.
     elf_bind (collect_functions env elf main_function_name sections strtab symtab) (\<lambda>(fns, sz).
     elf_bind (guard (env_image_ok env sz) No_memory_for_program) (\<lambda>_.
     elf_bind (copy_functions elf fns 0 (replicate (unat sz) 0)) (\<lambda>(fns, img).
     elf_fold (process_section vm elf sections strtab fns) sections img)))))))))))"

definition ubpf_load_elf_ex ::
  "elf_env \<Rightarrow> ubpf_vm \<Rightarrow> uint8_t list \<Rightarrow> string option \<Rightarrow> unit elf \<times> ubpf_vm" where
  "ubpf_load_elf_ex env vm elf main_function_name =
     (case elf_link env vm elf main_function_name of
        Inl e \<Rightarrow> (Inl e, vm)
      | Inr linked_program \<Rightarrow>
          (case ubpf_load (env_load env) vm linked_program of
             (Inl e, vm) \<Rightarrow> (Inl (Elf_load e), vm)
           | (Inr _, vm) \<Rightarrow> (Inr (), vm)))"

definition ubpf_load_elf :: "elf_env \<Rightarrow> ubpf_vm \<Rightarrow> uint8_t list \<Rightarrow> unit elf \<times> ubpf_vm" where
  "ubpf_load_elf env vm elf = ubpf_load_elf_ex env vm elf None"

end
