(* ===== verification/Elf_Correct.thy ===== *)
theory Elf_Correct
  imports Elf_Loader
begin

text \<open>
  What the ELF loader does: where it puts the functions, which bytes the relocations change, what
  a relocated call reaches, and two inputs on which it leaves its buffers.
\<close>

section \<open>Example files\<close>

text \<open>
  A file with two functions in one section, of which the second, \<open>main\<close>, calls the first; and
  a file that ends with the first eight bytes of its section header.
\<close>

definition demo_ehdr :: "uint8_t list" where
  "demo_ehdr =
     [127, 69, 76, 70, 2, 1, 1] @ replicate 9 0 @ [1, 0, 247, 0, 1] @ replicate 19 0 @ [64] @ replicate
     11 0 @ [64, 0, 0, 0, 0, 0, 64, 0, 4, 0, 0, 0]"

definition demo_shdrs :: "uint8_t list" where
  "demo_shdrs =
     [0, 0, 0, 0, 3] @ replicate 19 0 @ [64, 1] @ replicate 6 0 @ [16] @ replicate 35 0 @ [2] @ replicate
     19 0 @ [80, 1] @ replicate 6 0 @ [72] @ replicate 31 0 @ [1, 0, 0, 0, 1, 0, 0, 0, 6] @ replicate 15
     0 @ [152, 1] @ replicate 6 0 @ [32] @ replicate 35 0 @ [9] @ replicate 19 0 @ [184, 1] @ replicate 6
     0 @ [16] @ replicate 7 0 @ [1, 0, 0, 0, 2] @ replicate 19 0"

definition demo_data :: "uint8_t list" where
  "demo_data =
     [0, 46, 116, 101, 120, 116, 0, 109, 97, 105, 110, 0, 102] @ replicate 27 0 @ [12, 0, 0, 0, 18, 0, 2]
     @ replicate 9 0 @ [16] @ replicate 7 0 @ [7, 0, 0, 0, 18, 0, 2, 0, 16] @ replicate 7 0 @ [16] @
     replicate 7 0 @ [183, 0, 0, 0, 7, 0, 0, 0, 149] @ replicate 7 0 @ [133, 16, 0, 0, 255, 255, 255,
     255, 149] @ replicate 7 0 @ [16] @ replicate 7 0 @ [10, 0, 0, 0, 1, 0, 0, 0]"

definition demo_elf :: "uint8_t list" where "demo_elf = demo_ehdr @ demo_shdrs @ demo_data"

definition short_elf :: "uint8_t list" where
  "short_elf = [0x7f, 0x45, 0x4c, 0x46, 2, 1, 1, 0] @ replicate 8 0 @ [1, 0, 247, 0] @ replicate 20 0 @
     [64, 0, 0, 0, 0, 0, 0, 0] @ replicate 10 0 @ [64, 0, 1, 0, 0, 0] @ replicate 8 0"

definition demo_elf_env :: elf_env where
  "demo_elf_env = \<lparr>env_functions_ok = \<lambda>_. True, env_function_ok = \<lambda>_. True, env_image_ok = \<lambda>_. True,
     env_load = demo_env\<rparr>"

definition demo_target :: relocated_function where
  "demo_target = \<lparr>rf_name = 0, rf_shdr = 64, native_data = 0, linked_data = 40, native_section_start = 16,
     rf_size = 8, landed = 5\<rparr>"

definition demo_caller :: exec_state where
  "demo_caller = \<lparr>st_pc = 3, st_reg = (\<lambda>_. 0), st_frame_index = 0,
     st_frames = [\<lparr>frame_stack_usage = 0, return_address = 0, saved_registers = (0, 0, 0, 0)\<rparr>],
     st_shadow_stack = [], st_shadow_regs = 0, st_limit = 0, st_mem = (\<lambda>_. None), st_debug = []\<rparr>"

section \<open>Taking a successful run apart\<close>

named_theorems elf_inv

lemma elf_bind_Inr [elf_inv]: "elf_bind r f = Inr y \<longleftrightarrow> (\<exists>x. r = Inr x \<and> f x = Inr y)"
  by (cases r) (simp_all add: elf_bind_def)

lemma elf_bind_simps [simp]: "elf_bind (Inr x) f = f x" "elf_bind (Inl e) f = Inl e"
  by (simp_all add: elf_bind_def)

lemma guard_Inr [elf_inv]: "guard b e = Inr u \<longleftrightarrow> b"
  by (simp add: guard_def)

lemma guard_True [simp]: "guard True e = Inr ()"
  by (simp add: guard_def)

lemma require_Inr [elf_inv]: "require e x = Inr v \<longleftrightarrow> x = Some v"
  by (simp add: require_def split: option.split)

lemma elf_nth_Inr [elf_inv]: "elf_nth xs i = Inr x \<longleftrightarrow> i < length xs \<and> x = xs ! i"
  by (auto simp: elf_nth_def)

lemma elf_write_Inr [elf_inv]:
  "elf_write mem p bs = Inr mem' \<longleftrightarrow> unat p + length bs \<le> length mem \<and> mem' = patch_bytes mem (unat p) bs"
  by (auto simp: elf_write_def)

lemma elf_fold_induct [consumes 1, case_names start step]:
  assumes "elf_fold f xs s = Inr s'" and "P s"
    and "\<And>x s s'. x \<in> set xs \<Longrightarrow> P s \<Longrightarrow> f x s = Inr s' \<Longrightarrow> P s'"
  shows "P s'"
  using assms
proof (induction xs arbitrary: s)
  case (Cons x xs)
  from Cons.prems(1) obtain t where "f x s = Inr t" and "elf_fold f xs t = Inr s'"
    by (auto simp: elf_inv)
  with Cons show ?case by (metis list.set_intros)
qed simp

section \<open>The layout of the image\<close>

definition function_bytes :: "uint8_t list \<Rightarrow> relocated_function \<Rightarrow> uint8_t list" where
  "function_bytes elf rf = take (unat (rf_size rf)) (drop (unat (native_data rf)) elf)"

definition linked_code :: "uint8_t list \<Rightarrow> relocated_function list \<Rightarrow> uint8_t list" where
  "linked_code elf fns = concat (map (function_bytes elf) fns)"

text \<open>Where each function lands: behind the functions before it.\<close>

fun placed :: "uint64_t \<Rightarrow> relocated_function list \<Rightarrow> relocated_function list" where
  "placed spot [] = []"
| "placed spot (rf # rfs) = rf\<lparr>landed := spot div 8, linked_data := spot\<rparr> # placed (spot + rf_size rf) rfs"

lemma elf_patch_length: "i + length bs \<le> length xs \<Longrightarrow> length (patch_bytes xs i bs) = length xs"
  by (simp add: patch_bytes_def)

lemma elf_memcpy_Inr:
  assumes "elf_memcpy img spot elf (native_data rf) (rf_size rf) = Inr img'" and "unat spot \<le> length img"
  shows "length (function_bytes elf rf) = unat (rf_size rf)"
    and "unat spot + unat (rf_size rf) \<le> length img"
    and "img' = patch_bytes img (unat spot) (function_bytes elf rf)"
  using assms by (auto simp: elf_memcpy_def function_bytes_def elf_inv patch_bytes_def split: if_splits)

lemma copy_functions_placed:
  assumes "copy_functions elf fns spot img = Inr (fns', img')"
    and "unat spot \<le> length img" and "length img < 2 ^ 64"
  shows "fns' = placed spot fns"
    and "\<exists>r. length img = unat spot + length (linked_code elf fns) + r"
    and "img' = patch_bytes img (unat spot) (linked_code elf fns)"
  using assms
proof (induction fns arbitrary: spot img fns' img')
  case Nil
  { case 1 then show ?case by simp }
  { case 2 then show ?case by (auto simp: linked_code_def le_iff_add) }
  { case 3 then show ?case by (simp add: linked_code_def patch_bytes_def) }
next
  case (Cons rf rfs)
  have *: "fns' = placed spot (rf # rfs) \<and> (\<exists>r. length img = unat spot + length (linked_code elf (rf # rfs)) + r)
      \<and> img' = patch_bytes img (unat spot) (linked_code elf (rf # rfs))"
    if "copy_functions elf (rf # rfs) spot img = Inr (fns', img')"
      and l: "unat spot \<le> length img" "length img < 2 ^ 64" for spot img fns' img'
  proof -
    from that(1) obtain im fs where m: "elf_memcpy img spot elf (native_data rf) (rf_size rf) = Inr im"
      and c: "copy_functions elf rfs (spot + rf_size rf) im = Inr (fs, img')"
      and f: "fns' = rf\<lparr>landed := spot div 8, linked_data := spot\<rparr> # fs"
      by (auto simp: elf_inv)
    note M = elf_memcpy_Inr [OF m l(1)]
    have u: "unat (spot + rf_size rf) = unat spot + unat (rf_size rf)"
      using M(2) l(2) by (intro unat_add_lem [THEN iffD1]) simp
    have li: "length im = length img" using M by (simp add: elf_patch_length)
    note IH = Cons.IH [OF c, unfolded u li, OF M(2) l(2)]
    have "img' = patch_bytes img (unat spot) (function_bytes elf rf @ linked_code elf rfs)"
      using IH(3) M by (simp add: patch_bytes_def min_absorb2 ac_simps)
    moreover have "\<exists>r. length img = unat spot + (unat (rf_size rf) + length (linked_code elf rfs)) + r"
      using IH(2) by (auto simp: add.assoc)
    ultimately show ?thesis using f IH(1) M(1) by (simp add: linked_code_def)
  qed
  { case 1 with * show ?case by blast }
  { case 2 with * show ?case by blast }
  { case 3 with * show ?case by blast }
qed

lemma copy_functions_layout:
  assumes "copy_functions elf fns 0 (replicate n 0) = Inr (fns', img')" and "n < 2 ^ 64"
  shows "fns' = placed 0 fns" and "\<exists>r. img' = linked_code elf fns @ replicate r 0"
  using copy_functions_placed [OF assms(1)] assms(2) by (auto simp: patch_bytes_def)


section \<open>Which functions are linked\<close>

text \<open>The table holds at most one main function, and it is what the test for it accepts.\<close>

definition table_ok :: "(relocated_function \<Rightarrow> bool elf) \<Rightarrow> function_table \<Rightarrow> bool" where
  "table_ok main tab \<longleftrightarrow> (case main_fn tab of None \<Rightarrow> True | Some rf \<Rightarrow> main rf = Inr True) \<and>
     (\<forall>rf \<in> set (other_fns tab). main rf = Inr False)"

lemma enter_table_ok:
  assumes "enter_table env n i m rf tab = Inr tab'" and "table_ok main tab" and "main rf = Inr m"
  shows "table_ok main tab'"
  using assms by (auto simp: enter_table_def table_ok_def Let_def elf_inv split: if_splits)

lemma collect_symbol_ok:
  assumes "collect_symbol env elf nm sections strtab symbols n i tab = Inr tab'"
    and "table_ok (is_main elf nm (sec_data strtab)) tab"
  shows "table_ok (is_main elf nm (sec_data strtab)) tab'"
  using assms by (auto simp: collect_symbol_def Let_def elf_inv split: if_splits dest: enter_table_ok)

lemma collect_functions_main:
  assumes "collect_functions env elf nm sections strtab symtab = Inr (fns, sz)"
  shows "\<exists>m others. fns = m # others \<and> is_main elf nm (sec_data strtab) m = Inr True \<and>
    (\<forall>rf \<in> set others. is_main elf nm (sec_data strtab) rf = Inr False)"
proof -
  let ?main = "is_main elf nm (sec_data strtab)"
  from assms obtain tab where f: "elf_fold (collect_symbol env elf nm sections strtab (sec_data symtab)
      (total_symbols symtab)) [0..<unat (total_symbols symtab)]
      \<lparr>main_fn = None, other_fns = [], linked_program_size = 0\<rparr> = Inr tab"
    and m: "\<exists>m. main_fn tab = Some m \<and> fns = m # other_fns tab"
    by (auto simp: collect_functions_def Let_def elf_inv)
  from f have "table_ok ?main tab"
    by (rule elf_fold_induct) (auto simp: table_ok_def [of _ "\<lparr>main_fn = None, other_fns = [], linked_program_size = 0\<rparr>"]
      intro: collect_symbol_ok)
  with m show ?thesis by (auto simp: table_ok_def)
qed

section \<open>What relocations change\<close>

text \<open>
  The places of the image that a relocation of the file points to: it belongs to a section of
  relocations and lies in a linked function.
\<close>

definition relocation_site ::
  "uint8_t list \<Rightarrow> elf_section list \<Rightarrow> relocated_function list \<Rightarrow> uint64_t \<Rightarrow> bool" where
  "relocation_site elf sections fns p \<longleftrightarrow>
     (\<exists>s \<in> set sections. \<exists>j < unat (sec_size s div 16). \<exists>off. \<exists>rf \<in> set fns.
        sh_type elf (shdr s) = Inr SHT_REL \<and> r_offset elf (sec_data s + of_nat j * 16) = Inr off \<and>
        native_section_start rf \<le> off \<and> off < native_section_start rf + rf_size rf \<and>
        p = linked_data rf + (off - native_section_start rf))"

text \<open>Equal up to the immediate at the site, and at the instruction behind it for a wide load.\<close>

definition same_but_immediates :: "(uint64_t \<Rightarrow> bool) \<Rightarrow> uint8_t list \<Rightarrow> uint8_t list \<Rightarrow> bool" where
  "same_but_immediates site img img' \<longleftrightarrow> length img' = length img \<and>
     (\<forall>k < length img. img' ! k \<noteq> img ! k \<longrightarrow>
        (\<exists>p. site p \<and> (k \<in> {unat (p + 4)..<unat (p + 4) + 4} \<or> k \<in> {unat (p + 12)..<unat (p + 12) + 4})))"

lemma same_but_immediates_refl [simp]: "same_but_immediates site img img"
  by (simp add: same_but_immediates_def)

lemma same_but_immediates_trans [trans]:
  "same_but_immediates site a b \<Longrightarrow> same_but_immediates site b c \<Longrightarrow> same_but_immediates site a c"
  by (simp add: same_but_immediates_def) metis

lemma patch_bytes_nth_outside:
  assumes "i + length bs \<le> length xs" and "k < length xs" and "k \<notin> {i..<i + length bs}"
  shows "patch_bytes xs i bs ! k = xs ! k"
  using assms by (auto simp: patch_bytes_def nth_append)

lemma write_immediate:
  assumes "elf_write img q bs = Inr img'" and "length bs = 4" and "site p" and "q = p + 4 \<or> q = p + 12"
  shows "same_but_immediates site img img'"
proof -
  from assms have w: "unat q + length bs \<le> length img" "img' = patch_bytes img (unat q) bs" by (auto simp: elf_inv)
  have "k \<in> {unat q..<unat q + 4}" if "k < length img" "img' ! k \<noteq> img ! k" for k
    using patch_bytes_nth_outside [OF w(1) that(1)] that(2) w(2) assms(2) by auto
  moreover have "length img' = length img" using w by (simp add: elf_patch_length)
  ultimately show ?thesis using assms(3,4) unfolding same_but_immediates_def by blast
qed

lemma relocate_helper_immediate:
  assumes "relocate_helper vm elf name p img = Inr img'" and "site p"
  shows "same_but_immediates site img img'"
  using assms by (auto simp: relocate_helper_def Let_def elf_bind_Inr intro: write_immediate)

lemma relocate_call_immediate:
  assumes "relocate_call elf sections fns symb p index img = Inr img'" and "site p"
  shows "same_but_immediates site img img'"
  using assms by (auto simp: relocate_call_def elf_bind_Inr intro: write_immediate)

lemma relocate_64_64_immediate:
  assumes "relocate_64_64 vm elf sections applies_to off symb name p img = Inr img'" and "site p"
  shows "same_but_immediates site img img'"
proof -
  from assms(1) obtain v im where "elf_write img (p + 4) (le_bytes 4 v) = Inr im"
    and "elf_write im (p + 12) (le_bytes 4 (drop_bit 32 v)) = Inr img'"
    by (auto simp: relocate_64_64_def Let_def elf_bind_Inr)
  with assms(2) show ?thesis by (blast intro: same_but_immediates_trans write_immediate length_le_bytes)
qed

lemma source_function_Some:
  assumes "source_function fns hdr off = Some rf"
  shows "rf \<in> set fns" and "native_section_start rf \<le> off" and "off < native_section_start rf + rf_size rf"
  using assms by (auto simp: source_function_def find_Some_iff)

lemma process_relocation_immediate:
  assumes p: "process_relocation vm elf sections strtab fns s applies_to symtab j img = Inr img'"
    and s: "s \<in> set sections" "sh_type elf (shdr s) = Inr SHT_REL" "j < unat (sec_size s div 16)"
  shows "same_but_immediates (relocation_site elf sections fns) img img'"
proof -
  from p obtain off rf where o: "r_offset elf (sec_data s + of_nat j * 16) = Inr off"
    and rf: "source_function fns (shdr applies_to) off = Some rf"
    by (auto simp: process_relocation_def Let_def elf_bind_Inr require_Inr)
  have site: "relocation_site elf sections fns (linked_data rf + (off - native_section_start rf))"
    unfolding relocation_site_def using s o source_function_Some [OF rf] by blast
  from p o rf show ?thesis
    by (auto simp: process_relocation_def Let_def elf_bind_Inr require_Inr guard_Inr split: if_splits
      intro: site relocate_64_64_immediate relocate_call_immediate relocate_helper_immediate)
qed

lemma process_section_immediate:
  assumes "process_section vm elf sections strtab fns s img = Inr img'" and "s \<in> set sections"
  shows "same_but_immediates (relocation_site elf sections fns) img img'"
proof (cases "img' = img")
  case False
  with assms(1) obtain applies_to symtab where t: "sh_type elf (shdr s) = Inr SHT_REL"
    and f: "elf_fold (process_relocation vm elf sections strtab fns s applies_to symtab)
      [0..<unat (sec_size s div 16)] img = Inr img'"
    by (auto simp: process_section_def elf_bind_Inr split: if_splits)
  from f show ?thesis
    by (rule elf_fold_induct)
      (auto intro: same_but_immediates_trans process_relocation_immediate [OF _ assms(2) t])
qed simp


text \<open>
  C9. The program the loader hands to \<^verbatim>\<open>ubpf_load\<close> consists of the bytes of the functions of the
  file, the main function first and no other main function among the rest, followed by zero bytes
  up to the size that was allocated. Relocation changes nothing of it but the immediates of the
  instructions that a relocation of the file points to.
\<close>

theorem elf_link_layout:
  assumes "elf_link env vm elf nm = Inr program"
  shows "\<exists>n shoff shentsize sections strtab symtab m others sz r.
    e_shnum elf = Inr n \<and> e_shoff elf = Inr shoff \<and> e_shentsize elf = Inr shentsize \<and>
    parse_sections elf shentsize shoff (unat n) = Inr sections \<and>
    find_section elf SHT_STRTAB sections = Inr (Some strtab) \<and>
    find_section elf SHT_SYMTAB sections = Inr (Some symtab) \<and>
    collect_functions env elf nm sections strtab symtab = Inr (m # others, sz) \<and>
    is_main elf nm (sec_data strtab) m = Inr True \<and>
    (\<forall>rf \<in> set others. is_main elf nm (sec_data strtab) rf = Inr False) \<and>
    length program = unat sz \<and>
    same_but_immediates (relocation_site elf sections (placed 0 (m # others)))
      (linked_code elf (m # others) @ replicate r 0) program"
proof -
  from assms obtain n shoff shentsize sections strtab symtab fns sz fns' img where
    h: "e_shnum elf = Inr n" "e_shoff elf = Inr shoff" "e_shentsize elf = Inr shentsize"
      "parse_sections elf shentsize shoff (unat n) = Inr sections"
      "find_section elf SHT_STRTAB sections = Inr (Some strtab)"
      "find_section elf SHT_SYMTAB sections = Inr (Some symtab)"
    and c: "collect_functions env elf nm sections strtab symtab = Inr (fns, sz)"
    and p: "copy_functions elf fns 0 (replicate (unat sz) 0) = Inr (fns', img)"
    and f: "elf_fold (process_section vm elf sections strtab fns') sections img = Inr program"
    by (auto simp: elf_link_def check_header_def elf_bind_Inr require_Inr)
  obtain m others where m: "fns = m # others" "is_main elf nm (sec_data strtab) m = Inr True"
    "\<forall>rf \<in> set others. is_main elf nm (sec_data strtab) rf = Inr False"
    using collect_functions_main [OF c] by blast
  have sz: "unat sz < 2 ^ 64" by (rule order_less_trans [OF unsigned_less]) simp
  have pl: "fns' = placed 0 fns" by (rule copy_functions_layout [OF p sz])
  obtain r where i: "img = linked_code elf fns @ replicate r 0" using copy_functions_layout(2) [OF p sz] by blast
  have l: "length img = unat sz"
    using copy_functions_placed [OF p] sz by (auto simp: patch_bytes_def)
  from f have r: "same_but_immediates (relocation_site elf sections fns') img program"
    by (rule elf_fold_induct) (auto intro: same_but_immediates_trans process_section_immediate)
  then have "length program = unat sz" using l by (simp add: same_but_immediates_def)
  with h c m pl i r show ?thesis by blast
qed

lemma demo_link:
  "elf_link demo_elf_env demo_vm demo_elf (Some ''main'') =
     Inr [133, 16, 0, 0, 1, 0, 0, 0, 149, 0, 0, 0, 0, 0, 0, 0,
       183, 0, 0, 0, 7, 0, 0, 0, 149, 0, 0, 0, 0, 0, 0, 0]"
  by code_simp

theorem elf_link_layout_witness:
  "\<exists>sections strtab symtab m others sz r.
     collect_functions demo_elf_env demo_elf (Some ''main'') sections strtab symtab = Inr (m # others, sz) \<and>
     same_but_immediates (relocation_site demo_elf sections (placed 0 (m # others)))
       (linked_code demo_elf (m # others) @ replicate r 0)
       [133, 16, 0, 0, 1, 0, 0, 0, 149, 0, 0, 0, 0, 0, 0, 0,
        183, 0, 0, 0, 7, 0, 0, 0, 149, 0, 0, 0, 0, 0, 0, 0]"
  using elf_link_layout [OF demo_link] by blast

section \<open>Relocated calls\<close>

lemma drop_le_value: "length bs \<le> 8 \<Longrightarrow> n \<le> length bs \<Longrightarrow> drop_bit (8 * n) (le_value bs) = le_value (drop n bs)"
  by (rule bit_word_eqI) (auto simp: bit_simps bit_le_value ac_simps less_diff_conv)

lemma imm_inst_of_bytes: "length bs = 8 \<Longrightarrow> imm (inst_of_bytes bs) = ucast (le_value (drop 4 bs))"
  using drop_le_value [of bs 4] by (simp add: inst_of_bytes_def inst_of_value_def)

lemma ucast_add_16: "(ucast (a + b :: uint64_t) :: uint16_t) = ucast a + ucast b"
proof -
  have "take_bit 16 (take_bit 64 x + take_bit 64 y) = take_bit 16 (x + y)" for x y :: int
    by (subst (1 2) take_bit_add [symmetric]) simp
  then show ?thesis by transfer simp
qed

lemma ucast_imm_16: "(ucast (ucast (take_bit 32 v) :: int32_t) :: uint16_t) = ucast (v :: uint64_t)"
  by (rule bit_word_eqI) (auto simp: bit_simps)

lemma patched_immediate:
  assumes "unat p + 8 \<le> length img" and "length img < 2 ^ 64"
    and "elf_write img (p + 4) (le_bytes 4 v) = Inr img'"
  shows "imm (inst_of_bytes (take 8 (drop (unat p) img'))) = ucast (take_bit 32 v)"
proof -
  have "unat (p + 4) = unat p + unat (4 :: uint64_t)" using assms(1,2) by (intro unat_add_lem [THEN iffD1]) simp
  then have i: "img' = patch_bytes img (unat p + 4) (le_bytes 4 v)" using assms(3) by (simp add: elf_inv)
  have "drop 4 (take 8 (drop (unat p) img')) = le_bytes 4 v"
    using assms(1) by (simp add: i patch_bytes_def drop_take)
  moreover have "length (take 8 (drop (unat p) img')) = 8" using assms(1) by (simp add: i patch_bytes_def)
  ultimately show ?thesis by (simp only: imm_inst_of_bytes le_value_le_bytes) simp
qed

text \<open>
  C10. A relocated call reaches the function it was compiled for. The loader finds the function
  that starts in the symbol's section where the call's own immediate says, and rewrites the
  immediate so that the interpreter, executing the call at its place in the linked program,
  continues at the instruction where that function was put.
\<close>

theorem relocated_call_reaches_target:
  assumes "relocate_call elf sections fns symb p index img = Inr img'"
    and "unat p + 8 \<le> length img" and "length img < 2 ^ 64"
    and "exec_call_local (inst_of_bytes (take 8 (drop (unat p) img'))) s = Inr s'"
    and "st_pc s = ucast index + 1"
  shows "\<exists>shndx old target. st_shndx elf symb = Inr shndx \<and> unat shndx < length sections \<and>
    elf_read 4 img (p + 4) = Inr (old :: int32_t) \<and> target \<in> set fns \<and>
    rf_shdr target = shdr (sections ! unat shndx) \<and> native_section_start target = ucast ((old + 1) * 8) \<and>
    st_pc s' = ucast (landed target)"
proof -
  from assms(1) obtain shndx old target where
    r: "st_shndx elf symb = Inr shndx" "unat shndx < length sections" "elf_read 4 img (p + 4) = Inr (old :: int32_t)"
    and t: "target_function fns (shdr (sections ! unat shndx)) ((old + 1) * 8) = Some target"
    and w: "elf_write img (p + 4) (le_bytes 4 (landed target - (index + 1))) = Inr img'"
    by (auto simp: relocate_call_def elf_bind_Inr elf_nth_Inr require_Inr)
  have tf: "target \<in> set fns" "rf_shdr target = shdr (sections ! unat shndx)"
    "native_section_start target = ucast ((old + 1) * 8)"
    using t by (auto simp: target_function_def find_Some_iff)
  let ?v = "landed target - (index + 1)"
  have "st_pc s' = st_pc s + ucast (imm (inst_of_bytes (take 8 (drop (unat p) img'))))"
    using assms(4) by (auto simp: exec_call_local_def Let_def split: if_splits option.splits)
  also have "\<dots> = ucast (index + 1) + ucast ?v"
    by (simp only: assms(5) patched_immediate [OF assms(2,3) w] ucast_imm_16 ucast_add_16) simp
  also have "\<dots> = ucast (landed target)" by (simp flip: ucast_add_16)
  finally show ?thesis using r tf by blast
qed

theorem relocated_call_reaches_target_witness:
  "\<exists>img s'. relocate_call (replicate 24 0) [\<lparr>shdr = 64, sec_data = 0, sec_size = 0\<rparr>] [demo_target] 0 0 2
      [133, 16, 0, 0, 1, 0, 0, 0] = Inr img \<and>
    exec_call_local (inst_of_bytes (take 8 (drop 0 img))) demo_caller = Inr s' \<and> st_pc s' = 5"
proof -
  let ?img = "[133, 16, 0, 0, 2, 0, 0, 0] :: uint8_t list"
  have r: "relocate_call (replicate 24 0) [\<lparr>shdr = 64, sec_data = 0, sec_size = 0\<rparr>] [demo_target] 0 0 2
      [133, 16, 0, 0, 1, 0, 0, 0] = Inr ?img"
    by code_simp
  obtain s' where e: "exec_call_local (inst_of_bytes (take 8 (drop (unat (0 :: uint64_t)) ?img))) demo_caller = Inr s'"
    by (simp add: exec_call_local_def demo_caller_def UBPF_MAX_CALL_DEPTH_def frame_at_def Let_def)
  have "st_pc s' = 5"
    using relocated_call_reaches_target [OF r _ _ e] by (auto simp: demo_target_def demo_caller_def)
  with r e show ?thesis by auto
qed

section \<open>Accesses outside the file\<close>

lemma elf_read_outside: "length mem < unat p + n \<Longrightarrow> elf_read n mem p = Inl Elf_crash"
  by (simp add: elf_read_def)

lemma bounds_check_inside:
  assumes "unat off + unat sz \<le> length elf" and "length elf < 2 ^ 64"
  shows "elf_bounds_check elf off sz = Some off"
proof -
  have u: "unat (off + sz) = unat off + unat sz" using assms by (intro unat_add_lem [THEN iffD1]) simp
  have "unat (word_of_nat (length elf) :: uint64_t) = length elf"
    using assms(2) by (simp add: unsigned_of_nat take_bit_nat_eq_self)
  with u assms(1) show ?thesis by (simp add: elf_bounds_check_def word_less_nat_alt)
qed

text \<open>
  C25. The loader checks only the first eight bytes of a section header against the size of the
  file: when the first header begins inside the file and ends outside of it, reading its offset
  or its size leaves the file, although the requirements ask that section headers out of bounds
  be rejected.
\<close>

theorem section_header_overrun:
  assumes "check_header elf = Inr n" and "n \<noteq> 0" and "e_shoff elf = Inr shoff"
    and "unat shoff + 8 \<le> length elf" and "length elf < unat shoff + 40" and "length elf < 2 ^ 63"
  shows "elf_link env vm elf nm = Inl Elf_crash"
proof -
  have "unat (shoff + 32) = unat shoff + unat (32 :: uint64_t)"
    using assms(4,6) by (intro unat_add_lem [THEN iffD1]) simp
  then have z: "sh_size elf shoff = Inl Elf_crash" using assms(5) by (simp add: sh_size_def elf_read_outside)
  have o: "sh_offset elf shoff = Inl Elf_crash \<or> (\<exists>x. sh_offset elf shoff = Inr x)"
    by (simp add: sh_offset_def elf_read_def)
  have b: "elf_bounds_check elf shoff 8 = Some shoff" using assms(4,6) by (intro bounds_check_inside) simp_all
  have "parse_sections elf e shoff (Suc k) = Inl Elf_crash" for e k using o by (auto simp: b z)
  moreover obtain k where "unat n = Suc k" using assms(2) by (cases "unat n") (auto simp: unat_eq_0)
  ultimately have p: "parse_sections elf e shoff (unat n) = Inl Elf_crash" for e by simp
  have "64 \<le> length elf" if "length elf < 2 ^ 63"
    using assms(1) that by (cases "64 \<le> length elf")
      (auto simp: check_header_def elf_bind_Inr guard_Inr elf_bounds_check_def word_less_nat_alt
        unsigned_of_nat take_bit_nat_eq_self)
  then have "\<exists>e. e_shentsize elf = Inr e" using assms(6) by (simp add: e_shentsize_def elf_read_def)
  with assms(1,3) p show ?thesis by (auto simp: elf_link_def)
qed

theorem section_header_overrun_witness: "elf_link demo_elf_env demo_vm short_elf None = Inl Elf_crash"
proof (rule section_header_overrun [where n = 1 and shoff = 64])
  show "check_header short_elf = Inr 1" by code_simp
  show "e_shoff short_elf = Inr 64" by code_simp
qed (simp_all add: short_elf_def)

text \<open>
  C26. A function symbol whose section index equals the number of sections passes the check of
  the index, and the loader goes on to use an entry of the section array that does not exist.
\<close>

theorem section_index_off_by_one:
  assumes "st_name elf symb = Inr name" and "name < ucast (sec_size strtab)"
    and "st_shndx elf symb = Inr shndx" and "unat shndx = length sections"
  shows "read_function elf sections strtab symb = Inl Elf_crash"
  using assms by (simp add: read_function_def elf_nth_def)

theorem section_index_off_by_one_witness:
  "read_function ([0, 0, 0, 0, 18, 0, 1, 0] @ replicate 16 0) [\<lparr>shdr = 0, sec_data = 0, sec_size = 24\<rparr>]
     \<lparr>shdr = 0, sec_data = 0, sec_size = 24\<rparr> 0 = Inl Elf_crash"
proof (rule section_index_off_by_one [where name = "0" and shndx = "1"])
  show "st_name ([0, 0, 0, 0, 18, 0, 1, 0] @ replicate 16 0) 0 = Inr 0" by code_simp
  show "st_shndx ([0, 0, 0, 0, 18, 0, 1, 0] @ replicate 16 0) 0 = Inr 1" by code_simp
qed simp_all

end
