(* ===== verification/Jit_Support.thy ===== *)
theory Jit_Support
  imports Ubpf_Vm "HOL-Library.State_Monad"
begin

text \<open>
  What the JIT back ends share, \<^verbatim>\<open>vm/ubpf_jit_support.c\<close>: the state of a translation, the
  emission of bytes into the caller's buffer, and the tables of places to be patched when their
  targets are known. The translator is imperative code over one \<^verbatim>\<open>struct jit_state\<close>, so it is
  modelled in the state monad.
\<close>

section \<open>Targets\<close>

datatype jit_progress =
  NoError | TooManyJumps | TooManyLoads | TooManyLeas | TooManyLocalCalls | NotEnoughSpace
| UnexpectedInstruction | UnknownInstruction

datatype special_target = Exit | Enter | Retpoline | ExternalDispatcher | LoadHelperTable

record regular_target =
  ebpf_target_pc :: uint32_t
  jit_target_pc :: uint32_t
  near :: bool

datatype patchable_target = Special special_target | Regular regular_target

record patchable_relative =
  offset_loc :: uint32_t
  relative_target :: patchable_target

definition patchable_ebpf_target :: "uint32_t \<Rightarrow> patchable_target" where
  "patchable_ebpf_target tgt = Regular \<lparr>ebpf_target_pc = tgt, jit_target_pc = 0, near = False\<rparr>"

definition patchable_jit_target :: "uint32_t \<Rightarrow> patchable_target" where
  "patchable_jit_target tgt = Regular \<lparr>ebpf_target_pc = 0, jit_target_pc = tgt, near = False\<rparr>"

section \<open>State\<close>

text \<open>The messages the back ends return.\<close>

datatype jit_error =
    Could_not_allocate
  | Jit_buffer_too_small
  | Too_many_jumps
  | Too_many_loads
  | Too_many_leas
  | Too_many_local_calls
  | Unknown_atomic_opcode int32_t nat
  | Unknown_instruction nat uint8_t
  | Could_not_patch
  | Not_jittable

text \<open>
  \<^verbatim>\<open>struct jit_state\<close>. The buffer is the list of its bytes; the four tables hold the entries
  written so far, so that \<^verbatim>\<open>num_jumps\<close> and its like are their lengths, and \<^verbatim>\<open>local_calls\<close> is
  \<^const>\<open>None\<close> when its allocation failed. Three fields are not in the source: the message
  returned through \<^verbatim>\<open>errmsg\<close>, the values that the platform's random number generator will
  return, and \<open>jit_fault\<close>, which is set by an access outside an array or through a null pointer.
\<close>

record jit_state =
  jit_buf :: "uint8_t list"
  jit_offset :: uint32_t
  jit_size :: uint32_t
  pc_locs :: "nat \<Rightarrow> uint32_t"
  exit_loc :: uint32_t
  entry_loc :: uint32_t
  unwind_loc :: uint32_t
  retpoline_loc :: uint32_t
  dispatcher_loc :: uint32_t
  helper_table_loc :: uint32_t
  jit_status :: jit_progress
  state_jit_mode :: jit_mode
  jumps :: "patchable_relative list"
  loads :: "patchable_relative list"
  leas :: "patchable_relative list"
  local_calls :: "patchable_relative list option"
  stack_size :: uint32_t
  bpf_function_prolog_size :: uint64_t
  jit_errmsg :: "jit_error option"
  jit_randoms :: "nat \<Rightarrow> uint64_t"
  jit_fault :: bool

type_synonym 'a jit = "(jit_state, 'a) state"

definition gets :: "(jit_state \<Rightarrow> 'a) \<Rightarrow> 'a jit" where
  "gets f = State (\<lambda>s. (f s, s))"

definition modify :: "(jit_state \<Rightarrow> jit_state) \<Rightarrow> unit jit" where
  "modify f = State (\<lambda>s. ((), f s))"

definition skip :: "unit jit" where "skip = State_Monad.return ()"

definition if_then :: "bool \<Rightarrow> unit jit \<Rightarrow> unit jit" where "if_then b m = (if b then m else skip)"

definition set_fault :: "unit jit" where "set_fault = modify (\<lambda>s. s\<lparr>jit_fault := True\<rparr>)"

definition set_status :: "jit_progress \<Rightarrow> unit jit" where
  "set_status p = modify (\<lambda>s. s\<lparr>jit_status := p\<rparr>)"

lemma run_gets [simp]: "run_state (gets f) s = (f s, s)" by (simp add: gets_def)
lemma run_modify [simp]: "run_state (modify f) s = ((), f s)" by (simp add: modify_def)
lemma run_skip [simp]: "run_state skip s = ((), s)" by (simp add: skip_def)
lemma run_set_fault [simp]: "run_state set_fault s = ((), s\<lparr>jit_fault := True\<rparr>)" by (simp add: set_fault_def)
lemma run_set_status [simp]: "run_state (set_status p) s = ((), s\<lparr>jit_status := p\<rparr>)" by (simp add: set_status_def)

section \<open>Operations\<close>

text \<open>
  The initial state. \<open>calloc_ok i\<close> is the outcome of the \<open>i\<close>-th of the five allocations, in the
  order of the source; the fields that the source leaves unset are given by \<open>uninit\<close>.
\<close>

definition initialize_jit_state_result ::
  "(nat \<Rightarrow> bool) \<Rightarrow> uint32_t \<Rightarrow> (nat \<Rightarrow> uint64_t) \<Rightarrow> uint8_t list \<Rightarrow> uint32_t \<Rightarrow> jit_mode \<Rightarrow> jit_error + jit_state" where
  "initialize_jit_state_result calloc_ok uninit randoms buffer sz mode =
     (if \<not> (calloc_ok 0 \<and> calloc_ok 1 \<and> calloc_ok 2 \<and> calloc_ok 3) then Inl Could_not_allocate
      else Inr \<lparr>jit_buf = buffer, jit_offset = 0, jit_size = sz, pc_locs = (\<lambda>_. 0),
        exit_loc = uninit, entry_loc = uninit, unwind_loc = uninit, retpoline_loc = uninit,
        dispatcher_loc = uninit, helper_table_loc = uninit, jit_status = NoError, state_jit_mode = mode,
        jumps = [], loads = [], leas = [], local_calls = (if calloc_ok 4 then Some [] else None),
        stack_size = uninit, bpf_function_prolog_size = 0, jit_errmsg = None, jit_randoms = randoms,
        jit_fault = False\<rparr>)"

text \<open>The entries of a table are written in order: the index of a new one is their number.\<close>

definition emit_patchable_relative ::
  "patchable_relative list \<Rightarrow> uint32_t \<Rightarrow> patchable_target \<Rightarrow> patchable_relative list" where
  "emit_patchable_relative table off tgt = table @ [\<lparr>offset_loc = off, relative_target = tgt\<rparr>]"

definition note_load :: "patchable_target \<Rightarrow> unit jit" where
  "note_load tgt = modify (\<lambda>s. s\<lparr>loads := emit_patchable_relative (loads s) (jit_offset s) tgt\<rparr>)"

definition note_lea :: "patchable_target \<Rightarrow> unit jit" where
  "note_lea tgt = modify (\<lambda>s. s\<lparr>leas := emit_patchable_relative (leas s) (jit_offset s) tgt\<rparr>)"

definition modify_patchable_relatives_target ::
  "patchable_relative list \<Rightarrow> uint32_t \<Rightarrow> patchable_target \<Rightarrow> patchable_relative list" where
  "modify_patchable_relatives_target table patchable_relative_src tgt =
     map (\<lambda>r. if offset_loc r = patchable_relative_src then r\<lparr>relative_target := tgt\<rparr> else r) table"

definition emit_jump_target :: "uint32_t \<Rightarrow> unit jit" where
  "emit_jump_target jump_src =
     modify (\<lambda>s. s\<lparr>jumps := modify_patchable_relatives_target (jumps s) jump_src
       (patchable_jit_target (jit_offset s))\<rparr>)"

definition ubpf_generate_blinding_constant :: "uint64_t jit" where
  "ubpf_generate_blinding_constant = State (\<lambda>s. (jit_randoms s 0, s\<lparr>jit_randoms := jit_randoms s \<circ> Suc\<rparr>))"

lemma run_generate [simp]:
  "run_state ubpf_generate_blinding_constant s = (jit_randoms s 0, s\<lparr>jit_randoms := jit_randoms s \<circ> Suc\<rparr>)"
  by (simp add: ubpf_generate_blinding_constant_def)

text \<open>Writing into the buffer at a given place, as \<^verbatim>\<open>memcpy\<close> and \<^verbatim>\<open>state->buf[i] = x\<close> do.\<close>

definition write_buf :: "nat \<Rightarrow> uint8_t list \<Rightarrow> unit jit" where
  "write_buf i bs = modify (\<lambda>s.
     if i + length bs \<le> length (jit_buf s) then s\<lparr>jit_buf := patch_bytes (jit_buf s) i bs\<rparr>
     else s\<lparr>jit_fault := True\<rparr>)"

end
