(* ===== verification/X86_Emit.thy ===== *)
theory X86_Emit
  imports Jit_Support
begin

text \<open>
  The instruction encoders of the x86-64 back end, \<^verbatim>\<open>vm/ubpf_jit_x86_64.c\<close>, as it is built for
  the System V calling convention with retpolines. An encoder takes register numbers and opcode
  extensions as C integers and appends the bytes of one instruction, or of a fixed sequence of
  instructions, to the buffer.
\<close>

section \<open>Registers\<close>

abbreviation RAX :: int32_t where "RAX \<equiv> 0"
abbreviation RCX :: int32_t where "RCX \<equiv> 1"
abbreviation RDX :: int32_t where "RDX \<equiv> 2"
abbreviation RBX :: int32_t where "RBX \<equiv> 3"
abbreviation RSP :: int32_t where "RSP \<equiv> 4"
abbreviation RBP :: int32_t where "RBP \<equiv> 5"
abbreviation RSI :: int32_t where "RSI \<equiv> 6"
abbreviation RDI :: int32_t where "RDI \<equiv> 7"
abbreviation R8 :: int32_t where "R8 \<equiv> 8"
abbreviation R9 :: int32_t where "R9 \<equiv> 9"
abbreviation R10 :: int32_t where "R10 \<equiv> 10"
abbreviation R11 :: int32_t where "R11 \<equiv> 11"
abbreviation R12 :: int32_t where "R12 \<equiv> 12"
abbreviation R13 :: int32_t where "R13 \<equiv> 13"
abbreviation R14 :: int32_t where "R14 \<equiv> 14"
abbreviation R15 :: int32_t where "R15 \<equiv> 15"

definition VOLATILE_CTXT :: int32_t where "VOLATILE_CTXT = 11"
definition RCX_ALT :: int32_t where "RCX_ALT = R10"

datatype operand_size = S8 | S16 | S32 | S64

definition REGISTER_MAP_SIZE :: nat where "REGISTER_MAP_SIZE = 11"

definition platform_nonvolatile_registers :: "int32_t list" where
  "platform_nonvolatile_registers = [RBP, RBX, R12, R13, R14, R15]"

definition platform_parameter_registers :: "int32_t list" where
  "platform_parameter_registers = [RDI, RSI, RDX, RCX, R8, R9]"

text \<open>
  The register map is a static variable that \<^verbatim>\<open>ubpf_set_register_offset\<close>, a function for testing,
  can permute; this is its initial value.
\<close>

definition register_map :: "int32_t list" where
  "register_map = [RAX, RDI, RSI, RDX, R10, R8, RBX, R12, R13, R14, R15]"

definition map_register :: "uint4_t \<Rightarrow> int32_t" where
  "map_register r = register_map ! (unat r mod REGISTER_MAP_SIZE)"

section \<open>Bytes\<close>

definition emit_bytes :: "uint8_t list \<Rightarrow> unit jit" where
  "emit_bytes data = do {
     status \<leftarrow> gets jit_status;
     if status \<noteq> NoError then skip
     else do {
       off \<leftarrow> gets jit_offset;
       sz \<leftarrow> gets jit_size;
       if off + of_nat (length data) > sz then set_status NotEnoughSpace
       else do {
         write_buf (unat off) data;
         modify (\<lambda>s. s\<lparr>jit_offset := off + of_nat (length data)\<rparr>)
       }
     }
   }"

definition emit1 :: "uint8_t \<Rightarrow> unit jit" where "emit1 x = emit_bytes [x]"
definition emit2 :: "uint16_t \<Rightarrow> unit jit" where "emit2 x = emit_bytes (le_bytes 2 (ucast x))"
definition emit4 :: "uint32_t \<Rightarrow> unit jit" where "emit4 x = emit_bytes (le_bytes 4 (ucast x))"
definition emit8 :: "uint64_t \<Rightarrow> unit jit" where "emit8 x = emit_bytes (le_bytes 8 x)"

definition emit_4byte_offset_placeholder :: "unit jit" where
  "emit_4byte_offset_placeholder = emit4 0"

definition emit_jump_address_reloc :: "patchable_target \<Rightarrow> uint32_t jit" where
  "emit_jump_address_reloc tgt = do {
     js \<leftarrow> gets jumps;
     if length js = UBPF_MAX_INSTS then do { set_status TooManyJumps; State_Monad.return 0 }
     else do {
       target_address_offset \<leftarrow> gets jit_offset;
       modify (\<lambda>s. s\<lparr>jumps := emit_patchable_relative (jumps s) (jit_offset s) tgt\<rparr>);
       emit_4byte_offset_placeholder;
       State_Monad.return target_address_offset
     }
   }"

definition emit_local_call_address_reloc :: "patchable_target \<Rightarrow> uint32_t jit" where
  "emit_local_call_address_reloc tgt = do {
     table \<leftarrow> gets local_calls;
     case table of
       None \<Rightarrow> do { set_fault; State_Monad.return 0 }
     | Some calls \<Rightarrow>
         if length calls = UBPF_MAX_INSTS then do { set_status TooManyLocalCalls; State_Monad.return 0 }
         else do {
           target_address_offset \<leftarrow> gets jit_offset;
           modify (\<lambda>s. s\<lparr>local_calls := Some (emit_patchable_relative calls (jit_offset s) tgt)\<rparr>);
           emit_4byte_offset_placeholder;
           State_Monad.return target_address_offset
         }
   }"

section \<open>Prefixes and operands\<close>

definition emit_modrm :: "int32_t \<Rightarrow> int32_t \<Rightarrow> int32_t \<Rightarrow> unit jit" where
  "emit_modrm md r m = emit1 (ucast ((md AND 0xc0) OR push_bit 3 (r AND 7) OR (m AND 7)))"

definition emit_modrm_reg2reg :: "int32_t \<Rightarrow> int32_t \<Rightarrow> unit jit" where
  "emit_modrm_reg2reg r m = emit_modrm 0xc0 r m"

definition emit_modrm_and_displacement :: "int32_t \<Rightarrow> int32_t \<Rightarrow> int32_t \<Rightarrow> unit jit" where
  "emit_modrm_and_displacement reg0 rm0 d =
     (let rm = rm0 AND 0xf; reg = reg0 AND 0xf in
      if d = 0 \<and> rm \<noteq> RSP \<and> rm \<noteq> RBP \<and> rm \<noteq> R12 \<and> rm \<noteq> R13 then emit_modrm 0x00 reg rm
      else
        let near_disp = - 128 \<le>s d \<and> d \<le>s 127 in
        do {
          emit_modrm (if near_disp then 0x40 else 0x80) reg rm;
          if_then (rm = R12) (emit1 0x24);
          if near_disp then emit1 (ucast d) else emit4 d
        })"

definition emit_rex :: "int32_t \<Rightarrow> int32_t \<Rightarrow> int32_t \<Rightarrow> int32_t \<Rightarrow> unit jit" where
  "emit_rex w r x b = emit1 (ucast (0x40 OR push_bit 3 w OR push_bit 2 r OR push_bit 1 x OR b))"

definition emit_basic_rex :: "int32_t \<Rightarrow> int32_t \<Rightarrow> int32_t \<Rightarrow> unit jit" where
  "emit_basic_rex w sreg dreg =
     if_then (w \<noteq> 0 \<or> sreg AND 8 \<noteq> 0 \<or> dreg AND 8 \<noteq> 0)
       (emit_rex w (of_bool (sreg AND 8 \<noteq> 0)) 0 (of_bool (dreg AND 8 \<noteq> 0)))"

section \<open>Register instructions\<close>

definition emit_push :: "int32_t \<Rightarrow> unit jit" where
  "emit_push r = do { emit_basic_rex 0 0 r; emit1 (ucast (0x50 OR (r AND 7))) }"

definition emit_pop :: "int32_t \<Rightarrow> unit jit" where
  "emit_pop r = do { emit_basic_rex 0 0 r; emit1 (ucast (0x58 OR (r AND 7))) }"

definition emit_alu32 :: "int32_t \<Rightarrow> int32_t \<Rightarrow> int32_t \<Rightarrow> unit jit" where
  "emit_alu32 op sreg dreg = do { emit_basic_rex 0 sreg dreg; emit1 (ucast op); emit_modrm_reg2reg sreg dreg }"

definition emit_alu32_imm32 :: "int32_t \<Rightarrow> int32_t \<Rightarrow> int32_t \<Rightarrow> int32_t \<Rightarrow> unit jit" where
  "emit_alu32_imm32 op sreg dreg im = do { emit_alu32 op sreg dreg; emit4 im }"

definition emit_alu32_imm8 :: "int32_t \<Rightarrow> int32_t \<Rightarrow> int32_t \<Rightarrow> uint8_t \<Rightarrow> unit jit" where
  "emit_alu32_imm8 op sreg dreg im = do { emit_alu32 op sreg dreg; emit1 im }"

definition emit_truncate_u32 :: "int32_t \<Rightarrow> unit jit" where
  "emit_truncate_u32 destination = emit_alu32_imm32 0x81 4 destination 0xffffffff"

definition emit_alu64 :: "int32_t \<Rightarrow> int32_t \<Rightarrow> int32_t \<Rightarrow> unit jit" where
  "emit_alu64 op sreg dreg = do { emit_basic_rex 1 sreg dreg; emit1 (ucast op); emit_modrm_reg2reg sreg dreg }"

definition emit_alu64_imm32 :: "int32_t \<Rightarrow> int32_t \<Rightarrow> int32_t \<Rightarrow> int32_t \<Rightarrow> unit jit" where
  "emit_alu64_imm32 op sreg dreg im = do { emit_alu64 op sreg dreg; emit4 im }"

definition emit_alu64_imm8 :: "int32_t \<Rightarrow> int32_t \<Rightarrow> int32_t \<Rightarrow> uint8_t \<Rightarrow> unit jit" where
  "emit_alu64_imm8 op sreg dreg im = do { emit_alu64 op sreg dreg; emit1 im }"

definition emit_mov :: "int32_t \<Rightarrow> int32_t \<Rightarrow> unit jit" where
  "emit_mov sreg dreg = emit_alu64 0x89 sreg dreg"

definition emit_cmp_imm32 :: "int32_t \<Rightarrow> int32_t \<Rightarrow> unit jit" where
  "emit_cmp_imm32 dreg im = emit_alu64_imm32 0x81 7 dreg im"

definition emit_cmp32_imm32 :: "int32_t \<Rightarrow> int32_t \<Rightarrow> unit jit" where
  "emit_cmp32_imm32 dreg im = emit_alu32_imm32 0x81 7 dreg im"

definition emit_cmp :: "int32_t \<Rightarrow> int32_t \<Rightarrow> unit jit" where
  "emit_cmp sreg dreg = emit_alu64 0x39 sreg dreg"

definition emit_cmp32 :: "int32_t \<Rightarrow> int32_t \<Rightarrow> unit jit" where
  "emit_cmp32 sreg dreg = emit_alu32 0x39 sreg dreg"

definition emit_jcc :: "int32_t \<Rightarrow> patchable_target \<Rightarrow> uint32_t jit" where
  "emit_jcc code tgt = do { emit1 0x0f; emit1 (ucast code); emit_jump_address_reloc tgt }"

section \<open>Loads and stores\<close>

definition emit_load :: "operand_size \<Rightarrow> int32_t \<Rightarrow> int32_t \<Rightarrow> int32_t \<Rightarrow> unit jit" where
  "emit_load sz sreg dreg off = do {
     emit_basic_rex (of_bool (sz = S64)) dreg sreg;
     (if sz = S8 \<or> sz = S16 then do { emit1 0x0f; emit1 (if sz = S8 then 0xb6 else 0xb7) }
      else emit1 0x8b);
     emit_modrm_and_displacement dreg sreg off
   }"

definition emit_load_sx :: "operand_size \<Rightarrow> int32_t \<Rightarrow> int32_t \<Rightarrow> int32_t \<Rightarrow> unit jit" where
  "emit_load_sx sz sreg dreg off =
     (if sz = S8 \<or> sz = S16 then do {
        emit_basic_rex 1 dreg sreg;
        emit1 0x0f;
        (if sz = S8 then emit1 0xbe else emit1 0xbf);
        emit_modrm_and_displacement dreg sreg off
      }
      else if sz = S32 then do {
        emit_basic_rex 1 dreg sreg;
        emit1 0x63;
        emit_modrm_and_displacement dreg sreg off
      }
      else skip)"

definition fits_int32 :: "int64_t \<Rightarrow> bool" where
  "fits_int32 v \<longleftrightarrow> scast INT32_MIN \<le>s v \<and> v \<le>s 0x7fffffff"

definition emit_movabs :: "int32_t \<Rightarrow> uint64_t \<Rightarrow> unit jit" where
  "emit_movabs dreg im = do { emit_basic_rex 1 0 dreg; emit1 (ucast (0xb8 OR (dreg AND 7))); emit8 im }"

definition emit_load_imm :: "int32_t \<Rightarrow> int64_t \<Rightarrow> unit jit" where
  "emit_load_imm dreg im =
     (if fits_int32 im then emit_alu64_imm32 0xc7 0 dreg (ucast im) else emit_movabs dreg im)"

definition emit_store :: "operand_size \<Rightarrow> int32_t \<Rightarrow> int32_t \<Rightarrow> int32_t \<Rightarrow> unit jit" where
  "emit_store sz sreg dreg off = do {
     if_then (sz = S16) (emit1 0x66);
     if_then (sz = S64 \<or> sreg AND 8 \<noteq> 0 \<or> dreg AND 8 \<noteq> 0 \<or> sz = S8)
       (emit_rex (of_bool (sz = S64)) (of_bool (sreg AND 8 \<noteq> 0)) 0 (of_bool (dreg AND 8 \<noteq> 0)));
     emit1 (if sz = S8 then 0x88 else 0x89);
     emit_modrm_and_displacement sreg dreg off
   }"

definition emit_store_imm32 :: "operand_size \<Rightarrow> int32_t \<Rightarrow> int32_t \<Rightarrow> int32_t \<Rightarrow> unit jit" where
  "emit_store_imm32 sz dreg off im = do {
     if_then (sz = S16) (emit1 0x66);
     emit_basic_rex (of_bool (sz = S64)) 0 dreg;
     emit1 (if sz = S8 then 0xc6 else 0xc7);
     emit_modrm_and_displacement 0 dreg off;
     if sz = S32 \<or> sz = S64 then emit4 im
     else if sz = S16 then emit2 (ucast im)
     else emit1 (ucast im)
   }"

section \<open>Constant blinding\<close>

text \<open>
  An immediate \<open>im\<close> of the program never appears in the code: the code loads \<open>im XOR random\<close> into
  a register and exclusive-ors it with \<open>random\<close>.
\<close>

definition emit_load_imm_blinded :: "int32_t \<Rightarrow> int64_t \<Rightarrow> unit jit" where
  "emit_load_imm_blinded dreg im = do {
     random \<leftarrow> ubpf_generate_blinding_constant;
     let blinded_imm = im XOR random;
     (if fits_int32 blinded_imm then emit_alu64_imm32 0xc7 0 dreg (ucast blinded_imm)
      else emit_movabs dreg blinded_imm);
     if fits_int32 random then emit_alu64_imm32 0x81 6 dreg (ucast random)
     else do {
       let temp_reg = (if dreg = R11 then R10 else R11);
       emit_movabs temp_reg random;
       emit_alu64 0x31 temp_reg dreg
     }
   }"

definition blinded_reg_op :: "int32_t \<Rightarrow> int32_t" where
  "blinded_reg_op sreg =
     (if sreg = 0 then 0x01 else if sreg = 1 then 0x09 else if sreg = 4 then 0x21 else if sreg = 5 then 0x29
      else if sreg = 6 then 0x31 else if sreg = 7 then 0x39 else 0x01)"

definition emit_alu64_imm32_blinded :: "int32_t \<Rightarrow> int32_t \<Rightarrow> int32_t \<Rightarrow> int32_t \<Rightarrow> unit jit" where
  "emit_alu64_imm32_blinded op sreg dreg im = do {
     r \<leftarrow> ubpf_generate_blinding_constant;
     let random = (ucast r :: uint32_t);
     let temp_reg = (if dreg = R11 then R10 else R11);
     emit_alu64_imm32 0xc7 0 temp_reg (im XOR random);
     emit_alu64_imm32 0x81 6 temp_reg random;
     if op = 0x81 then emit_alu64 (blinded_reg_op sreg) temp_reg dreg
     else if op = 0xc7 then emit_alu64 0x89 temp_reg dreg
     else emit_alu64 op temp_reg dreg
   }"

definition emit_alu32_imm32_blinded :: "int32_t \<Rightarrow> int32_t \<Rightarrow> int32_t \<Rightarrow> int32_t \<Rightarrow> unit jit" where
  "emit_alu32_imm32_blinded op sreg dreg im = do {
     r \<leftarrow> ubpf_generate_blinding_constant;
     let random = (ucast r :: uint32_t);
     let temp_reg = (if dreg = R11 then R10 else R11);
     emit_alu32_imm32 0xc7 0 temp_reg (im XOR random);
     emit_alu32_imm32 0x81 6 temp_reg random;
     if op = 0x81 then emit_alu32 (blinded_reg_op sreg) temp_reg dreg
     else if op = 0xc7 then emit_alu32 0x89 temp_reg dreg
     else emit_alu32 op temp_reg dreg
   }"

definition emit_cmp_imm32_blinded :: "int32_t \<Rightarrow> int32_t \<Rightarrow> unit jit" where
  "emit_cmp_imm32_blinded dreg im = do {
     r \<leftarrow> ubpf_generate_blinding_constant;
     let random = (ucast r :: uint32_t);
     let temp_reg = (if dreg = R11 then R10 else R11);
     emit_alu64_imm32 0xc7 0 temp_reg (im XOR random);
     emit_alu64_imm32 0x81 6 temp_reg random;
     emit_alu64 0x39 temp_reg dreg
   }"

definition emit_cmp32_imm32_blinded :: "int32_t \<Rightarrow> int32_t \<Rightarrow> unit jit" where
  "emit_cmp32_imm32_blinded dreg im = do {
     r \<leftarrow> ubpf_generate_blinding_constant;
     let random = (ucast r :: uint32_t);
     let temp_reg = (if dreg = R11 then R10 else R11);
     emit_alu32_imm32 0xc7 0 temp_reg (im XOR random);
     emit_alu32_imm32 0x81 6 temp_reg random;
     emit_alu32 0x39 temp_reg dreg
   }"

definition emit_test_imm32_blinded :: "int32_t \<Rightarrow> int32_t \<Rightarrow> unit jit" where
  "emit_test_imm32_blinded dreg im = do {
     r \<leftarrow> ubpf_generate_blinding_constant;
     let random = (ucast r :: uint32_t);
     let temp_reg = (if dreg = R11 then R10 else R11);
     emit_alu64_imm32 0xc7 0 temp_reg (im XOR random);
     emit_alu64_imm32 0x81 6 temp_reg random;
     emit_alu64 0x85 temp_reg dreg
   }"

definition emit_test32_imm32_blinded :: "int32_t \<Rightarrow> int32_t \<Rightarrow> unit jit" where
  "emit_test32_imm32_blinded dreg im = do {
     r \<leftarrow> ubpf_generate_blinding_constant;
     let random = (ucast r :: uint32_t);
     let temp_reg = (if dreg = R11 then R10 else R11);
     emit_alu32_imm32 0xc7 0 temp_reg (im XOR random);
     emit_alu32_imm32 0x81 6 temp_reg random;
     emit_alu32 0x85 temp_reg dreg
   }"

definition emit_store_imm32_blinded :: "operand_size \<Rightarrow> int32_t \<Rightarrow> int32_t \<Rightarrow> int32_t \<Rightarrow> unit jit" where
  "emit_store_imm32_blinded sz dreg off im = do {
     r \<leftarrow> ubpf_generate_blinding_constant;
     let random = (ucast r :: uint32_t);
     let temp_reg = R11;
     (if sz = S64 then do {
       emit_alu64_imm32 0xc7 0 temp_reg (im XOR random);
       emit_alu64_imm32 0x81 6 temp_reg random
     } else do {
       emit_alu32_imm32 0xc7 0 temp_reg (im XOR random);
       emit_alu32_imm32 0x81 6 temp_reg random
     });
     emit_store sz temp_reg dreg off
   }"

definition EMIT_LOAD_IMM :: "ubpf_vm \<Rightarrow> int32_t \<Rightarrow> int64_t \<Rightarrow> unit jit" where
  "EMIT_LOAD_IMM vm dreg im =
     (if constant_blinding_enabled vm then emit_load_imm_blinded dreg im else emit_load_imm dreg im)"

definition EMIT_ALU64_IMM32 :: "ubpf_vm \<Rightarrow> int32_t \<Rightarrow> int32_t \<Rightarrow> int32_t \<Rightarrow> int32_t \<Rightarrow> unit jit" where
  "EMIT_ALU64_IMM32 vm op sreg dreg im =
     (if constant_blinding_enabled vm then emit_alu64_imm32_blinded op sreg dreg im
      else emit_alu64_imm32 op sreg dreg im)"

definition EMIT_ALU32_IMM32 :: "ubpf_vm \<Rightarrow> int32_t \<Rightarrow> int32_t \<Rightarrow> int32_t \<Rightarrow> int32_t \<Rightarrow> unit jit" where
  "EMIT_ALU32_IMM32 vm op sreg dreg im =
     (if constant_blinding_enabled vm then emit_alu32_imm32_blinded op sreg dreg im
      else emit_alu32_imm32 op sreg dreg im)"

definition EMIT_CMP_IMM32 :: "ubpf_vm \<Rightarrow> int32_t \<Rightarrow> int32_t \<Rightarrow> unit jit" where
  "EMIT_CMP_IMM32 vm dreg im =
     (if constant_blinding_enabled vm then emit_cmp_imm32_blinded dreg im else emit_cmp_imm32 dreg im)"

definition EMIT_CMP32_IMM32 :: "ubpf_vm \<Rightarrow> int32_t \<Rightarrow> int32_t \<Rightarrow> unit jit" where
  "EMIT_CMP32_IMM32 vm dreg im =
     (if constant_blinding_enabled vm then emit_cmp32_imm32_blinded dreg im else emit_cmp32_imm32 dreg im)"

definition EMIT_TEST_IMM32 :: "ubpf_vm \<Rightarrow> int32_t \<Rightarrow> int32_t \<Rightarrow> unit jit" where
  "EMIT_TEST_IMM32 vm dreg im =
     (if constant_blinding_enabled vm then emit_test_imm32_blinded dreg im
      else emit_alu64_imm32 0xf7 0 dreg im)"

definition EMIT_TEST32_IMM32 :: "ubpf_vm \<Rightarrow> int32_t \<Rightarrow> int32_t \<Rightarrow> unit jit" where
  "EMIT_TEST32_IMM32 vm dreg im =
     (if constant_blinding_enabled vm then emit_test32_imm32_blinded dreg im
      else emit_alu32_imm32 0xf7 0 dreg im)"

definition EMIT_STORE_IMM32 :: "ubpf_vm \<Rightarrow> operand_size \<Rightarrow> int32_t \<Rightarrow> int32_t \<Rightarrow> int32_t \<Rightarrow> unit jit" where
  "EMIT_STORE_IMM32 vm sz dreg off im =
     (if constant_blinding_enabled vm then emit_store_imm32_blinded sz dreg off im
      else emit_store_imm32 sz dreg off im)"

end
