(* ===== verification/X86_Translate.thy ===== *)
theory X86_Translate
  imports X86_Emit
begin

text \<open>
  The x86-64 translator, the second half of \<^verbatim>\<open>vm/ubpf_jit_x86_64.c\<close>: the code sequences for
  helper calls, atomic operations, division and local calls, the function \<^verbatim>\<open>translate\<close> with its
  switch over the instruction set, and the pass that fills in the relative addresses.
\<close>

section \<open>Control transfer\<close>

definition emit_rip_relative_load :: "int32_t \<Rightarrow> patchable_target \<Rightarrow> uint32_t jit" where
  "emit_rip_relative_load dreg load_tgt = do {
     ls \<leftarrow> gets loads;
     if length ls = UBPF_MAX_INSTS then do { set_status TooManyLoads; State_Monad.return 0 }
     else do {
       emit_rex 1 0 0 0;
       emit1 0x8b;
       emit_modrm 0 dreg 0x05;
       load_target_offset \<leftarrow> gets jit_offset;
       note_load load_tgt;
       emit_4byte_offset_placeholder;
       State_Monad.return load_target_offset
     }
   }"

definition emit_rip_relative_lea :: "int32_t \<Rightarrow> patchable_target \<Rightarrow> unit jit" where
  "emit_rip_relative_lea lea_dst_reg lea_tgt = do {
     ls \<leftarrow> gets leas;
     if length ls = UBPF_MAX_INSTS then set_status TooManyLeas
     else do {
       emit_rex 1 1 0 0;
       emit1 0x8d;
       emit_modrm 0 lea_dst_reg 0x05;
       note_lea lea_tgt;
       emit_4byte_offset_placeholder
     }
   }"

definition emit_ret :: "unit jit" where "emit_ret = emit1 0xc3"

definition emit_jmp :: "patchable_target \<Rightarrow> uint32_t jit" where
  "emit_jmp tgt =
     (case tgt of
        Regular r \<Rightarrow>
          if near r then do { emit1 0xeb; emit_jump_address_reloc tgt }
          else do { emit1 0xe9; emit_jump_address_reloc tgt }
      | Special _ \<Rightarrow> do { emit1 0xe9; emit_jump_address_reloc tgt })"

definition emit_call :: "patchable_target \<Rightarrow> uint32_t jit" where
  "emit_call tgt = do {
     emit1 0xe8;
     call_src \<leftarrow> gets jit_offset;
     _ \<leftarrow> emit_jump_address_reloc tgt;
     State_Monad.return call_src
   }"

definition emit_pause :: "unit jit" where "emit_pause = do { emit1 0xf3; emit1 0x90 }"

definition emit_dispatched_external_helper_call :: "uint32_t \<Rightarrow> unit jit" where
  "emit_dispatched_external_helper_call idx = do {
     emit_push VOLATILE_CTXT;
     emit_push VOLATILE_CTXT;
     _ \<leftarrow> emit_rip_relative_load RAX (Special ExternalDispatcher);
     emit_cmp_imm32 RAX 0;
     let default_jmp_tgt = patchable_ebpf_target 0;
     skip_default_dispatcher_source \<leftarrow> emit_jcc 0x85 default_jmp_tgt;
     emit_alu32 0xc7 0 RAX;
     emit4 idx;
     emit_alu64_imm8 0xc1 4 RAX 3;
     emit_rip_relative_lea R10 (Special LoadHelperTable);
     emit_alu64 0x01 R10 RAX;
     emit_load S64 RAX RAX 0;
     emit_mov VOLATILE_CTXT R9;
     skip_external_dispatcher_source \<leftarrow> emit_jmp default_jmp_tgt;
     emit_jump_target skip_default_dispatcher_source;
     emit_load_imm R9 (ucast idx);
     emit_jump_target skip_external_dispatcher_source;
     _ \<leftarrow> emit_call (Special Retpoline);
     emit_pop VOLATILE_CTXT;
     emit_pop VOLATILE_CTXT
   }"

section \<open>Atomic operations\<close>

definition X64_ALU_ADD :: int32_t where "X64_ALU_ADD = 0x01"
definition X64_ALU_OR :: int32_t where "X64_ALU_OR = 0x09"
definition X64_ALU_AND :: int32_t where "X64_ALU_AND = 0x21"
definition X64_ALU_XOR :: int32_t where "X64_ALU_XOR = 0x31"
definition IS_64BIT :: int32_t where "IS_64BIT = 1"
definition IS_32BIT :: int32_t where "IS_32BIT = 0"

definition emit_atomic_alu :: "int32_t \<Rightarrow> int32_t \<Rightarrow> int32_t \<Rightarrow> int32_t \<Rightarrow> int32_t \<Rightarrow> unit jit" where
  "emit_atomic_alu op is_64bit sreg dreg off = do {
     emit1 0xf0;
     emit_basic_rex is_64bit sreg dreg;
     emit1 (ucast op);
     emit_modrm_and_displacement sreg dreg off
   }"

definition emit_atomic_cmp_exch_with_rax :: "int32_t \<Rightarrow> int32_t \<Rightarrow> int32_t \<Rightarrow> int32_t \<Rightarrow> unit jit" where
  "emit_atomic_cmp_exch_with_rax is_64bit sreg dreg off = do {
     emit1 0xf0;
     emit_basic_rex is_64bit sreg dreg;
     emit1 0x0f;
     emit1 0xb1;
     emit_modrm_and_displacement sreg dreg off
   }"

definition emit_atomic_exchange :: "int32_t \<Rightarrow> int32_t \<Rightarrow> int32_t \<Rightarrow> int32_t \<Rightarrow> unit jit" where
  "emit_atomic_exchange is_64bit sreg dreg off = do {
     emit1 0xf0;
     emit_basic_rex is_64bit sreg dreg;
     emit1 0x87;
     emit_modrm_and_displacement sreg dreg off
   }"

definition emit_atomic_fetch_alu :: "int32_t \<Rightarrow> int32_t \<Rightarrow> int32_t \<Rightarrow> int32_t \<Rightarrow> int32_t \<Rightarrow> unit jit" where
  "emit_atomic_fetch_alu is_64bit op sreg dreg off = do {
     let actual_src = (if sreg = RAX then if dreg = R10 then R11 else R10 else sreg);
     (if sreg \<noteq> RAX then emit_push RAX
      else do { emit_push actual_src; emit_mov sreg actual_src });
     emit_load (if is_64bit \<noteq> 0 then S64 else S32) dreg RAX off;
     loop_start \<leftarrow> gets jit_offset;
     emit_mov RAX RCX;
     emit_alu64 op actual_src RCX;
     emit_atomic_cmp_exch_with_rax is_64bit RCX dreg off;
     emit1 0x75;
     here \<leftarrow> gets jit_offset;
     emit1 (ucast (loop_start - here - 1));
     (if sreg \<noteq> RAX then do { emit_mov RAX sreg; emit_pop RAX }
      else emit_pop actual_src)
   }"

text \<open>
  The wrappers \<^verbatim>\<open>emit_atomic_add64\<close> to \<^verbatim>\<open>emit_atomic_fetch_xor32\<close> of the source fix the opcode and the
  width; the switch below applies the encoders to them directly.
\<close>

definition emit_atomic :: "int32_t \<Rightarrow> int32_t \<Rightarrow> int32_t \<Rightarrow> int32_t \<Rightarrow> int32_t \<Rightarrow> unit jit option" where
  "emit_atomic is_64bit op sreg dreg off =
     (let alu = op AND ucast EBPF_ALU_OP_MASK; fetch = op AND EBPF_ATOMIC_OP_FETCH \<noteq> 0;
          emit = (\<lambda>x64. if fetch then emit_atomic_fetch_alu is_64bit x64 sreg dreg off
                        else emit_atomic_alu x64 is_64bit sreg dreg off) in
      if alu = ucast EBPF_ALU_OP_ADD then Some (emit X64_ALU_ADD)
      else if alu = ucast EBPF_ALU_OP_OR then Some (emit X64_ALU_OR)
      else if alu = ucast EBPF_ALU_OP_AND then Some (emit X64_ALU_AND)
      else if alu = ucast EBPF_ALU_OP_XOR then Some (emit X64_ALU_XOR)
      else if alu = EBPF_ATOMIC_OP_XCHG AND NOT EBPF_ATOMIC_OP_FETCH then
        Some (do {
          emit_atomic_exchange is_64bit sreg dreg off;
          if_then (is_64bit = IS_32BIT) (emit_truncate_u32 sreg)
        })
      else if alu = EBPF_ATOMIC_OP_CMPXCHG AND NOT EBPF_ATOMIC_OP_FETCH then
        Some (do {
          emit_atomic_cmp_exch_with_rax is_64bit sreg dreg off;
          if_then (is_64bit = IS_32BIT) (emit_truncate_u32 (map_register 0))
        })
      else None)"

section \<open>Multiplication and division\<close>

text \<open>The test for the one quotient that overflows, with its three forward jumps of one byte.\<close>

definition emit_overflow_check :: "bool \<Rightarrow> bool \<Rightarrow> uint32_t jit" where
  "emit_overflow_check is64 is_div = do {
     (if is64 then do { emit1 0x48; emit1 0x83; emit1 0xf9; emit1 0xff }
      else do { emit1 0x83; emit1 0xf9; emit1 0xff });
     emit1 0x75;
     jne_source \<leftarrow> gets jit_offset;
     emit1 0x00;
     (if is64 then do {
        emit1 0x49; emit1 0xbb; emit8 0x8000000000000000;
        emit1 0x4c; emit1 0x39; emit1 0xd8
      } else do { emit1 0x3d; emit4 0x80000000 });
     emit1 0x75;
     jne2_source \<leftarrow> gets jit_offset;
     emit1 0x00;
     if_then (\<not> is_div) (emit_alu32 0x31 RDX RDX);
     emit1 0xeb;
     overflow_jump_source \<leftarrow> gets jit_offset;
     emit1 0x00;
     here \<leftarrow> gets jit_offset;
     write_buf (unat jne_source) [ucast (here - jne_source - 1)];
     write_buf (unat jne2_source) [ucast (here - jne2_source - 1)];
     State_Monad.return overflow_jump_source
   }"

definition emit_muldivmod ::
  "ubpf_vm \<Rightarrow> uint8_t \<Rightarrow> int32_t \<Rightarrow> int32_t \<Rightarrow> int32_t \<Rightarrow> int16_t \<Rightarrow> unit jit" where
  "emit_muldivmod vm op sreg dreg im off =
     (let is_mul = (op AND EBPF_ALU_OP_MASK = EBPF_OP_MUL_IMM AND EBPF_ALU_OP_MASK);
          is_div = (op AND EBPF_ALU_OP_MASK = EBPF_OP_DIV_IMM AND EBPF_ALU_OP_MASK);
          is_mod = (op AND EBPF_ALU_OP_MASK = EBPF_OP_MOD_IMM AND EBPF_ALU_OP_MASK);
          is64 = (op AND EBPF_CLS_MASK = EBPF_CLS_ALU64);
          is_reg = (op AND EBPF_SRC_REG = EBPF_SRC_REG);
          is_signed = (off = 1) in
      if \<not> is_reg \<and> im = 0 then
        (if is_div \<or> is_mul then emit_alu32 0x31 dreg dreg else emit_mov dreg dreg)
      else do {
        if_then (dreg \<noteq> RAX) (emit_push RAX);
        if_then (dreg \<noteq> RDX) (emit_push RDX);
        (if \<not> is_reg then EMIT_LOAD_IMM vm RCX (scast im) else emit_mov sreg RCX);
        emit_mov dreg RAX;
        if_then (is_div \<or> is_mod) (do {
          (if is64 then emit_alu64 0x85 RCX RCX else emit_alu32 0x85 RCX RCX);
          if_then is_mod (emit_push RAX);
          emit1 0x9c;
          emit_load_imm RDX 1;
          emit1 0x48; emit1 0x0f; emit1 0x44; emit1 0xca;
          (if is_signed then (if is64 then do { emit1 0x48; emit1 0x99 } else emit1 0x99)
           else emit_alu32 0x31 RDX RDX)
        });
        overflow_jump_source \<leftarrow>
          (if (is_div \<or> is_mod) \<and> is_signed then emit_overflow_check is64 is_div else State_Monad.return 0);
        if_then is64 (emit_rex 1 0 0 0);
        emit_alu32 0xf7 (if is_mul then 4 else if is_signed then 7 else 6) RCX;
        here \<leftarrow> gets jit_offset;
        if_then ((is_div \<or> is_mod) \<and> is_signed \<and> overflow_jump_source \<noteq> 0)
          (write_buf (unat overflow_jump_source) [ucast (here - overflow_jump_source - 1)]);
        if_then (is_div \<or> is_mod) (do {
          emit1 0x9d;
          (if is_div then do {
             emit_load_imm RCX 0;
             emit1 0x48; emit1 0x0f; emit1 0x44; emit1 0xc1
           } else do {
             emit_pop RCX;
             emit1 0x48; emit1 0x0f; emit1 0x44; emit1 0xd1
           })
        });
        if_then (dreg \<noteq> RDX) (do {
          if_then is_mod (emit_mov RDX dreg);
          emit_pop RDX
        });
        if_then (dreg \<noteq> RAX) (do {
          if_then (is_div \<or> is_mul) (emit_mov RAX dreg);
          emit_pop RAX
        })
      })"

section \<open>Local calls and the tables after the code\<close>

definition emit_local_call :: "uint32_t \<Rightarrow> unit jit" where
  "emit_local_call target_pc = do {
     emit1 0x4c; emit1 0x2B; emit1 0x3C; emit1 0x24;
     emit_push (map_register BPF_REG_6);
     emit_push (map_register BPF_REG_7);
     emit_push (map_register BPF_REG_8);
     emit_push (map_register BPF_REG_9);
     emit1 0xe8;
     _ \<leftarrow> emit_local_call_address_reloc (patchable_ebpf_target target_pc);
     emit_pop (map_register BPF_REG_9);
     emit_pop (map_register BPF_REG_8);
     emit_pop (map_register BPF_REG_7);
     emit_pop (map_register BPF_REG_6);
     emit1 0x4c; emit1 0x03; emit1 0x3C; emit1 0x24
   }"

definition emit_dispatched_external_helper_address :: "ubpf_vm \<Rightarrow> uint32_t jit" where
  "emit_dispatched_external_helper_address vm = do {
     external_helper_address_target \<leftarrow> gets jit_offset;
     emit8 (case dispatcher vm of None \<Rightarrow> 0 | Some d \<Rightarrow> dispatcher_addr d);
     State_Monad.return external_helper_address_target
   }"

primrec emit_all :: "unit jit list \<Rightarrow> unit jit" where
  "emit_all [] = skip"
| "emit_all (m # ms) = do { m; emit_all ms }"

definition emit_helper_table :: "ubpf_vm \<Rightarrow> uint32_t jit" where
  "emit_helper_table vm = do {
     helper_table_address_target \<leftarrow> gets jit_offset;
     emit_all (map (\<lambda>i. emit8 (case ext_funcs vm i of None \<Rightarrow> 0 | Some h \<Rightarrow> helper_addr h)) [0..<MAX_EXT_FUNCS]);
     State_Monad.return helper_table_address_target
   }"

definition emit_retpoline :: "uint32_t jit" where
  "emit_retpoline = do {
     retpoline_target \<leftarrow> gets jit_offset;
     label1_call_offset \<leftarrow> emit_call (patchable_ebpf_target 0);
     capture_ret_spec \<leftarrow> gets jit_offset;
     emit_pause;
     _ \<leftarrow> emit_jmp (patchable_jit_target capture_ret_spec);
     label1 \<leftarrow> gets jit_offset;
     emit1 0x48; emit1 0x89; emit1 0x04; emit1 0x24;
     emit_ret;
     modify (\<lambda>s. s\<lparr>jumps := modify_patchable_relatives_target (jumps s) label1_call_offset
       (patchable_jit_target label1)\<rparr>);
     State_Monad.return retpoline_target
   }"

section \<open>The switch\<close>

text \<open>
  The cases of the switch in \<^verbatim>\<open>translate\<close>, as tables from opcodes to what the case emits. The
  tables have the registers and the target that \<^verbatim>\<open>translate\<close> computes before the switch.
\<close>

definition x86_alu32 :: "ubpf_vm \<Rightarrow> ebpf_inst \<Rightarrow> int32_t \<Rightarrow> int32_t \<Rightarrow> (uint8_t \<times> unit jit) list" where
  "x86_alu32 vm inst sreg dreg =
     (let muldivmod = emit_muldivmod vm (opcode inst) sreg dreg (imm inst) (offset inst) in
      [(EBPF_OP_ADD_IMM, EMIT_ALU32_IMM32 vm 0x81 0 dreg (imm inst)),
       (EBPF_OP_ADD_REG, emit_alu32 0x01 sreg dreg),
       (EBPF_OP_SUB_IMM, EMIT_ALU32_IMM32 vm 0x81 5 dreg (imm inst)),
       (EBPF_OP_SUB_REG, emit_alu32 0x29 sreg dreg),
       (EBPF_OP_MUL_IMM, muldivmod),
       (EBPF_OP_MUL_REG, muldivmod),
       (EBPF_OP_DIV_IMM, muldivmod),
       (EBPF_OP_DIV_REG, muldivmod),
       (EBPF_OP_MOD_IMM, muldivmod),
       (EBPF_OP_MOD_REG, muldivmod),
       (EBPF_OP_OR_IMM, EMIT_ALU32_IMM32 vm 0x81 1 dreg (imm inst)),
       (EBPF_OP_OR_REG, emit_alu32 0x09 sreg dreg),
       (EBPF_OP_AND_IMM, EMIT_ALU32_IMM32 vm 0x81 4 dreg (imm inst)),
       (EBPF_OP_AND_REG, emit_alu32 0x21 sreg dreg),
       (EBPF_OP_LSH_IMM, emit_alu32_imm8 0xc1 4 dreg (ucast (imm inst))),
       (EBPF_OP_LSH_REG, do { emit_mov sreg RCX; emit_alu32 0xd3 4 dreg }),
       (EBPF_OP_RSH_IMM, emit_alu32_imm8 0xc1 5 dreg (ucast (imm inst))),
       (EBPF_OP_RSH_REG, do { emit_mov sreg RCX; emit_alu32 0xd3 5 dreg }),
       (EBPF_OP_NEG, emit_alu32 0xf7 3 dreg),
       (EBPF_OP_XOR_IMM, EMIT_ALU32_IMM32 vm 0x81 6 dreg (imm inst)),
       (EBPF_OP_XOR_REG, emit_alu32 0x31 sreg dreg),
       (EBPF_OP_MOV_IMM, EMIT_ALU32_IMM32 vm 0xc7 0 dreg (imm inst)),
       (EBPF_OP_MOV_REG,
          if offset inst = 8 then do {
            emit_rex 0 (of_bool (dreg AND 8 \<noteq> 0)) 0 (of_bool (sreg AND 8 \<noteq> 0));
            emit1 0x0f; emit1 0xbe; emit_modrm_reg2reg dreg sreg
          } else if offset inst = 16 then do {
            emit_basic_rex 0 dreg sreg;
            emit1 0x0f; emit1 0xbf; emit_modrm_reg2reg dreg sreg
          } else emit_mov sreg dreg),
       (EBPF_OP_ARSH_IMM, emit_alu32_imm8 0xc1 7 dreg (ucast (imm inst))),
       (EBPF_OP_ARSH_REG, do { emit_mov sreg RCX; emit_alu32 0xd3 7 dreg })])"

definition x86_endian :: "ebpf_inst \<Rightarrow> int32_t \<Rightarrow> (uint8_t \<times> unit jit) list" where
  "x86_endian inst dreg =
     [(EBPF_OP_LE,
         if imm inst = 16 then emit_alu32_imm32 0x81 4 dreg 0xffff
         else if imm inst = 32 then emit_alu32_imm32 0x81 4 dreg 0xffffffff
         else skip),
      (EBPF_OP_BE,
         if imm inst = 16 then do {
           emit1 0x66;
           emit_alu32_imm8 0xc1 0 dreg 8;
           emit_alu32_imm32 0x81 4 dreg 0xffff
         } else if imm inst = 32 \<or> imm inst = 64 then do {
           emit_basic_rex (of_bool (imm inst = 64)) 0 dreg;
           emit1 0x0f;
           emit1 (ucast (0xc8 OR (dreg AND 7)))
         } else skip),
      (EBPF_OP_BSWAP,
         if imm inst = 16 then do {
           emit1 0x66;
           emit_alu32_imm8 0xc1 0 dreg 8;
           emit_alu64_imm32 0x81 4 dreg 0xffff
         } else if imm inst = 32 then do {
           emit_basic_rex 0 0 dreg;
           emit1 0x0f;
           emit1 (ucast (0xc8 OR (dreg AND 7)));
           emit_alu32 0x89 dreg dreg
         } else if imm inst = 64 then do {
           emit_basic_rex 1 0 dreg;
           emit1 0x0f;
           emit1 (ucast (0xc8 OR (dreg AND 7)))
         } else skip)]"

definition x86_alu64 :: "ubpf_vm \<Rightarrow> ebpf_inst \<Rightarrow> int32_t \<Rightarrow> int32_t \<Rightarrow> (uint8_t \<times> unit jit) list" where
  "x86_alu64 vm inst sreg dreg =
     (let muldivmod = emit_muldivmod vm (opcode inst) sreg dreg (imm inst) (offset inst) in
      [(EBPF_OP_ADD64_IMM, EMIT_ALU64_IMM32 vm 0x81 0 dreg (imm inst)),
       (EBPF_OP_ADD64_REG, emit_alu64 0x01 sreg dreg),
       (EBPF_OP_SUB64_IMM, EMIT_ALU64_IMM32 vm 0x81 5 dreg (imm inst)),
       (EBPF_OP_SUB64_REG, emit_alu64 0x29 sreg dreg),
       (EBPF_OP_MUL64_IMM, muldivmod),
       (EBPF_OP_MUL64_REG, muldivmod),
       (EBPF_OP_DIV64_IMM, muldivmod),
       (EBPF_OP_DIV64_REG, muldivmod),
       (EBPF_OP_MOD64_IMM, muldivmod),
       (EBPF_OP_MOD64_REG, muldivmod),
       (EBPF_OP_OR64_IMM, EMIT_ALU64_IMM32 vm 0x81 1 dreg (imm inst)),
       (EBPF_OP_OR64_REG, emit_alu64 0x09 sreg dreg),
       (EBPF_OP_AND64_IMM, EMIT_ALU64_IMM32 vm 0x81 4 dreg (imm inst)),
       (EBPF_OP_AND64_REG, emit_alu64 0x21 sreg dreg),
       (EBPF_OP_LSH64_IMM, emit_alu64_imm8 0xc1 4 dreg (ucast (imm inst))),
       (EBPF_OP_LSH64_REG, do { emit_mov sreg RCX; emit_alu64 0xd3 4 dreg }),
       (EBPF_OP_RSH64_IMM, emit_alu64_imm8 0xc1 5 dreg (ucast (imm inst))),
       (EBPF_OP_RSH64_REG, do { emit_mov sreg RCX; emit_alu64 0xd3 5 dreg }),
       (EBPF_OP_NEG64, emit_alu64 0xf7 3 dreg),
       (EBPF_OP_XOR64_IMM, EMIT_ALU64_IMM32 vm 0x81 6 dreg (imm inst)),
       (EBPF_OP_XOR64_REG, emit_alu64 0x31 sreg dreg),
       (EBPF_OP_MOV64_IMM, EMIT_LOAD_IMM vm dreg (scast (imm inst))),
       (EBPF_OP_MOV64_REG,
          if offset inst = 8 then do {
            emit_basic_rex 1 dreg sreg; emit1 0x0f; emit1 0xbe; emit_modrm_reg2reg dreg sreg
          } else if offset inst = 16 then do {
            emit_basic_rex 1 dreg sreg; emit1 0x0f; emit1 0xbf; emit_modrm_reg2reg dreg sreg
          } else if offset inst = 32 then do {
            emit_basic_rex 1 dreg sreg; emit1 0x63; emit_modrm_reg2reg dreg sreg
          } else emit_mov sreg dreg),
       (EBPF_OP_ARSH64_IMM, emit_alu64_imm8 0xc1 7 dreg (ucast (imm inst))),
       (EBPF_OP_ARSH64_REG, do { emit_mov sreg RCX; emit_alu64 0xd3 7 dreg })])"

definition compare_jump :: "unit jit \<Rightarrow> int32_t \<Rightarrow> patchable_target \<Rightarrow> unit jit" where
  "compare_jump compare code tgt = do { compare; _ \<leftarrow> emit_jcc code tgt; skip }"

definition x86_jump :: "ubpf_vm \<Rightarrow> ebpf_inst \<Rightarrow> int32_t \<Rightarrow> int32_t \<Rightarrow> patchable_target \<Rightarrow> (uint8_t \<times> unit jit) list" where
  "x86_jump vm inst sreg dreg tgt =
     (let i = EMIT_CMP_IMM32 vm dreg (imm inst); r = emit_cmp sreg dreg in
      [(EBPF_OP_JA, do { _ \<leftarrow> emit_jmp tgt; skip }),
       (EBPF_OP_JA32, do { _ \<leftarrow> emit_jmp tgt; skip }),
       (EBPF_OP_JEQ_IMM, compare_jump i 0x84 tgt),
       (EBPF_OP_JEQ_REG, compare_jump r 0x84 tgt),
       (EBPF_OP_JGT_IMM, compare_jump i 0x87 tgt),
       (EBPF_OP_JGT_REG, compare_jump r 0x87 tgt),
       (EBPF_OP_JGE_IMM, compare_jump i 0x83 tgt),
       (EBPF_OP_JGE_REG, compare_jump r 0x83 tgt),
       (EBPF_OP_JLT_IMM, compare_jump i 0x82 tgt),
       (EBPF_OP_JLT_REG, compare_jump r 0x82 tgt),
       (EBPF_OP_JLE_IMM, compare_jump i 0x86 tgt),
       (EBPF_OP_JLE_REG, compare_jump r 0x86 tgt),
       (EBPF_OP_JSET_IMM, compare_jump (EMIT_TEST_IMM32 vm dreg (imm inst)) 0x85 tgt),
       (EBPF_OP_JSET_REG, compare_jump (emit_alu64 0x85 sreg dreg) 0x85 tgt),
       (EBPF_OP_JNE_IMM, compare_jump i 0x85 tgt),
       (EBPF_OP_JNE_REG, compare_jump r 0x85 tgt),
       (EBPF_OP_JSGT_IMM, compare_jump i 0x8f tgt),
       (EBPF_OP_JSGT_REG, compare_jump r 0x8f tgt),
       (EBPF_OP_JSGE_IMM, compare_jump i 0x8d tgt),
       (EBPF_OP_JSGE_REG, compare_jump r 0x8d tgt),
       (EBPF_OP_JSLT_IMM, compare_jump i 0x8c tgt),
       (EBPF_OP_JSLT_REG, compare_jump r 0x8c tgt),
       (EBPF_OP_JSLE_IMM, compare_jump i 0x8e tgt),
       (EBPF_OP_JSLE_REG, compare_jump r 0x8e tgt)])"

definition x86_jump32 :: "ubpf_vm \<Rightarrow> ebpf_inst \<Rightarrow> int32_t \<Rightarrow> int32_t \<Rightarrow> patchable_target \<Rightarrow> (uint8_t \<times> unit jit) list" where
  "x86_jump32 vm inst sreg dreg tgt =
     (let i = EMIT_CMP32_IMM32 vm dreg (imm inst); r = emit_cmp32 sreg dreg in
      [(EBPF_OP_JEQ32_IMM, compare_jump i 0x84 tgt),
       (EBPF_OP_JEQ32_REG, compare_jump r 0x84 tgt),
       (EBPF_OP_JGT32_IMM, compare_jump i 0x87 tgt),
       (EBPF_OP_JGT32_REG, compare_jump r 0x87 tgt),
       (EBPF_OP_JGE32_IMM, compare_jump i 0x83 tgt),
       (EBPF_OP_JGE32_REG, compare_jump r 0x83 tgt),
       (EBPF_OP_JLT32_IMM, compare_jump i 0x82 tgt),
       (EBPF_OP_JLT32_REG, compare_jump r 0x82 tgt),
       (EBPF_OP_JLE32_IMM, compare_jump i 0x86 tgt),
       (EBPF_OP_JLE32_REG, compare_jump r 0x86 tgt),
       (EBPF_OP_JSET32_IMM, compare_jump (EMIT_TEST32_IMM32 vm dreg (imm inst)) 0x85 tgt),
       (EBPF_OP_JSET32_REG, compare_jump (emit_alu32 0x85 sreg dreg) 0x85 tgt),
       (EBPF_OP_JNE32_IMM, compare_jump i 0x85 tgt),
       (EBPF_OP_JNE32_REG, compare_jump r 0x85 tgt),
       (EBPF_OP_JSGT32_IMM, compare_jump i 0x8f tgt),
       (EBPF_OP_JSGT32_REG, compare_jump r 0x8f tgt),
       (EBPF_OP_JSGE32_IMM, compare_jump i 0x8d tgt),
       (EBPF_OP_JSGE32_REG, compare_jump r 0x8d tgt),
       (EBPF_OP_JSLT32_IMM, compare_jump i 0x8c tgt),
       (EBPF_OP_JSLT32_REG, compare_jump r 0x8c tgt),
       (EBPF_OP_JSLE32_IMM, compare_jump i 0x8e tgt),
       (EBPF_OP_JSLE32_REG, compare_jump r 0x8e tgt)])"

definition x86_call :: "ubpf_vm \<Rightarrow> ebpf_inst \<Rightarrow> nat \<Rightarrow> unit jit" where
  "x86_call vm inst i =
     (if src inst = 0 then do {
        emit_mov RCX_ALT RCX;
        emit_dispatched_external_helper_call (imm inst);
        if_then (imm inst = unwind_stack_extension_index vm) (do {
          emit_cmp_imm32 (map_register BPF_REG_0) 0;
          _ \<leftarrow> emit_jcc 0x84 (Special Exit);
          skip
        })
      }
      else if src inst = 1 then emit_local_call (of_nat i + imm inst + 1)
      else skip)"

definition x86_mem :: "ubpf_vm \<Rightarrow> ebpf_inst \<Rightarrow> int32_t \<Rightarrow> int32_t \<Rightarrow> (uint8_t \<times> unit jit) list" where
  "x86_mem vm inst sreg dreg =
     (let off = scast (offset inst) in
      [(EBPF_OP_EXIT, do { emit_alu64_imm32 0x81 0 RSP 8; emit_ret }),
       (EBPF_OP_LDXW, emit_load S32 sreg dreg off),
       (EBPF_OP_LDXH, emit_load S16 sreg dreg off),
       (EBPF_OP_LDXB, emit_load S8 sreg dreg off),
       (EBPF_OP_LDXDW, emit_load S64 sreg dreg off),
       (EBPF_OP_LDXWSX, emit_load_sx S32 sreg dreg off),
       (EBPF_OP_LDXHSX, emit_load_sx S16 sreg dreg off),
       (EBPF_OP_LDXBSX, emit_load_sx S8 sreg dreg off),
       (EBPF_OP_STW, EMIT_STORE_IMM32 vm S32 dreg off (imm inst)),
       (EBPF_OP_STH, EMIT_STORE_IMM32 vm S16 dreg off (imm inst)),
       (EBPF_OP_STB, EMIT_STORE_IMM32 vm S8 dreg off (imm inst)),
       (EBPF_OP_STDW, EMIT_STORE_IMM32 vm S64 dreg off (imm inst)),
       (EBPF_OP_STXW, emit_store S32 sreg dreg off),
       (EBPF_OP_STXH, emit_store S16 sreg dreg off),
       (EBPF_OP_STXB, emit_store S8 sreg dreg off),
       (EBPF_OP_STXDW, emit_store S64 sreg dreg off)])"

definition x86_atomic :: "ebpf_inst \<Rightarrow> int32_t \<Rightarrow> int32_t \<Rightarrow> unit jit option" where
  "x86_atomic inst sreg dreg =
     emit_atomic (if opcode inst = EBPF_OP_ATOMIC_STORE then IS_64BIT else IS_32BIT) (imm inst) sreg dreg
       (scast (offset inst))"

definition jump_target_pc :: "ebpf_inst \<Rightarrow> nat \<Rightarrow> uint32_t" where
  "jump_target_pc inst i =
     (if opcode inst = EBPF_OP_JA32 then of_nat i + imm inst + 1 else of_nat i + scast (offset inst) + 1)"

text \<open>
  One pass through the switch. The result is \<^const>\<open>False\<close> where the source returns \<^verbatim>\<open>-1\<close> at once.
\<close>

definition x86_switch :: "ubpf_vm \<Rightarrow> ebpf_inst \<Rightarrow> nat \<Rightarrow> bool jit" where
  "x86_switch vm inst i =
     (let dreg = map_register (dst inst); sreg = map_register (src inst);
          tgt = patchable_ebpf_target (jump_target_pc inst i);
          cases = x86_alu32 vm inst sreg dreg @ x86_endian inst dreg @ x86_alu64 vm inst sreg dreg
            @ x86_jump vm inst sreg dreg tgt @ x86_jump32 vm inst sreg dreg tgt @ x86_mem vm inst sreg dreg in
      if opcode inst = EBPF_OP_CALL then do { x86_call vm inst i; State_Monad.return True }
      else if opcode inst = EBPF_OP_LDDW then
        (case ubpf_fetch_instruction vm (of_nat (i + 1)) of
           None \<Rightarrow> do { set_fault; State_Monad.return False }
         | Some inst2 \<Rightarrow> do {
             EMIT_LOAD_IMM vm dreg (ucast (imm inst) OR push_bit 32 (scast (imm inst2)));
             State_Monad.return True
           })
      else if opcode inst = EBPF_OP_ATOMIC_STORE \<or> opcode inst = EBPF_OP_ATOMIC32_STORE then
        (case x86_atomic inst sreg dreg of
           None \<Rightarrow> do {
             modify (\<lambda>s. s\<lparr>jit_errmsg := Some (Unknown_atomic_opcode (imm inst) i)\<rparr>);
             State_Monad.return False
           }
         | Some m \<Rightarrow> do { m; State_Monad.return True })
      else
        (case map_of cases (opcode inst) of
           None \<Rightarrow> do {
             set_status UnknownInstruction;
             modify (\<lambda>s. s\<lparr>jit_errmsg := Some (Unknown_instruction i (opcode inst))\<rparr>);
             State_Monad.return True
           }
         | Some m \<Rightarrow> do { m; State_Monad.return True }))"

text \<open>The switch and the truncation of 32-bit results after it.\<close>

definition x86_body :: "ubpf_vm \<Rightarrow> ebpf_inst \<Rightarrow> nat \<Rightarrow> bool jit" where
  "x86_body vm inst i = do {
     ok \<leftarrow> x86_switch vm inst i;
     if_then (ok \<and> opcode inst AND EBPF_CLS_MASK = EBPF_CLS_ALU \<and> opcode inst AND EBPF_ALU_OP_MASK \<noteq> 0xd0)
       (emit_truncate_u32 (map_register (dst inst)));
     State_Monad.return ok
   }"

section \<open>The translator\<close>

definition ubpf_instruction_has_fallthrough :: "ebpf_inst \<Rightarrow> bool" where
  "ubpf_instruction_has_fallthrough inst \<longleftrightarrow> opcode inst \<noteq> EBPF_OP_EXIT"

text \<open>
  The code before the switch: at the start of a local function, a jump for the path that falls
  into it, the function's stack usage put on the host's stack, and the place where the instruction
  starts. \<open>starts\<close> is \<^verbatim>\<open>vm->int_funcs[i]\<close>.
\<close>

definition x86_fallthrough_jump :: "ubpf_vm \<Rightarrow> bool \<Rightarrow> nat \<Rightarrow> uint32_t option jit" where
  "x86_fallthrough_jump vm starts i =
     (if i \<noteq> 0 \<and> starts then
        (case ubpf_fetch_instruction vm (of_nat (i - 1)) of
           None \<Rightarrow> do { set_fault; State_Monad.return None }
         | Some prev_inst \<Rightarrow>
             if ubpf_instruction_has_fallthrough prev_inst then do {
               fallthrough_jump_source \<leftarrow> emit_jmp (Regular \<lparr>ebpf_target_pc = 0, jit_target_pc = 0, near = True\<rparr>);
               State_Monad.return (Some fallthrough_jump_source)
             } else State_Monad.return None)
      else State_Monad.return None)"

definition x86_function_prolog :: "ubpf_vm \<Rightarrow> bool \<Rightarrow> nat \<Rightarrow> unit jit" where
  "x86_function_prolog vm starts i =
     if_then (i = 0 \<or> starts)
       (case ubpf_stack_usage_for_local_func vm (of_nat i) of
          None \<Rightarrow> set_fault
        | Some usage \<Rightarrow> do {
            prolog_start \<leftarrow> gets jit_offset;
            emit_alu64_imm32 0x81 5 RSP 8;
            emit1 0x48; emit1 0xC7; emit1 0x04; emit1 0x24;
            emit4 (ucast usage);
            modify (\<lambda>s. if bpf_function_prolog_size s = 0
              then s\<lparr>bpf_function_prolog_size := ucast (jit_offset s) - ucast prolog_start\<rparr> else s)
          })"

definition x86_instruction :: "ubpf_vm \<Rightarrow> ebpf_inst \<Rightarrow> bool \<Rightarrow> nat \<Rightarrow> bool jit" where
  "x86_instruction vm inst starts i = do {
     fallthrough_jump \<leftarrow> x86_fallthrough_jump vm starts i;
     x86_function_prolog vm starts i;
     (case fallthrough_jump of
        None \<Rightarrow> skip
      | Some source \<Rightarrow> modify (\<lambda>s. s\<lparr>jumps := modify_patchable_relatives_target (jumps s) source
          (Regular \<lparr>ebpf_target_pc = 0, jit_target_pc = jit_offset s, near = True\<rparr>)\<rparr>));
     modify (\<lambda>s. s\<lparr>pc_locs := (pc_locs s)(i := jit_offset s)\<rparr>);
     x86_body vm inst i
   }"

definition inst_slots :: "ebpf_inst \<Rightarrow> nat" where
  "inst_slots inst = (if opcode inst = EBPF_OP_LDDW then 2 else 1)"

function x86_loop :: "ubpf_vm \<Rightarrow> nat \<Rightarrow> bool jit" where
  "x86_loop vm i =
     (if i < unat (num_insts vm) then do {
        status \<leftarrow> gets jit_status;
        if status \<noteq> NoError then State_Monad.return True
        else
          (case (ubpf_fetch_instruction vm (of_nat i), int_funcs vm) of
             (Some inst, Some marks) \<Rightarrow>
               if i < length marks then do {
                 ok \<leftarrow> x86_instruction vm inst (marks ! i) i;
                 if ok then x86_loop vm (i + inst_slots inst) else State_Monad.return False
               } else do { set_fault; State_Monad.return False }
           | _ \<Rightarrow> do { set_fault; State_Monad.return False })
      } else State_Monad.return True)"
  by pat_completeness auto

termination
  by (relation "measure (\<lambda>(vm, i). unat (num_insts vm) - i)") (auto simp: inst_slots_def)

declare x86_loop.simps [simp del]

definition x86_prologue :: "unit jit" where
  "x86_prologue = do {
     emit_all (map emit_push platform_nonvolatile_registers);
     if_then (map_register 1 \<noteq> platform_parameter_registers ! 0)
       (emit_mov (platform_parameter_registers ! 0) (map_register BPF_REG_1));
     emit_mov (platform_parameter_registers ! 0) VOLATILE_CTXT;
     if_then (even (length platform_nonvolatile_registers)) (emit_alu64_imm32 0x81 5 RSP 0x8);
     emit_mov RSP RBP;
     mode \<leftarrow> gets state_jit_mode;
     (if mode = BasicJitMode then do {
        emit_mov RSP (map_register BPF_REG_10);
        emit_alu64_imm32 0x81 5 RSP (ucast UBPF_EBPF_STACK_SIZE)
      } else do {
        emit_mov (platform_parameter_registers ! 2) (map_register BPF_REG_10);
        emit_alu64 0x01 (platform_parameter_registers ! 3) (map_register BPF_REG_10)
      });
     emit1 0xe8;
     emit4 5;
     _ \<leftarrow> emit_jmp (Special Exit);
     skip
   }"

definition x86_epilogue :: "ubpf_vm \<Rightarrow> unit jit" where
  "x86_epilogue vm = do {
     modify (\<lambda>s. s\<lparr>exit_loc := jit_offset s\<rparr>);
     if_then (map_register BPF_REG_0 \<noteq> RAX) (emit_mov (map_register BPF_REG_0) RAX);
     emit_mov RBP RSP;
     if_then (even (length platform_nonvolatile_registers)) (emit_alu64_imm32 0x81 0 RSP 0x8);
     emit_all (map emit_pop (rev platform_nonvolatile_registers));
     emit1 0xc3;
     retpoline \<leftarrow> emit_retpoline;
     modify (\<lambda>s. s\<lparr>retpoline_loc := retpoline\<rparr>);
     dispatcher_address \<leftarrow> emit_dispatched_external_helper_address vm;
     modify (\<lambda>s. s\<lparr>dispatcher_loc := dispatcher_address\<rparr>);
     table \<leftarrow> emit_helper_table vm;
     modify (\<lambda>s. s\<lparr>helper_table_loc := table\<rparr>)
   }"

definition status_message :: "jit_progress \<Rightarrow> jit_error option \<Rightarrow> jit_error option" where
  "status_message p msg =
     (case p of
        TooManyJumps \<Rightarrow> Some Too_many_jumps
      | TooManyLoads \<Rightarrow> Some Too_many_loads
      | TooManyLeas \<Rightarrow> Some Too_many_leas
      | TooManyLocalCalls \<Rightarrow> Some Too_many_local_calls
      | NotEnoughSpace \<Rightarrow> Some Jit_buffer_too_small
      | _ \<Rightarrow> msg)"

text \<open>\<^verbatim>\<open>translate\<close>: \<^const>\<open>True\<close> is its return value 0.\<close>

definition x86_translate :: "ubpf_vm \<Rightarrow> bool jit" where
  "x86_translate vm = do {
     x86_prologue;
     ok \<leftarrow> x86_loop vm 0;
     if \<not> ok then State_Monad.return False
     else do {
       status \<leftarrow> gets jit_status;
       if status \<noteq> NoError then do {
         modify (\<lambda>s. s\<lparr>jit_errmsg := status_message status (jit_errmsg s)\<rparr>);
         State_Monad.return False
       } else do {
         x86_epilogue vm;
         State_Monad.return True
       }
     }
   }"

section \<open>Relative addresses\<close>

definition pc_loc :: "jit_state \<Rightarrow> uint32_t \<Rightarrow> uint32_t option" where
  "pc_loc s pc = (if unat pc \<le> UBPF_MAX_INSTS then Some (pc_locs s (unat pc)) else None)"

definition resolve_jump :: "patchable_relative \<Rightarrow> bool jit" where
  "resolve_jump jump = do {
     s \<leftarrow> State_Monad.get;
     let far = (\<lambda>target_loc. do {
           write_buf (unat (offset_loc jump)) (le_bytes 4 (ucast (target_loc - (offset_loc jump + 4))));
           State_Monad.return True
         });
     (case relative_target jump of
        Special Exit \<Rightarrow> far (exit_loc s)
      | Special Retpoline \<Rightarrow> far (retpoline_loc s)
      | Special _ \<Rightarrow> State_Monad.return False
      | Regular r \<Rightarrow>
          (case (if jit_target_pc r \<noteq> 0 then Some (jit_target_pc r) else pc_loc s (ebpf_target_pc r)) of
             None \<Rightarrow> do { set_fault; State_Monad.return False }
           | Some target_loc \<Rightarrow>
               if near r then
                 let rel = target_loc - (offset_loc jump + 1) in
                 if \<not> (- 128 \<le>s rel \<and> rel <s 128) then State_Monad.return False
                 else do { write_buf (unat (offset_loc jump)) [ucast rel]; State_Monad.return True }
               else far target_loc))
   }"

definition resolve_local_call :: "patchable_relative \<Rightarrow> bool jit" where
  "resolve_local_call call = do {
     s \<leftarrow> State_Monad.get;
     (case relative_target call of
        Special _ \<Rightarrow> do { set_fault; State_Monad.return False }
      | Regular r \<Rightarrow>
          (case pc_loc s (ebpf_target_pc r) of
             None \<Rightarrow> do { set_fault; State_Monad.return False }
           | Some target_loc \<Rightarrow> do {
               write_buf (unat (offset_loc call))
                 (le_bytes 4 (ucast (target_loc - (offset_loc call + 4) - ucast (bpf_function_prolog_size s))));
               State_Monad.return True
             }))
   }"

definition resolve_special :: "special_target \<Rightarrow> (jit_state \<Rightarrow> uint32_t) \<Rightarrow> patchable_relative \<Rightarrow> bool jit" where
  "resolve_special only loc r = do {
     s \<leftarrow> State_Monad.get;
     if relative_target r = Special only then do {
       write_buf (unat (offset_loc r)) (le_bytes 4 (ucast (loc s - (offset_loc r + 4))));
       State_Monad.return True
     } else State_Monad.return False
   }"

primrec resolve_all :: "(patchable_relative \<Rightarrow> bool jit) \<Rightarrow> patchable_relative list \<Rightarrow> bool jit" where
  "resolve_all f [] = State_Monad.return True"
| "resolve_all f (r # rs) = do { ok \<leftarrow> f r; if ok then resolve_all f rs else State_Monad.return False }"

definition resolve_patchable_relatives :: "bool jit" where
  "resolve_patchable_relatives = do {
     s \<leftarrow> State_Monad.get;
     ok \<leftarrow> resolve_all resolve_jump (jumps s);
     if \<not> ok then State_Monad.return False
     else do {
       ok \<leftarrow> resolve_all resolve_local_call (case local_calls s of None \<Rightarrow> [] | Some cs \<Rightarrow> cs);
       if \<not> ok then State_Monad.return False
       else do {
         ok \<leftarrow> resolve_all (resolve_special ExternalDispatcher dispatcher_loc) (loads s);
         if \<not> ok then State_Monad.return False
         else resolve_all (resolve_special LoadHelperTable helper_table_loc) (leas s)
       }
     }
   }"

section \<open>The entry point\<close>

text \<open>
  What the outside provides to a translation: the outcomes of the allocations, the random numbers,
  and the values of the locals that the source does not initialise.
\<close>

record jit_env =
  env_jit_calloc :: "nat \<Rightarrow> bool"
  env_uninit :: uint32_t
  env_uninit_mode :: jit_mode
  env_randoms :: "nat \<Rightarrow> uint64_t"

text \<open>The outcome: the result, the message, the buffer and \<^verbatim>\<open>*size\<close> afterwards, and whether an invalid access happened.\<close>

record translation =
  tr_result :: ubpf_jit_result
  tr_errmsg :: "jit_error option"
  tr_buffer :: "uint8_t list"
  tr_size :: uint64_t
  tr_fault :: bool

definition failed_translation :: "jit_env \<Rightarrow> jit_mode \<Rightarrow> jit_error option \<Rightarrow> uint8_t list \<Rightarrow> uint64_t \<Rightarrow> bool \<Rightarrow> translation" where
  "failed_translation env mode msg buffer sz fault =
     \<lparr>tr_result = \<lparr>external_dispatcher_offset = 0, external_helper_offset = env_uninit env,
        compile_result = UBPF_JIT_COMPILE_FAILURE, jit_result_mode = mode\<rparr>,
      tr_errmsg = msg, tr_buffer = buffer, tr_size = sz, tr_fault = fault\<rparr>"

definition ubpf_translate_x86_64 :: "jit_env \<Rightarrow> ubpf_vm \<Rightarrow> uint8_t list \<Rightarrow> uint64_t \<Rightarrow> jit_mode \<Rightarrow> translation" where
  "ubpf_translate_x86_64 env vm buffer sz mode =
     (case initialize_jit_state_result (env_jit_calloc env) (env_uninit env) (env_randoms env) buffer (ucast sz) mode of
        Inl e \<Rightarrow> failed_translation env mode (Some e) buffer sz False
      | Inr s0 \<Rightarrow>
          let (ok, s1) = run_state (x86_translate vm) s0 in
          if \<not> ok then failed_translation env mode (jit_errmsg s1) (jit_buf s1) sz (jit_fault s1)
          else
            let (ok, s2) = run_state resolve_patchable_relatives s1 in
            if \<not> ok then failed_translation env mode (Some Could_not_patch) (jit_buf s2) sz (jit_fault s2)
            else \<lparr>tr_result = \<lparr>external_dispatcher_offset = dispatcher_loc s2,
                     external_helper_offset = helper_table_loc s2,
                     compile_result = UBPF_JIT_COMPILE_SUCCESS, jit_result_mode = mode\<rparr>,
                   tr_errmsg = jit_errmsg s2, tr_buffer = jit_buf s2, tr_size = ucast (jit_offset s2),
                   tr_fault = jit_fault s2\<rparr>)"

end
