(* ===== verification/Jit.thy ===== *)
theory Jit
  imports X86_Translate
begin

text \<open>
  \<^verbatim>\<open>vm/ubpf_jit.c\<close>: translating the loaded program with the back end of the target, compiling it
  into executable memory, and copying the compiled code.
\<close>

section \<open>Translation\<close>

text \<open>
  What the outside provides to a compilation: the environment of the translation, the outcome of
  allocating the working buffer, the address of the new mapping (\<^const>\<open>None\<close> when \<^verbatim>\<open>mmap\<close>
  fails) and the outcome of \<^verbatim>\<open>mprotect\<close>.
\<close>

record compile_env = jit_env +
  env_calloc :: bool
  env_mmap :: "uint64_t option"
  env_mprotect :: bool

datatype compile_error =
    Safe_profile_is_interpreter_only
  | Code_not_loaded
  | Compile_calloc_failed
  | Compile_mmap_failed
  | Compile_mprotect_failed
  | Translation_error jit_error
  | Copy_before_compilation
  | Copy_buffer_too_small

definition ubpf_translate_null :: "jit_env \<Rightarrow> uint8_t list \<Rightarrow> uint64_t \<Rightarrow> translation" where
  "ubpf_translate_null env buffer sz =
     \<lparr>tr_result = \<lparr>external_dispatcher_offset = 0, external_helper_offset = env_uninit env,
        compile_result = UBPF_JIT_COMPILE_FAILURE, jit_result_mode = env_uninit_mode env\<rparr>,
      tr_errmsg = Some Not_jittable, tr_buffer = buffer, tr_size = sz, tr_fault = False\<rparr>"

text \<open>
  \<^verbatim>\<open>vm->jit_translate\<close>. The arm64 back end is an argument: a function with the interface of the
  x86-64 one.
\<close>

type_synonym translator = "jit_env \<Rightarrow> ubpf_vm \<Rightarrow> uint8_t list \<Rightarrow> uint64_t \<Rightarrow> jit_mode \<Rightarrow> translation"

definition jit_translate :: "translator \<Rightarrow> translator" where
  "jit_translate translate_arm64 env vm buffer sz mode =
     (case jit_target vm of
        JIT_x86_64 \<Rightarrow> ubpf_translate_x86_64 env vm buffer sz mode
      | JIT_arm64 \<Rightarrow> translate_arm64 env vm buffer sz mode
      | JIT_null \<Rightarrow> ubpf_translate_null env buffer sz)"

text \<open>
  The result has the return value, the message, the translation (\<^const>\<open>None\<close> if none was
  attempted) and the machine.
\<close>

definition ubpf_translate_ex ::
  "translator \<Rightarrow> jit_env \<Rightarrow> ubpf_vm \<Rightarrow> uint8_t list \<Rightarrow> uint64_t \<Rightarrow> jit_mode
    \<Rightarrow> int \<times> compile_error option \<times> translation option \<times> ubpf_vm" where
  "ubpf_translate_ex arm64 env vm buffer sz mode =
     (if execution_profile vm = UBPF_EXECUTION_PROFILE_SAFE
      then (- 1, Some Safe_profile_is_interpreter_only, None, vm)
      else
        let t = jit_translate arm64 env vm buffer sz mode in
        (if compile_result (tr_result t) = UBPF_JIT_COMPILE_SUCCESS then 0 else - 1,
         map_option Translation_error (tr_errmsg t), Some t, vm\<lparr>jitted_result := tr_result t\<rparr>))"

definition ubpf_translate ::
  "translator \<Rightarrow> jit_env \<Rightarrow> ubpf_vm \<Rightarrow> uint8_t list \<Rightarrow> uint64_t
    \<Rightarrow> int \<times> compile_error option \<times> translation option \<times> ubpf_vm" where
  "ubpf_translate arm64 env vm buffer sz = ubpf_translate_ex arm64 env vm buffer sz BasicJitMode"

section \<open>Compilation\<close>

text \<open>
  \<^verbatim>\<open>ubpf_compile_ex\<close>: the address of the code, the message, whether the translation made an
  invalid access, and the machine.
\<close>

definition ubpf_compile_ex ::
  "translator \<Rightarrow> compile_env \<Rightarrow> ubpf_vm \<Rightarrow> jit_mode \<Rightarrow> uint64_t option \<times> compile_error option \<times> bool \<times> ubpf_vm" where
  "ubpf_compile_ex arm64 env vm mode =
     (if execution_profile vm = UBPF_EXECUTION_PROFILE_SAFE
      then (None, Some Safe_profile_is_interpreter_only, False, vm)
      else if jitted vm \<noteq> None \<and> compile_result (jitted_result vm) = UBPF_JIT_COMPILE_SUCCESS \<and>
              jit_result_mode (jitted_result vm) = mode
      then (map_option fst (jitted vm), None, False, vm)
      else
        let vm = (if jitted vm \<noteq> None then vm\<lparr>jitted := None, jitted_size := 0\<rparr> else vm) in
        if insts vm = None then (None, Some Code_not_loaded, False, vm)
        else if \<not> env_calloc env then (None, Some Compile_calloc_failed, False, vm)
        else
          let buffer = replicate (unat (jitter_buffer_size vm)) 0;
              (ret, err, t, vm) = ubpf_translate_ex arm64 (jit_env.truncate env) vm buffer (jitter_buffer_size vm) mode in
          case t of
            None \<Rightarrow> (None, err, False, vm)
          | Some t \<Rightarrow>
              if ret < 0 then (None, err, tr_fault t, vm)
              else
                (case env_mmap env of
                   None \<Rightarrow> (None, Some Compile_mmap_failed, tr_fault t, vm)
                 | Some addr \<Rightarrow>
                     if \<not> env_mprotect env then (None, Some Compile_mprotect_failed, tr_fault t, vm)
                     else (Some addr, err, tr_fault t,
                       vm\<lparr>jitted := Some (addr, take (unat (tr_size t)) (tr_buffer t)), jitted_size := tr_size t\<rparr>)))"

definition ubpf_compile ::
  "translator \<Rightarrow> compile_env \<Rightarrow> ubpf_vm \<Rightarrow> uint64_t option \<times> compile_error option \<times> bool \<times> ubpf_vm" where
  "ubpf_compile arm64 env vm = ubpf_compile_ex arm64 env vm BasicJitMode"

section \<open>Copying\<close>

text \<open>\<^verbatim>\<open>ubpf_copy_jit\<close> into a buffer at address \<open>buf\<close>: the result, the message and the buffer's bytes.\<close>

definition ubpf_copy_jit ::
  "ubpf_vm \<Rightarrow> uint64_t \<Rightarrow> uint8_t list \<Rightarrow> uint64_t \<Rightarrow> uint64_t option \<times> compile_error option \<times> uint8_t list" where
  "ubpf_copy_jit vm buf bytes sz =
     (case jitted vm of
        None \<Rightarrow> (None, Some Copy_before_compilation, bytes)
      | Some (addr, code) \<Rightarrow>
          if compile_result (jitted_result vm) \<noteq> UBPF_JIT_COMPILE_SUCCESS
          then (None, Some Copy_before_compilation, bytes)
          else if jitted_size vm > sz then (None, Some Copy_buffer_too_small, bytes)
          else (Some buf, None, patch_bytes bytes 0 (take (unat (jitted_size vm)) code)))"

end
