(* ===== verification/X86_Machine.thy ===== *)
theory X86_Machine
  imports Interp_Mem
begin

text \<open>
  The part of the x86-64 architecture that the code generator uses, after the instruction
  reference of the architecture's manual: decoding of instructions from bytes and their effect on
  registers, flags and memory. It is the yardstick for the generated code and models no source of
  the repository. An instruction that faults (unmapped memory, divide error) or that reads flags
  the architecture leaves undefined has no result.
\<close>

section \<open>Instructions\<close>

type_synonym x86_reg = "4 word"

datatype x86_rm = Xreg x86_reg | Xmem x86_reg int32_t | Xrip int32_t

datatype x86_op = Xadd | Xor | Xand | Xsub | Xxor | Xcmp | Xtest

datatype x86_shift = Xshl | Xshr | Xsar

datatype x86_cond = Xe | Xne | Xb | Xae | Xbe | Xa | Xl | Xge | Xle | Xg

text \<open>
  The Boolean of an instruction selects its 64-bit form over the 32-bit one; a width is a number
  of bytes.
\<close>

datatype x86_instr =
    Xalu x86_op bool x86_rm x86_reg
  | Xalu_from x86_op bool x86_reg x86_rm
  | Xalu_imm x86_op bool x86_rm int32_t
  | Xmov nat x86_rm x86_reg
  | Xmov_imm nat x86_rm int32_t
  | Xmovabs x86_reg uint64_t
  | Xload nat x86_reg x86_rm
  | Xload_sx nat bool x86_reg x86_rm
  | Xlea x86_reg x86_rm
  | Xshift x86_shift bool x86_rm uint8_t
  | Xshift_cl x86_shift bool x86_rm
  | Xrol16 x86_rm uint8_t
  | Xneg bool x86_rm
  | Xmul bool x86_rm
  | Xdiv bool x86_rm
  | Xidiv bool x86_rm
  | Xcdq bool
  | Xbswap bool x86_reg
  | Xcmove x86_reg x86_rm
  | Xpush x86_reg
  | Xpop x86_reg
  | Xpushf
  | Xpopf
  | Xjcc x86_cond int64_t
  | Xjmp int64_t
  | Xcall int64_t
  | Xret
  | Xlock_alu x86_op bool x86_rm x86_reg
  | Xlock_cmpxchg bool x86_rm x86_reg
  | Xlock_xchg bool x86_rm x86_reg

section \<open>Decoding\<close>

text \<open>
  A REX prefix \<open>0100WRXB\<close> extends the register fields of the ModRM byte; 0 stands for no prefix.
\<close>

definition rex_w :: "uint8_t \<Rightarrow> bool" where "rex_w rex = bit rex 3"

definition reg_field :: "uint8_t \<Rightarrow> uint8_t \<Rightarrow> x86_reg" where
  "reg_field rex b = (if bit rex 2 then 8 else 0) OR ucast (drop_bit 3 b AND 7)"

definition rm_field :: "uint8_t \<Rightarrow> uint8_t \<Rightarrow> x86_reg" where
  "rm_field rex b = (if bit rex 0 then 8 else 0) OR ucast (b AND 7)"

definition le32 :: "uint8_t list \<Rightarrow> int32_t" where "le32 bs = ucast (le_value (take 4 bs))"
definition le64 :: "uint8_t list \<Rightarrow> uint64_t" where "le64 bs = le_value (take 8 bs)"

text \<open>The displacement that follows for the two top bits of the ModRM byte, and its length.\<close>

definition displacement :: "uint8_t \<Rightarrow> uint8_t list \<Rightarrow> (int32_t \<times> nat) option" where
  "displacement md bs =
     (if md = 0 then Some (0, 0)
      else if md = 1 then (case bs of [] \<Rightarrow> None | b # _ \<Rightarrow> Some (scast b, 1))
      else if length bs < 4 then None else Some (le32 bs, 4))"

text \<open>The reg field, the r/m operand, and the number of bytes they take.\<close>

definition decode_modrm :: "uint8_t \<Rightarrow> uint8_t list \<Rightarrow> (x86_reg \<times> x86_rm \<times> nat) option" where
  "decode_modrm rex bs =
     (case bs of
        [] \<Rightarrow> None
      | b # bs \<Rightarrow>
          let md = drop_bit 6 b; reg = reg_field rex b in
          if md = 3 then Some (reg, Xreg (rm_field rex b), 1)
          else if b AND 7 = 4 then
            (case bs of
               [] \<Rightarrow> None
             | sib # bs \<Rightarrow>
                 if sib = 0x24 then
                   map_option (\<lambda>(d, n). (reg, Xmem (rm_field rex b) d, 2 + n)) (displacement md bs)
                 else None)
          else if md = 0 \<and> b AND 7 = 5 then
            (if length bs < 4 then None else Some (reg, Xrip (le32 bs), 5))
          else map_option (\<lambda>(d, n). (reg, Xmem (rm_field rex b) d, 1 + n)) (displacement md bs))"

definition alu_of_opcode :: "uint8_t \<Rightarrow> x86_op option" where
  "alu_of_opcode b = map_of [(0x01, Xadd), (0x09, Xor), (0x21, Xand), (0x29, Xsub), (0x31, Xxor), (0x39, Xcmp), (0x85, Xtest)] b"

definition alu_of_ext :: "x86_reg \<Rightarrow> x86_op option" where
  "alu_of_ext e = map_of [(0, Xadd), (1, Xor), (4, Xand), (5, Xsub), (6, Xxor), (7, Xcmp)] (e AND 7)"

definition shift_of_ext :: "x86_reg \<Rightarrow> x86_shift option" where
  "shift_of_ext e = map_of [(4, Xshl), (5, Xshr), (7, Xsar)] (e AND 7)"

definition cond_of_opcode :: "uint8_t \<Rightarrow> x86_cond option" where
  "cond_of_opcode b = map_of [(0x2, Xb), (0x3, Xae), (0x4, Xe), (0x5, Xne), (0x6, Xbe), (0x7, Xa),
     (0xc, Xl), (0xd, Xge), (0xe, Xle), (0xf, Xg)] (b AND 0xf)"

text \<open>An instruction with a ModRM byte and an immediate of \<open>k\<close> bytes after it.\<close>

definition with_modrm ::
  "uint8_t \<Rightarrow> uint8_t list \<Rightarrow> nat \<Rightarrow> (x86_reg \<Rightarrow> x86_rm \<Rightarrow> uint8_t list \<Rightarrow> x86_instr option) \<Rightarrow> (x86_instr \<times> nat) option" where
  "with_modrm rex bs k f =
     (case decode_modrm rex bs of
        None \<Rightarrow> None
      | Some (reg, rm, n) \<Rightarrow>
          if length bs < n + k then None
          else map_option (\<lambda>i. (i, n + k)) (f reg rm (drop n bs)))"

text \<open>The opcodes after \<open>0x0f\<close>.\<close>

definition decode_0f :: "uint8_t \<Rightarrow> uint8_t list \<Rightarrow> (x86_instr \<times> nat) option" where
  "decode_0f rex bs =
     (case bs of
        [] \<Rightarrow> None
      | op # bs \<Rightarrow>
          map_option (map_prod id Suc)
            (if op = 0xb6 then with_modrm rex bs 0 (\<lambda>r m _. Some (Xload 1 r m))
             else if op = 0xb7 then with_modrm rex bs 0 (\<lambda>r m _. Some (Xload 2 r m))
             else if op = 0xbe then with_modrm rex bs 0 (\<lambda>r m _. Some (Xload_sx 1 (rex_w rex) r m))
             else if op = 0xbf then with_modrm rex bs 0 (\<lambda>r m _. Some (Xload_sx 2 (rex_w rex) r m))
             else if op = 0x44 then with_modrm rex bs 0 (\<lambda>r m _. if rex_w rex then Some (Xcmove r m) else None)
             else if op AND 0xf8 = 0xc8 then Some (Xbswap (rex_w rex) (rm_field rex op), 0)
             else if op AND 0xf0 = 0x80 then
               (if length bs < 4 then None else map_option (\<lambda>c. (Xjcc c (scast (le32 bs)), 4)) (cond_of_opcode op))
             else None))"

definition decode_op :: "bool \<Rightarrow> uint8_t \<Rightarrow> uint8_t list \<Rightarrow> (x86_instr \<times> nat) option" where
  "decode_op p66 rex bs =
     (case bs of
        [] \<Rightarrow> None
      | op # bs \<Rightarrow>
          let w = rex_w rex; n = (if w then 8 else if p66 then 2 else 4) in
          map_option (map_prod id Suc)
            (if op = 0x0f then decode_0f rex bs
             else if alu_of_opcode op \<noteq> None then
               with_modrm rex bs 0 (\<lambda>r m _. map_option (\<lambda>a. Xalu a w m r) (alu_of_opcode op))
             else if op = 0x03 then with_modrm rex bs 0 (\<lambda>r m _. Some (Xalu_from Xadd w r m))
             else if op = 0x2b then with_modrm rex bs 0 (\<lambda>r m _. Some (Xalu_from Xsub w r m))
             else if op = 0x81 then
               with_modrm rex bs 4 (\<lambda>r m is. map_option (\<lambda>a. Xalu_imm a w m (le32 is)) (alu_of_ext r))
             else if op = 0x83 then
               with_modrm rex bs 1 (\<lambda>r m is. map_option (\<lambda>a. Xalu_imm a w m (scast (hd is))) (alu_of_ext r))
             else if op = 0x3d then
               (if length bs < 4 then None else Some (Xalu_imm Xcmp w (Xreg 0) (le32 bs), 4))
             else if op = 0x89 then with_modrm rex bs 0 (\<lambda>r m _. Some (Xmov n m r))
             else if op = 0x88 then with_modrm rex bs 0 (\<lambda>r m _. Some (Xmov 1 m r))
             else if op = 0x8b then with_modrm rex bs 0 (\<lambda>r m _. Some (Xload n r m))
             else if op = 0x63 then with_modrm rex bs 0 (\<lambda>r m _. Some (Xload_sx 4 w r m))
             else if op = 0x8d then with_modrm rex bs 0 (\<lambda>r m _. Some (Xlea r m))
             else if op = 0xc7 \<and> \<not> p66 then with_modrm rex bs 4 (\<lambda>_ m is. Some (Xmov_imm n m (le32 is)))
             else if op = 0xc7 then
               with_modrm rex bs 2 (\<lambda>_ m is. Some (Xmov_imm 2 m (ucast (le_value (take 2 is)))))
             else if op = 0xc6 then with_modrm rex bs 1 (\<lambda>_ m is. Some (Xmov_imm 1 m (ucast (hd is))))
             else if op = 0xc1 \<and> p66 then
               with_modrm rex bs 1 (\<lambda>r m is. if r AND 7 = 0 then Some (Xrol16 m (hd is)) else None)
             else if op = 0xc1 then
               with_modrm rex bs 1 (\<lambda>r m is. map_option (\<lambda>k. Xshift k w m (hd is)) (shift_of_ext r))
             else if op = 0xd3 then with_modrm rex bs 0 (\<lambda>r m _. map_option (\<lambda>k. Xshift_cl k w m) (shift_of_ext r))
             else if op = 0xf7 then
               (case decode_modrm rex bs of
                  None \<Rightarrow> None
                | Some (r, m, k) \<Rightarrow>
                    if r AND 7 = 0 then
                      (if length bs < k + 4 then None else Some (Xalu_imm Xtest w m (le32 (drop k bs)), k + 4))
                    else if r AND 7 = 3 then Some (Xneg w m, k)
                    else if r AND 7 = 4 then Some (Xmul w m, k)
                    else if r AND 7 = 6 then Some (Xdiv w m, k)
                    else if r AND 7 = 7 then Some (Xidiv w m, k)
                    else None)
             else if op AND 0xf8 = 0xb8 then
               (if w \<and> 8 \<le> length bs then Some (Xmovabs (rm_field rex op) (le64 bs), 8) else None)
             else if op AND 0xf8 = 0x50 then Some (Xpush (rm_field rex op), 0)
             else if op AND 0xf8 = 0x58 then Some (Xpop (rm_field rex op), 0)
             else if op = 0x99 then Some (Xcdq w, 0)
             else if op = 0x9c then Some (Xpushf, 0)
             else if op = 0x9d then Some (Xpopf, 0)
             else if op AND 0xf0 = 0x70 then
               (case bs of [] \<Rightarrow> None | d # _ \<Rightarrow> map_option (\<lambda>c. (Xjcc c (scast d), 1)) (cond_of_opcode op))
             else if op = 0xeb then (case bs of [] \<Rightarrow> None | d # _ \<Rightarrow> Some (Xjmp (scast d), 1))
             else if op = 0xe9 then (if length bs < 4 then None else Some (Xjmp (scast (le32 bs)), 4))
             else if op = 0xe8 then (if length bs < 4 then None else Some (Xcall (scast (le32 bs)), 4))
             else if op = 0xc3 then Some (Xret, 0)
             else None))"

definition decode_rex :: "bool \<Rightarrow> uint8_t list \<Rightarrow> (x86_instr \<times> nat) option" where
  "decode_rex p66 bs =
     (case bs of
        [] \<Rightarrow> None
      | b # bs' \<Rightarrow>
          if b AND 0xf0 = 0x40 then map_option (map_prod id Suc) (decode_op p66 b bs')
          else decode_op p66 0 bs)"

text \<open>The three locked instructions act on memory.\<close>

definition decode_lock :: "uint8_t list \<Rightarrow> (x86_instr \<times> nat) option" where
  "decode_lock bs =
     (case bs of
        [] \<Rightarrow> None
      | b # bs' \<Rightarrow>
          let (rex, k, bs) = (if b AND 0xf0 = 0x40 then (b, 1, bs') else (0, 0, bs)) in
          (case bs of
             op # bs \<Rightarrow>
               if op = 0x0f then
                 (case bs of
                    op2 # bs \<Rightarrow>
                      if op2 = 0xb1 then
                        map_option (\<lambda>(i, n). (i, k + 2 + n))
                          (with_modrm rex bs 0 (\<lambda>r m _. Some (Xlock_cmpxchg (rex_w rex) m r)))
                      else None
                  | [] \<Rightarrow> None)
               else if op = 0x87 then
                 map_option (\<lambda>(i, n). (i, k + 1 + n)) (with_modrm rex bs 0 (\<lambda>r m _. Some (Xlock_xchg (rex_w rex) m r)))
               else
                 map_option (\<lambda>(i, n). (i, k + 1 + n))
                   (with_modrm rex bs 0 (\<lambda>r m _. map_option (\<lambda>a. Xlock_alu a (rex_w rex) m r) (alu_of_opcode op)))
           | [] \<Rightarrow> None))"

definition decode :: "uint8_t list \<Rightarrow> (x86_instr \<times> nat) option" where
  "decode bs =
     (case bs of
        [] \<Rightarrow> None
      | b # bs' \<Rightarrow>
          if b = 0x66 then map_option (map_prod id Suc) (decode_rex True bs')
          else if b = 0xf0 then map_option (map_prod id Suc) (decode_lock bs')
          else decode_rex False bs)"

section \<open>Execution\<close>

record x86_flags =
  ZF :: bool
  CF :: bool
  SF :: bool
  OF :: bool

text \<open>\<open>xip\<close> is the position in the code; the flags are \<^const>\<open>None\<close> when they are undefined.\<close>

record x86_state =
  xreg :: "x86_reg \<Rightarrow> uint64_t"
  xflags :: "x86_flags option"
  xmem :: memory
  xip :: int

definition truncate_to :: "nat \<Rightarrow> uint64_t \<Rightarrow> uint64_t" where
  "truncate_to n v = take_bit (8 * n) v"

definition sign_extend_from :: "nat \<Rightarrow> uint64_t \<Rightarrow> uint64_t" where
  "sign_extend_from n v = signed_take_bit (8 * n - 1) v"

definition rm_address :: "x86_state \<Rightarrow> x86_rm \<Rightarrow> uint64_t" where
  "rm_address s m = (case m of Xmem r d \<Rightarrow> xreg s r + scast d | _ \<Rightarrow> 0)"

definition read_rm :: "nat \<Rightarrow> x86_state \<Rightarrow> x86_rm \<Rightarrow> uint64_t option" where
  "read_rm n s m =
     (case m of
        Xreg r \<Rightarrow> Some (truncate_to n (xreg s r))
      | Xmem _ _ \<Rightarrow> load_le (xmem s) (rm_address s m) n
      | Xrip _ \<Rightarrow> None)"

text \<open>A 32-bit result clears the upper half of a register; a 16-bit one leaves the rest alone.\<close>

definition write_rm :: "nat \<Rightarrow> x86_state \<Rightarrow> x86_rm \<Rightarrow> uint64_t \<Rightarrow> x86_state option" where
  "write_rm n s m v =
     (case m of
        Xreg r \<Rightarrow>
          Some (s\<lparr>xreg := (xreg s)(r :=
            if n \<ge> 4 then truncate_to n v
            else truncate_to n v OR (xreg s r AND NOT (mask (8 * n))))\<rparr>)
      | Xmem _ _ \<Rightarrow> map_option (\<lambda>h. s\<lparr>xmem := h\<rparr>) (store_le (xmem s) (rm_address s m) v n)
      | Xrip _ \<Rightarrow> None)"

definition width :: "bool \<Rightarrow> nat" where "width w = (if w then 8 else 4)"

definition sign_bit :: "nat \<Rightarrow> uint64_t \<Rightarrow> bool" where "sign_bit n v = bit v (8 * n - 1)"

text \<open>The value of a two-operand operation at a width, and the flags it sets.\<close>

definition alu_value :: "x86_op \<Rightarrow> uint64_t \<Rightarrow> uint64_t \<Rightarrow> uint64_t" where
  "alu_value op a b =
     (case op of Xadd \<Rightarrow> a + b | Xor \<Rightarrow> a OR b | Xand \<Rightarrow> a AND b | Xsub \<Rightarrow> a - b | Xxor \<Rightarrow> a XOR b
      | Xcmp \<Rightarrow> a - b | Xtest \<Rightarrow> a AND b)"

definition alu_flags :: "x86_op \<Rightarrow> nat \<Rightarrow> uint64_t \<Rightarrow> uint64_t \<Rightarrow> x86_flags" where
  "alu_flags op n a b =
     (let v = truncate_to n (alu_value op a b); sa = sign_bit n a; sb = sign_bit n b; sv = sign_bit n v in
      \<lparr>ZF = (v = 0),
       CF = (case op of Xadd \<Rightarrow> v < a | Xsub \<Rightarrow> a < b | Xcmp \<Rightarrow> a < b | _ \<Rightarrow> False),
       SF = sv,
       OF = (case op of Xadd \<Rightarrow> sa = sb \<and> sv \<noteq> sa | Xsub \<Rightarrow> sa \<noteq> sb \<and> sv \<noteq> sa | Xcmp \<Rightarrow> sa \<noteq> sb \<and> sv \<noteq> sa | _ \<Rightarrow> False)\<rparr>)"

definition writes_result :: "x86_op \<Rightarrow> bool" where "writes_result op \<longleftrightarrow> op \<noteq> Xcmp \<and> op \<noteq> Xtest"

definition exec_alu_rm :: "x86_op \<Rightarrow> nat \<Rightarrow> x86_rm \<Rightarrow> uint64_t \<Rightarrow> x86_state \<Rightarrow> x86_state option" where
  "exec_alu_rm op n m b s =
     (case read_rm n s m of
        None \<Rightarrow> None
      | Some a \<Rightarrow>
          map_option (\<lambda>s. s\<lparr>xflags := Some (alu_flags op n a b)\<rparr>)
            (if writes_result op then write_rm n s m (alu_value op a b) else Some s))"

text \<open>The processor masks the shift count to the width of the operand.\<close>

definition shift_value :: "x86_shift \<Rightarrow> bool \<Rightarrow> uint64_t \<Rightarrow> uint8_t \<Rightarrow> uint64_t" where
  "shift_value k w a count =
     (let c = unat (count AND (if w then 0x3f else 0x1f)) in
      case k of
        Xshl \<Rightarrow> push_bit c a
      | Xshr \<Rightarrow> drop_bit c a
      | Xsar \<Rightarrow> if w then signed_drop_bit c a else ucast (signed_drop_bit c (ucast a :: uint32_t)))"

definition rol16_value :: "uint64_t \<Rightarrow> uint8_t \<Rightarrow> uint64_t" where
  "rol16_value a count =
     ucast (word_rotl (unat (count AND 0x1f)) (ucast a :: uint16_t))"

definition bswap_value :: "nat \<Rightarrow> uint64_t \<Rightarrow> uint64_t" where
  "bswap_value n v = le_value (rev (le_bytes n v))"

definition flags_value :: "x86_flags \<Rightarrow> uint64_t" where
  "flags_value f = of_bool (CF f) OR push_bit 6 (of_bool (ZF f)) OR push_bit 7 (of_bool (SF f)) OR push_bit 11 (of_bool (OF f))"

definition value_flags :: "uint64_t \<Rightarrow> x86_flags" where
  "value_flags v = \<lparr>ZF = bit v 6, CF = bit v 0, SF = bit v 7, OF = bit v 11\<rparr>"

definition push_value :: "uint64_t \<Rightarrow> x86_state \<Rightarrow> x86_state option" where
  "push_value v s =
     (let a = xreg s 4 - 8 in
      map_option (\<lambda>h. s\<lparr>xmem := h, xreg := (xreg s)(4 := a)\<rparr>) (store_le (xmem s) a v 8))"

definition pop_value :: "x86_state \<Rightarrow> (uint64_t \<times> x86_state) option" where
  "pop_value s =
     map_option (\<lambda>v. (v, s\<lparr>xreg := (xreg s)(4 := xreg s 4 + 8)\<rparr>)) (load_le (xmem s) (xreg s 4) 8)"

definition cond_holds :: "x86_cond \<Rightarrow> x86_flags \<Rightarrow> bool" where
  "cond_holds c f =
     (case c of
        Xe \<Rightarrow> ZF f | Xne \<Rightarrow> \<not> ZF f | Xb \<Rightarrow> CF f | Xae \<Rightarrow> \<not> CF f | Xbe \<Rightarrow> CF f \<or> ZF f | Xa \<Rightarrow> \<not> (CF f \<or> ZF f)
      | Xl \<Rightarrow> SF f \<noteq> OF f | Xge \<Rightarrow> SF f = OF f | Xle \<Rightarrow> ZF f \<or> SF f \<noteq> OF f | Xg \<Rightarrow> \<not> (ZF f \<or> SF f \<noteq> OF f))"

text \<open>
  Multiplication and division use the pair of registers 2 and 0; a quotient that does not fit its
  register is a divide error.
\<close>

definition exec_mul :: "bool \<Rightarrow> uint64_t \<Rightarrow> x86_state \<Rightarrow> x86_state" where
  "exec_mul w b s =
     (let n = width w; p = uint (truncate_to n (xreg s 0)) * uint b in
      s\<lparr>xreg := (xreg s)(0 := word_of_int (take_bit (8 * n) p), 2 := word_of_int (drop_bit (8 * n) p)), xflags := None\<rparr>)"

definition exec_div :: "bool \<Rightarrow> uint64_t \<Rightarrow> x86_state \<Rightarrow> x86_state option" where
  "exec_div w b s =
     (let n = width w; d = uint (truncate_to n (xreg s 2)) * 2 ^ (8 * n) + uint (truncate_to n (xreg s 0)) in
      if b = 0 \<or> d div uint b \<ge> 2 ^ (8 * n) then None
      else Some (s\<lparr>xreg := (xreg s)(0 := word_of_int (d div uint b), 2 := word_of_int (d mod uint b)), xflags := None\<rparr>))"

definition sint_at :: "nat \<Rightarrow> uint64_t \<Rightarrow> int" where "sint_at n v = signed_take_bit (8 * n - 1) (uint v)"

definition exec_idiv :: "bool \<Rightarrow> uint64_t \<Rightarrow> x86_state \<Rightarrow> x86_state option" where
  "exec_idiv w b s =
     (let n = width w; d = sint_at n (xreg s 2) * 2 ^ (8 * n) + uint (truncate_to n (xreg s 0)); q = d sdiv sint_at n b in
      if b = 0 \<or> q \<ge> 2 ^ (8 * n - 1) \<or> q < - (2 ^ (8 * n - 1)) then None
      else Some (s\<lparr>xreg := (xreg s)(0 := truncate_to n (word_of_int q),
             2 := truncate_to n (word_of_int (d smod sint_at n b))), xflags := None\<rparr>))"

text \<open>
  The effect of an instruction whose successor in the code is at \<open>next\<close>. Call and return keep
  the position in the code as the return address, relative to \<open>base\<close>, the address of the code.
\<close>

definition exec_instr :: "uint64_t \<Rightarrow> x86_instr \<Rightarrow> int \<Rightarrow> x86_state \<Rightarrow> x86_state option" where
  "exec_instr base i next s0 =
     (let s = s0\<lparr>xip := next\<rparr> in
      case i of
        Xalu op w m r \<Rightarrow> exec_alu_rm op (width w) m (truncate_to (width w) (xreg s r)) s
      | Xalu_from op w r m \<Rightarrow>
          (case read_rm (width w) s m of None \<Rightarrow> None | Some b \<Rightarrow> exec_alu_rm op (width w) (Xreg r) b s)
      | Xalu_imm op w m im \<Rightarrow> exec_alu_rm op (width w) m (truncate_to (width w) (scast im)) s
      | Xmov n m r \<Rightarrow> write_rm n s m (xreg s r)
      | Xmov_imm n m im \<Rightarrow> write_rm n s m (scast im)
      | Xmovabs r im \<Rightarrow> Some (s\<lparr>xreg := (xreg s)(r := im)\<rparr>)
      | Xload n r m \<Rightarrow>
          (case read_rm n s m of None \<Rightarrow> None | Some v \<Rightarrow> Some (s\<lparr>xreg := (xreg s)(r := v)\<rparr>))
      | Xload_sx n w r m \<Rightarrow>
          (case read_rm n s m of
             None \<Rightarrow> None
           | Some v \<Rightarrow> Some (s\<lparr>xreg := (xreg s)(r := truncate_to (width w) (sign_extend_from n v))\<rparr>))
      | Xlea r m \<Rightarrow>
          (case m of Xrip d \<Rightarrow> Some (s\<lparr>xreg := (xreg s)(r := base + word_of_int next + scast d)\<rparr>) | _ \<Rightarrow> None)
      | Xshift k w m count \<Rightarrow>
          (case read_rm (width w) s m of
             None \<Rightarrow> None | Some a \<Rightarrow> write_rm (width w) (s\<lparr>xflags := None\<rparr>) m (shift_value k w a count))
      | Xshift_cl k w m \<Rightarrow>
          (case read_rm (width w) s m of
             None \<Rightarrow> None | Some a \<Rightarrow> write_rm (width w) (s\<lparr>xflags := None\<rparr>) m (shift_value k w a (ucast (xreg s 1))))
      | Xrol16 m count \<Rightarrow>
          (case read_rm 2 s m of None \<Rightarrow> None | Some a \<Rightarrow> write_rm 2 (s\<lparr>xflags := None\<rparr>) m (rol16_value a count))
      | Xneg w m \<Rightarrow>
          (case read_rm (width w) s m of None \<Rightarrow> None | Some a \<Rightarrow> write_rm (width w) (s\<lparr>xflags := None\<rparr>) m (- a))
      | Xmul w m \<Rightarrow> (case read_rm (width w) s m of None \<Rightarrow> None | Some b \<Rightarrow> Some (exec_mul w b s))
      | Xdiv w m \<Rightarrow> (case read_rm (width w) s m of None \<Rightarrow> None | Some b \<Rightarrow> exec_div w b s)
      | Xidiv w m \<Rightarrow> (case read_rm (width w) s m of None \<Rightarrow> None | Some b \<Rightarrow> exec_idiv w b s)
      | Xcdq w \<Rightarrow>
          Some (s\<lparr>xreg := (xreg s)(2 := if sign_bit (width w) (xreg s 0) then truncate_to (width w) (- 1) else 0)\<rparr>)
      | Xbswap w r \<Rightarrow> Some (s\<lparr>xreg := (xreg s)(r := bswap_value (width w) (xreg s r))\<rparr>)
      | Xcmove r m \<Rightarrow>
          (case (read_rm 8 s m, xflags s) of
             (Some v, Some f) \<Rightarrow> Some (if ZF f then s\<lparr>xreg := (xreg s)(r := v)\<rparr> else s) | _ \<Rightarrow> None)
      | Xpush r \<Rightarrow> push_value (xreg s r) s
      | Xpop r \<Rightarrow>
          (case pop_value s of None \<Rightarrow> None | Some (v, s) \<Rightarrow> Some (s\<lparr>xreg := (xreg s)(r := v)\<rparr>))
      | Xpushf \<Rightarrow> (case xflags s of None \<Rightarrow> None | Some f \<Rightarrow> push_value (flags_value f) s)
      | Xpopf \<Rightarrow>
          (case pop_value s of None \<Rightarrow> None | Some (v, s) \<Rightarrow> Some (s\<lparr>xflags := Some (value_flags v)\<rparr>))
      | Xjcc c rel \<Rightarrow>
          (case xflags s of
             None \<Rightarrow> None | Some f \<Rightarrow> Some (if cond_holds c f then s\<lparr>xip := next + sint rel\<rparr> else s))
      | Xjmp rel \<Rightarrow> Some (s\<lparr>xip := next + sint rel\<rparr>)
      | Xcall rel \<Rightarrow>
          map_option (\<lambda>s. s\<lparr>xip := next + sint rel\<rparr>) (push_value (base + word_of_int next) s)
      | Xret \<Rightarrow>
          (case pop_value s of None \<Rightarrow> None | Some (v, s) \<Rightarrow> Some (s\<lparr>xip := uint (v - base)\<rparr>))
      | Xlock_alu op w m r \<Rightarrow> exec_alu_rm op (width w) m (truncate_to (width w) (xreg s r)) s
      | Xlock_cmpxchg w m r \<Rightarrow>
          (case read_rm (width w) s m of
             None \<Rightarrow> None
           | Some v \<Rightarrow>
               let a = truncate_to (width w) (xreg s 0); f = Some (alu_flags Xcmp (width w) a v) in
               if a = v then map_option (\<lambda>s. s\<lparr>xflags := f\<rparr>) (write_rm (width w) s m (xreg s r))
               else Some (s\<lparr>xreg := (xreg s)(0 := v), xflags := f\<rparr>))
      | Xlock_xchg w m r \<Rightarrow>
          (case read_rm (width w) s m of
             None \<Rightarrow> None
           | Some v \<Rightarrow> map_option (\<lambda>s. s\<lparr>xreg := (xreg s)(r := v)\<rparr>) (write_rm (width w) s m (xreg s r))))"

text \<open>One step of the code \<open>code\<close> loaded at \<open>base\<close>, and a number of steps.\<close>

definition x86_step :: "uint64_t \<Rightarrow> uint8_t list \<Rightarrow> x86_state \<Rightarrow> x86_state option" where
  "x86_step base code s =
     (if xip s < 0 then None
      else
        case decode (drop (nat (xip s)) code) of
          None \<Rightarrow> None
        | Some (i, n) \<Rightarrow> exec_instr base i (xip s + int n) s)"

primrec x86_steps :: "uint64_t \<Rightarrow> uint8_t list \<Rightarrow> nat \<Rightarrow> x86_state \<Rightarrow> x86_state option" where
  "x86_steps base code 0 s = Some s"
| "x86_steps base code (Suc k) s =
     (case x86_step base code s of None \<Rightarrow> None | Some s' \<Rightarrow> x86_steps base code k s')"

end
