(* ===== verification/X86_Code.thy ===== *)
theory X86_Code
  imports X86_Translate X86_Machine
begin

text \<open>
  What the encoders of \<^verbatim>\<open>vm/ubpf_jit_x86_64.c\<close> append to the buffer, as functions from operands to
  bytes, and which instructions those bytes are for the processor.
\<close>

declare le_bytes_numeral [simp del]

section \<open>Translations that succeed\<close>

text \<open>
  The size of the buffer is the one announced, and small enough that offsets do not wrap.
\<close>

definition room :: "jit_state \<Rightarrow> bool" where
  "room s \<longleftrightarrow> length (jit_buf s) = unat (jit_size s) \<and> jit_offset s \<le> jit_size s \<and> unat (jit_size s) + 8 < 2 ^ 32"

definition append_code :: "uint8_t list \<Rightarrow> jit_state \<Rightarrow> jit_state" where
  "append_code bs s = s\<lparr>jit_buf := patch_bytes (jit_buf s) (unat (jit_offset s)) bs,
     jit_offset := jit_offset s + of_nat (length bs)\<rparr>"

text \<open>
  If \<open>m\<close> ends without an error, then it started without one, returned \<open>v\<close> and took the state to \<open>F\<close>.
\<close>

definition does :: "'a jit \<Rightarrow> (jit_state \<Rightarrow> 'a) \<Rightarrow> (jit_state \<Rightarrow> jit_state) \<Rightarrow> bool" where
  "does m v F \<longleftrightarrow>
     (\<forall>s. room s \<longrightarrow> room (snd (run_state m s)) \<and>
        (jit_status (snd (run_state m s)) = NoError \<longrightarrow> jit_status s = NoError \<and> run_state m s = (v s, F s)))"

text \<open>The most common effect is to append bytes, which then fit.\<close>

definition emits :: "unit jit \<Rightarrow> uint8_t list \<Rightarrow> bool" where
  "emits m bs \<longleftrightarrow> does m (\<lambda>_. ()) (append_code bs) \<and>
     (\<forall>s. room s \<longrightarrow> jit_status (snd (run_state m s)) = NoError \<longrightarrow>
        unat (jit_offset s) + length bs \<le> unat (jit_size s))"

lemma does_bind:
  assumes "does m v F" and "\<And>x. does (f x) (v' x) (F' x)"
  shows "does (State_Monad.bind m f) (\<lambda>s. v' (v s) (F s)) (\<lambda>s. F' (v s) (F s))"
  unfolding does_def
proof (intro allI impI)
  fix s assume s: "room s"
  obtain x s1 where m: "run_state m s = (x, s1)" by (cases "run_state m s")
  with assms(1) s have s1: "room s1" "jit_status s1 = NoError \<longrightarrow> jit_status s = NoError \<and> x = v s \<and> s1 = F s"
    by (auto simp: does_def)
  moreover from assms(2) [of x] s1(1) have "room (snd (run_state (f x) s1))"
    "jit_status (snd (run_state (f x) s1)) = NoError \<longrightarrow> jit_status s1 = NoError \<and> run_state (f x) s1 = (v' x s1, F' x s1)"
    by (auto simp: does_def)
  ultimately show "room (snd (run_state (State_Monad.bind m f) s)) \<and>
      (jit_status (snd (run_state (State_Monad.bind m f) s)) = NoError \<longrightarrow>
        jit_status s = NoError \<and> run_state (State_Monad.bind m f) s = (v' (v s) (F s), F' (v s) (F s)))"
    using m by auto
qed

lemma patch_bytes_length: "i + length bs \<le> length xs \<Longrightarrow> length (patch_bytes xs i bs) = length xs"
  by (simp add: patch_bytes_def)

lemma patch_bytes_append:
  assumes "i + length bs \<le> length xs"
  shows "patch_bytes (patch_bytes xs i bs) (i + length bs) cs = patch_bytes xs i (bs @ cs)"
  using assms by (simp add: patch_bytes_def drop_drop ac_simps)

lemma room_offset: "room s \<Longrightarrow> n \<le> 8 \<Longrightarrow> unat (jit_offset s + of_nat n) = unat (jit_offset s) + n"
  by (simp add: room_def unat_word_ariths(1) word_le_nat_alt unsigned_of_nat take_bit_nat_eq_self)

lemma room_simps [simp]:
  "room (s\<lparr>jit_status := p\<rparr>) = room s" "room (s\<lparr>jumps := js\<rparr>) = room s" "room (s\<lparr>jit_randoms := rs\<rparr>) = room s"
  "room (s\<lparr>pc_locs := l\<rparr>) = room s" "room (s\<lparr>jit_fault := b\<rparr>) = room s" "room (s\<lparr>loads := js\<rparr>) = room s"
  "room (s\<lparr>leas := js\<rparr>) = room s" "room (s\<lparr>local_calls := cs\<rparr>) = room s" "room (s\<lparr>jit_errmsg := e\<rparr>) = room s"
  "room (s\<lparr>bpf_function_prolog_size := z\<rparr>) = room s" "room (s\<lparr>exit_loc := u\<rparr>) = room s"
  "room (s\<lparr>retpoline_loc := u\<rparr>) = room s" "room (s\<lparr>dispatcher_loc := u\<rparr>) = room s" "room (s\<lparr>helper_table_loc := u\<rparr>) = room s"
  by (simp_all add: room_def)

lemma append_code_append:
  assumes "room s" and "unat (jit_offset s) + length bs \<le> unat (jit_size s)"
  shows "append_code cs (append_code bs s) = append_code (bs @ cs) s"
    and "unat (jit_offset (append_code bs s)) = unat (jit_offset s) + length bs"
proof -
  have len: "length bs < 2 ^ 32" "unat (jit_offset s) + length bs < 2 ^ 32" using assms by (simp_all add: room_def)
  then show off: "unat (jit_offset (append_code bs s)) = unat (jit_offset s) + length bs"
    by (simp add: append_code_def unat_word_ariths(1) unsigned_of_nat take_bit_nat_eq_self)
  have "unat (jit_offset s) + length bs \<le> length (jit_buf s)" using assms by (simp add: room_def)
  then show "append_code cs (append_code bs s) = append_code (bs @ cs) s"
    using patch_bytes_append [of "unat (jit_offset s)" bs "jit_buf s" cs] off by (simp add: append_code_def ac_simps)
qed

lemma emits_emit_bytes:
  assumes "length bs \<le> 8"
  shows "emits (emit_bytes bs) bs"
proof -
  have "room (snd (run_state (emit_bytes bs) s)) \<and>
      (jit_status (snd (run_state (emit_bytes bs) s)) = NoError \<longrightarrow>
        jit_status s = NoError \<and> run_state (emit_bytes bs) s = ((), append_code bs s) \<and>
        unat (jit_offset s) + length bs \<le> unat (jit_size s))" if s: "room s" for s
  proof (cases "jit_status s = NoError \<and> jit_offset s + of_nat (length bs) \<le> jit_size s")
    case True
    then have fits: "unat (jit_offset s) + length bs \<le> length (jit_buf s)"
      using s room_offset [OF s assms] by (simp add: room_def word_le_nat_alt)
    then have "run_state (emit_bytes bs) s = ((), append_code bs s)"
      using True by (auto simp: emit_bytes_def write_buf_def append_code_def)
    moreover have "room (append_code bs s)"
      using s True fits by (simp add: room_def append_code_def patch_bytes_length)
    ultimately show ?thesis using True s fits by (simp add: append_code_def room_def)
  next
    case False
    then show ?thesis using s by (cases "jit_status s = NoError") (auto simp: emit_bytes_def not_less not_le)
  qed
  then show ?thesis by (simp add: emits_def does_def)
qed

lemma emitsD:
  assumes "emits m bs" and "room s" and "run_state m s = ((), s')"
  shows "room s'" and "jit_status s' = NoError \<Longrightarrow> jit_status s = NoError"
    and "jit_status s' = NoError \<Longrightarrow> s' = append_code bs s"
    and "jit_status s' = NoError \<Longrightarrow> unat (jit_offset s) + length bs \<le> unat (jit_size s)"
  using assms(1) [unfolded emits_def does_def, THEN conjunct1, rule_format, OF assms(2)]
    assms(1) [unfolded emits_def, THEN conjunct2, rule_format, OF assms(2)] assms(3) by simp_all

lemma emitsI:
  assumes "\<And>s s'. room s \<Longrightarrow> run_state m s = ((), s') \<Longrightarrow> room s'"
    and "\<And>s s'. room s \<Longrightarrow> run_state m s = ((), s') \<Longrightarrow> jit_status s' = NoError \<Longrightarrow>
      jit_status s = NoError \<and> s' = append_code bs s \<and> unat (jit_offset s) + length bs \<le> unat (jit_size s)"
  shows "emits m bs"
proof -
  have "room (snd (run_state m s)) \<and> (jit_status (snd (run_state m s)) = NoError \<longrightarrow>
      jit_status s = NoError \<and> run_state m s = ((), append_code bs s) \<and>
      unat (jit_offset s) + length bs \<le> unat (jit_size s))" if "room s" for s
    using assms [OF that] by (cases "run_state m s") auto
  then show ?thesis by (simp add: emits_def does_def)
qed

named_theorems emits_intros \<open>what an encoder appends\<close>

lemma emits_bind [emits_intros]:
  assumes "emits m bs" and "emits n cs"
  shows "emits (State_Monad.bind m (\<lambda>_. n)) (bs @ cs)"
proof (rule emitsI)
  fix s s' assume s: "room s" and run: "run_state (State_Monad.bind m (\<lambda>_. n)) s = ((), s')"
  obtain s1 where m: "run_state m s = ((), s1)" by (cases "run_state m s") simp
  with run have n: "run_state n s1 = ((), s')" by simp
  note 1 = emitsD [OF assms(1) s m]
  note 2 = emitsD [OF assms(2) 1(1) n]
  show "room s'" by (rule 2(1))
  assume ok: "jit_status s' = NoError"
  note ok1 = 2(2) [OF ok]
  note cat = append_code_append [OF s 1(4) [OF ok1]]
  have "unat (jit_offset s) + length bs + length cs \<le> unat (jit_size s)"
    using 2(4) [OF ok] 1(3) [OF ok1] cat(2) by (simp add: append_code_def)
  with 2(3) [OF ok] 1(2,3) [OF ok1] cat(1) [of cs]
  show "jit_status s = NoError \<and> s' = append_code (bs @ cs) s \<and> unat (jit_offset s) + length (bs @ cs) \<le> unat (jit_size s)"
    by simp
qed

lemma emits_skip [emits_intros]: "emits skip []"
  by (rule emitsI) (auto simp: append_code_def patch_bytes_def room_def word_le_nat_alt)

lemma emits_if_then [emits_intros]: "emits m bs \<Longrightarrow> emits (if_then b m) (if b then bs else [])"
  using emits_skip by (simp add: if_then_def)

lemma emits_if [emits_intros]:
  "emits m bs \<Longrightarrow> emits n cs \<Longrightarrow> emits (if b then m else n) (if b then bs else cs)"
  by simp

lemma emits_emit1 [emits_intros]: "emits (emit1 x) [x]"
  using emits_emit_bytes [of "[x]"] by (simp add: emit1_def)

lemma emits_emit2 [emits_intros]: "emits (emit2 h) (le_bytes 2 (ucast h))"
  using emits_emit_bytes [of "le_bytes 2 (ucast h)"] by (simp add: emit2_def)

lemma emits_emit4 [emits_intros]: "emits (emit4 y) (le_bytes 4 (ucast y))"
  using emits_emit_bytes [of "le_bytes 4 (ucast y)"] by (simp add: emit4_def)

lemma emits_emit8 [emits_intros]: "emits (emit8 z) (le_bytes 8 z)"
  using emits_emit_bytes [of "le_bytes 8 z"] by (simp add: emit8_def)

lemma emits_eq: "emits m bs \<Longrightarrow> bs = cs \<Longrightarrow> emits m cs" by simp

section \<open>Instructions as bytes\<close>

definition x_rex_byte :: "bool \<Rightarrow> x86_reg \<Rightarrow> x86_reg \<Rightarrow> uint8_t" where
  "x_rex_byte w s d = 0x40 OR (if w then 8 else 0) OR (if bit s 3 then 4 else 0) OR (if bit d 3 then 1 else 0)"

definition x_rex :: "bool \<Rightarrow> x86_reg \<Rightarrow> x86_reg \<Rightarrow> uint8_t list" where
  "x_rex w s d = (if w \<or> bit s 3 \<or> bit d 3 then [x_rex_byte w s d] else [])"

definition x_modrm :: "uint8_t \<Rightarrow> x86_reg \<Rightarrow> x86_reg \<Rightarrow> uint8_t" where
  "x_modrm md r m = (md AND 0xc0) OR push_bit 3 (ucast r AND 7) OR (ucast m AND 7)"

definition x_alu :: "bool \<Rightarrow> uint8_t \<Rightarrow> x86_reg \<Rightarrow> x86_reg \<Rightarrow> uint8_t list" where
  "x_alu w op s d = x_rex w s d @ [op, x_modrm 0xc0 s d]"

definition x_alu_imm :: "bool \<Rightarrow> uint8_t \<Rightarrow> x86_reg \<Rightarrow> x86_reg \<Rightarrow> int32_t \<Rightarrow> uint8_t list" where
  "x_alu_imm w op s d i = x_alu w op s d @ le_bytes 4 (ucast i)"

definition x_alu_imm8 :: "bool \<Rightarrow> uint8_t \<Rightarrow> x86_reg \<Rightarrow> x86_reg \<Rightarrow> uint8_t \<Rightarrow> uint8_t list" where
  "x_alu_imm8 w op s d i = x_alu w op s d @ [i]"

definition x_push :: "x86_reg \<Rightarrow> uint8_t list" where
  "x_push r = x_rex False 0 r @ [0x50 OR (ucast r AND 7)]"

definition x_pop :: "x86_reg \<Rightarrow> uint8_t list" where
  "x_pop r = x_rex False 0 r @ [0x58 OR (ucast r AND 7)]"

definition x_movabs :: "x86_reg \<Rightarrow> uint64_t \<Rightarrow> uint8_t list" where
  "x_movabs r i = x_rex True 0 r @ [0xb8 OR (ucast r AND 7)] @ le_bytes 8 i"

definition x_mem :: "x86_reg \<Rightarrow> x86_reg \<Rightarrow> int32_t \<Rightarrow> uint8_t list" where
  "x_mem r m d =
     (if d = 0 \<and> m \<notin> {4, 5, 12, 13} then [x_modrm 0 r m]
      else
        let near_disp = - 128 \<le>s d \<and> d \<le>s 127 in
        [x_modrm (if near_disp then 0x40 else 0x80) r m] @ (if m = 12 then [0x24] else []) @
        (if near_disp then [ucast d] else le_bytes 4 (ucast d)))"

lemma reg_bit3: "(ucast (r :: x86_reg) :: int32_t) AND 8 \<noteq> 0 \<longleftrightarrow> bit r 3"
proof -
  have "(8 :: int32_t) = 2 ^ 3" by simp
  then show ?thesis by (simp only: and_exp_eq_0_iff_not_bit) (simp add: bit_simps)
qed

lemma low3: "ucast ((ucast (r :: x86_reg) :: int32_t) AND 7) = (ucast r AND 7 :: uint8_t)"
  by (rule bit_word_eqI) (auto simp: bit_simps dest: bit_imp_le_length)

lemma modrm_byte:
  "ucast ((ucast (md :: uint8_t) AND 0xc0) OR push_bit 3 (ucast (r :: x86_reg) AND 7) OR (ucast (m :: x86_reg) AND 7) :: int32_t)
     = x_modrm md r m"
  unfolding x_modrm_def by (rule bit_word_eqI) (auto simp: bit_simps dest: bit_imp_le_length)

lemma rex_byte:
  "ucast (0x40 OR push_bit 3 (of_bool w) OR push_bit 2 (of_bool (bit s 3)) OR push_bit 1 0 OR of_bool (bit d 3) :: int32_t)
     = x_rex_byte w (s :: x86_reg) (d :: x86_reg)"
  by (simp add: x_rex_byte_def)

lemma emits_modrm: "emits (emit_modrm (ucast md) (ucast r) (ucast m)) [x_modrm md r m]"
  unfolding emit_modrm_def modrm_byte by (rule emits_emit1)

lemma emits_rex: "emits (emit_rex (of_bool w) (of_bool (bit s 3)) 0 (of_bool (bit d 3))) [x_rex_byte w s d]"
  unfolding emit_rex_def rex_byte by (rule emits_emit1)

lemma emits_basic_rex: "emits (emit_basic_rex (of_bool w) (ucast s) (ucast d)) (x_rex w s d)"
  unfolding emit_basic_rex_def x_rex_def reg_bit3
  by (rule emits_eq [OF emits_if_then [OF emits_rex]]) simp

lemma emits_alu64: "emits (emit_alu64 op (ucast s) (ucast d)) (x_alu True (ucast op) s d)"
  unfolding emit_alu64_def emit_modrm_reg2reg_def x_alu_def
  using emits_bind [OF emits_basic_rex [of True s d] emits_bind [OF emits_emit1 [of "ucast op"] emits_modrm [of "0xc0" s d]]] by simp

lemma emits_alu32: "emits (emit_alu32 op (ucast s) (ucast d)) (x_alu False (ucast op) s d)"
  unfolding emit_alu32_def emit_modrm_reg2reg_def x_alu_def
  using emits_bind [OF emits_basic_rex [of False s d] emits_bind [OF emits_emit1 [of "ucast op"] emits_modrm [of "0xc0" s d]]] by simp

lemma emits_alu64_imm32: "emits (emit_alu64_imm32 op (ucast s) (ucast d) i) (x_alu_imm True (ucast op) s d i)"
  unfolding emit_alu64_imm32_def x_alu_imm_def by (intro emits_bind emits_alu64 emits_emit4)

lemma emits_alu32_imm32: "emits (emit_alu32_imm32 op (ucast s) (ucast d) i) (x_alu_imm False (ucast op) s d i)"
  unfolding emit_alu32_imm32_def x_alu_imm_def by (intro emits_bind emits_alu32 emits_emit4)

lemma emits_alu64_imm8: "emits (emit_alu64_imm8 op (ucast s) (ucast d) i) (x_alu_imm8 True (ucast op) s d i)"
  unfolding emit_alu64_imm8_def x_alu_imm8_def by (intro emits_bind emits_alu64 emits_emit1)

lemma emits_alu32_imm8: "emits (emit_alu32_imm8 op (ucast s) (ucast d) i) (x_alu_imm8 False (ucast op) s d i)"
  unfolding emit_alu32_imm8_def x_alu_imm8_def by (intro emits_bind emits_alu32 emits_emit1)

lemma emits_mov: "emits (emit_mov (ucast s) (ucast d)) (x_alu True 0x89 s d)"
  unfolding emit_mov_def using emits_alu64 [of "0x89" s d] by simp

lemma emits_push: "emits (emit_push (ucast r)) (x_push r)"
  unfolding emit_push_def x_push_def
  using emits_bind [OF emits_basic_rex [of False 0 r] emits_emit1 [of "ucast (0x50 OR (ucast r AND 7) :: int32_t)"]]
  by (simp add: ucast_down_or low3)

lemma emits_pop: "emits (emit_pop (ucast r)) (x_pop r)"
  unfolding emit_pop_def x_pop_def
  using emits_bind [OF emits_basic_rex [of False 0 r] emits_emit1 [of "ucast (0x58 OR (ucast r AND 7) :: int32_t)"]]
  by (simp add: ucast_down_or low3)

lemma emits_movabs: "emits (emit_movabs (ucast r) i) (x_movabs r i)"
  unfolding emit_movabs_def x_movabs_def
  using emits_bind [OF emits_basic_rex [of True 0 r] emits_bind [OF emits_emit1 [of "ucast (0xb8 OR (ucast r AND 7) :: int32_t)"] emits_emit8]]
  by (simp add: ucast_down_or low3)

lemma emits_mem: "emits (emit_modrm_and_displacement (ucast r) (ucast m) d) (x_mem r m d)"
proof -
  have "(ucast x :: int32_t) AND mask 4 = ucast x" for x :: x86_reg
    by (rule bit_word_eqI) (auto simp: bit_simps dest: bit_imp_le_length)
  then have "(ucast x :: int32_t) AND 0xf = ucast x" for x :: x86_reg by (simp add: mask_numeral)
  moreover have "(ucast m = (4 :: int32_t)) = (m = 4)" "(ucast m = (5 :: int32_t)) = (m = 5)"
    "(ucast m = (12 :: int32_t)) = (m = 12)" "(ucast m = (13 :: int32_t)) = (m = 13)"
    using unat_ucast_up [of m, where ?'b = 32] by (simp_all add: word_unat_eq_iff)
  moreover note e = emits_modrm [of _ r m]
  ultimately show ?thesis
    unfolding emit_modrm_and_displacement_def x_mem_def Let_def
    using e [of 0] emits_bind [OF e [of "0x40"] emits_bind [OF emits_if_then [OF emits_emit1 [of "0x24"], of "m = 12"] emits_emit1 [of "ucast d"]]]
      emits_bind [OF e [of "0x80"] emits_bind [OF emits_if_then [OF emits_emit1 [of "0x24"], of "m = 12"] emits_emit4 [of d]]]
    by (cases "m = 12") auto
qed

section \<open>Decoding the bytes\<close>

definition x_rexv :: "bool \<Rightarrow> x86_reg \<Rightarrow> x86_reg \<Rightarrow> uint8_t" where
  "x_rexv w s d = (if w \<or> bit s 3 \<or> bit d 3 then x_rex_byte w s d else 0)"

lemma x_rexv_bits [simp]:
  "rex_w (x_rexv w s d) = w" "bit (x_rexv w s d) 2 = bit s 3" "bit (x_rexv w s d) 0 = bit d 3"
  by (auto simp: x_rexv_def x_rex_byte_def rex_w_def bit_or_iff)

lemma x_rex_byte_prefix: "x_rex_byte w s d AND 0xf0 = 0x40"
  by (simp add: x_rex_byte_def)

lemma decode_x:
  assumes "op AND 0xf0 \<noteq> 0x40" "op \<noteq> 0x66" "op \<noteq> 0xf0" and "decode_op False (x_rexv w s d) (op # bs) = Some (i, n)"
  shows "decode (x_rex w s d @ op # bs) = Some (i, length (x_rex w s d) + n)"
proof -
  have "x_rex_byte w s d \<noteq> 0x66" "x_rex_byte w s d \<noteq> 0xf0" using x_rex_byte_prefix [of w s d] by auto
  then show ?thesis
    using assms by (auto simp: decode_def decode_rex_def x_rex_def x_rexv_def x_rex_byte_prefix)
qed

lemma decode_x66:
  assumes "op AND 0xf0 \<noteq> 0x40" and "decode_op True (x_rexv w s d) (op # bs) = Some (i, n)"
  shows "decode (0x66 # x_rex w s d @ op # bs) = Some (i, Suc (length (x_rex w s d) + n))"
  using assms by (auto simp: decode_def decode_rex_def x_rex_def x_rexv_def x_rex_byte_prefix)

lemma reg_eqI:
  "bit (a :: x86_reg) 0 = bit b 0 \<Longrightarrow> bit a 1 = bit b 1 \<Longrightarrow> bit a 2 = bit b 2 \<Longrightarrow> bit a 3 = bit b 3 \<Longrightarrow> a = b"
  by (rule bit_word_eqI) (auto simp: numeral_eq_Suc less_Suc_eq)

lemma bit_reg_less: "bit (r :: x86_reg) n \<Longrightarrow> n < 4"
  using bit_imp_le_length [of r n] by simp

lemma x_modrm_bits:
  "bit (x_modrm md s d) 0 = bit d 0" "bit (x_modrm md s d) (Suc 0) = bit d 1" "bit (x_modrm md s d) 2 = bit d 2"
  "bit (x_modrm md s d) 3 = bit s 0" "bit (x_modrm md s d) 4 = bit s 1" "bit (x_modrm md s d) 5 = bit s 2"
  "bit (x_modrm md s d) 6 = bit md 6" "bit (x_modrm md s d) 7 = bit md 7"
  by (auto simp: x_modrm_def bit_simps)

lemma byte_bit_less: "bit (b :: uint8_t) n \<Longrightarrow> n < 8"
  using bit_imp_le_length [of b n] by simp

lemma reg_field_modrm [simp]: "reg_field (x_rexv w s d) (x_modrm md s d) = s"
  by (rule reg_eqI) (simp_all add: reg_field_def bit_simps x_modrm_bits)

lemma rm_field_modrm [simp]: "rm_field (x_rexv w s d) (x_modrm md s d) = d"
  by (rule reg_eqI) (simp_all add: rm_field_def bit_simps x_modrm_bits)

lemma mod_field_modrm [simp]: "drop_bit 6 (x_modrm md s d) = drop_bit 6 md"
proof (rule bit_word_eqI)
  fix n
  show "bit (drop_bit 6 (x_modrm md s d)) n = bit (drop_bit 6 md) n"
  proof (cases "n = 0 \<or> n = 1")
    case True
    then show ?thesis by (auto simp: bit_simps x_modrm_bits)
  next
    case False
    then show ?thesis
      using byte_bit_less [of "x_modrm md s d" "6 + n"] byte_bit_less [of md "6 + n"] by (auto simp: bit_drop_bit_eq)
  qed
qed

lemma le32_le_bytes [simp]: "le32 (le_bytes 4 (ucast i) @ bs) = i"
  by (simp add: le32_def le_value_le_bytes c_conv) (rule bit_word_eqI, auto simp: bit_simps)

lemma le64_le_bytes [simp]: "le64 (le_bytes 8 i @ bs) = i"
  by (simp add: le64_def le_value_le_bytes)

lemma decode_modrm_reg [simp]: "decode_modrm (x_rexv w s d) (x_modrm 0xc0 s d # bs) = Some (s, Xreg d, 1)"
  by (simp add: decode_modrm_def Let_def)

lemma decode_alu:
  assumes "alu_of_opcode op = Some a"
  shows "decode (x_alu w op s d @ bs) = Some (Xalu a w (Xreg d) s, length (x_alu w op s d))"
proof -
  have "op \<in> {0x01, 0x09, 0x21, 0x29, 0x31, 0x39, 0x85}" using assms by (auto simp: alu_of_opcode_def split: if_splits)
  then show ?thesis
    using decode_x [of op w s d "x_modrm 0xc0 s d # bs" "Xalu a w (Xreg d) s" 2] assms
    by (auto simp: x_alu_def decode_op_def with_modrm_def)
qed

lemma decode_alu_imm:
  assumes "alu_of_ext e = Some a"
  shows "decode (x_alu_imm w 0x81 e d i @ bs) = Some (Xalu_imm a w (Xreg d) i, length (x_alu_imm w 0x81 e d i))"
  using decode_x [of "0x81" w e d "x_modrm 0xc0 e d # le_bytes 4 (ucast i) @ bs" "Xalu_imm a w (Xreg d) i" 6] assms
  by (simp add: x_alu_imm_def x_alu_def decode_op_def with_modrm_def alu_of_opcode_def)

lemma decode_mov_imm:
  "decode (x_alu_imm w 0xc7 e d i @ bs) = Some (Xmov_imm (width w) (Xreg d) i, length (x_alu_imm w 0xc7 e d i))"
  using decode_x [of "0xc7" w e d "x_modrm 0xc0 e d # le_bytes 4 (ucast i) @ bs" "Xmov_imm (width w) (Xreg d) i" 6]
  by (simp add: x_alu_imm_def x_alu_def decode_op_def with_modrm_def alu_of_opcode_def width_def)

lemma decode_test_imm:
  "decode (x_alu_imm w 0xf7 0 d i @ bs) = Some (Xalu_imm Xtest w (Xreg d) i, length (x_alu_imm w 0xf7 0 d i))"
  using decode_x [of "0xf7" w 0 d "x_modrm 0xc0 0 d # le_bytes 4 (ucast i) @ bs" "Xalu_imm Xtest w (Xreg d) i" 6]
  by (simp add: x_alu_imm_def x_alu_def decode_op_def alu_of_opcode_def)

lemma decode_mov:
  "decode (x_alu w 0x89 s d @ bs) = Some (Xmov (width w) (Xreg d) s, length (x_alu w 0x89 s d))"
  using decode_x [of "0x89" w s d "x_modrm 0xc0 s d # bs" "Xmov (width w) (Xreg d) s" 2]
  by (simp add: x_alu_def decode_op_def with_modrm_def alu_of_opcode_def width_def)

lemma decode_shift:
  assumes "shift_of_ext e = Some k"
  shows "decode (x_alu_imm8 w 0xc1 e d c @ bs) = Some (Xshift k w (Xreg d) c, length (x_alu_imm8 w 0xc1 e d c))"
  using decode_x [of "0xc1" w e d "x_modrm 0xc0 e d # c # bs" "Xshift k w (Xreg d) c" 3] assms
  by (simp add: x_alu_imm8_def x_alu_def decode_op_def with_modrm_def alu_of_opcode_def)

lemma decode_shift_cl:
  assumes "shift_of_ext e = Some k"
  shows "decode (x_alu w 0xd3 e d @ bs) = Some (Xshift_cl k w (Xreg d), length (x_alu w 0xd3 e d))"
  using decode_x [of "0xd3" w e d "x_modrm 0xc0 e d # bs" "Xshift_cl k w (Xreg d)" 2] assms
  by (simp add: x_alu_def decode_op_def with_modrm_def alu_of_opcode_def)

lemma decode_unary:
  "decode (x_alu w 0xf7 3 d @ bs) = Some (Xneg w (Xreg d), length (x_alu w 0xf7 3 d))"
  "decode (x_alu w 0xf7 4 d @ bs) = Some (Xmul w (Xreg d), length (x_alu w 0xf7 4 d))"
  "decode (x_alu w 0xf7 6 d @ bs) = Some (Xdiv w (Xreg d), length (x_alu w 0xf7 6 d))"
  "decode (x_alu w 0xf7 7 d @ bs) = Some (Xidiv w (Xreg d), length (x_alu w 0xf7 7 d))"
  using decode_x [of "0xf7" w 3 d "x_modrm 0xc0 3 d # bs" "Xneg w (Xreg d)" 2]
    decode_x [of "0xf7" w 4 d "x_modrm 0xc0 4 d # bs" "Xmul w (Xreg d)" 2]
    decode_x [of "0xf7" w 6 d "x_modrm 0xc0 6 d # bs" "Xdiv w (Xreg d)" 2]
    decode_x [of "0xf7" w 7 d "x_modrm 0xc0 7 d # bs" "Xidiv w (Xreg d)" 2]
  by (simp_all add: x_alu_def decode_op_def alu_of_opcode_def)

text \<open>Opcodes that carry a register in their low bits.\<close>

lemma reg_all:
  assumes "P 0" "P 1" "P 2" "P 3" "P 4" "P 5" "P 6" "P 7" "P 8" "P 9" "P 10" "P 11" "P 12" "P 13" "P 14" "P 15"
  shows "P (r :: x86_reg)"
proof -
  have "unat r < 16" using unsigned_less [of r, where ?'a = nat] by simp
  then have "unat r \<in> {0, 1, 2, 3, 4, 5, 6, 7, 8, 9, 10, 11, 12, 13, 14, 15}" unfolding insert_iff empty_iff by presburger
  moreover have "r = of_nat (unat r)" by simp
  ultimately show ?thesis using assms by (auto simp del: of_nat_unat)
qed

lemmas decode_simps = decode_def decode_rex_def decode_op_def decode_0f_def x_rex_def x_rex_byte_def alu_of_opcode_def
  rm_field_def rex_w_def

lemma decode_push: "decode (x_push r @ bs) = Some (Xpush r, length (x_push r))"
  by (rule reg_all [of _ r]) (simp_all add: x_push_def decode_simps)

lemma decode_pop: "decode (x_pop r @ bs) = Some (Xpop r, length (x_pop r))"
  by (rule reg_all [of _ r]) (simp_all add: x_pop_def decode_simps)

lemma decode_movabs: "decode (x_movabs r i @ bs) = Some (Xmovabs r i, length (x_movabs r i))"
  by (rule reg_all [of _ r]) (simp_all add: x_movabs_def decode_simps)

definition x_bswap :: "bool \<Rightarrow> x86_reg \<Rightarrow> uint8_t list" where
  "x_bswap w r = x_rex w 0 r @ [0x0f, 0xc8 OR (ucast r AND 7)]"

lemma decode_bswap: "decode (x_bswap w r @ bs) = Some (Xbswap w r, length (x_bswap w r))"
  by (cases w; rule reg_all [of _ r]) (simp_all add: x_bswap_def decode_simps)

text \<open>Memory operands.\<close>

lemma and_7: "(x :: uint8_t) AND 7 = take_bit 3 x"
  by (simp add: take_bit_eq_mask mask_numeral)

lemma x_modrm_low: "x_modrm md r m AND 7 = ucast m AND 7"
  by (simp add: x_modrm_def and_7 take_bit_push_bit)

lemma x_modrm_sib: "x_modrm md r m AND 7 = 4 \<longleftrightarrow> m = 4 \<or> m = 12" "x_modrm md r m AND 7 = 5 \<longleftrightarrow> m = 5 \<or> m = 13"
  unfolding x_modrm_low by (rule reg_all [of _ m]; simp)+

lemma scast_ucast_near:
  assumes "- 128 \<le>s (d :: int32_t)" and "d \<le>s 127"
  shows "scast (ucast d :: uint8_t) = d"
proof -
  have b: "- 128 \<le> sint d" "sint d < 128" using assms by (simp_all add: word_sle_eq)
  have "(ucast d :: uint8_t) = scast d" by (rule bit_word_eqI) (auto simp: bit_simps)
  moreover have "sint (scast d :: uint8_t) = signed_take_bit 7 (sint d)" by (simp add: signed_scast_eq)
  moreover have "signed_take_bit 7 (sint d) = sint d"
    using b by (intro signed_take_bit_int_eq_self) simp_all
  ultimately have "sint (ucast d :: uint8_t) = sint d" by simp
  then have "word_of_int (sint (ucast d :: uint8_t)) = (word_of_int (sint d) :: int32_t)" by simp
  then show ?thesis by simp
qed

lemma decode_modrm_mem:
  assumes "m \<noteq> 4"
  shows "decode_modrm (x_rexv w r m) (x_mem r m d @ bs) = Some (r, Xmem m d, length (x_mem r m d))"
  using assms
  by (auto simp: x_mem_def decode_modrm_def Let_def displacement_def x_modrm_sib scast_ucast_near split: if_splits)

definition x_mem_op :: "bool \<Rightarrow> uint8_t \<Rightarrow> x86_reg \<Rightarrow> x86_reg \<Rightarrow> int32_t \<Rightarrow> uint8_t list" where
  "x_mem_op w op r m d = x_rex w r m @ [op] @ x_mem r m d"

definition x_mem_op2 :: "bool \<Rightarrow> uint8_t \<Rightarrow> x86_reg \<Rightarrow> x86_reg \<Rightarrow> int32_t \<Rightarrow> uint8_t list" where
  "x_mem_op2 w op r m d = x_rex w r m @ [0x0f, op] @ x_mem r m d"

lemma decode_load:
  assumes "m \<noteq> 4"
  shows "decode (x_mem_op w 0x8b r m d @ bs) = Some (Xload (width w) r (Xmem m d), length (x_mem_op w 0x8b r m d))"
    and "decode (x_mem_op2 False 0xb6 r m d @ bs) = Some (Xload 1 r (Xmem m d), length (x_mem_op2 False 0xb6 r m d))"
    and "decode (x_mem_op2 False 0xb7 r m d @ bs) = Some (Xload 2 r (Xmem m d), length (x_mem_op2 False 0xb7 r m d))"
    and "decode (x_mem_op w 0x63 r m d @ bs) = Some (Xload_sx 4 w r (Xmem m d), length (x_mem_op w 0x63 r m d))"
    and "decode (x_mem_op2 w 0xbe r m d @ bs) = Some (Xload_sx 1 w r (Xmem m d), length (x_mem_op2 w 0xbe r m d))"
    and "decode (x_mem_op2 w 0xbf r m d @ bs) = Some (Xload_sx 2 w r (Xmem m d), length (x_mem_op2 w 0xbf r m d))"
  using decode_x [of "0x8b" w r m "x_mem r m d @ bs" "Xload (width w) r (Xmem m d)" "Suc (length (x_mem r m d))"]
    decode_x [of "0x0f" False r m "0xb6 # x_mem r m d @ bs" "Xload 1 r (Xmem m d)" "Suc (Suc (length (x_mem r m d)))"]
    decode_x [of "0x0f" False r m "0xb7 # x_mem r m d @ bs" "Xload 2 r (Xmem m d)" "Suc (Suc (length (x_mem r m d)))"]
    decode_x [of "0x63" w r m "x_mem r m d @ bs" "Xload_sx 4 w r (Xmem m d)" "Suc (length (x_mem r m d))"]
    decode_x [of "0x0f" w r m "0xbe # x_mem r m d @ bs" "Xload_sx 1 w r (Xmem m d)" "Suc (Suc (length (x_mem r m d)))"]
    decode_x [of "0x0f" w r m "0xbf # x_mem r m d @ bs" "Xload_sx 2 w r (Xmem m d)" "Suc (Suc (length (x_mem r m d)))"]
  by (simp_all add: x_mem_op_def x_mem_op2_def decode_op_def decode_0f_def with_modrm_def alu_of_opcode_def width_def
      decode_modrm_mem [OF assms])

text \<open>
  A store has a 16-bit prefix, and a REX prefix whenever it is of one byte. Its immediate form
  has the immediate at the end.
\<close>

definition x_store :: "operand_size \<Rightarrow> x86_reg \<Rightarrow> x86_reg \<Rightarrow> int32_t \<Rightarrow> uint8_t list" where
  "x_store z r m d = (if z = S16 then [0x66] else []) @
     (if z = S64 \<or> bit r 3 \<or> bit m 3 \<or> z = S8 then [x_rex_byte (z = S64) r m] else []) @
     [if z = S8 then 0x88 else 0x89] @ x_mem r m d"

definition x_store_imm :: "operand_size \<Rightarrow> x86_reg \<Rightarrow> int32_t \<Rightarrow> int32_t \<Rightarrow> uint8_t list" where
  "x_store_imm z m d i = (if z = S16 then [0x66] else []) @ x_rex (z = S64) 0 m @
     [if z = S8 then 0xc6 else 0xc7] @ x_mem 0 m d @
     (if z = S32 \<or> z = S64 then le_bytes 4 (ucast i) else if z = S16 then le_bytes 2 (ucast (ucast i :: uint16_t)) else [ucast i])"

definition size_bytes :: "operand_size \<Rightarrow> nat" where
  "size_bytes z = (case z of S8 \<Rightarrow> 1 | S16 \<Rightarrow> 2 | S32 \<Rightarrow> 4 | S64 \<Rightarrow> 8)"

lemma emits_store: "emits (emit_store z (ucast r) (ucast m) d) (x_store z r m d)"
  unfolding emit_store_def x_store_def reg_bit3
  by (rule emits_bind [OF emits_if_then [OF emits_emit1]
      emits_bind [OF emits_if_then [OF emits_rex] emits_bind [OF emits_emit1 emits_mem]]])

lemma emits_store_imm: "emits (emit_store_imm32 z (ucast m) d i) (x_store_imm z m d i)"
  unfolding emit_store_imm32_def x_store_imm_def
  using emits_bind [OF emits_if_then [OF emits_emit1 [of "0x66"], of "z = S16"]
      emits_bind [OF emits_basic_rex [of "z = S64" 0 m] emits_bind [OF emits_emit1 [of "if z = S8 then 0xc6 else 0xc7"] emits_bind [OF emits_mem [of 0 m d]
      emits_if [OF emits_emit4 [of i] emits_if [OF emits_emit2 [of "ucast i"] emits_emit1 [of "ucast i"], of "z = S16"], of "z = S32 \<or> z = S64"]]]]]
  by simp

lemma x_rex_byte_bits [simp]:
  "rex_w (x_rex_byte w s d) = w" "bit (x_rex_byte w s d) 2 = bit s 3" "bit (x_rex_byte w s d) 0 = bit d 3"
  by (auto simp: x_rex_byte_def rex_w_def bit_or_iff)

lemma decode_modrm_rex:
  assumes "bit rex 2 = bit rex' 2" "bit rex 0 = bit rex' 0"
  shows "decode_modrm rex bs = decode_modrm rex' bs"
proof -
  have "reg_field rex = reg_field rex'" "rm_field rex = rm_field rex'"
    using assms by (simp_all add: fun_eq_iff reg_field_def rm_field_def)
  then show ?thesis unfolding decode_modrm_def by (simp only:)
qed

lemma decode_modrm_mem_byte:
  assumes "m \<noteq> 4"
  shows "decode_modrm (x_rex_byte w r m) (x_mem r m d @ bs) = Some (r, Xmem m d, length (x_mem r m d))"
  using decode_modrm_mem [OF assms, of w r d bs] decode_modrm_rex [of "x_rex_byte w r m" "x_rexv w r m"] by simp

lemma decode_modrm_mem_none:
  assumes "m \<noteq> 4" and "\<not> bit r 3" and "\<not> bit m 3"
  shows "decode_modrm 0 (x_mem r m d @ bs) = Some (r, Xmem m d, length (x_mem r m d))"
  using decode_modrm_mem [OF assms(1), of False r d bs] decode_modrm_rex [of 0 "x_rexv False r m"] assms by simp

lemma decode_store:
  assumes "m \<noteq> 4"
  shows "decode (x_store z r m d @ bs) = Some (Xmov (size_bytes z) (Xmem m d) r, length (x_store z r m d))"
proof -
  have ne: "x_rex_byte w r m \<noteq> 0x66" "x_rex_byte w r m \<noteq> 0xf0" for w using x_rex_byte_prefix [of w r m] by auto
  show ?thesis
    by (cases z; cases "bit r 3 \<or> bit m 3")
      (auto simp: x_store_def decode_def decode_rex_def decode_op_def with_modrm_def alu_of_opcode_def size_bytes_def ne
        x_rex_byte_prefix decode_modrm_mem_byte [OF assms] decode_modrm_mem_none [OF assms] rex_w_def [of 0])
qed

lemma decode_store_imm:
  assumes "m \<noteq> 4"
  shows "decode (x_store_imm z m d i @ bs) =
    Some (Xmov_imm (size_bytes z) (Xmem m d) (case z of S8 \<Rightarrow> ucast (ucast i :: uint8_t) | S16 \<Rightarrow> ucast (ucast i :: uint16_t) | _ \<Rightarrow> i),
      length (x_store_imm z m d i))"
proof -
  have b2: "ucast (le_value (le_bytes 2 (ucast (h :: uint16_t)))) = (ucast h :: int32_t)" for h
    by (simp add: le_value_le_bytes) (rule bit_word_eqI, auto simp: bit_simps dest: bit_imp_le_length)
  note dm = decode_modrm_mem [OF assms, of _ 0]
  show ?thesis
  proof (cases z)
    case S8
    then show ?thesis using decode_x [of "0xc6" False 0 m "x_mem 0 m d @ ucast i # bs"]
      by (simp add: x_store_imm_def decode_op_def with_modrm_def alu_of_opcode_def size_bytes_def dm)
  next
    case S16
    then show ?thesis using decode_x66 [of "0xc7" False 0 m "x_mem 0 m d @ le_bytes 2 (ucast (ucast i :: uint16_t)) @ bs"]
      by (simp add: x_store_imm_def decode_op_def with_modrm_def alu_of_opcode_def size_bytes_def dm b2)
  next
    case S32
    then show ?thesis using decode_x [of "0xc7" False 0 m "x_mem 0 m d @ le_bytes 4 (ucast i) @ bs"]
      by (simp add: x_store_imm_def decode_op_def with_modrm_def alu_of_opcode_def size_bytes_def dm)
  next
    case S64
    then show ?thesis using decode_x [of "0xc7" True 0 m "x_mem 0 m d @ le_bytes 4 (ucast i) @ bs"]
      by (simp add: x_store_imm_def decode_op_def with_modrm_def alu_of_opcode_def size_bytes_def dm)
  qed
qed

text \<open>Moves between registers with sign extension. The byte form always has a REX prefix.\<close>

definition x_movsx :: "bool \<Rightarrow> uint8_t \<Rightarrow> x86_reg \<Rightarrow> x86_reg \<Rightarrow> uint8_t list" where
  "x_movsx w op d s = x_rex w d s @ [0x0f, op, x_modrm 0xc0 d s]"

definition x_movsx8 :: "x86_reg \<Rightarrow> x86_reg \<Rightarrow> uint8_t list" where
  "x_movsx8 d s = [x_rex_byte False d s, 0x0f, 0xbe, x_modrm 0xc0 d s]"

lemma decode_movsx:
  "decode (x_movsx w 0xbe d s @ bs) = Some (Xload_sx 1 w d (Xreg s), length (x_movsx w 0xbe d s))"
  "decode (x_movsx w 0xbf d s @ bs) = Some (Xload_sx 2 w d (Xreg s), length (x_movsx w 0xbf d s))"
  "decode (x_movsx8 d s @ bs) = Some (Xload_sx 1 False d (Xreg s), length (x_movsx8 d s))"
  "decode (x_alu w 0x63 d s @ bs) = Some (Xload_sx 4 w d (Xreg s), length (x_alu w 0x63 d s))"
proof -
  have ne: "x_rex_byte w d s \<noteq> 0x66" "x_rex_byte w d s \<noteq> 0xf0" for w using x_rex_byte_prefix [of w d s] by auto
  have dm: "decode_modrm (x_rex_byte w d s) (x_modrm 0xc0 d s # bs) = Some (d, Xreg s, 1)" for w
    using decode_modrm_rex [of "x_rex_byte w d s" "x_rexv w d s"] by simp
  show "decode (x_movsx w 0xbe d s @ bs) = Some (Xload_sx 1 w d (Xreg s), length (x_movsx w 0xbe d s))"
    "decode (x_movsx w 0xbf d s @ bs) = Some (Xload_sx 2 w d (Xreg s), length (x_movsx w 0xbf d s))"
    using decode_x [of "0x0f" w d s "0xbe # x_modrm 0xc0 d s # bs"] decode_x [of "0x0f" w d s "0xbf # x_modrm 0xc0 d s # bs"]
    by (simp_all add: x_movsx_def decode_op_def decode_0f_def with_modrm_def)
  show "decode (x_alu w 0x63 d s @ bs) = Some (Xload_sx 4 w d (Xreg s), length (x_alu w 0x63 d s))"
    using decode_x [of "0x63" w d s "x_modrm 0xc0 d s # bs"]
    by (simp add: x_alu_def decode_op_def with_modrm_def alu_of_opcode_def)
  show "decode (x_movsx8 d s @ bs) = Some (Xload_sx 1 False d (Xreg s), length (x_movsx8 d s))"
    by (simp add: x_movsx8_def decode_def decode_rex_def decode_op_def decode_0f_def with_modrm_def dm ne x_rex_byte_prefix)
qed

text \<open>Rotating the low 16 bits.\<close>

definition x_rol16 :: "x86_reg \<Rightarrow> uint8_t \<Rightarrow> uint8_t list" where
  "x_rol16 d c = 0x66 # x_alu_imm8 False 0xc1 0 d c"

lemma decode_rol16: "decode (x_rol16 d c @ bs) = Some (Xrol16 (Xreg d) c, length (x_rol16 d c))"
  using decode_x66 [of "0xc1" False 0 d "x_modrm 0xc0 0 d # c # bs"]
  by (simp add: x_rol16_def x_alu_imm8_def x_alu_def decode_op_def with_modrm_def alu_of_opcode_def)

end
