(* ===== verification/X86_Run.thy ===== *)
theory X86_Run
  imports X86_Code
begin

text \<open>
  Running generated code: a piece of code that decodes to a list of instructions, wherever it
  stands in the buffer, does what the instructions do one after the other.
\<close>

section \<open>Pieces of code\<close>

text \<open>\<open>decodes bs is\<close>: the bytes \<open>bs\<close> are the instructions \<open>is\<close>, whatever follows them.\<close>

inductive decodes :: "uint8_t list \<Rightarrow> x86_instr list \<Rightarrow> bool" where
  decodes_Nil: "decodes [] []"
| decodes_Cons: "(\<And>rest. decode (b @ rest) = Some (i, length b)) \<Longrightarrow> decodes bs is \<Longrightarrow> decodes (b @ bs) (i # is)"

lemma decodes_append: "decodes bs is \<Longrightarrow> decodes cs js \<Longrightarrow> decodes (bs @ cs) (is @ js)"
  by (induction rule: decodes.induct) (auto intro: decodes_Cons)

lemma decodes_one: "(\<And>rest. decode (b @ rest) = Some (i, length b)) \<Longrightarrow> decodes b [i]"
  using decodes_Cons [OF _ decodes_Nil, of b i] by simp

definition code_at :: "uint8_t list \<Rightarrow> nat \<Rightarrow> uint8_t list \<Rightarrow> bool" where
  "code_at code pos bs \<longleftrightarrow> (\<exists>rest. drop pos code = bs @ rest)"

lemma code_at_append:
  "code_at code pos (bs @ cs) \<longleftrightarrow> code_at code pos bs \<and> code_at code (pos + length bs) cs"
proof
  assume "code_at code pos (bs @ cs)"
  then obtain rest where d: "drop pos code = bs @ cs @ rest" by (auto simp: code_at_def)
  then have "drop (pos + length bs) code = cs @ rest" by (metis add.commute append_eq_conv_conj drop_drop)
  with d show "code_at code pos bs \<and> code_at code (pos + length bs) cs" by (auto simp: code_at_def)
next
  assume "code_at code pos bs \<and> code_at code (pos + length bs) cs"
  then obtain r1 r2 where "drop pos code = bs @ r1" "drop (pos + length bs) code = cs @ r2" by (auto simp: code_at_def)
  then have "drop pos code = bs @ cs @ r2" by (metis add.commute append_eq_conv_conj drop_drop)
  then show "code_at code pos (bs @ cs)" by (auto simp: code_at_def)
qed

section \<open>Steps\<close>

lemma x86_steps_add:
  "x86_steps base code (k + l) s = (case x86_steps base code k s of None \<Rightarrow> None | Some s' \<Rightarrow> x86_steps base code l s')"
  by (induction k arbitrary: s) (auto split: option.split)

definition reaches :: "uint64_t \<Rightarrow> uint8_t list \<Rightarrow> x86_state \<Rightarrow> x86_state \<Rightarrow> bool" where
  "reaches base code s s' \<longleftrightarrow> (\<exists>k. x86_steps base code k s = Some s')"

lemma reaches_refl: "reaches base code s s"
  unfolding reaches_def by (rule exI [of _ 0]) simp

lemma reaches_trans: "reaches base code s s' \<Longrightarrow> reaches base code s' s'' \<Longrightarrow> reaches base code s s''"
proof -
  assume "reaches base code s s'" and "reaches base code s' s''"
  then obtain k l where "x86_steps base code k s = Some s'" "x86_steps base code l s' = Some s''" by (auto simp: reaches_def)
  then have "x86_steps base code (k + l) s = Some s''" by (simp add: x86_steps_add)
  then show ?thesis unfolding reaches_def by blast
qed

lemma reaches_step: "x86_step base code s = Some s' \<Longrightarrow> reaches base code s s'"
  unfolding reaches_def by (rule exI [of _ 1]) simp

lemma x86_step_code_at:
  assumes "code_at code pos bs" and "\<And>rest. decode (bs @ rest) = Some (i, length bs)" and "xip s = int pos"
  shows "x86_step base code s = exec_instr base i (int (pos + length bs)) s"
  using assms by (auto simp: x86_step_def code_at_def)

text \<open>Instructions that neither transfer control nor read the position.\<close>

definition plain :: "x86_instr \<Rightarrow> bool" where
  "plain i \<longleftrightarrow> (case i of Xlea _ _ \<Rightarrow> False | Xjcc _ _ \<Rightarrow> False | Xjmp _ \<Rightarrow> False | Xcall _ \<Rightarrow> False | Xret \<Rightarrow> False | _ \<Rightarrow> True)"

definition exec_plain :: "x86_instr \<Rightarrow> x86_state \<Rightarrow> x86_state option" where
  "exec_plain i s = exec_instr 0 i (xip s) s"

fun exec_list :: "x86_instr list \<Rightarrow> x86_state \<Rightarrow> x86_state option" where
  "exec_list [] s = Some s"
| "exec_list (i # is) s = (case exec_plain i s of None \<Rightarrow> None | Some s' \<Rightarrow> exec_list is s')"

lemma exec_list_append:
  "exec_list (is @ js) s = (case exec_list is s of None \<Rightarrow> None | Some s' \<Rightarrow> exec_list js s')"
  by (induction "is" arbitrary: s) (auto split: option.split)

lemma xip_commute:
  "s\<lparr>xip := p, xmem := h\<rparr> = s\<lparr>xmem := h, xip := p\<rparr>"
  "s\<lparr>xip := p, xreg := r\<rparr> = s\<lparr>xreg := r, xip := p\<rparr>"
  "s\<lparr>xip := p, xflags := f\<rparr> = s\<lparr>xflags := f, xip := p\<rparr>"
  by simp_all

lemma xip_frame:
  "rm_address (s\<lparr>xip := p\<rparr>) m = rm_address s m"
  "read_rm n (s\<lparr>xip := p\<rparr>) m = read_rm n s m"
  "write_rm n (s\<lparr>xip := p\<rparr>) m v = map_option (\<lambda>s. s\<lparr>xip := p\<rparr>) (write_rm n s m v)"
  "push_value v (s\<lparr>xip := p\<rparr>) = map_option (\<lambda>s. s\<lparr>xip := p\<rparr>) (push_value v s)"
  "pop_value (s\<lparr>xip := p\<rparr>) = map_option (\<lambda>(v, s). (v, s\<lparr>xip := p\<rparr>)) (pop_value s)"
  "exec_mul w v (s\<lparr>xip := p\<rparr>) = (exec_mul w v s)\<lparr>xip := p\<rparr>"
  "exec_div w v (s\<lparr>xip := p\<rparr>) = map_option (\<lambda>s. s\<lparr>xip := p\<rparr>) (exec_div w v s)"
  "exec_idiv w v (s\<lparr>xip := p\<rparr>) = map_option (\<lambda>s. s\<lparr>xip := p\<rparr>) (exec_idiv w v s)"
proof -
  show a: "rm_address (s\<lparr>xip := p\<rparr>) m = rm_address s m" for m by (simp add: rm_address_def cong: x86_rm.case_cong)
  show "read_rm n (s\<lparr>xip := p\<rparr>) m = read_rm n s m" by (cases m) (simp_all add: read_rm_def a)
  show "write_rm n (s\<lparr>xip := p\<rparr>) m v = map_option (\<lambda>s. s\<lparr>xip := p\<rparr>) (write_rm n s m v)"
    by (cases m) (simp_all add: write_rm_def a option.map_comp comp_def xip_commute)
qed (simp_all add: push_value_def pop_value_def exec_mul_def exec_div_def exec_idiv_def Let_def option.map_comp comp_def xip_commute)

lemma exec_alu_rm_xip:
  "exec_alu_rm op n m b (s\<lparr>xip := p\<rparr>) = map_option (\<lambda>s. s\<lparr>xip := p\<rparr>) (exec_alu_rm op n m b s)"
  by (simp add: exec_alu_rm_def xip_frame option.map_comp comp_def xip_commute split: option.split)

lemma xip_same [simp]: "s\<lparr>xip := xip s\<rparr> = (s :: x86_state)" by simp

lemma exec_plain_ip:
  assumes "plain i"
  shows "exec_instr base i p s = map_option (\<lambda>s. s\<lparr>xip := p\<rparr>) (exec_plain i s)"
  using assms
  by (cases i)
    (simp_all add: plain_def exec_plain_def exec_instr_def xip_frame xip_commute exec_alu_rm_xip Let_def option.map_comp comp_def
      split: option.split)

lemma exec_plain_xip:
  assumes "plain i"
  shows "exec_plain i (s\<lparr>xip := p\<rparr>) = map_option (\<lambda>s. s\<lparr>xip := p\<rparr>) (exec_plain i s)"
proof -
  have "exec_plain i (s\<lparr>xip := p\<rparr>) = exec_instr 0 i p (s\<lparr>xip := p\<rparr>)" by (simp add: exec_plain_def)
  also have "\<dots> = exec_instr 0 i p s" by (simp add: exec_instr_def)
  finally show ?thesis by (simp add: exec_plain_ip [OF assms])
qed

lemma exec_list_xip:
  assumes "list_all plain is" and "exec_list is s = Some s'"
  shows "exec_list is (s\<lparr>xip := p\<rparr>) = Some (s'\<lparr>xip := p\<rparr>)"
  using assms by (induction "is" arbitrary: s) (auto simp: exec_plain_xip split: option.splits)

lemma decodes_run:
  assumes "decodes bs is" and "list_all plain is" and "code_at code pos bs" and "xip s = int pos"
    and "exec_list is s = Some s'"
  shows "reaches base code s (s'\<lparr>xip := int (pos + length bs)\<rparr>)"
  using assms
proof (induction arbitrary: pos s s')
  case decodes_Nil
  then have "s'\<lparr>xip := int (pos + length [])\<rparr> = s" by simp
  then show ?case using reaches_refl [of base code s] by simp
next
  case (decodes_Cons b i bs "is")
  then obtain s1 where s1: "exec_plain i s = Some s1" "exec_list is s1 = Some s'" by (auto split: option.splits)
  have at: "code_at code pos b" "code_at code (pos + length b) bs" using decodes_Cons.prems by (simp_all add: code_at_append)
  have i: "plain i" "list_all plain is" using decodes_Cons.prems by simp_all
  let ?s1 = "s1\<lparr>xip := int (pos + length b)\<rparr>"
  have "x86_step base code s = Some ?s1"
    using x86_step_code_at [OF at(1) decodes_Cons.hyps(1)] decodes_Cons.prems exec_plain_ip [OF i(1)] s1 by simp
  moreover have "reaches base code ?s1 ((s'\<lparr>xip := int (pos + length b)\<rparr>)\<lparr>xip := int (pos + length b + length bs)\<rparr>)"
    by (rule decodes_Cons.IH [OF i(2) at(2)]) (simp_all add: exec_list_xip [OF i(2) s1(2)] del: of_nat_add)
  ultimately show ?case using reaches_trans [OF reaches_step] by (simp add: add.assoc)
qed

section \<open>Effects on registers\<close>

text \<open>The instructions the generated code uses on registers, as updates of the register file.\<close>

definition set_xreg :: "x86_reg \<Rightarrow> uint64_t \<Rightarrow> x86_state \<Rightarrow> x86_state" where
  "set_xreg r v s = s\<lparr>xreg := (xreg s)(r := v)\<rparr>"

lemma truncate_width: "truncate_to (width True) v = v" "truncate_to (width False) v = ucast (ucast v :: uint32_t)"
  "truncate_to 8 v = v" "truncate_to 4 v = ucast (ucast v :: uint32_t)"
  by (simp_all add: truncate_to_def width_def ucast_ucast_take_bit)

end
