(* ===== verification/X86_Effect.thy ===== *)
theory X86_Effect
  imports X86_Run Interp
begin

text \<open>
  The effect of each encoder of the x86-64 back end on the registers of the processor, for every
  register and immediate, with and without constant blinding.
\<close>

section \<open>What a piece of translator emits\<close>

text \<open>The state after appending \<open>bs\<close>; random numbers may have been used up.\<close>

definition extends_by :: "jit_state \<Rightarrow> uint8_t list \<Rightarrow> jit_state \<Rightarrow> bool" where
  "extends_by s bs s' \<longleftrightarrow> unat (jit_offset s) + length bs \<le> unat (jit_size s) \<and>
     (\<exists>rs. s' = (append_code bs s)\<lparr>jit_randoms := rs\<rparr>)"

text \<open>
  \<open>yields m \<Phi>\<close>: if \<open>m\<close> succeeds, it appends the code of instructions that satisfy \<open>\<Phi>\<close>, none of which
  transfers control.
\<close>

definition yields :: "unit jit \<Rightarrow> (x86_instr list \<Rightarrow> bool) \<Rightarrow> bool" where
  "yields m \<Phi> \<longleftrightarrow>
     (\<forall>s s'. room s \<longrightarrow> run_state m s = ((), s') \<longrightarrow> room s' \<and>
        (jit_status s' = NoError \<longrightarrow> jit_status s = NoError \<and>
           (\<exists>bs is. extends_by s bs s' \<and> decodes bs is \<and> list_all plain is \<and> \<Phi> is)))"

lemma yieldsD:
  assumes "yields m \<Phi>" and "room s" and "run_state m s = ((), s')"
  shows "room s'" and "jit_status s' = NoError \<Longrightarrow> jit_status s = NoError"
    and "jit_status s' = NoError \<Longrightarrow> \<exists>bs is. extends_by s bs s' \<and> decodes bs is \<and> list_all plain is \<and> \<Phi> is"
  using assms(1) [unfolded yields_def, THEN spec, THEN spec, THEN mp, THEN mp, OF assms(2,3)] by simp_all

lemma extends_by_emits:
  assumes "emits m bs" and "room s" and "run_state m s = ((), s')" and "jit_status s' = NoError"
  shows "extends_by s bs s'"
  using emitsD(3,4) [OF assms] unfolding extends_by_def by (auto intro!: exI [of _ "jit_randoms s"] simp: append_code_def)

lemma yields_emits:
  assumes "emits m bs" and "decodes bs is" and "list_all plain is" and "\<Phi> is"
  shows "yields m \<Phi>"
  unfolding yields_def
proof (intro allI impI)
  fix s s' assume s: "room s" and run: "run_state m s = ((), s')"
  from emitsD(1,2) [OF assms(1) s run] extends_by_emits [OF assms(1) s run] assms(2-4)
  show "room s' \<and> (jit_status s' = NoError \<longrightarrow> jit_status s = NoError \<and>
      (\<exists>bs is. extends_by s bs s' \<and> decodes bs is \<and> list_all plain is \<and> \<Phi> is))"
    by blast
qed

lemma extends_by_append:
  assumes "room s" and "extends_by s bs s1" and "extends_by s1 cs s2"
  shows "extends_by s (bs @ cs) s2"
proof -
  from assms(2) obtain rs where s1: "s1 = (append_code bs s)\<lparr>jit_randoms := rs\<rparr>"
    and fit: "unat (jit_offset s) + length bs \<le> unat (jit_size s)" by (auto simp: extends_by_def)
  note cat = append_code_append [OF assms(1) fit]
  from assms(3) obtain rs' where s2: "s2 = (append_code cs s1)\<lparr>jit_randoms := rs'\<rparr>"
    and fit2: "unat (jit_offset s1) + length cs \<le> unat (jit_size s1)" by (auto simp: extends_by_def)
  have "append_code cs s1 = (append_code cs (append_code bs s))\<lparr>jit_randoms := rs\<rparr>" by (simp add: s1 append_code_def)
  with s2 cat(1) have "s2 = (append_code (bs @ cs) s)\<lparr>jit_randoms := rs'\<rparr>" by simp
  moreover have "unat (jit_offset s) + length (bs @ cs) \<le> unat (jit_size s)"
    using fit2 cat(2) by (simp add: s1 append_code_def)
  ultimately show ?thesis by (auto simp: extends_by_def)
qed

lemma yields_bind:
  assumes "yields m \<Phi>" and "yields n \<Psi>" and "\<And>is js. \<Phi> is \<Longrightarrow> \<Psi> js \<Longrightarrow> X (is @ js)"
  shows "yields (State_Monad.bind m (\<lambda>_. n)) X"
  unfolding yields_def
proof (intro allI impI)
  fix s s' assume s: "room s" and run: "run_state (State_Monad.bind m (\<lambda>_. n)) s = ((), s')"
  obtain s1 where m: "run_state m s = ((), s1)" by (cases "run_state m s") simp
  with run have n: "run_state n s1 = ((), s')" by simp
  note 1 = yieldsD [OF assms(1) s m]
  note 2 = yieldsD [OF assms(2) 1(1) n]
  show "room s' \<and> (jit_status s' = NoError \<longrightarrow> jit_status s = NoError \<and>
      (\<exists>bs is. extends_by s bs s' \<and> decodes bs is \<and> list_all plain is \<and> X is))"
  proof (intro conjI impI 2(1))
    assume ok: "jit_status s' = NoError"
    obtain cs js where q: "extends_by s1 cs s'" "decodes cs js" "list_all plain js" "\<Psi> js" using 2(3) [OF ok] by blast
    obtain bs "is" where p: "extends_by s bs s1" "decodes bs is" "list_all plain is" "\<Phi> is" using 1(3) [OF 2(2) [OF ok]] by blast
    show "jit_status s = NoError" by (rule 1(2) [OF 2(2) [OF ok]])
    show "\<exists>bs is. extends_by s bs s' \<and> decodes bs is \<and> list_all plain is \<and> X is"
      using extends_by_append [OF s p(1) q(1)] decodes_append [OF p(2) q(2)] p(3) q(3) assms(3) [OF p(4) q(4)]
      by (intro exI [of _ "bs @ cs"] exI [of _ "is @ js"]) simp
  qed
qed

lemma yields_generate:
  assumes "\<And>r. yields (f r) \<Phi>"
  shows "yields (State_Monad.bind ubpf_generate_blinding_constant f) \<Phi>"
  unfolding yields_def
proof (intro allI impI)
  fix s s' assume s: "room s" and run: "run_state (State_Monad.bind ubpf_generate_blinding_constant f) s = ((), s')"
  let ?s = "s\<lparr>jit_randoms := jit_randoms s \<circ> Suc\<rparr>"
  have run': "run_state (f (jit_randoms s 0)) ?s = ((), s')" and s': "room ?s" using run s by simp_all
  have ext: "extends_by ?s bs s' \<Longrightarrow> extends_by s bs s'" for bs by (auto simp: extends_by_def append_code_def)
  note y = yieldsD [OF assms s' run']
  from y(1) y(2) ext y(3) show "room s' \<and> (jit_status s' = NoError \<longrightarrow> jit_status s = NoError \<and>
      (\<exists>bs is. extends_by s bs s' \<and> decodes bs is \<and> list_all plain is \<and> \<Phi> is))"
    by auto
qed

lemma yields_mono:
  assumes "yields m \<Phi>" and "\<And>is. \<Phi> is \<Longrightarrow> \<Psi> is"
  shows "yields m \<Psi>"
  unfolding yields_def
proof (intro allI impI)
  fix s s' assume s: "room s" and run: "run_state m s = ((), s')"
  note y = yieldsD [OF assms(1) s run]
  from y(1,2) y(3) assms(2) show "room s' \<and> (jit_status s' = NoError \<longrightarrow> jit_status s = NoError \<and>
      (\<exists>bs is. extends_by s bs s' \<and> decodes bs is \<and> list_all plain is \<and> \<Psi> is))"
    by blast
qed

text \<open>
  \<open>realizes m R\<close>: the code always runs to its end, and \<open>R\<close> relates the states of the processor before
  and after.
\<close>

definition realizes :: "unit jit \<Rightarrow> (x86_state \<Rightarrow> x86_state \<Rightarrow> bool) \<Rightarrow> bool" where
  "realizes m R \<longleftrightarrow> yields m (\<lambda>is. \<forall>x. \<exists>x'. exec_list is x = Some x' \<and> R x x')"

lemmas realizesD = yieldsD [OF realizes_def [THEN iffD1]]

lemma realizes_emits:
  assumes "emits m bs" and "decodes bs is" and "list_all plain is" and "\<And>x. \<exists>x'. exec_list is x = Some x' \<and> R x x'"
  shows "realizes m R"
  unfolding realizes_def using assms by (intro yields_emits) blast+

lemma realizes_bind:
  assumes "realizes m R" and "realizes n Q"
  shows "realizes (State_Monad.bind m (\<lambda>_. n)) (R OO Q)"
  unfolding realizes_def
proof (rule yields_bind [OF assms [unfolded realizes_def]], rule allI)
  fix "is" js x
  assume "\<forall>x. \<exists>x'. exec_list is x = Some x' \<and> R x x'" and js: "\<forall>x. \<exists>x'. exec_list js x = Some x' \<and> Q x x'"
  then obtain y where y: "exec_list is x = Some y" "R x y" by blast
  obtain z where "exec_list js y = Some z" "Q y z" using js by blast
  with y show "\<exists>x'. exec_list (is @ js) x = Some x' \<and> (R OO Q) x x'" by (auto simp: exec_list_append)
qed

lemma realizes_generate:
  assumes "\<And>r. realizes (f r) R"
  shows "realizes (State_Monad.bind ubpf_generate_blinding_constant f) R"
  using assms unfolding realizes_def by (rule yields_generate)

section \<open>Encoders as functions on the registers\<close>

definition reg_fun :: "((x86_reg \<Rightarrow> uint64_t) \<Rightarrow> x86_reg \<Rightarrow> uint64_t) \<Rightarrow> x86_state \<Rightarrow> x86_state \<Rightarrow> bool" where
  "reg_fun F x x' \<longleftrightarrow> xreg x' = F (xreg x) \<and> xmem x' = xmem x"

definition low32 :: "uint64_t \<Rightarrow> uint64_t" where "low32 v = ucast (ucast v :: uint32_t)"

definition at_width :: "bool \<Rightarrow> uint64_t \<Rightarrow> uint64_t" where "at_width w v = (if w then v else low32 v)"

lemma at_width_simps [simp]: "at_width True v = v" "at_width False v = low32 v"
  by (simp_all add: at_width_def)

lemma truncate_at_width: "truncate_to (width w) v = at_width w v"
  by (cases w) (simp_all add: truncate_width low32_def)

lemma width_ge [simp]: "4 \<le> width w" by (simp add: width_def)

lemma at_width_idem [simp]: "at_width w (at_width w v) = at_width w v"
  by (cases w) (simp_all add: low32_def c_conv)

lemma realizes_mono:
  assumes "realizes m R" and "\<And>x x'. R x x' \<Longrightarrow> Q x x'"
  shows "realizes m Q"
  unfolding realizes_def using assms(1) [unfolded realizes_def] by (rule yields_mono) (use assms(2) in blast)

lemma realizes_seq:
  assumes "realizes m (reg_fun F)" and "realizes n (reg_fun G)"
  shows "realizes (State_Monad.bind m (\<lambda>_. n)) (reg_fun (\<lambda>r. G (F r)))"
  by (rule realizes_mono [OF realizes_bind [OF assms]]) (auto simp: reg_fun_def)

lemma realizes_one:
  assumes "emits m b" and "\<And>rest. decode (b @ rest) = Some (i, length b)" and "plain i"
    and "\<And>x. \<exists>x'. exec_plain i x = Some x' \<and> reg_fun F x x'"
  shows "realizes m (reg_fun F)"
proof (rule realizes_emits [OF assms(1) decodes_one [OF assms(2)]])
  fix x show "\<exists>x'. exec_list [i] x = Some x' \<and> reg_fun F x x'" using assms(4) [of x] by auto
qed (use assms(3) in simp)

lemma realizes_skip: "realizes skip (reg_fun (\<lambda>r. r))"
  by (rule realizes_emits [OF emits_skip decodes_Nil]) (simp_all add: reg_fun_def)

lemma alu_value_at_width: "at_width w (alu_value a (at_width w u) (at_width w v)) = at_width w (alu_value a u v)"
  by (cases w; cases a) (simp_all add: low32_def alu_value_def c_conv)

lemmas exec_reg_simps = exec_plain_def exec_instr_def exec_alu_rm_def read_rm_def write_rm_def reg_fun_def truncate_at_width

lemma exec_plain_alu:
  assumes "writes_result a"
  shows "\<exists>x'. exec_plain (Xalu a w (Xreg d) s) x = Some x' \<and> reg_fun (\<lambda>r. r(d := at_width w (alu_value a (r d) (r s)))) x x'"
    and "\<exists>x'. exec_plain (Xalu_imm a w (Xreg d) i) x = Some x' \<and> reg_fun (\<lambda>r. r(d := at_width w (alu_value a (r d) (scast i)))) x x'"
  using assms by (simp_all add: exec_reg_simps alu_value_at_width)

lemma exec_plain_moves:
  "\<exists>x'. exec_plain (Xmov (width w) (Xreg d) s) x = Some x' \<and> reg_fun (\<lambda>r. r(d := at_width w (r s))) x x'"
  "\<exists>x'. exec_plain (Xmov_imm (width w) (Xreg d) i) x = Some x' \<and> reg_fun (\<lambda>r. r(d := at_width w (scast i))) x x'"
  "\<exists>x'. exec_plain (Xmovabs d z) x = Some x' \<and> reg_fun (\<lambda>r. r(d := z)) x x'"
  "\<exists>x'. exec_plain (Xload_sx n w d (Xreg s)) x = Some x' \<and> reg_fun (\<lambda>r. r(d := at_width w (sign_extend_from n (truncate_to n (r s))))) x x'"
  "\<exists>x'. exec_plain (Xbswap w d) x = Some x' \<and> reg_fun (\<lambda>r. r(d := bswap_value (width w) (r d))) x x'"
  "\<exists>x'. exec_plain (Xrol16 (Xreg d) c) x = Some x' \<and>
     reg_fun (\<lambda>r. r(d := truncate_to 2 (rol16_value (truncate_to 2 (r d)) c) OR (r d AND NOT (mask 16)))) x x'"
  by (simp_all add: exec_reg_simps)

lemma exec_plain_shift:
  "\<exists>x'. exec_plain (Xshift k w (Xreg d) c) x = Some x' \<and> reg_fun (\<lambda>r. r(d := at_width w (shift_value k w (at_width w (r d)) c))) x x'"
  "\<exists>x'. exec_plain (Xshift_cl k w (Xreg d)) x = Some x' \<and>
     reg_fun (\<lambda>r. r(d := at_width w (shift_value k w (at_width w (r d)) (ucast (r 1))))) x x'"
  "\<exists>x'. exec_plain (Xneg w (Xreg d)) x = Some x' \<and> reg_fun (\<lambda>r. r(d := at_width w (- at_width w (r d)))) x x'"
  by (simp_all add: exec_reg_simps)

named_theorems realizes_intros \<open>the effect of an encoder on the registers\<close>

lemma realizes_alu [realizes_intros]:
  assumes "alu_of_opcode (ucast op) = Some a" and "writes_result a"
  shows "realizes (emit_alu64 op (ucast s) (ucast d)) (reg_fun (\<lambda>r. r(d := alu_value a (r d) (r s))))"
    and "realizes (emit_alu32 op (ucast s) (ucast d)) (reg_fun (\<lambda>r. r(d := low32 (alu_value a (r d) (r s)))))"
  using realizes_one [OF emits_alu64 decode_alu [OF assms(1)] _ exec_plain_alu(1) [OF assms(2)]]
    realizes_one [OF emits_alu32 decode_alu [OF assms(1)] _ exec_plain_alu(1) [OF assms(2)]]
  by (simp_all add: plain_def)

lemma realizes_alu_imm [realizes_intros]:
  assumes "alu_of_ext e = Some a" and "writes_result a"
  shows "realizes (emit_alu64_imm32 0x81 (ucast e) (ucast d) i) (reg_fun (\<lambda>r. r(d := alu_value a (r d) (scast i))))"
    and "realizes (emit_alu32_imm32 0x81 (ucast e) (ucast d) i) (reg_fun (\<lambda>r. r(d := low32 (alu_value a (r d) (scast i)))))"
  using realizes_one [OF emits_alu64_imm32 [of "0x81", simplified] decode_alu_imm [OF assms(1)] _ exec_plain_alu(2) [OF assms(2)]]
    realizes_one [OF emits_alu32_imm32 [of "0x81", simplified] decode_alu_imm [OF assms(1)] _ exec_plain_alu(2) [OF assms(2)]]
  by (simp_all add: plain_def)

lemma low32_scast: "low32 (scast (i :: int32_t)) = ucast i"
  by (simp add: low32_def c_conv)

lemma realizes_mov [realizes_intros]:
  fixes e d s :: "4 word"
  shows "realizes (emit_alu64_imm32 0xc7 (ucast e) (ucast d) i) (reg_fun (\<lambda>r. r(d := scast i)))"
  "realizes (emit_alu32_imm32 0xc7 (ucast e) (ucast d) i) (reg_fun (\<lambda>r. r(d := ucast i)))"
  "realizes (emit_mov (ucast s) (ucast d)) (reg_fun (\<lambda>r. r(d := r s)))"
  "realizes (emit_alu64 0x89 (ucast s) (ucast d)) (reg_fun (\<lambda>r. r(d := r s)))"
  "realizes (emit_alu32 0x89 (ucast s) (ucast d)) (reg_fun (\<lambda>r. r(d := low32 (r s))))"
  "realizes (emit_movabs (ucast d) z) (reg_fun (\<lambda>r. r(d := z)))"
  using realizes_one [OF emits_alu64_imm32 [of "0xc7", simplified] decode_mov_imm _ exec_plain_moves(2)]
    realizes_one [OF emits_alu32_imm32 [of "0xc7", simplified] decode_mov_imm _ exec_plain_moves(2)]
    realizes_one [OF emits_mov decode_mov _ exec_plain_moves(1)]
    realizes_one [OF emits_alu64 [of "0x89", simplified] decode_mov _ exec_plain_moves(1)]
    realizes_one [OF emits_alu32 [of "0x89", simplified] decode_mov _ exec_plain_moves(1)]
    realizes_one [OF emits_movabs decode_movabs _ exec_plain_moves(3)]
  by (simp_all add: plain_def low32_scast)

lemma realizes_shift [realizes_intros]:
  assumes "shift_of_ext e = Some k"
  shows "realizes (emit_alu64_imm8 0xc1 (ucast e) (ucast d) c) (reg_fun (\<lambda>r. r(d := shift_value k True (r d) c)))"
    and "realizes (emit_alu32_imm8 0xc1 (ucast e) (ucast d) c) (reg_fun (\<lambda>r. r(d := low32 (shift_value k False (low32 (r d)) c))))"
    and "realizes (emit_alu64 0xd3 (ucast e) (ucast d)) (reg_fun (\<lambda>r. r(d := shift_value k True (r d) (ucast (r 1)))))"
    and "realizes (emit_alu32 0xd3 (ucast e) (ucast d)) (reg_fun (\<lambda>r. r(d := low32 (shift_value k False (low32 (r d)) (ucast (r 1))))))"
  using realizes_one [OF emits_alu64_imm8 [of "0xc1", simplified] decode_shift [OF assms] _ exec_plain_shift(1)]
    realizes_one [OF emits_alu32_imm8 [of "0xc1", simplified] decode_shift [OF assms] _ exec_plain_shift(1)]
    realizes_one [OF emits_alu64 [of "0xd3", simplified] decode_shift_cl [OF assms] _ exec_plain_shift(2)]
    realizes_one [OF emits_alu32 [of "0xd3", simplified] decode_shift_cl [OF assms] _ exec_plain_shift(2)]
  by (simp_all add: plain_def)

lemma realizes_neg [realizes_intros]:
  "realizes (emit_alu64 0xf7 3 (ucast d)) (reg_fun (\<lambda>r. r(d := - r d)))"
  "realizes (emit_alu32 0xf7 3 (ucast d)) (reg_fun (\<lambda>r. r(d := low32 (- low32 (r d)))))"
  using realizes_one [OF emits_alu64 [of "0xf7" 3, simplified] decode_unary(1) _ exec_plain_shift(3)]
    realizes_one [OF emits_alu32 [of "0xf7" 3, simplified] decode_unary(1) _ exec_plain_shift(3)]
  by (simp_all add: plain_def)

lemma emits_movsx:
  "emits (do { emit_basic_rex (of_bool w) (ucast d) (ucast s); emit1 0x0f; emit1 op; emit_modrm_reg2reg (ucast d) (ucast s) })
     (x_movsx w op d s)"
  "emits (do { emit_rex 0 (of_bool ((ucast d :: int32_t) AND 8 \<noteq> 0)) 0 (of_bool ((ucast s :: int32_t) AND 8 \<noteq> 0));
     emit1 0x0f; emit1 0xbe; emit_modrm_reg2reg (ucast d) (ucast s) }) (x_movsx8 d s)"
  "emits (do { emit_basic_rex (of_bool w) (ucast d) (ucast s); emit1 0x63; emit_modrm_reg2reg (ucast d) (ucast s) })
     (x_alu w 0x63 d s)"
  unfolding x_movsx_def x_movsx8_def x_alu_def emit_modrm_reg2reg_def reg_bit3
  using emits_bind [OF emits_basic_rex [of w d s] emits_bind [OF emits_emit1 [of "0x0f"] emits_bind [OF emits_emit1 [of op]
      emits_modrm [of "0xc0" d s]]]]
    emits_bind [OF emits_rex [of False d s] emits_bind [OF emits_emit1 [of "0x0f"] emits_bind [OF emits_emit1 [of "0xbe"]
      emits_modrm [of "0xc0" d s]]]]
    emits_bind [OF emits_basic_rex [of w d s] emits_bind [OF emits_emit1 [of "0x63"] emits_modrm [of "0xc0" d s]]]
  by simp_all

lemma emits_bswap:
  "emits (do { emit_basic_rex (of_bool w) 0 (ucast d); emit1 0x0f; emit1 (ucast (0xc8 OR (ucast d AND 7) :: int32_t)) }) (x_bswap w d)"
  unfolding x_bswap_def
  using emits_bind [OF emits_basic_rex [of w 0 d] emits_bind [OF emits_emit1 [of "0x0f"]
      emits_emit1 [of "ucast (0xc8 OR (ucast d AND 7) :: int32_t)"]]]
  by (simp add: ucast_down_or low3)

lemma emits_rol16: "emits (do { emit1 0x66; emit_alu32_imm8 0xc1 0 (ucast d) c }) (x_rol16 d c)"
  unfolding x_rol16_def using emits_bind [OF emits_emit1 [of "0x66"] emits_alu32_imm8 [of "0xc1" 0 d c]] by simp

lemma realizes_movsx:
  "realizes (do { emit_basic_rex (of_bool w) (ucast d) (ucast s); emit1 0x0f; emit1 0xbe; emit_modrm_reg2reg (ucast d) (ucast s) })
     (reg_fun (\<lambda>r. r(d := at_width w (sign_extend_from 1 (truncate_to 1 (r s))))))"
  "realizes (do { emit_basic_rex (of_bool w) (ucast d) (ucast s); emit1 0x0f; emit1 0xbf; emit_modrm_reg2reg (ucast d) (ucast s) })
     (reg_fun (\<lambda>r. r(d := at_width w (sign_extend_from 2 (truncate_to 2 (r s))))))"
  "realizes (do { emit_rex 0 (of_bool ((ucast d :: int32_t) AND 8 \<noteq> 0)) 0 (of_bool ((ucast s :: int32_t) AND 8 \<noteq> 0));
     emit1 0x0f; emit1 0xbe; emit_modrm_reg2reg (ucast d) (ucast s) })
     (reg_fun (\<lambda>r. r(d := low32 (sign_extend_from 1 (truncate_to 1 (r s))))))"
  "realizes (do { emit_basic_rex (of_bool w) (ucast d) (ucast s); emit1 0x63; emit_modrm_reg2reg (ucast d) (ucast s) })
     (reg_fun (\<lambda>r. r(d := at_width w (sign_extend_from 4 (truncate_to 4 (r s))))))"
  using realizes_one [OF emits_movsx(1) [of w d s "0xbe"] decode_movsx(1) _ exec_plain_moves(4)]
    realizes_one [OF emits_movsx(1) [of w d s "0xbf"] decode_movsx(2) _ exec_plain_moves(4)]
    realizes_one [OF emits_movsx(2) decode_movsx(3) _ exec_plain_moves(4)]
    realizes_one [OF emits_movsx(3) decode_movsx(4) _ exec_plain_moves(4)]
  by (simp_all add: plain_def)

lemma realizes_bswap:
  "realizes (do { emit_basic_rex (of_bool w) 0 (ucast d); emit1 0x0f; emit1 (ucast (0xc8 OR (ucast d AND 7) :: int32_t)) })
     (reg_fun (\<lambda>r. r(d := bswap_value (width w) (r d))))"
  "realizes (do { emit1 0x66; emit_alu32_imm8 0xc1 0 (ucast d) c })
     (reg_fun (\<lambda>r. r(d := truncate_to 2 (rol16_value (truncate_to 2 (r d)) c) OR (r d AND NOT (mask 16)))))"
  using realizes_one [OF emits_bswap decode_bswap _ exec_plain_moves(5)]
    realizes_one [OF emits_rol16 decode_rol16 _ exec_plain_moves(6)]
  by (simp_all add: plain_def)

section \<open>Writing one register\<close>

text \<open>
  \<open>computes d F\<close>: register \<open>d\<close> gets the value \<open>F\<close> of the old registers; RCX and R11 are scratch, the
  other registers and the memory stay.
\<close>

definition computes :: "x86_reg \<Rightarrow> ((x86_reg \<Rightarrow> uint64_t) \<Rightarrow> uint64_t) \<Rightarrow> x86_state \<Rightarrow> x86_state \<Rightarrow> bool" where
  "computes d F x x' \<longleftrightarrow>
     xreg x' d = F (xreg x) \<and> (\<forall>r. r \<noteq> d \<longrightarrow> r \<noteq> 1 \<longrightarrow> r \<noteq> 11 \<longrightarrow> xreg x' r = xreg x r) \<and> xmem x' = xmem x"

lemma realizes_computes:
  assumes "realizes m (reg_fun G)" and "\<And>r. G r d = F r"
    and "\<And>r q. q \<noteq> d \<Longrightarrow> q \<noteq> 1 \<Longrightarrow> q \<noteq> 11 \<Longrightarrow> G r q = r q"
  shows "realizes m (computes d F)"
  by (rule realizes_mono [OF assms(1)]) (auto simp: computes_def reg_fun_def assms(2,3))

lemma realizes_then:
  assumes "realizes m (computes d F)" and "realizes n (reg_fun (\<lambda>r. r(d := g (r d))))"
  shows "realizes (State_Monad.bind m (\<lambda>_. n)) (computes d (\<lambda>r. g (F r)))"
  by (rule realizes_mono [OF realizes_bind [OF assms]]) (auto simp: computes_def reg_fun_def)

lemma signed_unmask: "(scast (i XOR k :: int32_t) XOR scast k :: uint64_t) = scast i"
  by (rule bit_word_eqI) (auto simp: bit_simps)

lemma low32_unmask: "low32 (ucast (i XOR k :: int32_t) XOR scast k) = ucast i"
  unfolding low32_def by (rule bit_word_eqI) (auto simp: bit_simps dest: bit_imp_le_length)

lemma sint_signed_take_bit: "n < 63 \<Longrightarrow> sint (signed_take_bit n (v :: int64_t)) = signed_take_bit n (sint v)"
  by transfer (simp add: signed_take_bit_signed_take_bit min_def signed_take_bit_take_bit)

lemma fits_int32_scast:
  assumes "fits_int32 v"
  shows "scast (ucast v :: int32_t) = v"
proof -
  have "- (2 ^ 31) \<le> sint v" "sint v < 2 ^ 31" using assms by (simp_all add: fits_int32_def word_sle_eq INT32_MIN_def)
  then have "sint (signed_take_bit 31 v) = sint v" by (simp add: sint_signed_take_bit signed_take_bit_int_eq_self)
  then have "signed_take_bit 31 v = v" by (rule signed_word_eqI)
  then show ?thesis by (simp add: signed_ucast_eq)
qed

lemma realizes_load_imm:
  assumes "d \<noteq> 11"
  shows "realizes (EMIT_LOAD_IMM vm (ucast d) im) (computes d (\<lambda>_. im))"
proof -
  have temp: "(ucast d :: int32_t) \<noteq> R11"
    using assms unat_ucast_up [of d, where ?'b = 32] by (simp add: word_unat_eq_iff)
  have load: "realizes (if fits_int32 v then emit_alu64_imm32 0xc7 0 (ucast d) (ucast v) else emit_movabs (ucast d) v)
      (reg_fun (\<lambda>r. r(d := v)))" for v
    using realizes_mov(1) [of 0 d "ucast v"] realizes_mov(6) [of d v]
    by (cases "fits_int32 v") (simp_all add: fits_int32_scast)
  have mask: "realizes (if fits_int32 k then emit_alu64_imm32 0x81 6 (ucast d) (ucast k)
       else do { let temp_reg = (if (ucast d :: int32_t) = R11 then R10 else R11); emit_movabs temp_reg k; emit_alu64 0x31 temp_reg (ucast d) })
      (computes d (\<lambda>r. r d XOR k))" for k
    using realizes_computes [OF realizes_alu_imm(1) [of 6 Xxor d "ucast k", simplified], of d "\<lambda>r. r d XOR k"]
      realizes_computes [OF realizes_seq [OF realizes_mov(6) [of 11 k] realizes_alu(1) [of "0x31" Xxor 11 d, simplified]], of d "\<lambda>r. r d XOR k"]
      assms temp
    by (cases "fits_int32 k") (simp_all add: alu_of_ext_def alu_of_opcode_def writes_result_def alu_value_def fits_int32_scast)
  have "realizes (emit_load_imm_blinded (ucast d) im) (computes d (\<lambda>_. im))"
    unfolding emit_load_imm_blinded_def Let_def
    by (rule realizes_generate, rule realizes_mono [OF realizes_bind [OF load mask [unfolded Let_def]]])
      (auto simp: computes_def reg_fun_def xor.assoc)
  moreover have "realizes (emit_load_imm (ucast d) im) (computes d (\<lambda>_. im))"
    unfolding emit_load_imm_def by (rule realizes_computes [OF load]) simp_all
  ultimately show ?thesis by (simp add: EMIT_LOAD_IMM_def)
qed

lemma temp_register:
  assumes "d \<noteq> 11"
  shows "(if (ucast (d :: x86_reg) :: int32_t) = R11 then R10 else R11) = R11"
  using assms unat_ucast_up [of d, where ?'b = 32] by (simp add: word_unat_eq_iff)

text \<open>The operand of a blinded operation is rebuilt in R11.\<close>

lemma realizes_blinded_operand:
  "realizes (do { emit_alu64_imm32 0xc7 0 R11 (im XOR k); emit_alu64_imm32 0x81 6 R11 k }) (reg_fun (\<lambda>r. r(11 := scast im)))"
  "realizes (do { emit_alu32_imm32 0xc7 0 R11 (im XOR k); emit_alu32_imm32 0x81 6 R11 k }) (reg_fun (\<lambda>r. r(11 := ucast im)))"
  using realizes_seq [OF realizes_mov(1) [of 0 11 "im XOR k"] realizes_alu_imm(1) [of 6 Xxor 11 k]]
    realizes_seq [OF realizes_mov(2) [of 0 11 "im XOR k"] realizes_alu_imm(2) [of 6 Xxor 11 k]]
  by (simp_all add: alu_of_ext_def writes_result_def alu_value_def signed_unmask low32_unmask)

lemma blinded_opcode:
  assumes "alu_of_ext e = Some a" and "e AND 7 = e"
  shows "alu_of_opcode (ucast (blinded_reg_op (ucast e))) = Some a"
  using assms by (rule_tac reg_all [of _ e])
    (simp_all add: alu_of_ext_def alu_of_opcode_def blinded_reg_op_def split: if_splits)

lemma bind_bind: "State_Monad.bind (State_Monad.bind m f) g = State_Monad.bind m (\<lambda>x. State_Monad.bind (f x) g)"
  by (rule state.expand) (simp add: fun_eq_iff case_prod_beta)

lemma low32_ucast [simp]: "low32 (ucast (i :: int32_t)) = ucast i" "low32 (low32 v) = low32 v"
  by (simp_all add: low32_def c_conv)

lemma alu_value_ucast: "low32 (alu_value a v (ucast (i :: int32_t))) = low32 (alu_value a v (scast i))"
  by (cases a) (simp_all add: low32_def alu_value_def c_conv)

lemma realizes_blinded:
  assumes "alu_of_opcode (ucast op) = Some a" and "writes_result a" and "d \<noteq> 11"
  shows "realizes (do { emit_alu64_imm32 0xc7 0 R11 (im XOR k); emit_alu64_imm32 0x81 6 R11 k; emit_alu64 op R11 (ucast d) })
      (computes d (\<lambda>r. alu_value a (r d) (scast im)))"
    and "realizes (do { emit_alu32_imm32 0xc7 0 R11 (im XOR k); emit_alu32_imm32 0x81 6 R11 k; emit_alu32 op R11 (ucast d) })
      (computes d (\<lambda>r. low32 (alu_value a (r d) (scast im))))"
proof -
  note 1 = realizes_seq [OF realizes_blinded_operand(1) [of im k] realizes_alu(1) [OF assms(1,2), of 11 d]]
  note 2 = realizes_seq [OF realizes_blinded_operand(2) [of im k] realizes_alu(2) [OF assms(1,2), of 11 d]]
  show "realizes (do { emit_alu64_imm32 0xc7 0 R11 (im XOR k); emit_alu64_imm32 0x81 6 R11 k; emit_alu64 op R11 (ucast d) })
      (computes d (\<lambda>r. alu_value a (r d) (scast im)))"
    using realizes_computes [OF 1, of d "\<lambda>r. alu_value a (r d) (scast im)"] assms(3) by (simp add: bind_bind)
  show "realizes (do { emit_alu32_imm32 0xc7 0 R11 (im XOR k); emit_alu32_imm32 0x81 6 R11 k; emit_alu32 op R11 (ucast d) })
      (computes d (\<lambda>r. low32 (alu_value a (r d) (scast im))))"
    using realizes_computes [OF 2, of d "\<lambda>r. low32 (alu_value a (r d) (scast im))"] assms(3)
    by (simp add: bind_bind alu_value_ucast)
qed

lemma realizes_EMIT_ALU:
  assumes "alu_of_ext e = Some a" and "e AND 7 = e" and "writes_result a" and "d \<noteq> 11"
  shows "realizes (EMIT_ALU64_IMM32 vm 0x81 (ucast e) (ucast d) im) (computes d (\<lambda>r. alu_value a (r d) (scast im)))"
    and "realizes (EMIT_ALU32_IMM32 vm 0x81 (ucast e) (ucast d) im) (computes d (\<lambda>r. low32 (alu_value a (r d) (scast im))))"
proof -
  note b = realizes_blinded [OF blinded_opcode [OF assms(1,2)] assms(3,4)]
  have "realizes (emit_alu64_imm32_blinded 0x81 (ucast e) (ucast d) im) (computes d (\<lambda>r. alu_value a (r d) (scast im)))"
    "realizes (emit_alu32_imm32_blinded 0x81 (ucast e) (ucast d) im) (computes d (\<lambda>r. low32 (alu_value a (r d) (scast im))))"
    unfolding emit_alu64_imm32_blinded_def emit_alu32_imm32_blinded_def Let_def temp_register [OF assms(4)] if_P [OF refl]
    by (rule realizes_generate, rule b)+
  moreover have "realizes (emit_alu64_imm32 0x81 (ucast e) (ucast d) im) (computes d (\<lambda>r. alu_value a (r d) (scast im)))"
    "realizes (emit_alu32_imm32 0x81 (ucast e) (ucast d) im) (computes d (\<lambda>r. low32 (alu_value a (r d) (scast im))))"
    by (rule realizes_computes [OF realizes_alu_imm(1) [OF assms(1,3)]] realizes_computes [OF realizes_alu_imm(2) [OF assms(1,3)]]; simp)+
  ultimately show "realizes (EMIT_ALU64_IMM32 vm 0x81 (ucast e) (ucast d) im) (computes d (\<lambda>r. alu_value a (r d) (scast im)))"
    and "realizes (EMIT_ALU32_IMM32 vm 0x81 (ucast e) (ucast d) im) (computes d (\<lambda>r. low32 (alu_value a (r d) (scast im))))"
    by (simp_all add: EMIT_ALU64_IMM32_def EMIT_ALU32_IMM32_def)
qed

lemma realizes_EMIT_MOV32:
  assumes "d \<noteq> 11"
  shows "realizes (EMIT_ALU32_IMM32 vm 0xc7 0 (ucast d) im) (computes d (\<lambda>_. ucast im))"
proof -
  have "realizes (do { emit_alu32_imm32 0xc7 0 R11 (im XOR k); emit_alu32_imm32 0x81 6 R11 k; emit_alu32 0x89 R11 (ucast d) })
      (computes d (\<lambda>_. ucast im))" for k
    using realizes_computes [OF realizes_seq [OF realizes_blinded_operand(2) [of im k] realizes_mov(5) [of 11 d]], of d "\<lambda>_. ucast im"]
    by (simp add: bind_bind)
  then have "realizes (emit_alu32_imm32_blinded 0xc7 0 (ucast d) im) (computes d (\<lambda>_. ucast im))"
    unfolding emit_alu32_imm32_blinded_def Let_def temp_register [OF assms] by (simp add: realizes_generate)
  moreover have "realizes (emit_alu32_imm32 0xc7 0 (ucast d) im) (computes d (\<lambda>_. ucast im))"
    using realizes_computes [OF realizes_mov(2) [of 0 d im], of d "\<lambda>_. ucast im"] by simp
  ultimately show ?thesis by (simp add: EMIT_ALU32_IMM32_def)
qed

end
