(* ===== verification/X86_Alu.thy ===== *)
theory X86_Alu
  imports X86_Effect
begin

text \<open>
  The code generated for an arithmetic instruction computes what the interpreter computes: for
  every opcode, both forms of the operand, with and without constant blinding.
\<close>

section \<open>Registers\<close>

text \<open>The processor's register for a register of the program.\<close>

definition mreg :: "uint4_t \<Rightarrow> x86_reg" where "mreg r = ucast (map_register r)"

lemma map_register: "map_register r = ucast (mreg r)"
  by (rule reg_all [of _ r]) (simp_all add: mreg_def map_register_def register_map_def REGISTER_MAP_SIZE_def)

lemma mreg_scratch: "mreg r \<noteq> 1" "mreg r \<noteq> 4" "mreg r \<noteq> 5" "mreg r \<noteq> 9" "mreg r \<noteq> 11"
  by (rule reg_all [of _ r]; simp add: mreg_def map_register_def register_map_def REGISTER_MAP_SIZE_def)+

text \<open>The map is injective: it has an inverse.\<close>

definition unmreg :: "x86_reg \<Rightarrow> uint4_t" where
  "unmreg r = the (map_of [(0, 0), (7, 1), (6, 2), (2, 3), (10, 4), (8, 5), (3, 6), (12, 7), (13, 8), (14, 9), (15, 10)] r)"

lemma unmreg_mreg: "r \<le> 10 \<longrightarrow> unmreg (mreg r) = r"
  by (rule reg_all [of _ r]) (simp_all add: unmreg_def mreg_def map_register_def register_map_def REGISTER_MAP_SIZE_def)

lemma mreg_inj: "r \<le> 10 \<Longrightarrow> q \<le> 10 \<Longrightarrow> mreg r = mreg q \<longleftrightarrow> r = q"
  by (metis unmreg_mreg)

section \<open>Values\<close>

lemma shift_count:
  fixes x :: "'a::len word"
  assumes "8 \<le> LENGTH('a)"
  shows "unat ((ucast x :: uint8_t) AND 0x3f) = SHIFT_MASK_64_BIT x" and "unat ((ucast x :: uint8_t) AND 0x1f) = SHIFT_MASK_32_BIT x"
proof -
  have "unat ((ucast x :: uint8_t) AND mask n) = unat (x AND mask n)" if "n \<le> 8" for n
    using that assms by (simp add: unsigned_take_bit_eq unsigned_ucast_eq min_def flip: take_bit_eq_mask)
  from this [of 6] this [of 5]
  show "unat ((ucast x :: uint8_t) AND 0x3f) = SHIFT_MASK_64_BIT x" "unat ((ucast x :: uint8_t) AND 0x1f) = SHIFT_MASK_32_BIT x"
    by (simp_all add: SHIFT_MASK_64_BIT_def SHIFT_MASK_32_BIT_def mask_numeral)
qed

lemma low32_shift:
  "low32 (push_bit n (low32 v)) = ucast (push_bit n (u32 v))" "low32 (drop_bit n (low32 v)) = ucast (drop_bit n (u32 v))"
  "low32 (ucast (signed_drop_bit n (ucast (low32 v) :: uint32_t))) = ucast (signed_drop_bit n (i32 v))"
proof -
  show "low32 (push_bit n (low32 v)) = ucast (push_bit n (u32 v))" "low32 (drop_bit n (low32 v)) = ucast (drop_bit n (u32 v))"
    unfolding low32_def u32_def by (rule bit_word_eqI; auto simp: bit_simps)+
  show "low32 (ucast (signed_drop_bit n (ucast (low32 v) :: uint32_t))) = ucast (signed_drop_bit n (i32 v))"
    by (simp add: low32_def i32_def c_conv)
qed

lemma shift_values:
  fixes x :: "'a::len word"
  assumes "8 \<le> LENGTH('a)"
  shows "shift_value k True v (ucast x) =
      (case k of Xshl \<Rightarrow> push_bit (SHIFT_MASK_64_BIT x) v | Xshr \<Rightarrow> drop_bit (SHIFT_MASK_64_BIT x) v
       | Xsar \<Rightarrow> signed_drop_bit (SHIFT_MASK_64_BIT x) v)"
    and "low32 (shift_value k False (low32 v) (ucast x)) =
      (case k of Xshl \<Rightarrow> ucast (push_bit (SHIFT_MASK_32_BIT x) (u32 v)) | Xshr \<Rightarrow> ucast (drop_bit (SHIFT_MASK_32_BIT x) (u32 v))
       | Xsar \<Rightarrow> ucast (signed_drop_bit (SHIFT_MASK_32_BIT x) (i32 v)))"
  unfolding shift_value_def Let_def if_True if_False simp_thms shift_count [OF assms] by (cases k; simp only: x86_shift.case low32_shift)+

lemma sign_extended:
  "sign_extend_from 1 (truncate_to 1 v) = scast (ucast v :: uint8_t)"
  "sign_extend_from 2 (truncate_to 2 v) = scast (ucast v :: uint16_t)"
  "sign_extend_from 4 (truncate_to 4 v) = scast (ucast v :: uint32_t)"
  by (simp_all add: sign_extend_from_def truncate_to_def signed_ucast_eq signed_take_bit_take_bit)

text \<open>Swapping bytes: a value is compared byte by byte.\<close>

lemma byte_masks:
  "(0xff00000000000000 :: uint64_t) = push_bit 56 (mask 8)" "(0x00ff000000000000 :: uint64_t) = push_bit 48 (mask 8)"
  "(0x0000ff0000000000 :: uint64_t) = push_bit 40 (mask 8)" "(0x000000ff00000000 :: uint64_t) = push_bit 32 (mask 8)"
  "(0x00000000ff000000 :: uint64_t) = push_bit 24 (mask 8)" "(0x0000000000ff0000 :: uint64_t) = push_bit 16 (mask 8)"
  "(0x000000000000ff00 :: uint64_t) = push_bit 8 (mask 8)" "(0x00000000000000ff :: uint64_t) = mask 8"
  "(0xff000000 :: uint32_t) = push_bit 24 (mask 8)" "(0x00ff0000 :: uint32_t) = push_bit 16 (mask 8)"
  "(0x0000ff00 :: uint32_t) = push_bit 8 (mask 8)" "(0x000000ff :: uint32_t) = mask 8"
  "(0xff00 :: uint16_t) = push_bit 8 (mask 8)" "(0x00ff :: uint16_t) = mask 8"
  by (simp_all add: mask_numeral)

lemma nth_le_bytes: "i < n \<Longrightarrow> le_bytes n v ! i = ucast (drop_bit (8 * i) v)"
proof (induction n arbitrary: v i)
  case (Suc n)
  then show ?case by (cases i) (simp_all add: drop_bit_drop_bit ac_simps)
qed simp

lemma bit_bswap_value:
  assumes "n \<le> 8"
  shows "bit (bswap_value n v) k \<longleftrightarrow> k < 8 * n \<and> bit v (8 * (n - Suc (k div 8)) + k mod 8)"
proof -
  have "k < 8 * n \<Longrightarrow> k div 8 < n" by simp
  then show ?thesis using assms
    by (auto simp: bswap_value_def bit_le_value rev_nth nth_le_bytes bit_simps)
qed

lemma bytes_of_64:
  assumes "\<And>j i. j \<in> {0, 1, 2, 3, 4, 5, 6, 7} \<Longrightarrow> i < 8 \<Longrightarrow> P (8 * j + i)" and "n < 64"
  shows "P (n :: nat)"
proof -
  have "n div 8 \<in> {0, 1, 2, 3, 4, 5, 6, 7}" using assms(2) by auto
  then have "P (8 * (n div 8) + n mod 8)" by (intro assms(1)) simp_all
  then show ?thesis by simp
qed

lemma byte_index: "i < 8 \<Longrightarrow> (8 * j + i) div 8 = (j :: nat)" "i < 8 \<Longrightarrow> (8 * j + i) mod 8 = (i :: nat)" by simp_all

lemma byte_swaps: "bswap_value (width True) v = bswap64 v" "bswap_value (width False) v = ucast (bswap32 (ucast v))"
proof -
  have "bit (bswap_value (width True) v) (8 * j + i) = bit (bswap64 v) (8 * j + i)"
    if "j \<in> {0, 1, 2, 3, 4, 5, 6, 7}" "i < 8" for i j :: nat
    using that(1) byte_index [OF that(2), of j] that(2) unfolding bswap64_def byte_masks width_def
    by (elim insertE emptyE) (simp_all add: bit_bswap_value bit_simps)
  then show "bswap_value (width True) v = bswap64 v"
    by (intro bit_word_eqI, rule_tac n = n in bytes_of_64) simp_all
  have "bit (bswap_value (width False) v) (8 * j + i) = bit (ucast (bswap32 (ucast v)) :: uint64_t) (8 * j + i)"
    if "j \<in> {0, 1, 2, 3, 4, 5, 6, 7}" "i < 8" for i j :: nat
    using that(1) byte_index [OF that(2), of j] that(2) unfolding bswap32_def byte_masks width_def
    by (elim insertE emptyE) (simp_all add: bit_bswap_value bit_simps)
  then show "bswap_value (width False) v = ucast (bswap32 (ucast v))"
    by (intro bit_word_eqI, rule_tac n = n in bytes_of_64) simp_all
qed

lemma rol16_swap:
  "truncate_to 2 (truncate_to 2 (rol16_value (truncate_to 2 v) 8) OR (v AND NOT (mask 16))) = ucast (bswap16 (ucast v))"
proof -
  have "bit v ((n + 8) mod 16) = (if n < 8 then bit v (n + 8) else bit v (n - 8))" if "n < 16" for n
    using that by (simp add: mod_if)
  then show ?thesis unfolding bswap16_def byte_masks
    by (intro bit_word_eqI) (auto simp: truncate_to_def rol16_value_def bit_simps add.commute [of 8] split: if_splits)
qed

section \<open>Instructions\<close>

text \<open>The opcodes whose code is generated by \<^const>\<open>emit_muldivmod\<close>.\<close>

definition is_muldivmod :: "uint8_t \<Rightarrow> bool" where
  "is_muldivmod op \<longleftrightarrow> op AND EBPF_ALU_OP_MASK \<in> {0x20, 0x30, 0x90}"

lemma realizes_rows:
  fixes s d :: x86_reg
  assumes "d \<noteq> 11" and "d \<noteq> 1"
  shows "realizes (EMIT_ALU64_IMM32 vm 0x81 0 (ucast d) im) (computes d (\<lambda>r. r d + scast im))"
    and "realizes (EMIT_ALU64_IMM32 vm 0x81 5 (ucast d) im) (computes d (\<lambda>r. r d - scast im))"
    and "realizes (EMIT_ALU64_IMM32 vm 0x81 1 (ucast d) im) (computes d (\<lambda>r. r d OR scast im))"
    and "realizes (EMIT_ALU64_IMM32 vm 0x81 4 (ucast d) im) (computes d (\<lambda>r. r d AND scast im))"
    and "realizes (EMIT_ALU64_IMM32 vm 0x81 6 (ucast d) im) (computes d (\<lambda>r. r d XOR scast im))"
    and "realizes (EMIT_ALU32_IMM32 vm 0x81 0 (ucast d) im) (computes d (\<lambda>r. low32 (r d + scast im)))"
    and "realizes (EMIT_ALU32_IMM32 vm 0x81 5 (ucast d) im) (computes d (\<lambda>r. low32 (r d - scast im)))"
    and "realizes (EMIT_ALU32_IMM32 vm 0x81 1 (ucast d) im) (computes d (\<lambda>r. low32 (r d OR scast im)))"
    and "realizes (EMIT_ALU32_IMM32 vm 0x81 4 (ucast d) im) (computes d (\<lambda>r. low32 (r d AND scast im)))"
    and "realizes (EMIT_ALU32_IMM32 vm 0x81 6 (ucast d) im) (computes d (\<lambda>r. low32 (r d XOR scast im)))"
  using realizes_EMIT_ALU [of 0 Xadd d vm im] realizes_EMIT_ALU [of 5 Xsub d vm im] realizes_EMIT_ALU [of 1 Xor d vm im]
    realizes_EMIT_ALU [of 4 Xand d vm im] realizes_EMIT_ALU [of 6 Xxor d vm im] assms
  by (simp_all add: alu_of_ext_def writes_result_def alu_value_def)

lemma realizes_reg_rows:
  fixes s d :: x86_reg
  assumes "d \<noteq> 11" and "d \<noteq> 1"
  shows "realizes (emit_alu64 0x01 (ucast s) (ucast d)) (computes d (\<lambda>r. r d + r s))"
    and "realizes (emit_alu64 0x29 (ucast s) (ucast d)) (computes d (\<lambda>r. r d - r s))"
    and "realizes (emit_alu64 0x09 (ucast s) (ucast d)) (computes d (\<lambda>r. r d OR r s))"
    and "realizes (emit_alu64 0x21 (ucast s) (ucast d)) (computes d (\<lambda>r. r d AND r s))"
    and "realizes (emit_alu64 0x31 (ucast s) (ucast d)) (computes d (\<lambda>r. r d XOR r s))"
    and "realizes (emit_alu32 0x01 (ucast s) (ucast d)) (computes d (\<lambda>r. low32 (r d + r s)))"
    and "realizes (emit_alu32 0x29 (ucast s) (ucast d)) (computes d (\<lambda>r. low32 (r d - r s)))"
    and "realizes (emit_alu32 0x09 (ucast s) (ucast d)) (computes d (\<lambda>r. low32 (r d OR r s)))"
    and "realizes (emit_alu32 0x21 (ucast s) (ucast d)) (computes d (\<lambda>r. low32 (r d AND r s)))"
    and "realizes (emit_alu32 0x31 (ucast s) (ucast d)) (computes d (\<lambda>r. low32 (r d XOR r s)))"
    and "realizes (emit_alu64 0xf7 3 (ucast d)) (computes d (\<lambda>r. - r d))"
    and "realizes (emit_alu32 0xf7 3 (ucast d)) (computes d (\<lambda>r. low32 (- r d)))"
    and "realizes (emit_mov (ucast s) (ucast d)) (computes d (\<lambda>r. r s))"
proof -
  have c: "realizes m (computes d F)" if "realizes m (reg_fun (\<lambda>r. r(d := F r)))" for m F
    by (rule realizes_computes [OF that]) simp_all
  note 1 = realizes_alu [where d = d and s = s, THEN c]
  show "realizes (emit_alu64 0x01 (ucast s) (ucast d)) (computes d (\<lambda>r. r d + r s))"
    and "realizes (emit_alu64 0x29 (ucast s) (ucast d)) (computes d (\<lambda>r. r d - r s))"
    and "realizes (emit_alu64 0x09 (ucast s) (ucast d)) (computes d (\<lambda>r. r d OR r s))"
    and "realizes (emit_alu64 0x21 (ucast s) (ucast d)) (computes d (\<lambda>r. r d AND r s))"
    and "realizes (emit_alu64 0x31 (ucast s) (ucast d)) (computes d (\<lambda>r. r d XOR r s))"
    and "realizes (emit_alu32 0x01 (ucast s) (ucast d)) (computes d (\<lambda>r. low32 (r d + r s)))"
    and "realizes (emit_alu32 0x29 (ucast s) (ucast d)) (computes d (\<lambda>r. low32 (r d - r s)))"
    and "realizes (emit_alu32 0x09 (ucast s) (ucast d)) (computes d (\<lambda>r. low32 (r d OR r s)))"
    and "realizes (emit_alu32 0x21 (ucast s) (ucast d)) (computes d (\<lambda>r. low32 (r d AND r s)))"
    and "realizes (emit_alu32 0x31 (ucast s) (ucast d)) (computes d (\<lambda>r. low32 (r d XOR r s)))"
    using 1 [of "0x01" Xadd] 1 [of "0x29" Xsub] 1 [of "0x09" Xor] 1 [of "0x21" Xand] 1 [of "0x31" Xxor]
    by (simp_all add: alu_of_opcode_def writes_result_def alu_value_def)
  show "realizes (emit_alu64 0xf7 3 (ucast d)) (computes d (\<lambda>r. - r d))"
    and "realizes (emit_alu32 0xf7 3 (ucast d)) (computes d (\<lambda>r. low32 (- r d)))"
    and "realizes (emit_mov (ucast s) (ucast d)) (computes d (\<lambda>r. r s))"
    using realizes_neg [of d, THEN c] realizes_mov(3) [of s d, THEN c] by (simp_all add: low32_def c_conv)
qed

lemma realizes_shift_rows:
  fixes s d :: x86_reg
  assumes "shift_of_ext e = Some k" and "d \<noteq> 11" and "d \<noteq> 1"
  shows "realizes (emit_alu64_imm8 0xc1 (ucast e) (ucast d) c) (computes d (\<lambda>r. shift_value k True (r d) c))"
    and "realizes (emit_alu32_imm8 0xc1 (ucast e) (ucast d) c) (computes d (\<lambda>r. low32 (shift_value k False (low32 (r d)) c)))"
    and "realizes (do { emit_mov (ucast s) RCX; emit_alu64 0xd3 (ucast e) (ucast d) })
      (computes d (\<lambda>r. shift_value k True (r d) (ucast (r s))))"
    and "realizes (do { emit_mov (ucast s) RCX; emit_alu32 0xd3 (ucast e) (ucast d) })
      (computes d (\<lambda>r. low32 (shift_value k False (low32 (r d)) (ucast (r s)))))"
proof -
  note 1 = realizes_shift [OF assms(1), where d = d]
  have mov: "realizes (emit_mov (ucast s) RCX) (reg_fun (\<lambda>r. r(1 := r s)))" using realizes_mov(3) [of s 1] by simp
  show "realizes (emit_alu64_imm8 0xc1 (ucast e) (ucast d) c) (computes d (\<lambda>r. shift_value k True (r d) c))"
    "realizes (emit_alu32_imm8 0xc1 (ucast e) (ucast d) c) (computes d (\<lambda>r. low32 (shift_value k False (low32 (r d)) c)))"
    by (rule realizes_computes [OF 1(1)] realizes_computes [OF 1(2)]; simp)+
  show "realizes (do { emit_mov (ucast s) RCX; emit_alu64 0xd3 (ucast e) (ucast d) })
      (computes d (\<lambda>r. shift_value k True (r d) (ucast (r s))))"
    "realizes (do { emit_mov (ucast s) RCX; emit_alu32 0xd3 (ucast e) (ucast d) })
      (computes d (\<lambda>r. low32 (shift_value k False (low32 (r d)) (ucast (r s)))))"
    by (rule realizes_computes [OF realizes_seq [OF mov 1(3)]] realizes_computes [OF realizes_seq [OF mov 1(4)]]; simp add: assms)+
qed

text \<open>The rows of the two tables: the generated code computes the interpreter's value.\<close>

lemma realizes_movsx_rows:
  fixes s d :: x86_reg
  assumes "d \<noteq> 11" and "d \<noteq> 1"
  shows "realizes (do { emit_basic_rex 1 (ucast d) (ucast s); emit1 0x0f; emit1 0xbe; emit_modrm_reg2reg (ucast d) (ucast s) })
      (computes d (\<lambda>r. scast (ucast (r s) :: uint8_t)))"
    and "realizes (do { emit_basic_rex 1 (ucast d) (ucast s); emit1 0x0f; emit1 0xbf; emit_modrm_reg2reg (ucast d) (ucast s) })
      (computes d (\<lambda>r. scast (ucast (r s) :: uint16_t)))"
    and "realizes (do { emit_basic_rex 1 (ucast d) (ucast s); emit1 0x63; emit_modrm_reg2reg (ucast d) (ucast s) })
      (computes d (\<lambda>r. scast (ucast (r s) :: uint32_t)))"
    and "realizes (do { emit_rex 0 (of_bool ((ucast d :: int32_t) AND 8 \<noteq> 0)) 0 (of_bool ((ucast s :: int32_t) AND 8 \<noteq> 0));
      emit1 0x0f; emit1 0xbe; emit_modrm_reg2reg (ucast d) (ucast s) }) (computes d (\<lambda>r. low32 (scast (ucast (r s) :: uint8_t))))"
    and "realizes (do { emit_basic_rex 0 (ucast d) (ucast s); emit1 0x0f; emit1 0xbf; emit_modrm_reg2reg (ucast d) (ucast s) })
      (computes d (\<lambda>r. low32 (scast (ucast (r s) :: uint16_t))))"
proof -
  have c: "realizes m (computes d F)" if "realizes m (reg_fun (\<lambda>r. r(d := F r)))" for m F
    by (rule realizes_computes [OF that]) simp_all
  show "realizes (do { emit_basic_rex 1 (ucast d) (ucast s); emit1 0x0f; emit1 0xbe; emit_modrm_reg2reg (ucast d) (ucast s) })
      (computes d (\<lambda>r. scast (ucast (r s) :: uint8_t)))"
    and "realizes (do { emit_basic_rex 1 (ucast d) (ucast s); emit1 0x0f; emit1 0xbf; emit_modrm_reg2reg (ucast d) (ucast s) })
      (computes d (\<lambda>r. scast (ucast (r s) :: uint16_t)))"
    and "realizes (do { emit_basic_rex 1 (ucast d) (ucast s); emit1 0x63; emit_modrm_reg2reg (ucast d) (ucast s) })
      (computes d (\<lambda>r. scast (ucast (r s) :: uint32_t)))"
    using realizes_movsx(1,2,4) [of True d s, THEN c] by (simp_all add: sign_extended sign_extended(1) [unfolded One_nat_def])
  show "realizes (do { emit_rex 0 (of_bool ((ucast d :: int32_t) AND 8 \<noteq> 0)) 0 (of_bool ((ucast s :: int32_t) AND 8 \<noteq> 0));
      emit1 0x0f; emit1 0xbe; emit_modrm_reg2reg (ucast d) (ucast s) }) (computes d (\<lambda>r. low32 (scast (ucast (r s) :: uint8_t))))"
    and "realizes (do { emit_basic_rex 0 (ucast d) (ucast s); emit1 0x0f; emit1 0xbf; emit_modrm_reg2reg (ucast d) (ucast s) })
      (computes d (\<lambda>r. low32 (scast (ucast (r s) :: uint16_t))))"
    using realizes_movsx(3) [of d s, THEN c] realizes_movsx(2) [of False d s, THEN c] by (simp_all add: sign_extended sign_extended(1) [unfolded One_nat_def])
qed

lemma shift_exts: "shift_of_ext 4 = Some Xshl" "shift_of_ext 5 = Some Xshr" "shift_of_ext 7 = Some Xsar"
  by (simp_all add: shift_of_ext_def)

lemmas shift_rows = realizes_shift_rows [OF shift_exts(1), simplified] realizes_shift_rows [OF shift_exts(2), simplified]
  realizes_shift_rows [OF shift_exts(3), simplified]

lemma rowI:
  assumes "realizes m (computes d F)" and "\<And>r reg. reg (dst inst) = r d \<Longrightarrow> reg (src inst) = r s \<Longrightarrow> ex inst reg = Some (g (F r))"
  shows "\<exists>F. realizes m (computes d F) \<and> (\<forall>r reg. reg (dst inst) = r d \<longrightarrow> reg (src inst) = r s \<longrightarrow> ex inst reg = Some (g (F r)))"
  using assms by blast

lemma alu64_row:
  fixes s d :: x86_reg
  assumes "(opcode inst, m) \<in> set (x86_alu64 vm inst (ucast s) (ucast d))" and "\<not> is_muldivmod (opcode inst)"
    and "d \<noteq> 11" and "d \<noteq> 1"
  shows "\<exists>F. realizes m (computes d F) \<and>
    (\<forall>r reg. reg (dst inst) = r d \<longrightarrow> reg (src inst) = r s \<longrightarrow> exec_alu64 inst reg = Some (F r))"
proof -
  note rows = realizes_rows(1-5) [OF assms(3,4)] realizes_reg_rows(1-5,11,13) [OF assms(3,4)] shift_rows(1,3,5,7,9,11) [OF assms(3,4)]
    realizes_movsx_rows(1-3) [OF assms(3,4)] realizes_load_imm [OF assms(3)]
  show ?thesis using assms(1,2) unfolding x86_alu64_def Let_def
    by (simp del: ex_simps) (elim disjE conjE; (simp add: is_muldivmod_def opcode_vals; fail)?; simp split: if_split_asm;
      rule rowI [where g = "\<lambda>v. v"], rule rows, simp add: exec_alu64_def opcode_vals Let_def shift_values)
qed

text \<open>A 32-bit result is truncated once more after the switch.\<close>

lemma realizes_truncate:
  assumes "realizes m (computes d F)"
  shows "realizes (do { m; emit_truncate_u32 (ucast d) }) (computes d (\<lambda>r. low32 (F r)))"
proof (rule realizes_then [OF assms])
  show "realizes (emit_truncate_u32 (ucast d)) (reg_fun (\<lambda>r. r(d := low32 (r d))))"
    using realizes_alu_imm(2) [of 4 Xand d "0xffffffff"]
    by (simp add: emit_truncate_u32_def alu_of_ext_def writes_result_def alu_value_def)
qed

lemma low32_scast_small:
  "low32 (scast (b :: uint8_t)) = ucast (scast b :: int32_t)" "low32 (scast (h :: uint16_t)) = ucast (scast h :: int32_t)"
  unfolding low32_def by (rule bit_word_eqI; auto simp: bit_simps)+

lemma alu32_row:
  fixes s d :: x86_reg
  assumes "(opcode inst, m) \<in> set (x86_alu32 vm inst (ucast s) (ucast d))" and "\<not> is_muldivmod (opcode inst)"
    and "d \<noteq> 11" and "d \<noteq> 1"
  shows "\<exists>F. realizes m (computes d F) \<and>
    (\<forall>r reg. reg (dst inst) = r d \<longrightarrow> reg (src inst) = r s \<longrightarrow> exec_alu32 inst reg = Some (low32 (F r)))"
proof -
  note rows = realizes_rows(6-10) [OF assms(3,4)] realizes_reg_rows(6-10,12,13) [OF assms(3,4)] shift_rows(2,4,6,8,10,12) [OF assms(3,4)]
    realizes_movsx_rows(4,5) [OF assms(3,4)] realizes_EMIT_MOV32 [OF assms(3)]
  have and_low32: "v AND UINT32_MAX = low32 v" for v by (simp add: low32_def c_conv)
  have mov: "realizes (if b1 then m1 else if b2 then m2 else m3) (computes d (\<lambda>r. if b1 then F1 r else if b2 then F2 r else F3 r))"
    if "realizes m1 (computes d F1)" "realizes m2 (computes d F2)" "realizes m3 (computes d F3)" for b1 b2 m1 m2 m3 F1 F2 F3
    using that by simp
  note rows' = rows mov [OF realizes_movsx_rows(4,5) [OF assms(3,4)] realizes_reg_rows(13) [OF assms(3,4)]]
  show ?thesis
    by (insert assms(1,2), simp only: x86_alu32_def Let_def list.set insert_iff prod.inject empty_iff simp_thms, elim disjE conjE;
      ((simp add: is_muldivmod_def opcode_vals; fail) | (hypsubst, rule rowI [where g = low32], rule rows',
        simp add: exec_alu32_def opcode_vals Let_def shift_values and_low32 low32_scast low32_scast_small)))
qed

lemma low16:
  "low32 (truncate_to 2 v) = truncate_to 2 v" "v AND 0xffff = truncate_to 2 v" "truncate_to 2 v = ucast (ucast v :: uint16_t)"
proof -
  have m: "(0xffff :: uint64_t) = mask 16" by (simp add: mask_numeral)
  show "low32 (truncate_to 2 v) = truncate_to 2 v" "v AND 0xffff = truncate_to 2 v" "truncate_to 2 v = ucast (ucast v :: uint16_t)"
    unfolding m low32_def truncate_to_def by (rule bit_word_eqI; auto simp: bit_simps)+
qed

lemma realizes_swap_rows:
  fixes d :: x86_reg
  shows "realizes (do { emit1 0x66; emit_alu32_imm8 0xc1 0 (ucast d) 8; emit_alu32_imm32 0x81 4 (ucast d) 0xffff })
      (computes d (\<lambda>r. ucast (bswap16 (ucast (r d)))))"
    and "realizes (do { emit1 0x66; emit_alu32_imm8 0xc1 0 (ucast d) 8; emit_alu64_imm32 0x81 4 (ucast d) 0xffff })
      (computes d (\<lambda>r. ucast (bswap16 (ucast (r d)))))"
    and "realizes (do { emit_basic_rex (of_bool w) 0 (ucast d); emit1 0x0f; emit1 (ucast (0xc8 OR (ucast d AND 7) :: int32_t)) })
      (computes d (\<lambda>r. if w then bswap64 (r d) else ucast (bswap32 (ucast (r d)))))"
    and "realizes (do { emit_basic_rex 0 0 (ucast d); emit1 0x0f; emit1 (ucast (0xc8 OR (ucast d AND 7) :: int32_t));
      emit_alu32 0x89 (ucast d) (ucast d) }) (computes d (\<lambda>r. ucast (bswap32 (ucast (r d)))))"
    and "realizes (emit_alu32_imm32 0x81 4 (ucast d) 0xffff) (computes d (\<lambda>r. ucast (ucast (r d) :: uint16_t)))"
    and "realizes (emit_alu32_imm32 0x81 4 (ucast d) 0xffffffff) (computes d (\<lambda>r. ucast (ucast (r d) :: uint32_t)))"
    and "realizes skip (computes d (\<lambda>r. r d))"
proof -
  have c: "realizes m (computes d F)" if "realizes m (reg_fun (\<lambda>r. r(d := F r)))" for m F
    by (rule realizes_computes [OF that]) simp_all
  have and32: "realizes (emit_alu32_imm32 0x81 4 (ucast d) 0xffff) (reg_fun (\<lambda>r. r(d := truncate_to 2 (r d))))"
    and and64: "realizes (emit_alu64_imm32 0x81 4 (ucast d) 0xffff) (reg_fun (\<lambda>r. r(d := truncate_to 2 (r d))))"
    using realizes_alu_imm [of 4 Xand d "0xffff"]
    by (simp_all add: alu_of_ext_def writes_result_def alu_value_def low16(1,2))
  note rol = realizes_bswap(2) [of d 8]
  show "realizes (do { emit1 0x66; emit_alu32_imm8 0xc1 0 (ucast d) 8; emit_alu32_imm32 0x81 4 (ucast d) 0xffff })
      (computes d (\<lambda>r. ucast (bswap16 (ucast (r d)))))"
    "realizes (do { emit1 0x66; emit_alu32_imm8 0xc1 0 (ucast d) 8; emit_alu64_imm32 0x81 4 (ucast d) 0xffff })
      (computes d (\<lambda>r. ucast (bswap16 (ucast (r d)))))"
    using realizes_seq [OF rol and32] realizes_seq [OF rol and64] c by (simp_all add: bind_bind rol16_swap)
  show "realizes (do { emit_basic_rex (of_bool w) 0 (ucast d); emit1 0x0f; emit1 (ucast (0xc8 OR (ucast d AND 7) :: int32_t)) })
      (computes d (\<lambda>r. if w then bswap64 (r d) else ucast (bswap32 (ucast (r d)))))"
    using realizes_bswap(1) [of w d, THEN c] by (cases w) (simp_all add: byte_swaps)
  show "realizes (do { emit_basic_rex 0 0 (ucast d); emit1 0x0f; emit1 (ucast (0xc8 OR (ucast d AND 7) :: int32_t));
      emit_alu32 0x89 (ucast d) (ucast d) }) (computes d (\<lambda>r. ucast (bswap32 (ucast (r d)))))"
    using realizes_seq [OF realizes_bswap(1) [of False d] realizes_mov(5) [of d d]] c by (simp add: bind_bind byte_swaps)
  show "realizes (emit_alu32_imm32 0x81 4 (ucast d) 0xffff) (computes d (\<lambda>r. ucast (ucast (r d) :: uint16_t)))"
    using and32 [THEN c] by (simp add: low16(3))
  show "realizes (emit_alu32_imm32 0x81 4 (ucast d) 0xffffffff) (computes d (\<lambda>r. ucast (ucast (r d) :: uint32_t)))"
    using realizes_alu_imm(2) [of 4 Xand d "0xffffffff", THEN c]
    by (simp add: alu_of_ext_def writes_result_def alu_value_def low32_def)
  show "realizes skip (computes d (\<lambda>r. r d))" by (rule realizes_computes [OF realizes_skip]) simp_all
qed

lemma endian_row:
  fixes d :: x86_reg
  assumes "(opcode inst, m) \<in> set (x86_endian inst (ucast d))"
  shows "\<exists>F. realizes m (computes d F) \<and>
    (\<forall>r reg. reg (dst inst) = r d \<longrightarrow> reg (src inst) = r s \<longrightarrow> exec_endian inst reg = Some (F r))"
proof -
  have rowE: ?thesis if "realizes m (computes d F)" "\<And>r reg. reg (dst inst) = r d \<Longrightarrow> exec_endian inst reg = Some (F r)" for F
    using that by blast
  consider (le) "opcode inst = EBPF_OP_LE" | (be) "opcode inst = EBPF_OP_BE" | (swap) "opcode inst = EBPF_OP_BSWAP"
    using assms by (auto simp: x86_endian_def)
  then show ?thesis
  proof cases
    case le
    then have "m = (if imm inst = 16 then emit_alu32_imm32 0x81 4 (ucast d) 0xffff
       else if imm inst = 32 then emit_alu32_imm32 0x81 4 (ucast d) 0xffffffff else skip)"
      using assms by (simp add: x86_endian_def opcode_vals)
    then show ?thesis using realizes_swap_rows [where d = d] le
      by (intro rowE [of "\<lambda>r. if imm inst = 16 then ucast (ucast (r d) :: uint16_t) else if imm inst = 32 then ucast (ucast (r d) :: uint32_t) else r d"])
        (simp_all add: exec_endian_def opcode_vals Let_def)
  next
    case be
    then have "m = (if imm inst = 16 then do { emit1 0x66; emit_alu32_imm8 0xc1 0 (ucast d) 8; emit_alu32_imm32 0x81 4 (ucast d) 0xffff }
       else if imm inst = 32 \<or> imm inst = 64 then do {
         emit_basic_rex (of_bool (imm inst = 64)) 0 (ucast d); emit1 0x0f; emit1 (ucast (0xc8 OR (ucast d AND 7) :: int32_t)) }
       else skip)"
      using assms by (simp add: x86_endian_def opcode_vals)
    then show ?thesis using realizes_swap_rows(1,7) [where d = d] realizes_swap_rows(3) [where w = "imm inst = 64" and d = d] be
      by (intro rowE [of "\<lambda>r. if imm inst = 16 then ucast (bswap16 (ucast (r d))) else if imm inst = 32 \<or> imm inst = 64 then
            (if imm inst = 64 then bswap64 (r d) else ucast (bswap32 (ucast (r d)))) else r d"])
        (auto simp: exec_endian_def opcode_vals Let_def)
  next
    case swap
    then have "m = (if imm inst = 16 then do { emit1 0x66; emit_alu32_imm8 0xc1 0 (ucast d) 8; emit_alu64_imm32 0x81 4 (ucast d) 0xffff }
       else if imm inst = 32 then do {
         emit_basic_rex 0 0 (ucast d); emit1 0x0f; emit1 (ucast (0xc8 OR (ucast d AND 7) :: int32_t)); emit_alu32 0x89 (ucast d) (ucast d) }
       else if imm inst = 64 then do { emit_basic_rex 1 0 (ucast d); emit1 0x0f; emit1 (ucast (0xc8 OR (ucast d AND 7) :: int32_t)) }
       else skip)"
      using assms by (simp add: x86_endian_def opcode_vals)
    then show ?thesis using realizes_swap_rows(2,4,7) [where d = d] realizes_swap_rows(3) [where w = True and d = d] swap
      by (intro rowE [of "\<lambda>r. if imm inst = 16 then ucast (bswap16 (ucast (r d))) else if imm inst = 32 then ucast (bswap32 (ucast (r d)))
            else if imm inst = 64 then bswap64 (r d) else r d"])
        (simp_all add: exec_endian_def opcode_vals Let_def)
  qed
qed

end
