(* ===== verification/X86_Stack.thy ===== *)
theory X86_Stack
  imports X86_Alu
begin

text \<open>
  Code that saves values on the host's stack. Such code is executed on an abstract state: the
  registers, the flags and the list of the values pushed so far.
\<close>

section \<open>The zone below the stack pointer\<close>

text \<open>The generated code pushes at most four values, below the stack pointer (register 4).\<close>

definition red_zone :: "x86_state \<Rightarrow> uint64_t set" where "red_zone x = byte_range (xreg x 4 - 32) 32"

definition stack_room :: "x86_state \<Rightarrow> bool" where "stack_room x \<longleftrightarrow> red_zone x \<subseteq> dom (xmem x)"

definition on_stack :: "x86_state \<Rightarrow> uint64_t list \<Rightarrow> x86_state \<Rightarrow> bool" where
  "on_stack x0 vs x \<longleftrightarrow>
     length vs \<le> 4 \<and> xreg x 4 = xreg x0 4 - 8 * of_nat (length vs) \<and> dom (xmem x) = dom (xmem x0) \<and>
     (\<forall>a. a \<notin> red_zone x0 \<longrightarrow> xmem x a = xmem x0 a) \<and>
     (\<forall>i<length vs. load_le (xmem x) (xreg x 4 + 8 * of_nat i) 8 = Some (vs ! i))"

lemma on_stack_Nil: "on_stack x [] x" by (simp add: on_stack_def)

lemma load_le_cong:
  assumes "\<And>b. b \<in> byte_range a n \<Longrightarrow> m' b = m b"
  shows "load_le m' a n = load_le m a n"
proof -
  have "load_bytes m' a n = load_bytes m a n"
    using assms by (induction n arbitrary: a) (simp_all add: byte_range_Suc split: option.split)
  then show ?thesis by (simp add: load_le_def)
qed

lemma byte_range_within:
  assumes "k + n \<le> m"
  shows "byte_range (a + of_nat k) n \<subseteq> byte_range a m"
proof
  fix b assume "b \<in> byte_range (a + of_nat k) n"
  then obtain i where "i < n" "b = a + of_nat (k + i)" by (auto simp: byte_range_def add.assoc)
  with assms show "b \<in> byte_range a m" by (auto simp: byte_range_def simp del: of_nat_add)
qed

lemma byte_range_apart:
  assumes "n \<le> k" and "k + m \<le> 2 ^ 64"
  shows "byte_range a n \<inter> byte_range (a + of_nat k) m = {}"
proof -
  have False if "i < n" "j < m" "a + of_nat i = a + of_nat k + of_nat j" for i j
  proof -
    from that(3) have "(of_nat i :: uint64_t) = of_nat (k + j)" by (simp add: add.assoc)
    then have "unat (of_nat i :: uint64_t) = unat (of_nat (k + j) :: uint64_t)" by simp
    moreover have "i < 2 ^ 64" "k + j < 2 ^ 64" using assms that by linarith+
    ultimately show False using assms that by (simp add: unsigned_of_nat take_bit_nat_eq_self del: of_nat_add)
  qed
  then show ?thesis by (auto simp: byte_range_def)
qed

lemma on_stack_push:
  assumes "on_stack x0 vs x" and "stack_room x0" and "length vs < 4"
  shows "\<exists>x'. push_value v x = Some x' \<and> on_stack x0 (v # vs) x' \<and> xflags x' = xflags x \<and> (\<forall>q. q \<noteq> 4 \<longrightarrow> xreg x' q = xreg x q)"
proof -
  let ?a = "xreg x 4 - 8"
  have sp: "?a = xreg x0 4 - 32 + of_nat (24 - 8 * length vs)"
    using assms(1,3) by (auto simp: on_stack_def of_nat_diff algebra_simps)
  have zone: "byte_range ?a 8 \<subseteq> red_zone x0"
    unfolding sp red_zone_def using assms(3) by (intro byte_range_within) simp
  have d: "dom (xmem x) = dom (xmem x0)" using assms(1) by (simp add: on_stack_def)
  then obtain h where h: "store_le (xmem x) ?a v 8 = Some h"
    using store_le_mapped [OF subset_trans [OF zone], of "xmem x" v] assms(2) by (auto simp: stack_room_def)
  have apart: "b \<notin> byte_range ?a 8" if "b \<in> byte_range (xreg x 4 + 8 * of_nat i) 8" "i < 4" for b i
    using byte_range_apart [of 8 "8 * i + 8" 8 ?a] that by (auto simp: algebra_simps)
  let ?x = "x\<lparr>xmem := h, xreg := (xreg x)(4 := ?a)\<rparr>"
  have "load_le h (?a + 8 * of_nat i) 8 = Some ((v # vs) ! i)" if "i < length (v # vs)" for i
  proof (cases i)
    case 0
    then show ?thesis using load_le_store_le [OF h] by simp
  next
    case (Suc j)
    then have "load_le h (xreg x 4 + 8 * of_nat j) 8 = load_le (xmem x) (xreg x 4 + 8 * of_nat j) 8"
      using apart [of _ j] that assms(3) by (intro load_le_cong store_le_frame [OF h]) auto
    with Suc that assms(1) show ?thesis by (auto simp: on_stack_def algebra_simps)
  qed
  moreover have "h a = xmem x0 a" if "a \<notin> red_zone x0" for a
  proof -
    have "h a = xmem x a" using zone that by (intro store_le_frame [OF h]) auto
    with that assms(1) show ?thesis by (simp add: on_stack_def)
  qed
  ultimately have "on_stack x0 (v # vs) ?x"
    using assms(1,3) store_le_dom [OF h] d by (simp add: on_stack_def algebra_simps)
  moreover have "push_value v x = Some ?x" using h by (simp add: push_value_def Let_def)
  ultimately show ?thesis by auto
qed

lemma on_stack_pop:
  assumes "on_stack x0 (v # vs) x"
  shows "\<exists>x'. pop_value x = Some (v, x') \<and> on_stack x0 vs x' \<and> xflags x' = xflags x \<and> (\<forall>q. q \<noteq> 4 \<longrightarrow> xreg x' q = xreg x q)"
proof -
  have l: "load_le (xmem x) (xreg x 4 + 8 * of_nat i) 8 = Some ((v # vs) ! i)" if "i < Suc (length vs)" for i
    using assms that unfolding on_stack_def by (metis length_Cons)
  have "load_le (xmem x) (xreg x 4 + 8 + 8 * of_nat i) 8 = Some (vs ! i)" if "i < length vs" for i
    using l [of "Suc i"] that by (simp add: algebra_simps)
  then have "on_stack x0 vs (x\<lparr>xreg := (xreg x)(4 := xreg x 4 + 8)\<rparr>)"
    using assms by (simp add: on_stack_def algebra_simps)
  with l [of 0] show ?thesis by (auto simp: pop_value_def)
qed

section \<open>Abstract execution\<close>

type_synonym abs_state = "(x86_reg \<Rightarrow> uint64_t) \<times> x86_flags option \<times> uint64_t list"

text \<open>The operations between registers, other than the stack pointer.\<close>

definition reg_instr :: "x86_instr \<Rightarrow> bool" where
  "reg_instr i \<longleftrightarrow>
     (case i of
        Xalu _ _ (Xreg d) s \<Rightarrow> d \<noteq> 4 \<and> s \<noteq> 4
      | Xalu_imm _ _ (Xreg d) _ \<Rightarrow> d \<noteq> 4
      | Xmov _ (Xreg d) s \<Rightarrow> d \<noteq> 4 \<and> s \<noteq> 4
      | Xmov_imm _ (Xreg d) _ \<Rightarrow> d \<noteq> 4
      | Xmovabs d _ \<Rightarrow> d \<noteq> 4
      | Xcmove d (Xreg s) \<Rightarrow> d \<noteq> 4 \<and> s \<noteq> 4
      | Xcdq _ \<Rightarrow> True
      | Xmul _ (Xreg m) \<Rightarrow> m \<noteq> 4
      | Xdiv _ (Xreg m) \<Rightarrow> m \<noteq> 4
      | Xidiv _ (Xreg m) \<Rightarrow> m \<noteq> 4
      | _ \<Rightarrow> False)"

definition abs_exec :: "x86_instr \<Rightarrow> abs_state \<Rightarrow> abs_state option" where
  "abs_exec i a =
     (case a of (r, f, vs) \<Rightarrow>
       (case i of
          Xpush q \<Rightarrow> if q \<noteq> 4 \<and> length vs < 4 then Some (r, f, r q # vs) else None
        | Xpop q \<Rightarrow> (case vs of v # vs \<Rightarrow> if q \<noteq> 4 then Some (r(q := v), f, vs) else None | [] \<Rightarrow> None)
        | Xpushf \<Rightarrow> (case f of Some g \<Rightarrow> if length vs < 4 then Some (r, f, flags_value g # vs) else None | None \<Rightarrow> None)
        | Xpopf \<Rightarrow> (case vs of v # vs \<Rightarrow> Some (r, Some (value_flags v), vs) | [] \<Rightarrow> None)
        | _ \<Rightarrow>
            if reg_instr i then
              map_option (\<lambda>x. (xreg x, xflags x, vs)) (exec_plain i \<lparr>xreg = r, xflags = f, xmem = Map.empty, xip = 0\<rparr>)
            else None))"

definition sim :: "x86_state \<Rightarrow> abs_state \<Rightarrow> x86_state \<Rightarrow> bool" where
  "sim x0 a x \<longleftrightarrow> (case a of (r, f, vs) \<Rightarrow> on_stack x0 vs x \<and> xflags x = f \<and> (\<forall>q. q \<noteq> 4 \<longrightarrow> xreg x q = r q))"

lemma reg_instr_frame:
  assumes "reg_instr i" and "exec_plain i y = Some y'"
    and "\<And>q. q \<noteq> 4 \<Longrightarrow> xreg x q = xreg y q" and "xflags x = xflags y"
  shows "\<exists>x'. exec_plain i x = Some x' \<and> xflags x' = xflags y' \<and> xreg x' 4 = xreg x 4 \<and> xmem x' = xmem x \<and>
    (\<forall>q. q \<noteq> 4 \<longrightarrow> xreg x' q = xreg y' q)"
  using assms
  by (cases i)
    (auto simp: reg_instr_def exec_plain_def exec_instr_def exec_alu_rm_def read_rm_def write_rm_def exec_mul_def exec_div_def exec_idiv_def Let_def
      split: x86_rm.splits if_splits option.splits)

lemma sim_exec:
  assumes "abs_exec i a = Some a'" and "sim x0 a x" and "stack_room x0"
  shows "\<exists>x'. exec_plain i x = Some x' \<and> sim x0 a' x'"
proof -
  obtain r f vs where a: "a = (r, f, vs)" by (cases a)
  with assms(2) have st: "on_stack x0 vs x" and fl: "xflags x = f" and rg: "\<And>q. q \<noteq> 4 \<Longrightarrow> xreg x q = r q" by (auto simp: sim_def)
  have reg_case: ?thesis if "reg_instr i" "map_option (\<lambda>x. (xreg x, xflags x, vs)) (exec_plain i \<lparr>xreg = r, xflags = f, xmem = Map.empty, xip = 0\<rparr>) = Some a'"
  proof -
    from that(2) obtain y where y: "exec_plain i \<lparr>xreg = r, xflags = f, xmem = Map.empty, xip = 0\<rparr> = Some y" "a' = (xreg y, xflags y, vs)" by auto
    from reg_instr_frame [OF that(1) y(1), of x] rg fl
    obtain x' where "exec_plain i x = Some x'" "xflags x' = xflags y" "xreg x' 4 = xreg x 4" "xmem x' = xmem x"
      "\<forall>q. q \<noteq> 4 \<longrightarrow> xreg x' q = xreg y q" by auto
    with st y(2) show ?thesis by (auto simp: sim_def on_stack_def)
  qed
  consider (push) q where "i = Xpush q" | (pop) q where "i = Xpop q" | (pushf) "i = Xpushf" | (popf) "i = Xpopf" | (reg) "reg_instr i"
    using assms(1) a by (cases i) (auto simp: abs_exec_def split: if_splits)
  then show ?thesis
  proof cases
    case (push q)
    with assms(1) a have "q \<noteq> 4" "length vs < 4" "a' = (r, f, r q # vs)" by (auto simp: abs_exec_def split: if_splits)
    with push on_stack_push [OF st assms(3), of "xreg x q"] rg fl show ?thesis by (auto simp: exec_plain_def exec_instr_def sim_def)
  next
    case (pop q)
    with assms(1) a obtain v ws where "q \<noteq> 4" "vs = v # ws" "a' = (r(q := v), f, ws)" by (auto simp: abs_exec_def split: if_splits list.splits)
    with pop on_stack_pop [of x0 v ws x] st rg fl show ?thesis
      by (auto simp: exec_plain_def exec_instr_def sim_def on_stack_def)
  next
    case pushf
    with assms(1) a obtain g where "f = Some g" "length vs < 4" "a' = (r, f, flags_value g # vs)"
      by (auto simp: abs_exec_def split: if_splits option.splits)
    with pushf on_stack_push [OF st assms(3), of "flags_value g"] rg fl show ?thesis by (auto simp: exec_plain_def exec_instr_def sim_def)
  next
    case popf
    with assms(1) a obtain v ws where "vs = v # ws" "a' = (r, Some (value_flags v), ws)" by (auto simp: abs_exec_def split: list.splits)
    with popf on_stack_pop [of x0 v ws x] st rg fl show ?thesis by (auto simp: exec_plain_def exec_instr_def sim_def on_stack_def)
  next
    case reg
    then have "map_option (\<lambda>x. (xreg x, xflags x, vs)) (exec_plain i \<lparr>xreg = r, xflags = f, xmem = Map.empty, xip = 0\<rparr>) = Some a'"
      using assms(1) a by (cases i) (auto simp: abs_exec_def reg_instr_def)
    with reg show ?thesis by (rule reg_case)
  qed
qed

fun abs_list :: "x86_instr list \<Rightarrow> abs_state \<Rightarrow> abs_state option" where
  "abs_list [] a = Some a"
| "abs_list (i # is) a = (case abs_exec i a of None \<Rightarrow> None | Some a' \<Rightarrow> abs_list is a')"

lemma sim_list:
  assumes "abs_list is a = Some a'" and "sim x0 a x" and "stack_room x0"
  shows "\<exists>x'. exec_list is x = Some x' \<and> sim x0 a' x'"
  using assms
proof (induction "is" arbitrary: a x)
  case (Cons i "is")
  from Cons.prems obtain b where b: "abs_exec i a = Some b" "abs_list is b = Some a'" by (auto split: option.splits)
  from sim_exec [OF b(1) Cons.prems(2,3)] obtain y where y: "exec_plain i x = Some y" "sim x0 b y" by blast
  from Cons.IH [OF b(2) y(2) Cons.prems(3)] y(1) show ?case by auto
qed simp

end
