(* ===== verification/X86_Div.thy ===== *)
theory X86_Div
  imports X86_Stack
begin

text \<open>
  The code generated for multiplication, division and remainder: it saves two registers and the
  flags on the host's stack and, in the signed case, jumps around the processor's division when
  the quotient does not fit.
\<close>

section \<open>Triples\<close>

text \<open>
  \<open>runs_code bs P Q\<close>: from a state that satisfies \<open>P\<close>, the code \<open>bs\<close> runs to its end, into a state
  that satisfies \<open>Q\<close>. \<open>triple m P Q\<close>: the code that \<open>m\<close> emits does so.
\<close>

definition runs_code :: "uint8_t list \<Rightarrow> (abs_state \<Rightarrow> bool) \<Rightarrow> (abs_state \<Rightarrow> bool) \<Rightarrow> bool" where
  "runs_code bs P Q \<longleftrightarrow>
     (\<forall>base code pos x0 a x. code_at code pos bs \<longrightarrow> xip x = int pos \<longrightarrow> stack_room x0 \<longrightarrow> sim x0 a x \<longrightarrow> P a \<longrightarrow>
        (\<exists>a' x'. reaches base code x x' \<and> xip x' = int (pos + length bs) \<and> sim x0 a' x' \<and> Q a'))"

definition triple :: "unit jit \<Rightarrow> (abs_state \<Rightarrow> bool) \<Rightarrow> (abs_state \<Rightarrow> bool) \<Rightarrow> bool" where
  "triple m P Q \<longleftrightarrow>
     (\<forall>s s'. room s \<longrightarrow> run_state m s = ((), s') \<longrightarrow> room s' \<and>
        (jit_status s' = NoError \<longrightarrow> jit_status s = NoError \<and> (\<exists>bs. extends_by s bs s' \<and> runs_code bs P Q)))"

lemma runs_codeD:
  assumes "runs_code bs P Q" and "code_at code pos bs" and "xip x = int pos" and "stack_room x0" and "sim x0 a x" and "P a"
  obtains a' x' where "reaches base code x x'" and "xip x' = int (pos + length bs)" and "sim x0 a' x'" and "Q a'"
  using assms unfolding runs_code_def by meson

lemma tripleD:
  assumes "triple m P Q" and "room s" and "run_state m s = ((), s')"
  shows "room s'" and "jit_status s' = NoError \<Longrightarrow> jit_status s = NoError"
    and "jit_status s' = NoError \<Longrightarrow> \<exists>bs. extends_by s bs s' \<and> runs_code bs P Q"
  using assms(1) [unfolded triple_def, THEN spec, THEN spec, THEN mp, THEN mp, OF assms(2,3)] by simp_all

lemma on_stack_cong: "xreg x' 4 = xreg x 4 \<Longrightarrow> xmem x' = xmem x \<Longrightarrow> on_stack x0 vs x' = on_stack x0 vs x"
  unfolding on_stack_def by simp

lemma sim_xip [simp]: "sim x0 a (x\<lparr>xip := p\<rparr>) = sim x0 a x"
  by (simp add: sim_def on_stack_def)

lemma runs_code_seq:
  assumes "runs_code bs P Q" and "runs_code cs Q R"
  shows "runs_code (bs @ cs) P R"
  unfolding runs_code_def
proof (intro allI impI)
  fix base code pos x0 a x
  assume code: "code_at code pos (bs @ cs)" and x: "xip x = int pos" "stack_room x0" "sim x0 a x" "P a"
  from code have at: "code_at code pos bs" "code_at code (pos + length bs) cs" by (simp_all add: code_at_append)
  obtain b y where y: "reaches base code x y" "xip y = int (pos + length bs)" "sim x0 b y" "Q b"
    by (rule runs_codeD [OF assms(1) at(1) x])
  obtain c z where "reaches base code y z" "xip z = int (pos + length bs + length cs)" "sim x0 c z" "R c"
    by (rule runs_codeD [OF assms(2) at(2) y(2) x(2) y(3,4)])
  with reaches_trans [OF y(1)] show "\<exists>a' x'. reaches base code x x' \<and> xip x' = int (pos + length (bs @ cs)) \<and> sim x0 a' x' \<and> R a'"
    by (intro exI [of _ c] exI [of _ z]) (simp add: add.assoc)
qed

lemma triple_seq:
  assumes "triple m P Q" and "triple n Q R"
  shows "triple (State_Monad.bind m (\<lambda>_. n)) P R"
  unfolding triple_def
proof (intro allI impI)
  fix s s' assume s: "room s" and run: "run_state (State_Monad.bind m (\<lambda>_. n)) s = ((), s')"
  obtain s1 where m: "run_state m s = ((), s1)" by (cases "run_state m s") simp
  with run have n: "run_state n s1 = ((), s')" by simp
  note 1 = tripleD [OF assms(1) s m]
  note 2 = tripleD [OF assms(2) 1(1) n]
  have "jit_status s = NoError \<and> (\<exists>bs. extends_by s bs s' \<and> runs_code bs P R)" if ok: "jit_status s' = NoError"
  proof -
    obtain bs cs where "extends_by s bs s1" "runs_code bs P Q" "extends_by s1 cs s'" "runs_code cs Q R"
      using 1(3) [OF 2(2) [OF ok]] 2(3) [OF ok] by blast
    then have "extends_by s (bs @ cs) s'" "runs_code (bs @ cs) P R" using extends_by_append [OF s] runs_code_seq by simp_all
    with 1(2) [OF 2(2) [OF ok]] show ?thesis by blast
  qed
  with 2(1) show "room s' \<and> (jit_status s' = NoError \<longrightarrow> jit_status s = NoError \<and> (\<exists>bs. extends_by s bs s' \<and> runs_code bs P R))"
    by blast
qed

lemma runs_code_mono:
  "runs_code bs P Q \<Longrightarrow> (\<And>a. P' a \<Longrightarrow> P a) \<Longrightarrow> (\<And>a. Q a \<Longrightarrow> Q' a) \<Longrightarrow> runs_code bs P' Q'"
  unfolding runs_code_def by meson

lemma triple_mono:
  assumes "triple m P Q" and "\<And>a. P' a \<Longrightarrow> P a" and "\<And>a. Q a \<Longrightarrow> Q' a"
  shows "triple m P' Q'"
  unfolding triple_def
proof (intro allI impI)
  fix s s' assume s: "room s" and run: "run_state m s = ((), s')"
  note 1 = tripleD [OF assms(1) s run]
  have "\<exists>bs. extends_by s bs s' \<and> runs_code bs P' Q'" if "jit_status s' = NoError"
    using 1(3) [OF that] runs_code_mono [of _ P Q P' Q'] assms(2,3) by blast
  with 1(1,2) show "room s' \<and> (jit_status s' = NoError \<longrightarrow> jit_status s = NoError \<and> (\<exists>bs. extends_by s bs s' \<and> runs_code bs P' Q'))"
    by blast
qed

text \<open>Straight-line code.\<close>

lemma runs_code_list:
  assumes "decodes bs is" and "list_all plain is" and "\<And>a. P a \<Longrightarrow> \<exists>a'. abs_list is a = Some a' \<and> Q a'"
  shows "runs_code bs P Q"
  unfolding runs_code_def
proof (intro allI impI)
  fix base code pos x0 a x
  assume x: "code_at code pos bs" "xip x = int pos" "stack_room x0" "sim x0 a x" "P a"
  from assms(3) [OF x(5)] obtain a' where a': "abs_list is a = Some a'" "Q a'" by blast
  from sim_list [OF a'(1) x(4,3)] obtain x' where x': "exec_list is x = Some x'" "sim x0 a' x'" by blast
  from decodes_run [OF assms(1,2) x(1,2) x'(1)] x'(2) a'(2)
  show "\<exists>a' x'. reaches base code x x' \<and> xip x' = int (pos + length bs) \<and> sim x0 a' x' \<and> Q a'"
    by (intro exI [of _ a'] exI [of _ "x'\<lparr>xip := int (pos + length bs)\<rparr>"]) simp
qed

lemma triple_emits:
  assumes "emits m bs" and "runs_code bs P Q"
  shows "triple m P Q"
  unfolding triple_def
proof (intro allI impI)
  fix s s' assume s: "room s" and run: "run_state m s = ((), s')"
  from emitsD(1,2) [OF assms(1) s run] extends_by_emits [OF assms(1) s run] assms(2) show "room s' \<and> (jit_status s' = NoError \<longrightarrow> jit_status s = NoError \<and> (\<exists>bs. extends_by s bs s' \<and> runs_code bs P Q))"
    by blast
qed

lemma triple_one:
  assumes "emits m b" and "\<And>rest. decode (b @ rest) = Some (i, length b)" and "plain i" and "\<And>a. P a \<Longrightarrow> \<exists>a'. abs_exec i a = Some a' \<and> Q a'"
  shows "triple m P Q"
proof (rule triple_emits [OF assms(1) runs_code_list [OF decodes_one [OF assms(2)]]])
  fix a assume "P a"
  from assms(4) [OF this] show "\<exists>a'. abs_list [i] a = Some a' \<and> Q a'" by auto
qed (use assms(3) in simp)

lemma triple_skip: "(\<And>a. P a \<Longrightarrow> Q a) \<Longrightarrow> triple skip P Q"
  by (rule triple_emits [OF emits_skip runs_code_list [OF decodes_Nil]]) auto

lemma triple_if_then: "(b \<Longrightarrow> triple m P Q) \<Longrightarrow> (\<And>a. \<not> b \<Longrightarrow> P a \<Longrightarrow> Q a) \<Longrightarrow> triple (if_then b m) P Q"
  using triple_skip by (simp add: if_then_def)

lemma triple_computes:
  assumes "realizes m (computes d F)" and "d \<noteq> 4"
    and "\<And>r r'. (\<And>q. q \<noteq> 4 \<Longrightarrow> r q = r' q) \<Longrightarrow> F r = F r'"
    and "\<And>r f vs r' f'. P (r, f, vs) \<Longrightarrow> r' d = F r \<Longrightarrow> (\<And>q. q \<noteq> d \<Longrightarrow> q \<noteq> 1 \<Longrightarrow> q \<noteq> 11 \<Longrightarrow> q \<noteq> 4 \<Longrightarrow> r' q = r q) \<Longrightarrow> Q (r', f', vs)"
  shows "triple m P Q"
  unfolding triple_def
proof (intro allI impI)
  fix s s' assume s: "room s" and run: "run_state m s = ((), s')"
  note c = realizesD [OF assms(1) s run]
  have "\<exists>bs. extends_by s bs s' \<and> runs_code bs P Q" if ok: "jit_status s' = NoError"
  proof -
    from c(3) [OF ok] obtain bs "is" where bs: "extends_by s bs s'" "decodes bs is" "list_all plain is"
      and ex: "\<And>x. \<exists>x'. exec_list is x = Some x' \<and> computes d F x x'" by blast
    have "runs_code bs P Q"
      unfolding runs_code_def
    proof (intro allI impI)
      fix base code pos x0 a x
      assume x: "code_at code pos bs" "xip x = int pos" "stack_room x0" "sim x0 a x" "P a"
      obtain r f vs where a: "a = (r, f, vs)" by (cases a)
      obtain x' where x': "exec_list is x = Some x'" "computes d F x x'" using ex by blast
      have "F (xreg x) = F r" using x(4) a by (intro assms(3)) (simp add: sim_def)
      then have "Q (xreg x', xflags x', vs)"
        using assms(4) [of r f vs "xreg x'" "xflags x'"] x(4,5) x'(2) a by (simp add: computes_def sim_def)
      moreover have "sim x0 (xreg x', xflags x', vs) x'"
        using x(4) x'(2) a assms(2) on_stack_cong [of x' x x0 vs] by (simp add: sim_def computes_def)
      ultimately show "\<exists>a' x'. reaches base code x x' \<and> xip x' = int (pos + length bs) \<and> sim x0 a' x' \<and> Q a'"
        using decodes_run [OF bs(2,3) x(1,2) x'(1), of base]
        by (intro exI [of _ "(xreg x', xflags x', vs)"] exI [of _ "x'\<lparr>xip := int (pos + length bs)\<rparr>"]) simp
    qed
    with bs(1) show ?thesis by blast
  qed
  with c(1,2) show "room s' \<and> (jit_status s' = NoError \<longrightarrow> jit_status s = NoError \<and> (\<exists>bs. extends_by s bs s' \<and> runs_code bs P Q))"
    by blast
qed

section \<open>Straight-line code\<close>

text \<open>\<open>assembles m is\<close>: \<open>m\<close> emits the code of the instructions \<open>is\<close>.\<close>

definition assembles :: "unit jit \<Rightarrow> x86_instr list \<Rightarrow> bool" where
  "assembles m is \<longleftrightarrow> (\<exists>bs. emits m bs \<and> decodes bs is)"

lemma assemblesI: "emits m bs \<Longrightarrow> decodes bs is \<Longrightarrow> assembles m is"
  unfolding assembles_def by blast

lemma assembles_one: "emits m b \<Longrightarrow> (\<And>rest. decode (b @ rest) = Some (i, length b)) \<Longrightarrow> assembles m [i]"
  using assemblesI decodes_one by blast

lemma assembles_bind: "assembles m is \<Longrightarrow> assembles n js \<Longrightarrow> assembles (State_Monad.bind m (\<lambda>_. n)) (is @ js)"
  unfolding assembles_def using emits_bind decodes_append by blast

lemma assembles_skip: "assembles skip []"
  by (rule assemblesI [OF emits_skip decodes_Nil])

lemma assembles_if_then: "assembles m is \<Longrightarrow> assembles (if_then b m) (if b then is else [])"
  using assembles_skip by (simp add: if_then_def)

lemma assembles_if: "assembles m is \<Longrightarrow> assembles n js \<Longrightarrow> assembles (if b then m else n) (if b then is else js)"
  by simp

lemma triple_assembles:
  assumes "assembles m is" and "list_all plain is" and "\<And>a. P a \<Longrightarrow> \<exists>a'. abs_list is a = Some a' \<and> Q a'"
  shows "triple m P Q"
  using assms(1) triple_emits runs_code_list [OF _ assms(2,3)] unfolding assembles_def by blast

lemma assembles_push: "assembles (emit_push (ucast r)) [Xpush r]"
  by (rule assembles_one [OF emits_push decode_push])

lemma assembles_pop: "assembles (emit_pop (ucast r)) [Xpop r]"
  by (rule assembles_one [OF emits_pop decode_pop])

lemma assembles_mov: "assembles (emit_mov (ucast s) (ucast d)) [Xmov 8 (Xreg d) s]"
  using assembles_one [OF emits_mov decode_mov] by (simp add: width_def)

lemma assembles_alu:
  assumes "alu_of_opcode (ucast op) = Some a"
  shows "assembles (emit_alu64 op (ucast s) (ucast d)) [Xalu a True (Xreg d) s]"
    and "assembles (emit_alu32 op (ucast s) (ucast d)) [Xalu a False (Xreg d) s]"
  by (rule assembles_one [OF emits_alu64 decode_alu [OF assms]] assembles_one [OF emits_alu32 decode_alu [OF assms]])+

lemma assembles_load_imm: "fits_int32 v \<Longrightarrow> assembles (emit_load_imm (ucast d) v) [Xmov_imm 8 (Xreg d) (ucast v)]"
  using assembles_one [OF emits_alu64_imm32 [of "0xc7" 0 d "ucast v", simplified] decode_mov_imm] by (simp add: emit_load_imm_def width_def)

lemma assembles_bytes:
  "assembles (emit1 0x9c) [Xpushf]" "assembles (emit1 0x9d) [Xpopf]" "assembles (emit1 0x99) [Xcdq False]"
  "assembles (do { emit1 0x48; emit1 0x99 }) [Xcdq True]"
  "assembles (do { emit1 0x48; emit1 0x0f; emit1 0x44; emit1 0xca }) [Xcmove 1 (Xreg 2)]"
  "assembles (do { emit1 0x48; emit1 0x0f; emit1 0x44; emit1 0xc1 }) [Xcmove 0 (Xreg 1)]"
  "assembles (do { emit1 0x48; emit1 0x0f; emit1 0x44; emit1 0xd1 }) [Xcmove 2 (Xreg 1)]"
proof -
  note e = emits_emit1 emits_bind [OF emits_emit1 emits_emit1]
    emits_bind [OF emits_emit1 emits_bind [OF emits_emit1 emits_bind [OF emits_emit1 emits_emit1]]]
  show "assembles (emit1 0x9c) [Xpushf]" "assembles (emit1 0x9d) [Xpopf]" "assembles (emit1 0x99) [Xcdq False]"
    by (rule assembles_one [OF e(1)]; simp add: decode_simps)+
  show "assembles (do { emit1 0x48; emit1 0x99 }) [Xcdq True]"
    by (rule assembles_one [OF e(2)]; simp add: decode_simps)
  show "assembles (do { emit1 0x48; emit1 0x0f; emit1 0x44; emit1 0xca }) [Xcmove 1 (Xreg 2)]"
    "assembles (do { emit1 0x48; emit1 0x0f; emit1 0x44; emit1 0xc1 }) [Xcmove 0 (Xreg 1)]"
    "assembles (do { emit1 0x48; emit1 0x0f; emit1 0x44; emit1 0xd1 }) [Xcmove 2 (Xreg 1)]"
    by (rule assembles_one [OF e(3)]; simp add: decode_simps with_modrm_def decode_modrm_def reg_field_def)+
qed

lemma emits_unary:
  assumes "\<not> bit k 3"
  shows "emits (do { if_then w (emit_rex 1 0 0 0); emit_alu32 0xf7 (ucast k) RCX }) (x_alu w 0xf7 k 1)"
proof -
  have rex: "emits (emit_rex 1 0 0 0) [0x48]"
    unfolding emit_rex_def using emits_emit1 [of "0x48"] by simp
  show ?thesis
    using emits_bind [OF emits_if_then [OF rex, of w] emits_alu32 [of "0xf7" k 1]] assms
    by (cases w) (simp_all add: x_alu_def x_rex_def x_rex_byte_def)
qed

lemma assembles_unary:
  "assembles (do { if_then w (emit_rex 1 0 0 0); emit_alu32 0xf7 4 RCX }) [Xmul w (Xreg 1)]"
  "assembles (do { if_then w (emit_rex 1 0 0 0); emit_alu32 0xf7 6 RCX }) [Xdiv w (Xreg 1)]"
  "assembles (do { if_then w (emit_rex 1 0 0 0); emit_alu32 0xf7 7 RCX }) [Xidiv w (Xreg 1)]"
  using assembles_one [OF emits_unary [of 4 w] decode_unary(2)] assembles_one [OF emits_unary [of 6 w] decode_unary(3)]
    assembles_one [OF emits_unary [of 7 w] decode_unary(4)]
  by simp_all

lemma assembles_scratch:
  "assembles (emit_alu64 0x85 RCX RCX) [Xalu Xtest True (Xreg 1) 1]" "assembles (emit_alu32 0x85 RCX RCX) [Xalu Xtest False (Xreg 1) 1]"
  "assembles (emit_alu32 0x31 RDX RDX) [Xalu Xxor False (Xreg 2) 2]" "assembles (emit_push RAX) [Xpush 0]" "assembles (emit_push RDX) [Xpush 2]"
  "assembles (emit_pop RAX) [Xpop 0]" "assembles (emit_pop RDX) [Xpop 2]" "assembles (emit_pop RCX) [Xpop 1]"
  "assembles (emit_load_imm RDX 1) [Xmov_imm 8 (Xreg 2) 1]" "assembles (emit_load_imm RCX 0) [Xmov_imm 8 (Xreg 1) 0]"
proof -
  have fits: "fits_int32 0" "fits_int32 1" by (simp_all add: fits_int32_def word_sle_eq INT32_MIN_def)
  show "assembles (emit_alu64 0x85 RCX RCX) [Xalu Xtest True (Xreg 1) 1]" "assembles (emit_alu32 0x85 RCX RCX) [Xalu Xtest False (Xreg 1) 1]"
    "assembles (emit_alu32 0x31 RDX RDX) [Xalu Xxor False (Xreg 2) 2]"
    using assembles_alu [of "0x85" Xtest 1 1] assembles_alu(2) [of "0x31" Xxor 2 2] by (simp_all add: alu_of_opcode_def)
  show "assembles (emit_push RAX) [Xpush 0]" "assembles (emit_push RDX) [Xpush 2]"
    "assembles (emit_pop RAX) [Xpop 0]" "assembles (emit_pop RDX) [Xpop 2]" "assembles (emit_pop RCX) [Xpop 1]"
    using assembles_push [of 0] assembles_push [of 2] assembles_pop [of 0] assembles_pop [of 2] assembles_pop [of 1] by simp_all
  show "assembles (emit_load_imm RDX 1) [Xmov_imm 8 (Xreg 2) 1]" "assembles (emit_load_imm RCX 0) [Xmov_imm 8 (Xreg 1) 0]"
    using assembles_load_imm [OF fits(2), of 2] assembles_load_imm [OF fits(1), of 1] by simp_all
qed

section \<open>The pieces of the code\<close>

text \<open>
  The assertions between them, for the registers \<open>r\<close> before the instruction and its destination
  \<open>d\<close>: the saved registers, the operands in place, the results in place, and the end.
\<close>

definition saved :: "x86_reg \<Rightarrow> (x86_reg \<Rightarrow> uint64_t) \<Rightarrow> uint64_t list" where
  "saved d r = (if d \<noteq> 2 then [r 2] else []) @ (if d \<noteq> 0 then [r 0] else [])"

definition others_kept :: "(x86_reg \<Rightarrow> uint64_t) \<Rightarrow> (x86_reg \<Rightarrow> uint64_t) \<Rightarrow> bool" where
  "others_kept r r' \<longleftrightarrow> (\<forall>q. q \<notin> {0, 1, 2, 4, 11} \<longrightarrow> r' q = r q)"

definition at_start :: "(x86_reg \<Rightarrow> uint64_t) \<Rightarrow> abs_state \<Rightarrow> bool" where
  "at_start r a \<longleftrightarrow> (\<exists>f. a = (r, f, []))"

definition operands :: "x86_reg \<Rightarrow> (x86_reg \<Rightarrow> uint64_t) \<Rightarrow> uint64_t \<Rightarrow> abs_state \<Rightarrow> bool" where
  "operands d r b a \<longleftrightarrow> (\<exists>r' f. a = (r', f, saved d r) \<and> r' 0 = r d \<and> r' 1 = b \<and> others_kept r r')"

definition results :: "x86_reg \<Rightarrow> (x86_reg \<Rightarrow> uint64_t) \<Rightarrow> bool \<Rightarrow> uint64_t \<Rightarrow> abs_state \<Rightarrow> bool" where
  "results d r is_mod v a \<longleftrightarrow> (\<exists>r' f. a = (r', f, saved d r) \<and> r' (if is_mod then 2 else 0) = v \<and> others_kept r r')"

definition at_end :: "x86_reg \<Rightarrow> (x86_reg \<Rightarrow> uint64_t) \<Rightarrow> uint64_t \<Rightarrow> abs_state \<Rightarrow> bool" where
  "at_end d r v a \<longleftrightarrow> (\<exists>r' f. a = (r', f, []) \<and> r' d = v \<and> (\<forall>q. q \<notin> {d, 1, 4, 11} \<longrightarrow> r' q = r q))"

lemmas assertion_defs = saved_def others_kept_def at_start_def operands_def results_def at_end_def

lemma ucast_reg_eq: "((ucast (d :: x86_reg) :: int32_t) = 0) = (d = 0)" "((ucast d :: int32_t) = 2) = (d = 2)"
  using unat_ucast_up [of d, where ?'b = 32] by (simp_all add: word_unat_eq_iff)

lemmas reg_exec_simps = abs_exec_def reg_instr_def exec_plain_def exec_instr_def read_rm_def write_rm_def truncate_width

lemma triple_save:
  "triple (do { if_then ((ucast d :: int32_t) \<noteq> RAX) (emit_push RAX); if_then ((ucast d :: int32_t) \<noteq> RDX) (emit_push RDX) })
     (at_start r) (\<lambda>a. \<exists>f. a = (r, f, saved d r))"
  by (rule triple_assembles [OF assembles_bind [OF assembles_if_then [OF assembles_scratch(4)]
        assembles_if_then [OF assembles_scratch(5)]]])
    (auto simp: ucast_reg_eq plain_def assertion_defs abs_exec_def)

lemma uint_low32: "uint (low32 v) = uint (ucast v :: uint32_t)"
  by (simp add: low32_def unsigned_ucast_eq unsigned_take_bit_eq)

lemma word_of_take_bit: "(word_of_int (take_bit 64 k) :: uint64_t) = word_of_int k"
  by (rule bit_word_eqI) (simp add: bit_simps)

lemma mul_value:
  "(word_of_int (take_bit (8 * width w) (uint (at_width w u) * uint (at_width w v))) :: uint64_t) = at_width w (u * v)"
proof (cases w)
  case True
  then show ?thesis by (simp add: word_of_take_bit width_def)
next
  case False
  have "uint (ucast u * ucast v :: uint32_t) = take_bit 32 (uint (ucast u :: uint32_t) * uint (ucast v :: uint32_t))"
    by (simp add: uint_word_ariths take_bit_eq_mod)
  then have "(word_of_int (take_bit 32 (uint (low32 u) * uint (low32 v))) :: uint64_t) = ucast (ucast u * ucast v :: uint32_t)"
    by (metis ucast_eq uint_low32)
  with False show ?thesis by (simp add: width_def low32_def c_conv)
qed

lemma triple_mul:
  "triple (do { if_then w (emit_rex 1 0 0 0); emit_alu32 0xf7 4 RCX }) (operands d r b) (results d r False (at_width w (r d * b)))"
  by (rule triple_assembles [OF assembles_unary(1)])
    (auto simp: plain_def assertion_defs reg_exec_simps exec_mul_def Let_def mul_value truncate_at_width)

text \<open>
  Before the division: the flags remember whether the divisor is zero, and a zero divisor is
  replaced by 1. For a remainder the dividend is saved as well.
\<close>

definition divisor :: "bool \<Rightarrow> uint64_t \<Rightarrow> uint64_t" where
  "divisor w b = (if at_width w b = 0 then 1 else b)"

definition high_half :: "bool \<Rightarrow> bool \<Rightarrow> uint64_t \<Rightarrow> uint64_t" where
  "high_half is_signed w a = (if is_signed \<and> sign_bit (width w) a then truncate_to (width w) (- 1) else 0)"

definition guarded :: "bool \<Rightarrow> bool \<Rightarrow> bool \<Rightarrow> x86_reg \<Rightarrow> (x86_reg \<Rightarrow> uint64_t) \<Rightarrow> uint64_t \<Rightarrow> abs_state \<Rightarrow> bool" where
  "guarded is_signed w is_mod d r b a \<longleftrightarrow>
     (\<exists>r' f g. a = (r', f, flags_value g # (if is_mod then [r d] else []) @ saved d r) \<and> ZF g = (at_width w b = 0) \<and>
        r' 0 = r d \<and> r' 1 = divisor w b \<and> r' 2 = high_half is_signed w (r d) \<and> others_kept r r')"

definition divided :: "bool \<Rightarrow> bool \<Rightarrow> x86_reg \<Rightarrow> (x86_reg \<Rightarrow> uint64_t) \<Rightarrow> uint64_t \<Rightarrow> uint64_t \<Rightarrow> abs_state \<Rightarrow> bool" where
  "divided w is_mod d r b v a \<longleftrightarrow>
     (\<exists>r' f g. a = (r', f, flags_value g # (if is_mod then [r d] else []) @ saved d r) \<and> ZF g = (at_width w b = 0) \<and>
        r' (if is_mod then 2 else 0) = v \<and> others_kept r r')"

lemma value_flags_value: "value_flags (flags_value g) = g"
  by (cases g) (simp add: value_flags_def flags_value_def bit_simps)

lemma flags_value_inject: "flags_value g = flags_value h \<longleftrightarrow> g = h"
  by (metis value_flags_value)

lemma triple_guard:
  "triple (do {
      (if w then emit_alu64 0x85 RCX RCX else emit_alu32 0x85 RCX RCX);
      if_then is_mod (emit_push RAX);
      emit1 0x9c;
      emit_load_imm RDX 1;
      emit1 0x48; emit1 0x0f; emit1 0x44; emit1 0xca;
      (if is_signed then (if w then do { emit1 0x48; emit1 0x99 } else emit1 0x99) else emit_alu32 0x31 RDX RDX) })
    (operands d r b) (guarded is_signed w is_mod d r b)"
proof -
  note a = assembles_bind [OF assembles_if [OF assembles_scratch(1,2)] assembles_bind [OF assembles_if_then [OF assembles_scratch(4)]
    assembles_bind [OF assembles_bytes(1) assembles_bind [OF assembles_scratch(9) assembles_bind [OF assembles_bytes(5)
      assembles_if [OF assembles_if [OF assembles_bytes(4,3)] assembles_scratch(3)]]]]]]
  show ?thesis
  proof (rule triple_assembles [OF a [of w is_mod is_signed w, unfolded bind_bind]])
    fix a assume "operands d r b a"
    then obtain r' f where a: "a = (r', f, saved d r)" "r' 0 = r d" "r' 1 = b" "others_kept r r'" by (auto simp: operands_def)
    have len: "length (saved d r) \<le> 2" by (simp add: saved_def)
    show "\<exists>a'. abs_list ((if w then [Xalu Xtest True (Xreg 1) 1] else [Xalu Xtest False (Xreg 1) 1]) @ (if is_mod then [Xpush 0] else []) @ [Xpushf] @
        [Xmov_imm 8 (Xreg 2) 1] @ [Xcmove 1 (Xreg 2)] @ (if is_signed then if w then [Xcdq True] else [Xcdq False] else [Xalu Xxor False (Xreg 2) 2])) a =
        Some a' \<and> guarded is_signed w is_mod d r b a'"
      using a len
      by (cases w; cases is_mod; cases is_signed)
        (simp_all add: guarded_def divisor_def high_half_def reg_exec_simps exec_alu_rm_def alu_flags_def alu_value_def writes_result_def
          flags_value_inject others_kept_def Let_def width_def low32_def c_conv)
  qed (simp add: plain_def)
qed

lemma at_width_0 [simp]: "at_width w 0 = 0" by (cases w) (simp_all add: low32_def)

lemma triple_div:
  "triple (do { if_then w (emit_rex 1 0 0 0); emit_alu32 0xf7 6 RCX }) (guarded False w is_mod d r b)
     (divided w is_mod d r b (if is_mod then at_width w (r d) mod at_width w (divisor w b) else at_width w (r d) div at_width w (divisor w b)))"
proof (rule triple_assembles [OF assembles_unary(2)])
  fix a assume "guarded False w is_mod d r b a"
  then obtain r' f g where a: "a = (r', f, flags_value g # (if is_mod then [r d] else []) @ saved d r)" "ZF g = (at_width w b = 0)"
    "r' 0 = r d" "r' 1 = divisor w b" "r' 2 = 0" "others_kept r r'" by (auto simp: guarded_def high_half_def)
  let ?x = "at_width w (r d)" and ?y = "at_width w (divisor w b)"
  have y: "?y \<noteq> 0" by (cases w) (simp_all add: divisor_def low32_def)
  then have "0 < uint ?y" using unsigned_greater_eq [of ?y, where ?'a = int] by (simp add: order_less_le unsigned_eq_0_iff)
  then have "uint ?x div uint ?y \<le> uint ?x" using zdiv_mono2 [of "uint ?x" 1 "uint ?y"] by simp
  also have "uint ?x < 2 ^ (8 * width w)"
    using unsigned_less [of "r d", where ?'a = int] unsigned_less [of "ucast (r d) :: uint32_t", where ?'a = int]
    by (cases w) (simp_all add: width_def uint_low32)
  finally have q: "uint ?x div uint ?y < 2 ^ (8 * width w)" .
  have "word_of_int (uint ?x div uint ?y) = ?x div ?y" "word_of_int (uint ?x mod uint ?y) = ?x mod ?y"
    by (simp_all add: word_div_def word_mod_def)
  with a y q show "\<exists>a'. abs_list [Xdiv w (Xreg 1)] a = Some a' \<and> divided w is_mod d r b (if is_mod then ?x mod ?y else ?x div ?y) a'"
    by (simp add: divided_def reg_exec_simps exec_div_def truncate_at_width Let_def others_kept_def flags_value_inject not_le)
qed (simp add: plain_def)

end
