(* ===== verification/X86_Patch.thy ===== *)
theory X86_Patch
  imports X86_Div
begin

text \<open>
  Code with jumps inside it: the back end emits a jump with an empty displacement and writes the
  displacement once it knows the target.
\<close>

section \<open>Emitting and patching\<close>

text \<open>\<open>steady m\<close>: \<open>m\<close> keeps the buffer's size and does not clear an error.\<close>

definition steady :: "'a jit \<Rightarrow> bool" where
  "steady m \<longleftrightarrow> (\<forall>s. room s \<longrightarrow> room (snd (run_state m s)) \<and> (jit_status (snd (run_state m s)) = NoError \<longrightarrow> jit_status s = NoError))"

text \<open>
  \<open>runs_to s0 m bs v cs\<close>: after \<open>bs\<close> has been appended to \<open>s0\<close>, \<open>m\<close> returns \<open>v\<close>, and in total \<open>cs\<close> has been
  appended, unless there is an error.
\<close>

definition appended :: "jit_state \<Rightarrow> uint8_t list \<Rightarrow> jit_state \<Rightarrow> bool" where
  "appended s0 bs s \<longleftrightarrow> s = append_code bs s0 \<and> unat (jit_offset s0) + length bs \<le> unat (jit_size s0)"

definition runs_to :: "jit_state \<Rightarrow> 'a jit \<Rightarrow> uint8_t list \<Rightarrow> 'a \<Rightarrow> uint8_t list \<Rightarrow> bool" where
  "runs_to s0 m bs v cs \<longleftrightarrow>
     (\<forall>s. room s \<longrightarrow> appended s0 bs s \<longrightarrow> jit_status (snd (run_state m s)) = NoError \<longrightarrow>
        fst (run_state m s) = v \<and> appended s0 cs (snd (run_state m s)))"

lemma steady_bind:
  assumes "steady m" and "\<And>v. steady (f v)"
  shows "steady (State_Monad.bind m f)"
  unfolding steady_def
proof (intro allI impI)
  fix s assume s: "room s"
  obtain v s1 where m: "run_state m s = (v, s1)" by (cases "run_state m s")
  from assms(1) [unfolded steady_def, rule_format, OF s] m have s1: "room s1" "jit_status s1 = NoError \<longrightarrow> jit_status s = NoError"
    by simp_all
  from assms(2) [of v, unfolded steady_def, rule_format, OF s1(1)] s1(2) m
  show "room (snd (run_state (State_Monad.bind m f) s)) \<and>
    (jit_status (snd (run_state (State_Monad.bind m f) s)) = NoError \<longrightarrow> jit_status s = NoError)"
    by simp
qed

lemma steady_emits:
  assumes "emits m bs"
  shows "steady m"
  unfolding steady_def
proof (intro allI impI)
  fix s assume s: "room s"
  obtain s' where "run_state m s = ((), s')" by (cases "run_state m s") simp
  with emitsD(1,2) [OF assms s this]
  show "room (snd (run_state m s)) \<and> (jit_status (snd (run_state m s)) = NoError \<longrightarrow> jit_status s = NoError)" by simp
qed

lemma steady_gets: "steady (gets f)" by (simp add: steady_def)

lemma steady_return: "steady (State_Monad.return v)" by (simp add: steady_def)

lemma steady_write: "steady (write_buf i bs)"
  by (auto simp: steady_def write_buf_def room_def patch_bytes_length)

lemma steady_if: "steady m \<Longrightarrow> steady n \<Longrightarrow> steady (if b then m else n)" by simp

lemma steady_if_then: "steady m \<Longrightarrow> steady (if_then b m)"
  by (simp add: if_then_def skip_def steady_return)

lemma runs_to_bind:
  assumes "runs_to s0 m bs v cs" and "steady m" and "\<And>x. steady (f x)" and "runs_to s0 (f v) cs u ds"
  shows "runs_to s0 (State_Monad.bind m f) bs u ds"
  unfolding runs_to_def
proof (intro allI impI)
  fix s assume s: "room s" "appended s0 bs s" and ok: "jit_status (snd (run_state (State_Monad.bind m f) s)) = NoError"
  obtain x s1 where m: "run_state m s = (x, s1)" by (cases "run_state m s")
  have s1: "room s1" using assms(2) s(1) m by (auto simp: steady_def)
  then have ok1: "jit_status s1 = NoError" using assms(3) [of x] ok m by (auto simp: steady_def)
  with assms(1) s m have x: "x = v" and a: "appended s0 cs s1" by (auto simp: runs_to_def)
  from assms(4) s1 a ok m x
  show "fst (run_state (State_Monad.bind m f) s) = u \<and> appended s0 ds (snd (run_state (State_Monad.bind m f) s))"
    by (auto simp: runs_to_def)
qed

lemma runs_to_emits:
  assumes "emits m cs" and "room s0"
  shows "runs_to s0 m bs () (bs @ cs)"
  unfolding runs_to_def
proof (intro allI impI)
  fix s assume s: "room s" "appended s0 bs s" and ok: "jit_status (snd (run_state m s)) = NoError"
  obtain s' where run: "run_state m s = ((), s')" by (cases "run_state m s") simp
  note e = emitsD [OF assms(1) s(1) run]
  have "unat (jit_offset s0) + length bs \<le> unat (jit_size s0)" using s(2) by (simp add: appended_def)
  note cat = append_code_append [OF assms(2) this]
  have "unat (jit_offset s0) + length (bs @ cs) \<le> unat (jit_size s0)"
    using e(4) s(2) ok run cat(2) by (auto simp: appended_def append_code_def)
  with e(3) s(2) ok run cat(1) show "fst (run_state m s) = () \<and> appended s0 (bs @ cs) (snd (run_state m s))"
    by (auto simp: appended_def)
qed

lemma runs_to_offset: "runs_to s0 (gets jit_offset) bs (jit_offset s0 + of_nat (length bs)) bs"
  by (auto simp: runs_to_def appended_def append_code_def)

lemma runs_to_return: "runs_to s0 (State_Monad.return v) bs v bs"
  by (simp add: runs_to_def)

lemma runs_to_if_then: "(b \<Longrightarrow> runs_to s0 m bs () cs) \<Longrightarrow> (\<not> b \<Longrightarrow> bs = cs) \<Longrightarrow> runs_to s0 (if_then b m) bs () cs"
  by (simp add: if_then_def skip_def runs_to_return)

lemma patch_emitted:
  assumes "i < length bs" and "k + length bs \<le> length xs"
  shows "patch_bytes (patch_bytes xs k bs) (k + i) [y] = patch_bytes xs k (bs[i := y])"
proof -
  have "Suc (k + length bs - Suc 0) = k + length bs" using assms(1) by simp
  with assms show ?thesis by (simp add: patch_bytes_def upd_conv_take_nth_drop)
qed

lemma runs_to_write:
  assumes "room s0" and "i < length bs" and "p = jit_offset s0 + of_nat i"
  shows "runs_to s0 (write_buf (unat p) [y]) bs () (bs[i := y])"
  unfolding runs_to_def
proof (intro allI impI)
  fix s assume s: "room s" "appended s0 bs s"
  have fit: "unat (jit_offset s0) + length bs \<le> unat (jit_size s0)" using s(2) by (simp add: appended_def)
  have buf: "length (jit_buf s0) = unat (jit_size s0)" and "unat (jit_size s0) < 2 ^ 32" using assms(1) by (simp_all add: room_def)
  with fit assms(2) have "unat p = unat (jit_offset s0) + i"
    unfolding assms(3) by (simp add: unat_word_ariths(1) unsigned_of_nat take_bit_nat_eq_self)
  with s(2) fit buf assms(2) patch_emitted [OF assms(2), of "unat (jit_offset s0)" "jit_buf s0" y]
  show "fst (run_state (write_buf (unat p) [y]) s) = () \<and> appended s0 (bs[i := y]) (snd (run_state (write_buf (unat p) [y]) s))"
    by (auto simp: write_buf_def appended_def append_code_def patch_bytes_length)
qed

lemma runs_to_if_offset:
  assumes "runs_to s0 m bs () cs" and "room s0" and "0 < i" and "i < length bs"
  shows "runs_to s0 (if_then (jit_offset s0 + of_nat i \<noteq> 0) m) bs () cs"
proof (cases "unat (jit_offset s0) + length bs \<le> unat (jit_size s0)")
  case True
  then have "unat (jit_offset s0) + i < 2 ^ 32" using assms(2,4) by (simp add: room_def)
  then have "unat (jit_offset s0 + of_nat i) = unat (jit_offset s0) + i"
    by (simp add: unat_word_ariths(1) unsigned_of_nat take_bit_nat_eq_self)
  then have "jit_offset s0 + of_nat i \<noteq> 0" using assms(3) by (metis add_is_0 less_numeral_extra(3) unsigned_0)
  with assms(1) show ?thesis by (simp add: if_then_def)
next
  case False
  then show ?thesis by (simp add: runs_to_def appended_def)
qed

lemma triple_runs_to:
  assumes "steady m" and "\<And>s0. room s0 \<Longrightarrow> runs_to s0 m [] () bs" and "runs_code bs P Q"
  shows "triple m P Q"
proof (rule triple_emits [OF emitsI assms(3)])
  fix s s' assume s: "room s" and run: "run_state m s = ((), s')"
  from assms(1) [unfolded steady_def, rule_format, OF s] run show "room s'" by simp
  assume ok: "jit_status s' = NoError"
  have "append_code [] s = s" using s by (simp add: append_code_def patch_bytes_def)
  then have "appended s [] s" using s by (simp add: appended_def room_def word_le_nat_alt)
  with assms(2) [OF s, unfolded runs_to_def, rule_format, OF s] run ok have "appended s bs s'" by simp
  with assms(1) [unfolded steady_def, rule_format, OF s] run ok
  show "jit_status s = NoError \<and> s' = append_code bs s \<and> unat (jit_offset s) + length bs \<le> unat (jit_size s)"
    by (simp add: appended_def)
qed

section \<open>Short forward jumps\<close>

lemma decode_short:
  "decode (0x75 # j # rest) = Some (Xjcc Xne (scast j), 2)" "decode (0xeb # j # rest) = Some (Xjmp (scast j), 2)"
  by (simp_all add: decode_simps cond_of_opcode_def)

lemma sint_short:
  assumes "unat (j :: uint8_t) = n" and "n < 128"
  shows "sint (scast j :: int64_t) = int n"
proof -
  have u: "uint j = int n" using assms(1) by (simp add: uint_nat)
  then have "sint j = int n" using assms(2) by (simp add: sint_uint signed_take_bit_int_eq_self)
  then show ?thesis by (simp add: sint_up_scast is_up)
qed

lemma runs_code_jmp:
  assumes "unat j = length bs" and "length bs < 128"
  shows "runs_code ([0xeb, j] @ bs) P P"
  unfolding runs_code_def
proof (intro allI impI)
  fix base code pos x0 a x
  assume "code_at code pos ([0xeb, j] @ bs)" and x: "xip x = int pos" "stack_room x0" "sim x0 a x" "P a"
  then have "code_at code pos [0xeb, j]" by (simp only: code_at_append)
  from x86_step_code_at [OF this, of "Xjmp (scast j)", OF _ x(1), of base]
  have "x86_step base code x = Some (x\<lparr>xip := int (pos + length ([0xeb, j] @ bs))\<rparr>)"
    by (simp add: decode_short exec_instr_def sint_short [OF assms])
  from reaches_step [OF this] x
  show "\<exists>a' x'. reaches base code x x' \<and> xip x' = int (pos + length ([0xeb, j] @ bs)) \<and> sim x0 a' x' \<and> P a'"
    by (intro exI [of _ a] exI [of _ "x\<lparr>xip := int (pos + length ([0xeb, j] @ bs))\<rparr>"]) simp
qed

definition flags_hold :: "(x86_flags \<Rightarrow> bool) \<Rightarrow> abs_state \<Rightarrow> bool" where
  "flags_hold t a \<longleftrightarrow> (case a of (r, f, vs) \<Rightarrow> case f of None \<Rightarrow> False | Some g \<Rightarrow> t g)"

lemma runs_code_jne:
  assumes j: "unat j = length bs" "length bs < 128" and f: "\<And>a. P a \<Longrightarrow> flags_hold (\<lambda>_. True) a"
    and fall: "runs_code (bs @ cs) (\<lambda>a. P a \<and> flags_hold ZF a) Q" and jump: "runs_code cs (\<lambda>a. P a \<and> flags_hold (\<lambda>g. \<not> ZF g) a) Q"
  shows "runs_code ([0x75, j] @ bs @ cs) P Q"
  unfolding runs_code_def
proof (intro allI impI)
  fix base code pos x0 a x
  assume at: "code_at code pos ([0x75, j] @ bs @ cs)" and x: "xip x = int pos" "stack_room x0" "sim x0 a x" "P a"
  have at1: "code_at code pos [0x75, j]" and at2: "code_at code (pos + 2) (bs @ cs)" and at3: "code_at code (pos + 2 + length bs) cs"
    using at by (simp_all only: code_at_append) (simp_all add: code_at_append)
  from f [OF x(4)] obtain r g vs where a: "a = (r, Some g, vs)" by (auto simp: flags_hold_def split: option.splits)
  then have g: "xflags x = Some g" using x(3) by (simp add: sim_def)
  have step: "x86_step base code x = Some (x\<lparr>xip := int (if ZF g then pos + 2 else pos + 2 + length bs)\<rparr>)"
    using x86_step_code_at [OF at1, of "Xjcc Xne (scast j)", OF _ x(1), of base] g
    by (simp add: decode_short exec_instr_def sint_short [OF j] cond_holds_def add.assoc)
  let ?goal = "\<exists>a' x'. reaches base code x x' \<and> xip x' = int (pos + length ([0x75, j] @ bs @ cs)) \<and> sim x0 a' x' \<and> Q a'"
  have goal: ?goal if ds: "code_at code p ds" "runs_code ds R Q" "R a" "p = (if ZF g then pos + 2 else pos + 2 + length bs)" "p + length ds = pos + length ([0x75, j] @ bs @ cs)" for p ds R
  proof -
    have "sim x0 a (x\<lparr>xip := int p\<rparr>)" "xip (x\<lparr>xip := int p\<rparr>) = int p" using x(3) by simp_all
    then obtain a' x' where "reaches base code (x\<lparr>xip := int p\<rparr>) x'" "xip x' = int (p + length ds)" "sim x0 a' x'" "Q a'"
      using runs_codeD [OF ds(2,1) _ x(2) _ ds(3)] by blast
    with reaches_trans [OF reaches_step [OF step]] ds(4,5) show ?goal by metis
  qed
  show ?goal
  proof (cases "ZF g")
    case True
    with x(4) a show ?thesis by (intro goal [OF at2 fall]) (simp_all add: flags_hold_def)
  next
    case False
    with x(4) a show ?thesis by (intro goal [OF at3 jump]) (simp_all add: flags_hold_def)
  qed
qed

end
