(* ===== verification/X86_Muldiv.thy ===== *)
theory X86_Muldiv
  imports X86_Patch
begin

text \<open>
  The signed division with its jumps, and the whole code of \<^const>\<open>emit_muldivmod\<close>.
\<close>

section \<open>The code of the signed division\<close>

definition cmp_minus_one :: "bool \<Rightarrow> uint8_t list" where
  "cmp_minus_one w = (if w then [0x48, 0x83, 0xf9, 0xff] else [0x83, 0xf9, 0xff])"

definition cmp_int_min :: "bool \<Rightarrow> uint8_t list" where
  "cmp_int_min w = (if w then [0x49, 0xbb, 0, 0, 0, 0, 0, 0, 0, 0x80, 0x4c, 0x39, 0xd8] else [0x3d, 0, 0, 0, 0x80])"

definition clear_rdx :: "bool \<Rightarrow> uint8_t list" where "clear_rdx is_div = (if is_div then [] else [0x31, 0xd2])"

definition signed_code :: "bool \<Rightarrow> bool \<Rightarrow> uint8_t list" where
  "signed_code w is_div =
     (let over = clear_rdx is_div @ [0xeb, of_nat (length (x_alu w 0xf7 7 1))];
          inner = cmp_int_min w @ [0x75, of_nat (length over)] @ over in
      cmp_minus_one w @ [0x75, of_nat (length inner)] @ inner @ x_alu w 0xf7 7 1)"

definition emit_signed :: "bool \<Rightarrow> bool \<Rightarrow> unit jit" where
  "emit_signed w is_div = do {
     overflow_jump_source \<leftarrow> emit_overflow_check w is_div;
     if_then w (emit_rex 1 0 0 0);
     emit_alu32 0xf7 7 RCX;
     here \<leftarrow> gets jit_offset;
     if_then (overflow_jump_source \<noteq> 0) (write_buf (unat overflow_jump_source) [ucast (here - overflow_jump_source - 1)])
   }"

lemma emits_overflow_pieces:
  "emits (if w then do { emit1 0x48; emit1 0x83; emit1 0xf9; emit1 0xff } else do { emit1 0x83; emit1 0xf9; emit1 0xff }) (cmp_minus_one w)"
  "emits (if w then do { emit1 0x49; emit1 0xbb; emit8 0x8000000000000000; emit1 0x4c; emit1 0x39; emit1 0xd8 }
     else do { emit1 0x3d; emit4 0x80000000 }) (cmp_int_min w)"
  "emits (if_then (\<not> is_div) (emit_alu32 0x31 RDX RDX)) (clear_rdx is_div)"
  "emits (if_then w (emit_rex 1 0 0 0)) (if w then [0x48] else [])" "emits (emit_alu32 0xf7 7 RCX) [0xf7, 0xf9]"
proof -
  have "emits (if w then do { emit1 0x48; emit1 0x83; emit1 0xf9; emit1 0xff } else do { emit1 0x83; emit1 0xf9; emit1 0xff })
    (if w then [0x48] @ [0x83] @ [0xf9] @ [0xff] else [0x83] @ [0xf9] @ [0xff])"
    by (intro emits_if emits_bind emits_emit1)
  then show "emits (if w then do { emit1 0x48; emit1 0x83; emit1 0xf9; emit1 0xff } else do { emit1 0x83; emit1 0xf9; emit1 0xff }) (cmp_minus_one w)"
    by (cases w) (simp_all add: cmp_minus_one_def)
  have "emits (if w then do { emit1 0x49; emit1 0xbb; emit8 0x8000000000000000; emit1 0x4c; emit1 0x39; emit1 0xd8 }
     else do { emit1 0x3d; emit4 0x80000000 })
    (if w then [0x49] @ [0xbb] @ le_bytes 8 0x8000000000000000 @ [0x4c] @ [0x39] @ [0xd8] else [0x3d] @ le_bytes 4 (ucast (0x80000000 :: uint32_t)))"
    by (intro emits_if emits_bind emits_emit1 emits_emit8 emits_emit4)
  moreover have "le_bytes 8 0x8000000000000000 = [0, 0, 0, 0, 0, 0, 0, 0x80]" "le_bytes 4 (ucast (0x80000000 :: uint32_t)) = [0, 0, 0, 0x80]"
    by code_simp+
  ultimately show "emits (if w then do { emit1 0x49; emit1 0xbb; emit8 0x8000000000000000; emit1 0x4c; emit1 0x39; emit1 0xd8 }
     else do { emit1 0x3d; emit4 0x80000000 }) (cmp_int_min w)"
    by (simp only: cmp_int_min_def append_Cons append_Nil cong: if_cong)
  have "x_alu False 0x31 2 2 = [0x31, 0xd2]" by code_simp
  with emits_if_then [OF emits_alu32 [of "0x31" 2 2], of "\<not> is_div"]
  show "emits (if_then (\<not> is_div) (emit_alu32 0x31 RDX RDX)) (clear_rdx is_div)" by (cases is_div) (simp_all add: clear_rdx_def)
  show "emits (if_then w (emit_rex 1 0 0 0)) (if w then [0x48] else [])"
    unfolding emit_rex_def using emits_if_then [OF emits_emit1 [of "0x48"]] by simp
  have "x_alu False 0xf7 7 1 = [0xf7, 0xf9]" by code_simp
  with emits_alu32 [of "0xf7" 7 1] show "emits (emit_alu32 0xf7 7 RCX) [0xf7, 0xf9]" by simp
qed

lemmas steady_rules =
  steady_bind steady_gets steady_write steady_return steady_emits [OF emits_emit1] emits_overflow_pieces [THEN steady_emits] steady_if_then

lemma steady_signed: "steady (emit_signed w is_div)"
  unfolding emit_signed_def emit_overflow_check_def bind_bind
  by (rule steady_rules)+

lemma runs_to_emit_bind:
  "emits m cs \<Longrightarrow> room s0 \<Longrightarrow> steady (f ()) \<Longrightarrow> runs_to s0 (f ()) (bs @ cs) u ds \<Longrightarrow> runs_to s0 (State_Monad.bind m f) bs u ds"
  by (rule runs_to_bind [OF runs_to_emits steady_emits]) simp_all

lemma runs_to_offset_bind:
  "(\<And>x. steady (f x)) \<Longrightarrow> runs_to s0 (f (jit_offset s0 + of_nat (length bs))) bs u ds \<Longrightarrow> runs_to s0 (State_Monad.bind (gets jit_offset) f) bs u ds"
  by (rule runs_to_bind [OF runs_to_offset steady_gets])

lemma runs_to_write_bind:
  "room s0 \<Longrightarrow> i < length bs \<Longrightarrow> steady (f ()) \<Longrightarrow> runs_to s0 (f ()) (bs[i := y]) u ds \<Longrightarrow>
   runs_to s0 (State_Monad.bind (write_buf (unat (jit_offset s0 + of_nat i)) [y]) f) bs u ds"
  by (rule runs_to_bind [OF runs_to_write steady_write]) simp_all

lemma x_idiv: "x_alu True 0xf7 7 1 = [0x48, 0xf7, 0xf9]" "x_alu False 0xf7 7 1 = [0xf7, 0xf9]"
  by code_simp+

lemma runs_to_eq: "runs_to s0 m bs u cs \<Longrightarrow> cs = ds \<Longrightarrow> runs_to s0 m bs u ds" by simp

lemma runs_to_signed:
  assumes "room s0"
  shows "runs_to s0 (emit_signed w is_div) [] () (signed_code w is_div)"
  unfolding emit_signed_def emit_overflow_check_def bind_bind
  apply (((rule runs_to_emit_bind [OF emits_overflow_pieces(1) assms] runs_to_emit_bind [OF emits_emit1 assms] runs_to_offset_bind
      runs_to_emit_bind [OF emits_overflow_pieces(2) assms] runs_to_emit_bind [OF emits_overflow_pieces(3) assms]), (rule steady_rules)+)+)
  apply (rule runs_to_write_bind [OF assms], simp, (rule steady_rules)+)
  apply (rule runs_to_write_bind [OF assms], simp, (rule steady_rules)+)
  apply (rule runs_to_bind [OF runs_to_return], (rule steady_rules)+)
  apply (((rule runs_to_emit_bind [OF emits_overflow_pieces(4) assms] runs_to_emit_bind [OF emits_overflow_pieces(5) assms] runs_to_offset_bind), (rule steady_rules)+)+)
  apply (rule runs_to_if_offset [OF runs_to_eq [OF runs_to_write [OF assms _ refl]] assms])
  apply (cases w; cases is_div; simp add: cmp_minus_one_def cmp_int_min_def clear_rdx_def)
  defer
  apply (cases w; cases is_div; simp add: cmp_minus_one_def cmp_int_min_def clear_rdx_def)
  apply (cases w; cases is_div; simp add: cmp_minus_one_def cmp_int_min_def clear_rdx_def)
  apply (cases w; cases is_div; simp add: signed_code_def cmp_minus_one_def cmp_int_min_def clear_rdx_def Let_def x_idiv)
  done

section \<open>Its effect\<close>

lemma decodes_pieces:
  "decodes (cmp_minus_one w) [Xalu_imm Xcmp w (Xreg 1) (- 1)]"
  "decodes (cmp_int_min w) (if w then [Xmovabs 11 0x8000000000000000, Xalu Xcmp True (Xreg 0) 11] else [Xalu_imm Xcmp False (Xreg 0) 0x80000000])"
  "decodes (clear_rdx is_div) (if is_div then [] else [Xalu Xxor False (Xreg 2) 2])"
proof -
  note d = decode_simps with_modrm_def decode_modrm_def reg_field_def alu_of_ext_def alu_of_opcode_def
  have "decode ([0x48, 0x83, 0xf9, 0xff] @ rest) = Some (Xalu_imm Xcmp True (Xreg 1) (- 1), length [0x48, 0x83, 0xf9, 0xff :: uint8_t])"
    "decode ([0x83, 0xf9, 0xff] @ rest) = Some (Xalu_imm Xcmp False (Xreg 1) (- 1), length [0x83, 0xf9, 0xff :: uint8_t])" for rest
    by (simp_all add: d)
  then show "decodes (cmp_minus_one w) [Xalu_imm Xcmp w (Xreg 1) (- 1)]"
    unfolding cmp_minus_one_def by (cases w) (simp_all only: if_True if_False decodes_one)
  have "decode ([0x49, 0xbb, 0, 0, 0, 0, 0, 0, 0, 0x80] @ rest) = Some (Xmovabs 11 0x8000000000000000, length [0x49, 0xbb, 0, 0, 0, 0, 0, 0, 0, 0x80 :: uint8_t])"
    "decode ([0x4c, 0x39, 0xd8] @ rest) = Some (Xalu Xcmp True (Xreg 0) 11, length [0x4c, 0x39, 0xd8 :: uint8_t])"
    "decode ([0x3d, 0, 0, 0, 0x80] @ rest) = Some (Xalu_imm Xcmp False (Xreg 0) 0x80000000, length [0x3d, 0, 0, 0, 0x80 :: uint8_t])" for rest
    by (simp_all add: d le64_def le32_def)
  then have "decodes ([0x49, 0xbb, 0, 0, 0, 0, 0, 0, 0, 0x80] @ [0x4c, 0x39, 0xd8]) ([Xmovabs 11 0x8000000000000000] @ [Xalu Xcmp True (Xreg 0) 11])"
    "decodes [0x3d, 0, 0, 0, 0x80] [Xalu_imm Xcmp False (Xreg 0) 0x80000000]"
    by (blast intro: decodes_append decodes_one)+
  then show "decodes (cmp_int_min w) (if w then [Xmovabs 11 0x8000000000000000, Xalu Xcmp True (Xreg 0) 11] else [Xalu_imm Xcmp False (Xreg 0) 0x80000000])"
    by (simp add: cmp_int_min_def)
  have "decode ([0x31, 0xd2] @ rest) = Some (Xalu Xxor False (Xreg 2) 2, length [0x31, 0xd2 :: uint8_t])" for rest
    by (simp add: d)
  then show "decodes (clear_rdx is_div) (if is_div then [] else [Xalu Xxor False (Xreg 2) 2])"
    unfolding clear_rdx_def by (simp add: decodes_one decodes_Nil)
qed

definition int_min :: "bool \<Rightarrow> uint64_t" where "int_min w = (if w then 0x8000000000000000 else 0x80000000)"

lemma ucast_up_eq: "(ucast (x :: uint32_t) :: uint64_t) = ucast y \<longleftrightarrow> x = y"
  using unat_ucast_up [of x, where ?'b = 64] unat_ucast_up [of y, where ?'b = 64] by (simp add: word_unat_eq_iff)

lemma at_width_diff: "(at_width w (at_width w u - at_width w v) = 0) = (at_width w u = at_width w v)"
  by (cases w) (simp_all add: low32_def c_conv ucast_up_eq ucast_up_eq [of _ 0, simplified])

lemma runs_cmp_minus_one:
  "runs_code (cmp_minus_one w) (guarded True w is_mod d r b)
     (\<lambda>a. guarded True w is_mod d r b a \<and> flags_hold (\<lambda>g. ZF g = (at_width w (divisor w b) = at_width w (- 1))) a)"
proof (rule runs_code_list [OF decodes_pieces(1)])
  fix a assume "guarded True w is_mod d r b a"
  then obtain r' f g where a: "a = (r', f, flags_value g # (if is_mod then [r d] else []) @ saved d r)" "ZF g = (at_width w b = 0)"
    "r' 0 = r d" "r' 1 = divisor w b" "r' 2 = high_half True w (r d)" "others_kept r r'" by (auto simp: guarded_def)
  show "\<exists>a'. abs_list [Xalu_imm Xcmp w (Xreg 1) (- 1)] a = Some a' \<and>
    guarded True w is_mod d r b a' \<and> flags_hold (\<lambda>g. ZF g = (at_width w (divisor w b) = at_width w (- 1))) a'"
    using a
    by (simp add: guarded_def reg_exec_simps exec_alu_rm_def alu_flags_def alu_value_def writes_result_def flags_value_inject
      flags_hold_def Let_def truncate_at_width at_width_diff)
qed (simp add: plain_def)

lemma runs_cmp_int_min:
  "runs_code (cmp_int_min w) (guarded True w is_mod d r b)
     (\<lambda>a. guarded True w is_mod d r b a \<and> flags_hold (\<lambda>g. ZF g = (at_width w (r d) = int_min w)) a)"
proof (rule runs_code_list [OF decodes_pieces(2)])
  fix a assume "guarded True w is_mod d r b a"
  then obtain r' f g where a: "a = (r', f, flags_value g # (if is_mod then [r d] else []) @ saved d r)" "ZF g = (at_width w b = 0)"
    "r' 0 = r d" "r' 1 = divisor w b" "r' 2 = high_half True w (r d)" "others_kept r r'" by (auto simp: guarded_def)
  have min: "at_width w (int_min w) = int_min w" "low32 (- 0x80000000) = 0x80000000" by (simp_all add: int_min_def low32_def)
  show "\<exists>a'. abs_list (if w then [Xmovabs 11 0x8000000000000000, Xalu Xcmp True (Xreg 0) 11] else [Xalu_imm Xcmp False (Xreg 0) 0x80000000]) a = Some a' \<and>
    guarded True w is_mod d r b a' \<and> flags_hold (\<lambda>g. ZF g = (at_width w (r d) = int_min w)) a'"
    using a at_width_diff [of w "r d" "int_min w"] min
    by (cases w) (simp_all add: guarded_def reg_exec_simps exec_alu_rm_def alu_flags_def alu_value_def writes_result_def flags_value_inject
      flags_hold_def Let_def truncate_at_width others_kept_def int_min_def)
qed (simp add: plain_def)

text \<open>The values: the processor divides a dividend of twice the width, whose upper half extends the sign.\<close>

definition signed_result :: "bool \<Rightarrow> bool \<Rightarrow> uint64_t \<Rightarrow> uint64_t \<Rightarrow> uint64_t" where
  "signed_result w is_mod x y =
     at_width w (word_of_int (if is_mod then sint_at (width w) x smod sint_at (width w) y else sint_at (width w) x sdiv sint_at (width w) y))"

lemma sint_at_width: "sint_at (width w) x = (if w then sint x else sint (ucast x :: uint32_t))"
  "sint_at 8 x = sint x" "sint_at 4 x = sint (ucast x :: uint32_t)"
  by (simp_all add: sint_at_def width_def sint_uint unsigned_ucast_eq signed_take_bit_take_bit)

lemma sint_as_uint: "sint (x :: 'a::len word) = uint x - 2 ^ LENGTH('a) * of_bool (bit x (LENGTH('a) - 1))"
  using signed_take_bit_eq_take_bit_minus [of "LENGTH('a) - 1" "uint x"] by (simp add: sint_uint bit_uint_iff unsigned_take_bit_eq [symmetric])

lemma signed_dividend:
  "sint_at (width w) (high_half True w x) * 2 ^ (8 * width w) + uint (at_width w x) = sint_at (width w) x"
  by (cases w)
    (simp_all add: sint_at_width high_half_def sign_bit_def width_def truncate_width uint_low32 sint_as_uint [of x] sint_as_uint [of "ucast x :: uint32_t"] bit_ucast_iff c_conv)

lemma sint_at_bounds: "- (2 ^ (8 * width w - 1)) \<le> sint_at (width w) x" "sint_at (width w) x < 2 ^ (8 * width w - 1)"
  using sint_range_size [of x] sint_range_size [of "ucast x :: uint32_t"] by (simp_all add: sint_at_width width_def word_size)

lemma sint_at_eq:
  "sint_at (width w) x = - 1 \<longleftrightarrow> at_width w x = at_width w (- 1)"
  "sint_at (width w) x = - (2 ^ (8 * width w - 1)) \<longleftrightarrow> at_width w x = int_min w"
proof -
  have eq: "low32 x = low32 y \<longleftrightarrow> sint (ucast x :: uint32_t) = sint (ucast y :: uint32_t)" for y
    by (simp only: low32_def ucast_up_eq word_eq_iff_signed)
  have eq64: "x = y \<longleftrightarrow> sint x = sint y" for y by (rule word_eq_iff_signed)
  have min: "sint (0x8000000000000000 :: uint64_t) = - (2 ^ 63)" "sint (ucast (0x80000000 :: uint64_t) :: uint32_t) = - (2 ^ 31)"
    "sint (ucast (- 1 :: uint64_t) :: uint32_t) = - 1" "low32 0x80000000 = 0x80000000" by code_simp+
  show "sint_at (width w) x = - 1 \<longleftrightarrow> at_width w x = at_width w (- 1)"
    using eq [of "- 1"] min eq64 [of "- 1"] by (simp add: sint_at_width)
  show "sint_at (width w) x = - (2 ^ (8 * width w - 1)) \<longleftrightarrow> at_width w x = int_min w"
    using eq [of "0x80000000"] min eq64 [of "0x8000000000000000"] by (simp add: sint_at_width width_def int_min_def)
qed

lemma quotient_fits:
  fixes m :: int
  assumes "- m \<le> x" "x < m" "\<not> (x = - m \<and> y = - 1)"
  shows "x sdiv y < m" "- m \<le> x sdiv y"
proof -
  have "\<bar>x sdiv y\<bar> < m" if "\<bar>y\<bar> \<noteq> 1"
  proof (cases "x = 0 \<or> y = 0")
    case False
    then have "\<bar>x\<bar> div \<bar>y\<bar> < \<bar>x\<bar>" using that by (intro int_div_less_self) auto
    moreover have "\<bar>x sdiv y\<bar> = \<bar>x\<bar> div \<bar>y\<bar>" using False by (simp add: signed_divide_int_def abs_mult pos_imp_zdiv_nonneg_iff)
    ultimately show ?thesis using assms(1,2) by linarith
  qed (use assms in auto)
  moreover have "x sdiv y < m \<and> - m \<le> x sdiv y" if "\<bar>y\<bar> = 1"
  proof (cases "y = 1")
    case False
    with that have "y = - 1" by linarith
    with assms show ?thesis by simp
  qed (use assms in simp)
  ultimately show "x sdiv y < m" "- m \<le> x sdiv y" by (cases "\<bar>y\<bar> = 1", blast, linarith)+
qed

definition overflows :: "bool \<Rightarrow> uint64_t \<Rightarrow> uint64_t \<Rightarrow> bool" where
  "overflows w x y \<longleftrightarrow> at_width w x = int_min w \<and> at_width w y = at_width w (- 1)"

definition signed_divided :: "bool \<Rightarrow> bool \<Rightarrow> x86_reg \<Rightarrow> (x86_reg \<Rightarrow> uint64_t) \<Rightarrow> uint64_t \<Rightarrow> abs_state \<Rightarrow> bool" where
  "signed_divided w is_mod d r b a \<longleftrightarrow>
     (\<exists>v. divided w is_mod d r b v a \<and> at_width w v = signed_result w is_mod (r d) (divisor w b))"

lemma runs_idiv:
  "runs_code (x_alu w 0xf7 7 1) (\<lambda>a. guarded True w is_mod d r b a \<and> \<not> overflows w (r d) (divisor w b)) (signed_divided w is_mod d r b)"
proof (rule runs_code_list [OF decodes_one [OF decode_unary(4)]])
  fix a assume "guarded True w is_mod d r b a \<and> \<not> overflows w (r d) (divisor w b)"
  then obtain r' f g where a: "a = (r', f, flags_value g # (if is_mod then [r d] else []) @ saved d r)" "ZF g = (at_width w b = 0)"
    "r' 0 = r d" "r' 1 = divisor w b" "r' 2 = high_half True w (r d)" "others_kept r r'" and o: "\<not> overflows w (r d) (divisor w b)"
    by (auto simp: guarded_def)
  let ?x = "sint_at (width w) (r d)" and ?y = "sint_at (width w) (divisor w b)"
  have y: "at_width w (divisor w b) \<noteq> 0" by (cases w) (simp_all add: divisor_def low32_def)
  have q: "?x sdiv ?y < 2 ^ (8 * width w - 1)" "- (2 ^ (8 * width w - 1)) \<le> ?x sdiv ?y"
    using quotient_fits [OF sint_at_bounds [of w "r d"]] o sint_at_eq [of w] by (auto simp: overflows_def)
  have n: "sint_at (width w) (at_width w (divisor w b)) = ?y" by (cases w) (simp_all add: sint_at_width low32_def c_conv)
  have "abs_list [Xidiv w (Xreg 1)] a = Some (r'(0 := at_width w (word_of_int (?x sdiv ?y)), 2 := at_width w (word_of_int (?x smod ?y))), None, flags_value g # (if is_mod then [r d] else []) @ saved d r)"
    using a y q n signed_dividend [of w "r d"]
    by (simp add: reg_exec_simps exec_idiv_def truncate_at_width Let_def not_le)
  with a show "\<exists>a'. abs_list [Xidiv w (Xreg 1)] a = Some a' \<and> signed_divided w is_mod d r b a'"
    by (simp add: signed_divided_def divided_def signed_result_def others_kept_def flags_value_inject)
qed (simp add: plain_def)

lemma runs_overflow:
  "runs_code (clear_rdx (\<not> is_mod)) (\<lambda>a. guarded True w is_mod d r b a \<and> overflows w (r d) (divisor w b)) (signed_divided w is_mod d r b)"
proof (rule runs_code_list [OF decodes_pieces(3)])
  fix a assume "guarded True w is_mod d r b a \<and> overflows w (r d) (divisor w b)"
  then obtain r' f g where a: "a = (r', f, flags_value g # (if is_mod then [r d] else []) @ saved d r)" "ZF g = (at_width w b = 0)"
    "r' 0 = r d" "r' 1 = divisor w b" "others_kept r r'" and o: "overflows w (r d) (divisor w b)"
    by (auto simp: guarded_def)
  have "sint_at (width w) (r d) = - (2 ^ (8 * width w - 1))" "sint_at (width w) (divisor w b) = - 1"
    using o sint_at_eq [of w] by (auto simp: overflows_def)
  then have "signed_result w is_mod (r d) (divisor w b) = at_width w (if is_mod then 0 else int_min w)"
    by (cases w) (simp_all add: signed_result_def width_def int_min_def signed_modulo_int_def)
  moreover have "at_width w (r d) = at_width w (int_min w)" using o by (simp add: overflows_def int_min_def low32_def)
  ultimately show "\<exists>a'. abs_list (if \<not> is_mod then [] else [Xalu Xxor False (Xreg 2) 2]) a = Some a' \<and> signed_divided w is_mod d r b a'"
    using a
    by (cases is_mod)
      (simp_all add: signed_divided_def divided_def reg_exec_simps exec_alu_rm_def alu_flags_def alu_value_def writes_result_def
        flags_value_inject others_kept_def Let_def width_def)
qed (simp add: plain_def)

lemma flags_holdD:
  "flags_hold (\<lambda>g. ZF g = t) a \<Longrightarrow> flags_hold (\<lambda>_. True) a"
  "flags_hold (\<lambda>g. ZF g = t) a \<Longrightarrow> flags_hold ZF a \<Longrightarrow> t"
  "flags_hold (\<lambda>g. ZF g = t) a \<Longrightarrow> flags_hold (\<lambda>g. \<not> ZF g) a \<Longrightarrow> \<not> t"
  by (auto simp: flags_hold_def split: option.splits)

lemma runs_code_pre: "runs_code bs P Q \<Longrightarrow> (\<And>a. P' a \<Longrightarrow> P a) \<Longrightarrow> runs_code bs P' Q"
  by (rule runs_code_mono)

lemma runs_signed:
  "runs_code (signed_code w (\<not> is_mod)) (guarded True w is_mod d r b) (signed_divided w is_mod d r b)"
proof -
  let ?G = "guarded True w is_mod d r b" and ?D = "signed_divided w is_mod d r b"
  let ?idiv = "x_alu w 0xf7 7 1" and ?over = "clear_rdx (\<not> is_mod) @ [0xeb, of_nat (length (x_alu w 0xf7 7 1))]"
  let ?inner = "cmp_int_min w @ [0x75, of_nat (length ?over)] @ ?over"
  let ?m1 = "at_width w (divisor w b) = at_width w (- 1)" and ?min = "at_width w (r d) = int_min w"
  have len: "length ?idiv = (if w then 3 else 2)" by (cases w) (simp_all add: x_idiv)
  have small: "unat (of_nat n :: uint8_t) = n" if "n < 128" for n using that by (simp add: unsigned_of_nat take_bit_nat_eq_self)
  have "runs_code ([0xeb, of_nat (length ?idiv)] @ ?idiv) ?D ?D"
    by (rule runs_code_jmp) (use len in \<open>simp_all add: small\<close>)
  from runs_code_seq [OF runs_overflow this] have over: "runs_code (?over @ ?idiv) (\<lambda>a. ?G a \<and> overflows w (r d) (divisor w b)) ?D" by simp
  have inner: "runs_code ([0x75, of_nat (length ?over)] @ ?over @ ?idiv) (\<lambda>a. (?G a \<and> ?m1) \<and> flags_hold (\<lambda>g. ZF g = ?min) a) ?D"
    by (rule runs_code_jne [OF _ _ _ runs_code_pre [OF over] runs_code_pre [OF runs_idiv]])
      (use len in \<open>auto simp: small clear_rdx_def overflows_def dest: flags_holdD\<close>)
  have "runs_code (cmp_int_min w) (\<lambda>a. ?G a \<and> ?m1) (\<lambda>a. (?G a \<and> ?m1) \<and> flags_hold (\<lambda>g. ZF g = ?min) a)"
    using runs_cmp_int_min [of w is_mod d r b] unfolding runs_code_def by meson
  from runs_code_seq [OF this inner] have middle: "runs_code (?inner @ ?idiv) (\<lambda>a. ?G a \<and> ?m1) ?D" by simp
  have "runs_code ([0x75, of_nat (length ?inner)] @ ?inner @ ?idiv) (\<lambda>a. ?G a \<and> flags_hold (\<lambda>g. ZF g = ?m1) a) ?D"
    by (rule runs_code_jne [OF _ _ _ runs_code_pre [OF middle] runs_code_pre [OF runs_idiv]])
      (use len in \<open>auto simp: small clear_rdx_def cmp_int_min_def overflows_def dest: flags_holdD\<close>)
  from runs_code_seq [OF runs_cmp_minus_one this] show ?thesis by (simp add: signed_code_def Let_def)
qed

lemma triple_signed: "triple (emit_signed w (\<not> is_mod)) (guarded True w is_mod d r b) (signed_divided w is_mod d r b)"
  by (rule triple_runs_to [OF steady_signed runs_to_signed runs_signed])

end
