(* ===== verification/X86_Arith.thy ===== *)
theory X86_Arith
  imports X86_Muldiv
begin

text \<open>
  The code of \<^const>\<open>emit_muldivmod\<close>, and with it of every arithmetic instruction, against the
  interpreter.
\<close>

section \<open>Multiplication, division and remainder\<close>

definition load_operands :: "ubpf_vm \<Rightarrow> bool \<Rightarrow> int32_t \<Rightarrow> int32_t \<Rightarrow> int32_t \<Rightarrow> unit jit" where
  "load_operands vm is_reg sreg dreg im = do {
     if_then (dreg \<noteq> RAX) (emit_push RAX);
     if_then (dreg \<noteq> RDX) (emit_push RDX);
     (if \<not> is_reg then EMIT_LOAD_IMM vm RCX (scast im) else emit_mov sreg RCX);
     emit_mov dreg RAX
   }"

definition divide_guarded :: "bool \<Rightarrow> bool \<Rightarrow> bool \<Rightarrow> unit jit" where
  "divide_guarded w is_mod is_signed = do {
     (if w then emit_alu64 0x85 RCX RCX else emit_alu32 0x85 RCX RCX);
     if_then is_mod (emit_push RAX);
     emit1 0x9c;
     emit_load_imm RDX 1;
     emit1 0x48; emit1 0x0f; emit1 0x44; emit1 0xca;
     (if is_signed then (if w then do { emit1 0x48; emit1 0x99 } else emit1 0x99) else emit_alu32 0x31 RDX RDX);
     (if is_signed then emit_signed w (\<not> is_mod) else do { if_then w (emit_rex 1 0 0 0); emit_alu32 0xf7 6 RCX });
     emit1 0x9d;
     (if \<not> is_mod then do { emit_load_imm RCX 0; emit1 0x48; emit1 0x0f; emit1 0x44; emit1 0xc1 }
      else do { emit_pop RCX; emit1 0x48; emit1 0x0f; emit1 0x44; emit1 0xd1 })
   }"

definition restore_operands :: "bool \<Rightarrow> int32_t \<Rightarrow> unit jit" where
  "restore_operands is_mod dreg = do {
     if_then (dreg \<noteq> RDX) (do { if_then is_mod (emit_mov RDX dreg); emit_pop RDX });
     if_then (dreg \<noteq> RAX) (do { if_then (\<not> is_mod) (emit_mov RAX dreg); emit_pop RAX })
   }"

lemma bind_simps:
  "State_Monad.bind (gets f) (\<lambda>_. m) = m" "State_Monad.bind skip (\<lambda>_. m) = m" "State_Monad.bind (State_Monad.return x) g = g x"
  "State_Monad.bind (n :: unit jit) (\<lambda>_. skip) = n" "if_then True n = n" "if_then False n = skip"
  by (rule state_ext; simp add: skip_def case_prod_beta prod_eq_iff)+ (simp_all add: if_then_def)

definition alu_op :: "uint8_t \<Rightarrow> uint8_t" where "alu_op op = op AND EBPF_ALU_OP_MASK"

lemma muldivmod_code:
  assumes "alu_op op \<in> {0x20, 0x30, 0x90}" and "is_reg = (op AND EBPF_SRC_REG = EBPF_SRC_REG)" and "is_reg \<or> im \<noteq> 0"
    and "w = (op AND EBPF_CLS_MASK = EBPF_CLS_ALU64)"
  shows "emit_muldivmod vm op sreg dreg im off = do {
     load_operands vm is_reg sreg dreg im;
     (if alu_op op = 0x20 then do { if_then w (emit_rex 1 0 0 0); emit_alu32 0xf7 4 RCX }
      else divide_guarded w (alu_op op = 0x90) (off = 1));
     restore_operands (alu_op op = 0x90) dreg }"
proof -
  have "alu_op op = 0x20 \<or> alu_op op = 0x30 \<or> alu_op op = 0x90" using assms(1) by auto
  then show ?thesis
    using assms(2-4)
    by (cases is_reg; elim disjE)
      (simp_all add: emit_muldivmod_def load_operands_def divide_guarded_def restore_operands_def emit_signed_def
        alu_op_def Let_def bind_simps bind_bind opcode_vals)
qed

lemma triple_load_operands:
  assumes "d \<notin> {1, 4, 5, 11}" and "s \<notin> {1, 4, 5, 11}"
  shows "triple (load_operands vm is_reg (ucast s) (ucast d) im) (at_start r) (operands d r (if is_reg then r s else scast im))"
proof -
  let ?b = "if is_reg then r s else scast im"
  let ?mid = "\<lambda>a. \<exists>r' f. a = (r', f, saved d r) \<and> r' 1 = ?b \<and> (\<forall>q. q \<notin> {1, 4, 11} \<longrightarrow> r' q = r q)"
  have "triple (if \<not> is_reg then EMIT_LOAD_IMM vm RCX (scast im) else emit_mov (ucast s) RCX) (\<lambda>a. \<exists>f. a = (r, f, saved d r)) ?mid"
  proof (cases is_reg)
    case True
    then show ?thesis using assms
      by (auto intro!: triple_assembles [OF assembles_mov [of s 1, simplified]] simp: plain_def reg_exec_simps)
  next
    case False
    have "triple (EMIT_LOAD_IMM vm (ucast (1 :: x86_reg)) (scast im)) (\<lambda>a. \<exists>f. a = (r, f, saved d r)) ?mid"
      by (rule triple_computes [OF realizes_load_imm]) (use False in auto)
    with False show ?thesis by simp
  qed
  moreover have "triple (emit_mov (ucast d) RAX) ?mid (operands d r ?b)"
    using assms by (auto intro!: triple_assembles [OF assembles_mov [of d 0, simplified]] simp: plain_def reg_exec_simps operands_def others_kept_def)
  ultimately show ?thesis
    unfolding load_operands_def using triple_seq [OF triple_save [of d r] triple_seq] by (simp add: bind_bind)
qed

definition divmod_value :: "bool \<Rightarrow> bool \<Rightarrow> bool \<Rightarrow> uint64_t \<Rightarrow> uint64_t \<Rightarrow> uint64_t" where
  "divmod_value w is_mod is_signed x b =
     (if at_width w b = 0 then if is_mod then x else 0
      else if is_signed then signed_result w is_mod x b
      else if is_mod then at_width w x mod at_width w b else at_width w x div at_width w b)"

lemma triple_zero:
  "triple (do {
      emit1 0x9d;
      (if \<not> is_mod then do { emit_load_imm RCX 0; emit1 0x48; emit1 0x0f; emit1 0x44; emit1 0xc1 }
       else do { emit_pop RCX; emit1 0x48; emit1 0x0f; emit1 0x44; emit1 0xd1 }) })
    (\<lambda>a. \<exists>v. T v \<and> divided w is_mod d r b v a)
    (\<lambda>a. \<exists>v. T v \<and> results d r is_mod (if at_width w b = 0 then if is_mod then r d else 0 else v) a)"
proof -
  note a = assembles_bind [OF assembles_bytes(2) assembles_if [OF assembles_bind [OF assembles_scratch(10) assembles_bytes(6)]
    assembles_bind [OF assembles_scratch(8) assembles_bytes(7)]]]
  show ?thesis
    by (rule triple_assembles [OF a])
      (auto simp: plain_def assertion_defs divided_def reg_exec_simps value_flags_value)
qed

lemma triple_divide:
  "triple (divide_guarded w is_mod is_signed) (operands d r b)
     (\<lambda>a. \<exists>v. at_width w v = at_width w (divmod_value w is_mod is_signed (r d) b) \<and> results d r is_mod v a)"
proof -
  let ?T = "\<lambda>v. at_width w b \<noteq> 0 \<longrightarrow> at_width w v = at_width w (divmod_value w is_mod is_signed (r d) b)"
  let ?mid = "\<lambda>a. \<exists>v. ?T v \<and> divided w is_mod d r b v a"
  have "triple (if is_signed then emit_signed w (\<not> is_mod) else do { if_then w (emit_rex 1 0 0 0); emit_alu32 0xf7 6 RCX })
    (guarded is_signed w is_mod d r b) ?mid"
  proof (cases is_signed)
    case True
    have "?mid a" if "signed_divided w is_mod d r b a" for a
    proof -
      from that obtain v where "divided w is_mod d r b v a" "at_width w v = signed_result w is_mod (r d) (divisor w b)"
        by (auto simp: signed_divided_def)
      with True show ?thesis by (intro exI [of _ v]) (simp add: divmod_value_def divisor_def signed_result_def)
    qed
    from triple_mono [OF triple_signed _ this] True show ?thesis by simp
  next
    case False
    let ?v = "if is_mod then at_width w (r d) mod at_width w (divisor w b) else at_width w (r d) div at_width w (divisor w b)"
    have "?mid a" if "divided w is_mod d r b ?v a" for a
      using that False by (intro exI [of _ ?v]) (simp add: divmod_value_def divisor_def)
    from triple_mono [OF triple_div _ this] False show ?thesis by simp
  qed
  from triple_seq [OF triple_guard triple_seq [OF this triple_zero]]
  have t: "triple (divide_guarded w is_mod is_signed) (operands d r b)
      (\<lambda>a. \<exists>v. ?T v \<and> results d r is_mod (if at_width w b = 0 then if is_mod then r d else 0 else v) a)"
    unfolding divide_guarded_def bind_bind .
  show ?thesis
  proof (rule triple_mono [OF t])
    fix a assume "\<exists>v. ?T v \<and> results d r is_mod (if at_width w b = 0 then if is_mod then r d else 0 else v) a"
    then obtain v where "?T v" "results d r is_mod (if at_width w b = 0 then if is_mod then r d else 0 else v) a" by blast
    then show "\<exists>v. at_width w v = at_width w (divmod_value w is_mod is_signed (r d) b) \<and> results d r is_mod v a"
      by (intro exI [of _ "if at_width w b = 0 then if is_mod then r d else 0 else v"]) (auto simp: divmod_value_def)
  qed
qed

lemma triple_restore:
  assumes "d \<notin> {1, 4, 5, 11}"
  shows "triple (restore_operands is_mod (ucast d)) (\<lambda>a. \<exists>v. T v \<and> results d r is_mod v a) (\<lambda>a. \<exists>v. T v \<and> at_end d r v a)"
  unfolding restore_operands_def
  by (rule triple_assembles [OF assembles_bind [OF
        assembles_if_then [OF assembles_bind [OF assembles_if_then [OF assembles_mov [of 2 d, simplified]] assembles_scratch(7)]]
        assembles_if_then [OF assembles_bind [OF assembles_if_then [OF assembles_mov [of 0 d, simplified]] assembles_scratch(6)]]]])
    (use assms in \<open>auto simp: ucast_reg_eq plain_def assertion_defs reg_exec_simps\<close>)

definition muldivmod_value :: "uint8_t \<Rightarrow> bool \<Rightarrow> uint64_t \<Rightarrow> uint64_t \<Rightarrow> uint64_t" where
  "muldivmod_value op is_signed x b =
     (let w = (op AND EBPF_CLS_MASK = EBPF_CLS_ALU64) in
      if alu_op op = 0x20 then x * b else divmod_value w (alu_op op = 0x90) is_signed x b)"

lemma triple_muldivmod:
  assumes "d \<notin> {1, 4, 5, 11}" and "s \<notin> {1, 4, 5, 11}" and "alu_op op \<in> {0x20, 0x30, 0x90}"
    and "is_reg = (op AND EBPF_SRC_REG = EBPF_SRC_REG)" and "w = (op AND EBPF_CLS_MASK = EBPF_CLS_ALU64)"
  shows "triple (emit_muldivmod vm op (ucast s) (ucast d) im off) (at_start r)
    (\<lambda>a. \<exists>v. at_width w v = at_width w (muldivmod_value op (off = 1) (r d) (if is_reg then r s else scast im)) \<and> at_end d r v a)"
proof (cases "is_reg \<or> im \<noteq> 0")
  case True
  let ?b = "if is_reg then r s else scast im"
  let ?T = "\<lambda>v. at_width w v = at_width w (muldivmod_value op (off = 1) (r d) ?b)"
  have "triple (if alu_op op = 0x20 then do { if_then w (emit_rex 1 0 0 0); emit_alu32 0xf7 4 RCX }
      else divide_guarded w (alu_op op = 0x90) (off = 1)) (operands d r ?b) (\<lambda>a. \<exists>v. ?T v \<and> results d r (alu_op op = 0x90) v a)"
  proof (cases "alu_op op = 0x20")
    case True
    have "\<exists>v. ?T v \<and> results d r False v a" if "results d r False (at_width w (r d * ?b)) a" for a
      using that True by (intro exI [of _ "at_width w (r d * ?b)"]) (simp add: muldivmod_value_def)
    from triple_mono [OF triple_mul _ this] True show ?thesis by simp
  next
    case False
    with triple_divide [of w "alu_op op = 0x90" "off = 1" d r ?b] assms(5) show ?thesis by (simp add: muldivmod_value_def)
  qed
  from triple_seq [OF triple_load_operands [OF assms(1,2)] triple_seq [OF this triple_restore [OF assms(1)]]]
  show ?thesis unfolding muldivmod_code [OF assms(3,4) True assms(5)] .
next
  case False
  have "triple (emit_alu32 0x31 (ucast d) (ucast d)) (at_start r) (at_end d r 0)"
    by (rule triple_assembles [OF assembles_alu(2) [of "0x31" Xxor]])
      (use assms(1) in \<open>auto simp: alu_of_opcode_def plain_def assertion_defs reg_exec_simps exec_alu_rm_def alu_value_def writes_result_def Let_def\<close>)
  moreover have "triple (emit_mov (ucast d) (ucast d)) (at_start r) (at_end d r (r d))"
    by (rule triple_assembles [OF assembles_mov]) (use assms(1) in \<open>auto simp: plain_def assertion_defs reg_exec_simps\<close>)
  ultimately have t: "triple (emit_muldivmod vm op (ucast s) (ucast d) im off) (at_start r) (at_end d r (if alu_op op = 0x90 then r d else 0))"
    using assms(3,4) False by (auto simp: emit_muldivmod_def alu_op_def opcode_vals Let_def)
  show ?thesis
    by (rule triple_mono [OF t])
      (use False in \<open>auto simp: muldivmod_value_def divmod_value_def Let_def intro!: exI [of _ "if alu_op op = 0x90 then r d else 0"]\<close>)
qed

section \<open>The values\<close>

lemma low32_of_int: "low32 (word_of_int k) = ucast (word_of_int k :: uint32_t)"
proof -
  have "(ucast (word_of_int k :: uint64_t) :: uint32_t) = word_of_int k" by (rule bit_word_eqI) (simp add: bit_simps)
  then show ?thesis by (simp add: low32_def)
qed

lemma signed_result_values:
  "signed_result True False x y = c_sdiv x y" "signed_result True True x y = c_smod x y"
  "signed_result False False x y = ucast (c_sdiv (ucast x :: uint32_t) (ucast y))"
  "signed_result False True x y = ucast (c_smod (ucast x :: uint32_t) (ucast y))"
  by (simp_all add: signed_result_def sint_at_width c_sdiv_def c_smod_def low32_of_int)

lemma c_sdiv_overflow:
  "c_sdiv INT64_MIN (- 1) = INT64_MIN" "c_smod INT64_MIN (- 1) = 0" "c_sdiv INT32_MIN (- 1) = INT32_MIN" "c_smod INT32_MIN (- 1) = 0"
  by code_simp+

lemma low32_0_iff: "low32 v = 0 \<longleftrightarrow> (ucast v :: uint32_t) = 0"
  by (simp add: low32_def ucast_up_eq [of _ 0, simplified])

lemma low32_div: "low32 (low32 x div low32 y) = ucast ((ucast x :: uint32_t) div ucast y)" "low32 (low32 x mod low32 y) = ucast ((ucast x :: uint32_t) mod ucast y)"
  unfolding word_div_def word_mod_def low32_of_int uint_low32 by simp_all

lemma division_values:
  assumes "off = 0 \<or> off = 1"
  shows "exec_div64 off x y = divmod_value True False (off = 1) x y" "exec_mod64 off x y = divmod_value True True (off = 1) x y"
    "exec_div32 off x (ucast y) = low32 (divmod_value False False (off = 1) x y)"
    "exec_mod32 off x (ucast y) = low32 (divmod_value False True (off = 1) x y)"
proof -
  have and_low32: "v AND UINT32_MAX = low32 v" for v by (simp add: low32_def c_conv)
  show "exec_div64 off x y = divmod_value True False (off = 1) x y" "exec_mod64 off x y = divmod_value True True (off = 1) x y"
    using assms c_sdiv_overflow(1,2) by (auto simp: exec_div64_def exec_mod64_def divmod_value_def signed_result_values)
  show "exec_div32 off x (ucast y) = low32 (divmod_value False False (off = 1) x y)"
    using assms c_sdiv_overflow(3)
    by (auto simp: exec_div32_def divmod_value_def signed_result_values low32_0_iff low32_div Let_def and_low32 u32_def i32_def)
  show "exec_mod32 off x (ucast y) = low32 (divmod_value False True (off = 1) x y)"
    using assms c_sdiv_overflow(4)
    by (auto simp: exec_mod32_def divmod_value_def signed_result_values low32_0_iff low32_div Let_def and_low32 u32_def i32_def low32_def [of x, symmetric])
qed

end
