(* ===== verification/X86_Correct.thy ===== *)
theory X86_Correct
  imports X86_Arith
begin

text \<open>
  The native code of an instruction does what the interpreter does.
\<close>

section \<open>The cases of the switch\<close>

definition alu_cases :: "ubpf_vm \<Rightarrow> ebpf_inst \<Rightarrow> (uint8_t \<times> unit jit) list" where
  "alu_cases vm inst =
     x86_alu32 vm inst (map_register (src inst)) (map_register (dst inst)) @ x86_endian inst (map_register (dst inst)) @
     x86_alu64 vm inst (map_register (src inst)) (map_register (dst inst))"

lemma alu32_defined:
  "map_of (x86_alu32 vm inst sreg dreg) (opcode inst) = None \<longleftrightarrow> exec_alu32 inst reg = None"
  by (simp add: map_of_eq_None_iff x86_alu32_def exec_alu32_def Let_def opcode_vals)

lemma endian_defined:
  "map_of (x86_endian inst dreg) (opcode inst) = None \<longleftrightarrow> exec_endian inst reg = None"
  by (simp add: map_of_eq_None_iff x86_endian_def exec_endian_def Let_def opcode_vals)

lemma alu64_defined:
  "map_of (x86_alu64 vm inst sreg dreg) (opcode inst) = None \<longleftrightarrow> exec_alu64 inst reg = None"
  by (simp add: map_of_eq_None_iff x86_alu64_def exec_alu64_def Let_def opcode_vals)

lemma alu_opcode_class:
  "exec_alu32 inst reg \<noteq> None \<Longrightarrow> opcode inst AND EBPF_CLS_MASK = EBPF_CLS_ALU \<and> opcode inst AND EBPF_ALU_OP_MASK \<noteq> 0xd0"
  "exec_endian inst reg \<noteq> None \<Longrightarrow> \<not> (opcode inst AND EBPF_CLS_MASK = EBPF_CLS_ALU \<and> opcode inst AND EBPF_ALU_OP_MASK \<noteq> 0xd0)"
  "exec_alu64 inst reg \<noteq> None \<Longrightarrow> opcode inst AND EBPF_CLS_MASK = EBPF_CLS_ALU64"
  "exec_endian inst reg \<noteq> None \<Longrightarrow> opcode inst \<in> {EBPF_OP_LE, EBPF_OP_BE, EBPF_OP_BSWAP}"
  unfolding exec_alu32_def exec_endian_def exec_alu64_def Let_def
  by (auto simp: opcode_vals split: if_splits)

lemma and_low32: "v AND UINT32_MAX = low32 v" by (simp add: low32_def c_conv)

lemma row_triple:
  assumes "realizes m (computes d F)" and "\<forall>r reg. reg (dst inst) = r d \<longrightarrow> reg (src inst) = r s \<longrightarrow> ex inst reg = Some (F r)"
    and "d = mreg (dst inst)" and "s = mreg (src inst)"
  shows "triple m (at_start r) (at_end d r (F r))"
proof (rule triple_computes [OF assms(1)])
  show "d \<noteq> 4" using assms(3) mreg_scratch by simp
  show "F p = F q" if "\<And>x. x \<noteq> 4 \<Longrightarrow> p x = q x" for p q
    using assms(2) [rule_format, of "\<lambda>x. p (mreg x)" p] assms(2) [rule_format, of "\<lambda>x. p (mreg x)" q] that assms(3,4) mreg_scratch
    by simp
qed (auto simp: at_start_def at_end_def)

lemma alu64_triple:
  assumes "(opcode inst, m) \<in> set (x86_alu64 vm inst (map_register (src inst)) (map_register (dst inst)))"
    and "exec_alu64 inst reg = Some v" and "reg (dst inst) = r (mreg (dst inst))" and "reg (src inst) = r (mreg (src inst))"
    and "is_muldivmod (opcode inst) \<longrightarrow> offset inst = 0 \<or> offset inst = 1"
  shows "triple m (at_start r) (at_end (mreg (dst inst)) r v)"
proof (cases "is_muldivmod (opcode inst)")
  case False
  note row = alu64_row [OF assms(1) [unfolded map_register] False mreg_scratch(5,1)]
  then obtain F where F: "realizes m (computes (mreg (dst inst)) F)"
    "\<forall>r reg. reg (dst inst) = r (mreg (dst inst)) \<longrightarrow> reg (src inst) = r (mreg (src inst)) \<longrightarrow> exec_alu64 inst reg = Some (F r)" by blast
  then have "F r = v" using assms(2-4) by auto
  with row_triple [where ex = exec_alu64, OF F refl refl, of r] show ?thesis by simp
next
  case True
  then have m: "m = emit_muldivmod vm (opcode inst) (ucast (mreg (src inst))) (ucast (mreg (dst inst))) (imm inst) (offset inst)"
    and op: "opcode inst \<in> {0x27, 0x2f, 0x37, 0x3f, 0x97, 0x9f}"
    using assms(1) by (auto simp: x86_alu64_def Let_def is_muldivmod_def opcode_vals map_register)
  let ?is_reg = "opcode inst AND EBPF_SRC_REG = EBPF_SRC_REG"
  have v: "v = muldivmod_value (opcode inst) (offset inst = 1) (r (mreg (dst inst))) (if ?is_reg then r (mreg (src inst)) else scast (imm inst))"
    using assms(2-5) True op
    by (auto simp: exec_alu64_def muldivmod_value_def alu_op_def opcode_vals division_values)
  have "opcode inst AND EBPF_CLS_MASK = EBPF_CLS_ALU64" "alu_op (opcode inst) \<in> {0x20, 0x30, 0x90}" using op by (auto simp: opcode_vals alu_op_def)
  with triple_muldivmod [OF _ _ _ refl refl, of "mreg (dst inst)" "mreg (src inst)" "opcode inst" vm "imm inst" "offset inst" r]
  show ?thesis unfolding m v by (simp add: mreg_scratch)
qed

lemma endian_triple:
  assumes "(opcode inst, m) \<in> set (x86_endian inst (map_register (dst inst)))"
    and "exec_endian inst reg = Some v" and "reg (dst inst) = r (mreg (dst inst))" and "reg (src inst) = r (mreg (src inst))"
  shows "triple m (at_start r) (at_end (mreg (dst inst)) r v)"
proof -
  obtain F where F: "realizes m (computes (mreg (dst inst)) F)"
    "\<forall>r reg. reg (dst inst) = r (mreg (dst inst)) \<longrightarrow> reg (src inst) = r (mreg (src inst)) \<longrightarrow> exec_endian inst reg = Some (F r)"
    using endian_row [OF assms(1) [unfolded map_register]] by blast
  then have "F r = v" using assms(2-4) by auto
  with row_triple [where ex = exec_endian, OF F refl refl, of r] show ?thesis by simp
qed

lemma triple_truncate:
  assumes "d \<notin> {1, 4, 5, 11}"
  shows "triple (emit_truncate_u32 (ucast d)) (\<lambda>a. \<exists>v. low32 v = u \<and> at_end d r v a) (at_end d r u)"
proof (rule triple_computes)
  have "realizes (emit_truncate_u32 (ucast d)) (reg_fun (\<lambda>r. r(d := low32 (r d))))"
    using realizes_alu_imm(2) [of 4 Xand d "0xffffffff"]
    by (simp add: emit_truncate_u32_def alu_of_ext_def writes_result_def alu_value_def)
  then show "realizes (emit_truncate_u32 (ucast d)) (computes d (\<lambda>r. low32 (r d)))" by (rule realizes_computes) simp_all
qed (use assms in \<open>auto simp: at_end_def\<close>)

lemma alu32_triple:
  assumes "(opcode inst, m) \<in> set (x86_alu32 vm inst (map_register (src inst)) (map_register (dst inst)))"
    and "exec_alu32 inst reg = Some v" and "reg (dst inst) = r (mreg (dst inst))" and "reg (src inst) = r (mreg (src inst))"
    and "is_muldivmod (opcode inst) \<longrightarrow> offset inst = 0 \<or> offset inst = 1"
  shows "triple (do { m; emit_truncate_u32 (map_register (dst inst)) }) (at_start r) (at_end (mreg (dst inst)) r v)"
proof (cases "is_muldivmod (opcode inst)")
  case False
  note row = alu32_row [OF assms(1) [unfolded map_register] False mreg_scratch(5,1)]
  then obtain F where F: "realizes m (computes (mreg (dst inst)) F)"
    "\<forall>r reg. reg (dst inst) = r (mreg (dst inst)) \<longrightarrow> reg (src inst) = r (mreg (src inst)) \<longrightarrow> exec_alu32 inst reg = Some (low32 (F r))" by blast
  then have "low32 (F r) = v" using assms(2-4) by auto
  with row_triple [where ex = exec_alu32, OF realizes_truncate [OF F(1)] F(2) refl refl, of r] show ?thesis by (simp add: map_register)
next
  case True
  then have m: "m = emit_muldivmod vm (opcode inst) (ucast (mreg (src inst))) (ucast (mreg (dst inst))) (imm inst) (offset inst)"
    and op: "opcode inst \<in> {0x24, 0x2c, 0x34, 0x3c, 0x94, 0x9c}"
    using assms(1) by (auto simp: x86_alu32_def Let_def is_muldivmod_def opcode_vals map_register)
  let ?is_reg = "opcode inst AND EBPF_SRC_REG = EBPF_SRC_REG"
  have v: "v = low32 (muldivmod_value (opcode inst) (offset inst = 1) (r (mreg (dst inst))) (if ?is_reg then r (mreg (src inst)) else scast (imm inst)))"
    using assms(2-5) True op
    by (auto simp: exec_alu32_def muldivmod_value_def alu_op_def opcode_vals division_values u32_def and_low32)
  have "opcode inst AND EBPF_CLS_MASK \<noteq> EBPF_CLS_ALU64" "alu_op (opcode inst) \<in> {0x20, 0x30, 0x90}" using op by (auto simp: opcode_vals alu_op_def)
  with triple_muldivmod [OF _ _ _ refl refl, of "mreg (dst inst)" "mreg (src inst)" "opcode inst" vm "imm inst" "offset inst" r]
  have "triple m (at_start r) (\<lambda>a. \<exists>u. low32 u = v \<and> at_end (mreg (dst inst)) r u a)" unfolding m v by (simp add: mreg_scratch)
  from triple_seq [OF this triple_truncate] show ?thesis by (simp add: map_register mreg_scratch)
qed

lemma alu_triple:
  assumes "exec_alu inst reg = Some v" and "reg (dst inst) = r (mreg (dst inst))" and "reg (src inst) = r (mreg (src inst))"
    and "is_muldivmod (opcode inst) \<longrightarrow> offset inst = 0 \<or> offset inst = 1"
  shows "\<exists>m. x86_body vm inst i = do { m; State_Monad.return True } \<and> triple m (at_start r) (at_end (mreg (dst inst)) r v)"
proof -
  let ?s = "map_register (src inst)" and ?d = "map_register (dst inst)"
  consider (alu32) "exec_alu32 inst reg = Some v" | (endian) "exec_alu32 inst reg = None" "exec_endian inst reg = Some v"
    | (alu64) "exec_alu32 inst reg = None" "exec_endian inst reg = None" "exec_alu64 inst reg = Some v"
    using assms(1) by (auto simp: exec_alu_def split: option.splits)
  then obtain m where m: "map_of (alu_cases vm inst) (opcode inst) = Some m"
    and t: "triple (do { m; if_then (opcode inst AND EBPF_CLS_MASK = EBPF_CLS_ALU \<and> opcode inst AND EBPF_ALU_OP_MASK \<noteq> 0xd0) (emit_truncate_u32 ?d) })
      (at_start r) (at_end (mreg (dst inst)) r v)"
  proof cases
    case alu32
    then obtain m where m: "map_of (x86_alu32 vm inst ?s ?d) (opcode inst) = Some m"
      using alu32_defined [of vm inst ?s ?d reg] by auto
    from alu32_triple [OF map_of_SomeD [OF m] alu32 assms(2-4)] m alu_opcode_class(1) [of inst reg] alu32
    show thesis by (intro that [of m]) (simp_all add: alu_cases_def bind_simps)
  next
    case endian
    then obtain m where m: "map_of (x86_endian inst ?d) (opcode inst) = Some m" "map_of (x86_alu32 vm inst ?s ?d) (opcode inst) = None"
      using alu32_defined [of vm inst ?s ?d reg] endian_defined [of inst ?d reg] by auto
    from endian_triple [OF map_of_SomeD [OF m(1)] endian(2) assms(2,3)] m alu_opcode_class(2) [of inst reg] endian
    show thesis by (intro that [of m]) (auto simp: alu_cases_def bind_simps map_add_def if_then_def)
  next
    case alu64
    then obtain m where m: "map_of (x86_alu64 vm inst ?s ?d) (opcode inst) = Some m" "map_of (x86_alu32 vm inst ?s ?d) (opcode inst) = None"
      "map_of (x86_endian inst ?d) (opcode inst) = None"
      using alu32_defined [of vm inst ?s ?d reg] endian_defined [of inst ?d reg] alu64_defined [of vm inst ?s ?d reg] by auto
    from alu64_triple [OF map_of_SomeD [OF m(1)] alu64(3) assms(2-4)] m alu_opcode_class(3) [of inst reg] alu64
    show thesis by (intro that [of m]) (auto simp: alu_cases_def bind_simps map_add_def opcode_vals)
  qed
  have "opcode inst AND EBPF_CLS_MASK \<in> {EBPF_CLS_ALU, EBPF_CLS_ALU64}"
    using assms(1) alu_opcode_class(1,3,4) [of inst reg] by (auto simp: exec_alu_def opcode_vals split: option.splits)
  then have "opcode inst \<noteq> EBPF_OP_CALL" "opcode inst \<noteq> EBPF_OP_LDDW" "opcode inst \<noteq> EBPF_OP_ATOMIC_STORE" "opcode inst \<noteq> EBPF_OP_ATOMIC32_STORE"
    by (auto simp: opcode_vals)
  moreover have "map_of (alu_cases vm inst @ rest) (opcode inst) = Some m" for rest using m by simp
  ultimately have "x86_switch vm inst i = do { m; State_Monad.return True }"
    unfolding alu_cases_def append_assoc by (simp only: x86_switch_def Let_def option.case if_False disj_not1 simp_thms)
  then have "x86_body vm inst i = do {
      do { m; if_then (opcode inst AND EBPF_CLS_MASK = EBPF_CLS_ALU \<and> opcode inst AND EBPF_ALU_OP_MASK \<noteq> 0xd0) (emit_truncate_u32 ?d) };
      State_Monad.return True }"
    by (simp add: x86_body_def bind_bind bind_simps)
  with t show ?thesis by blast
qed

section \<open>Arithmetic\<close>

definition regs_match :: "registers \<Rightarrow> x86_state \<Rightarrow> bool" where
  "regs_match reg x \<longleftrightarrow> (\<forall>q\<le>10. xreg x (mreg q) = reg q)"

definition emitted :: "jit_state \<Rightarrow> jit_state \<Rightarrow> uint8_t list" where
  "emitted s s' = drop (unat (jit_offset s)) (take (unat (jit_offset s')) (jit_buf s'))"

lemma extends_by_emitted:
  assumes "room s" and "extends_by s bs s'"
  shows "emitted s s' = bs" and "unat (jit_offset s') = unat (jit_offset s) + length bs"
proof -
  have fit: "unat (jit_offset s) + length bs \<le> unat (jit_size s)" using assms(2) by (simp add: extends_by_def)
  from append_code_append(2) [OF assms(1) fit] assms(2) show o: "unat (jit_offset s') = unat (jit_offset s) + length bs"
    by (auto simp: extends_by_def)
  have "length (jit_buf s) = unat (jit_size s)" using assms(1) by (simp add: room_def)
  with o fit assms(2) show "emitted s s' = bs"
    by (auto simp: extends_by_def emitted_def append_code_def patch_bytes_def)
qed

lemma code_at_emitted: "code_at (jit_buf s') (unat (jit_offset s)) (emitted s s')"
proof -
  have "drop i xs = drop i (take j xs) @ drop (max i j) xs" for i j and xs :: "uint8_t list"
    by (cases "i \<le> j") (simp_all add: drop_take max_def, metis append_take_drop_id drop_drop le_add_diff_inverse2)
  then show ?thesis unfolding code_at_def emitted_def by blast
qed

lemma triple_run:
  assumes "triple m (at_start (xreg x)) (at_end d (xreg x) v)" and "room s" and "run_state m s = ((), s')" and "jit_status s' = NoError"
    and "code_at code (unat (jit_offset s)) (emitted s s')" and "xip x = int (unat (jit_offset s))" and "stack_room x" and "d \<noteq> 4"
  shows "\<exists>x'. reaches base code x x' \<and> xip x' = int (unat (jit_offset s')) \<and> xreg x' d = v \<and>
    (\<forall>q. q \<notin> {d, 1, 4, 11} \<longrightarrow> xreg x' q = xreg x q) \<and> on_stack x [] x'"
proof -
  from tripleD(3) [OF assms(1-4)] obtain bs where bs: "extends_by s bs s'" "runs_code bs (at_start (xreg x)) (at_end d (xreg x) v)" by blast
  note e = extends_by_emitted [OF assms(2) bs(1)]
  have "sim x (xreg x, xflags x, []) x" "at_start (xreg x) (xreg x, xflags x, [])"
    by (simp_all add: sim_def on_stack_Nil at_start_def)
  from runs_codeD [OF bs(2) assms(5) [unfolded e] assms(6,7) this] obtain a' x' where
    x': "reaches base code x x'" "xip x' = int (unat (jit_offset s'))" "sim x a' x'" "at_end d (xreg x) v a'"
    unfolding e by blast
  then have "xreg x' d = v" "\<forall>q. q \<notin> {d, 1, 4, 11} \<longrightarrow> xreg x' q = xreg x q" "on_stack x [] x'"
    using assms(8) by (auto simp: sim_def at_end_def)
  with x'(1,2) show ?thesis by blast
qed

text \<open>A buffer of 128 bytes, and a processor about to run the code in it.\<close>

definition demo_state :: jit_state where
  "demo_state = \<lparr>jit_buf = replicate 128 0, jit_offset = 0, jit_size = 128, pc_locs = (\<lambda>_. 0), exit_loc = 0, entry_loc = 0,
     unwind_loc = 0, retpoline_loc = 0, dispatcher_loc = 0, helper_table_loc = 0, jit_status = NoError, state_jit_mode = BasicJitMode,
     jumps = [], loads = [], leas = [], local_calls = Some [], stack_size = 0, bpf_function_prolog_size = 0, jit_errmsg = None,
     jit_randoms = (\<lambda>_. 0), jit_fault = False\<rparr>"

definition demo_x86 :: "registers \<Rightarrow> x86_state" where
  "demo_x86 reg = \<lparr>xreg = (\<lambda>q. reg (unmreg q)), xflags = None, xmem = (\<lambda>_. Some 0), xip = 0\<rparr>"

lemma demo_x86: "room demo_state" "jit_offset demo_state = 0" "xip (demo_x86 reg) = 0" "stack_room (demo_x86 reg)" "regs_match reg (demo_x86 reg)"
  by (simp_all add: demo_state_def room_def demo_x86_def stack_room_def regs_match_def unmreg_mreg dom_def)

text \<open>
  C4. The native code that the x86-64 back end generates for an arithmetic instruction computes what
  the interpreter computes, for every opcode, in all widths, with constant blinding on or off: from
  a machine state whose registers hold the program's registers, the code runs to its end, the
  destination's register then holds the interpreter's result, and every other register of the
  program, the frame pointer, the stack pointer and the memory outside the 32 bytes below the
  stack pointer are unchanged.
\<close>

theorem jit_alu_correct:
  assumes "exec_alu inst reg = Some v" and "dst inst \<le> 10" and "src inst \<le> 10"
    and "is_muldivmod (opcode inst) \<longrightarrow> offset inst = 0 \<or> offset inst = 1"
    and "room s" and "run_state (x86_body vm inst i) s = (ok, s')" and "jit_status s' = NoError"
    and "code_at code (unat (jit_offset s)) (emitted s s')"
    and "xip x = int (unat (jit_offset s))" and "stack_room x" and "regs_match reg x"
  shows "ok \<and> (\<exists>x'. reaches base code x x' \<and> xip x' = int (unat (jit_offset s')) \<and>
    regs_match (reg(dst inst := v)) x' \<and> xreg x' 4 = xreg x 4 \<and> xreg x' 5 = xreg x 5 \<and>
    (\<forall>a. a \<notin> red_zone x \<longrightarrow> xmem x' a = xmem x a))"
proof -
  have "reg (dst inst) = xreg x (mreg (dst inst))" "reg (src inst) = xreg x (mreg (src inst))"
    using assms(2,3,11) by (simp_all add: regs_match_def)
  from alu_triple [OF assms(1) this assms(4), of vm i] obtain m where body: "x86_body vm inst i = do { m; State_Monad.return True }"
    and t: "triple m (at_start (xreg x)) (at_end (mreg (dst inst)) (xreg x) v)" by blast
  from body assms(6) have run: "run_state m s = ((), s')" and ok by (auto split: prod.splits)
  from triple_run [OF t assms(5) run assms(7-10) mreg_scratch(2)] obtain x' where
    x': "reaches base code x x'" "xip x' = int (unat (jit_offset s'))" "xreg x' (mreg (dst inst)) = v"
      "\<forall>q. q \<notin> {mreg (dst inst), 1, 4, 11} \<longrightarrow> xreg x' q = xreg x q" "on_stack x [] x'" by blast
  have "regs_match (reg(dst inst := v)) x'"
    using x'(3,4) assms(2,11) mreg_inj mreg_scratch by (auto simp: regs_match_def)
  with x' \<open>ok\<close> mreg_scratch(3) [of "dst inst"] show ?thesis by (auto simp: on_stack_def)
qed

theorem jit_alu_correct_witness:
  "let inst = \<lparr>opcode = EBPF_OP_DIV64_REG, dst = 1, src = 2, offset = 1, imm = 0\<rparr>;
       reg = (\<lambda>q. if q = 1 then INT64_MIN else - 1);
       s' = snd (run_state (x86_body (the (ubpf_create JIT_x86_64 (\<lambda>_. True))) inst 0) demo_state) in
   \<exists>x'. reaches 0 (jit_buf s') (demo_x86 reg) x' \<and> xip x' = int (unat (jit_offset s')) \<and> regs_match (reg(1 := INT64_MIN)) x'"
proof -
  let ?inst = "\<lparr>opcode = EBPF_OP_DIV64_REG, dst = 1, src = 2, offset = 1, imm = 0\<rparr>"
  let ?reg = "\<lambda>q. if q = 1 then INT64_MIN else - 1"
  let ?vm = "the (ubpf_create JIT_x86_64 (\<lambda>_. True))"
  let ?run = "run_state (x86_body ?vm ?inst 0) demo_state"
  have "x86_body ?vm ?inst 0 = do { emit_muldivmod ?vm EBPF_OP_DIV64_REG (map_register 2) (map_register 1) 0 1; State_Monad.return True }"
    by (simp add: x86_body_def x86_switch_def Let_def x86_alu32_def x86_endian_def x86_alu64_def opcode_vals bind_bind bind_simps)
  moreover have "jit_status (snd (run_state (emit_muldivmod ?vm EBPF_OP_DIV64_REG (map_register 2) (map_register 1) 0 1) demo_state)) = NoError"
    by code_simp
  ultimately have ok: "jit_status (snd ?run) = NoError" by (simp add: case_prod_beta)
  have "exec_alu ?inst ?reg = Some INT64_MIN" "(1 :: uint4_t) \<le> 10" "(2 :: uint4_t) \<le> 10" by code_simp+
  with jit_alu_correct [where base = 0 and inst = ?inst and reg = ?reg, OF _ _ _ _ demo_x86(1) prod.collapse [symmetric] ok code_at_emitted _ demo_x86(4,5)]
  show ?thesis unfolding Let_def by (simp add: demo_x86) blast
qed

end
