(* ===== verification/X86_Mem.thy ===== *)
theory X86_Mem
  imports X86_Correct
begin

text \<open>
  The native code of loads and stores. The program's memory is a part of the memory of the
  processor, apart from the zone that generated code uses below the stack pointer.
\<close>

section \<open>Memory inside memory\<close>

lemma map_leD: "m \<subseteq>\<^sub>m m' \<Longrightarrow> m a = Some b \<Longrightarrow> m' a = Some b"
  by (metis domI map_le_def)

lemma load_le_mono:
  assumes "m \<subseteq>\<^sub>m m'" and "load_le m a n = Some v"
  shows "load_le m' a n = Some v"
proof -
  have "load_bytes m a n = Some bs \<Longrightarrow> load_bytes m' a n = Some bs" for bs
    by (induction n arbitrary: a bs) (auto simp: map_leD [OF assms(1)] split: option.splits)
  with assms(2) show ?thesis by (auto simp: load_le_def)
qed

lemma store_le_mono:
  assumes "m \<subseteq>\<^sub>m m'" and "store_le m a v n = Some h"
  shows "\<exists>h'. store_le m' a v n = Some h' \<and> h \<subseteq>\<^sub>m h' \<and> (\<forall>b. b \<notin> dom m \<longrightarrow> h' b = m' b)"
proof -
  have "store_bytes m a bs = Some h \<Longrightarrow> \<exists>h'. store_bytes m' a bs = Some h' \<and> h \<subseteq>\<^sub>m h' \<and> (\<forall>b. b \<notin> dom m \<longrightarrow> h' b = m' b)" for bs
    using assms(1)
  proof (induction bs arbitrary: m m' a)
    case (Cons b bs)
    then obtain c where c: "m a = Some c" "store_bytes (m(a \<mapsto> b)) (a + 1) bs = Some h" by (auto split: option.splits)
    have "m(a \<mapsto> b) \<subseteq>\<^sub>m m'(a \<mapsto> b)" using Cons.prems(2) by (simp add: map_le_def)
    from Cons.IH [OF c(2) this] obtain h' where h': "store_bytes (m'(a \<mapsto> b)) (a + 1) bs = Some h'" "h \<subseteq>\<^sub>m h'"
      "\<forall>x. x \<notin> dom (m(a \<mapsto> b)) \<longrightarrow> h' x = (m'(a \<mapsto> b)) x" by blast
    have "h' x = m' x" if "x \<notin> dom m" for x
    proof -
      have "x \<noteq> a" using that c(1) by auto
      with h'(3) [rule_format, of x] that show ?thesis by simp
    qed
    with h'(1,2) map_leD [OF Cons.prems(2) c(1)] show ?case by auto
  qed auto
  with assms(2) show ?thesis by (simp add: store_le_def)
qed

section \<open>Code that may fault\<close>

text \<open>\<open>acts m G R\<close>: from a state that satisfies \<open>G\<close> the code runs to its end, and \<open>R\<close> relates the states before and after.\<close>

definition acts :: "unit jit \<Rightarrow> (x86_state \<Rightarrow> bool) \<Rightarrow> (x86_state \<Rightarrow> x86_state \<Rightarrow> bool) \<Rightarrow> bool" where
  "acts m G R \<longleftrightarrow> yields m (\<lambda>is. \<forall>x. G x \<longrightarrow> (\<exists>x'. exec_list is x = Some x' \<and> R x x'))"

lemma acts_one:
  assumes "emits m b" and "\<And>rest. decode (b @ rest) = Some (i, length b)" and "plain i"
    and "\<And>x. G x \<Longrightarrow> \<exists>x'. exec_plain i x = Some x' \<and> R x x'"
  shows "acts m G R"
  unfolding acts_def
  by (rule yields_emits [OF assms(1) decodes_one [OF assms(2)]]) (use assms(3,4) in \<open>fastforce split: option.split\<close>)+

lemma acts_after:
  assumes "realizes m R" and "acts n H S" and "\<And>x y. G x \<Longrightarrow> R x y \<Longrightarrow> H y" and "\<And>x y z. G x \<Longrightarrow> R x y \<Longrightarrow> S y z \<Longrightarrow> Q x z"
  shows "acts (State_Monad.bind m (\<lambda>_. n)) G Q"
  unfolding acts_def
proof (rule yields_bind [OF assms(1) [unfolded realizes_def] assms(2) [unfolded acts_def]], intro allI impI)
  fix "is" js x assume x: "G x" and ij: "\<forall>x. \<exists>x'. exec_list is x = Some x' \<and> R x x'" "\<forall>x. H x \<longrightarrow> (\<exists>x'. exec_list js x = Some x' \<and> S x x')"
  from ij(1) obtain y where y: "exec_list is x = Some y" "R x y" by blast
  with ij(2) assms(3) [OF x] obtain z where "exec_list js y = Some z" "S y z" by blast
  with y assms(4) [OF x y(2)] show "\<exists>x'. exec_list (is @ js) x = Some x' \<and> Q x x'" by (auto simp: exec_list_append)
qed

lemma acts_generate: "(\<And>r. acts (f r) G R) \<Longrightarrow> acts (State_Monad.bind ubpf_generate_blinding_constant f) G R"
  unfolding acts_def by (rule yields_generate)

section \<open>Loads\<close>

definition loads_reg :: "x86_reg \<Rightarrow> (uint64_t \<Rightarrow> uint64_t) \<Rightarrow> nat \<Rightarrow> x86_reg \<Rightarrow> int32_t \<Rightarrow> unit jit \<Rightarrow> bool" where
  "loads_reg d F n b off m \<longleftrightarrow>
     (\<forall>v. acts m (\<lambda>x. load_le (xmem x) (xreg x b + scast off) n = Some v)
        (\<lambda>x x'. x' = set_xreg d (F v) x))"

lemma emits_load:
  "emits (emit_load z (ucast b) (ucast d) off)
     (if z = S8 then x_mem_op2 False 0xb6 d b off else if z = S16 then x_mem_op2 False 0xb7 d b off else x_mem_op (z = S64) 0x8b d b off)"
  unfolding emit_load_def x_mem_op_def x_mem_op2_def
  using emits_bind [OF emits_basic_rex [of "z = S64" d b] emits_bind [OF emits_if [OF emits_bind [OF emits_emit1 [of "0x0f"] emits_emit1 [of "if z = S8 then 0xb6 else 0xb7"]] emits_emit1 [of "0x8b"], of "z = S8 \<or> z = S16"] emits_mem [of d b off]]]
  by (cases z) simp_all

lemma emits_load_sx:
  "z \<noteq> S64 \<Longrightarrow> emits (emit_load_sx z (ucast b) (ucast d) off)
     (if z = S8 then x_mem_op2 True 0xbe d b off else if z = S16 then x_mem_op2 True 0xbf d b off else x_mem_op True 0x63 d b off)"
  unfolding emit_load_sx_def x_mem_op_def x_mem_op2_def
  using emits_bind [OF emits_basic_rex [of True d b] emits_bind [OF emits_emit1 [of "0x0f"] emits_bind [OF emits_if [OF emits_emit1 [of "0xbe"] emits_emit1 [of "0xbf"], of "z = S8"] emits_mem [of d b off]]]]
    emits_bind [OF emits_basic_rex [of True d b] emits_bind [OF emits_emit1 [of "0x63"] emits_mem [of d b off]]]
  by (cases z) simp_all

lemma loads_reg:
  assumes "b \<noteq> 4"
  shows "loads_reg d (\<lambda>v. v) (size_bytes z) b off (emit_load z (ucast b) (ucast d) off)"
    and "z \<noteq> S64 \<Longrightarrow> loads_reg d (signed_take_bit (8 * size_bytes z - 1)) (size_bytes z) b off (emit_load_sx z (ucast b) (ucast d) off)"
proof -
  note l = emits_load [of z b d off] and sx = emits_load_sx [of z b d off] and dec = decode_load [OF assms]
  note ex = exec_plain_def exec_instr_def read_rm_def rm_address_def set_xreg_def sign_extend_from_def truncate_width
  show "loads_reg d (\<lambda>v. v) (size_bytes z) b off (emit_load z (ucast b) (ucast d) off)"
    unfolding loads_reg_def
  proof (intro allI acts_one [OF l])
    fix rest
    show "decode ((if z = S8 then x_mem_op2 False 0xb6 d b off else if z = S16 then x_mem_op2 False 0xb7 d b off else x_mem_op (z = S64) 0x8b d b off) @ rest) =
      Some (Xload (size_bytes z) d (Xmem b off), length (if z = S8 then x_mem_op2 False 0xb6 d b off else if z = S16 then x_mem_op2 False 0xb7 d b off else x_mem_op (z = S64) 0x8b d b off))"
      using dec by (cases z) (simp_all add: size_bytes_def width_def)
  qed (simp_all add: plain_def ex)
  assume z: "z \<noteq> S64"
  show "loads_reg d (signed_take_bit (8 * size_bytes z - 1)) (size_bytes z) b off (emit_load_sx z (ucast b) (ucast d) off)"
    unfolding loads_reg_def
  proof (intro allI acts_one [OF sx [OF z]])
    fix rest
    show "decode ((if z = S8 then x_mem_op2 True 0xbe d b off else if z = S16 then x_mem_op2 True 0xbf d b off else x_mem_op True 0x63 d b off) @ rest) =
      Some (Xload_sx (size_bytes z) True d (Xmem b off), length (if z = S8 then x_mem_op2 True 0xbe d b off else if z = S16 then x_mem_op2 True 0xbf d b off else x_mem_op True 0x63 d b off))"
      using dec z by (cases z) (simp_all add: size_bytes_def)
  qed (simp_all add: plain_def ex)
qed

section \<open>Stores\<close>

definition stores_value :: "operand_size \<Rightarrow> x86_reg \<Rightarrow> int32_t \<Rightarrow> ((x86_reg \<Rightarrow> uint64_t) \<Rightarrow> uint64_t) \<Rightarrow> unit jit \<Rightarrow> bool" where
  "stores_value z b off V m \<longleftrightarrow>
     (\<forall>h. acts m (\<lambda>x. store_le (xmem x) (xreg x b + scast off) (V (xreg x)) (size_bytes z) = Some h)
        (\<lambda>x x'. xmem x' = h \<and> (\<forall>q. q \<noteq> 11 \<longrightarrow> xreg x' q = xreg x q)))"

lemma store_le_low: "take_bit (8 * n) u = take_bit (8 * n) v \<Longrightarrow> store_le m a u n = store_le m a v n"
  unfolding store_le_def by (metis le_bytes_take_bit)

lemma stores_reg:
  assumes "b \<noteq> 4"
  shows "stores_value z b off (\<lambda>r. r s) (emit_store z (ucast s) (ucast b) off)"
  unfolding stores_value_def
  by (intro allI acts_one [OF emits_store decode_store [OF assms]])
    (simp_all add: plain_def exec_plain_def exec_instr_def write_rm_def rm_address_def)

lemma stores_imm:
  assumes "b \<noteq> 4"
  shows "stores_value z b off (\<lambda>_. scast im) (emit_store_imm32 z (ucast b) off im)"
proof -
  let ?i = "case z of S8 \<Rightarrow> ucast (ucast im :: uint8_t) | S16 \<Rightarrow> ucast (ucast im :: uint16_t) | _ \<Rightarrow> im"
  have "take_bit (8 * size_bytes z) (scast ?i :: uint64_t) = take_bit (8 * size_bytes z) (scast im)"
    by (cases z; simp add: size_bytes_def; rule bit_word_eqI; auto simp: bit_simps)
  then have "store_le m a (scast ?i) (size_bytes z) = store_le m a (scast im) (size_bytes z)" for m a by (rule store_le_low)
  then show ?thesis
    unfolding stores_value_def
    by (intro allI acts_one [OF emits_store_imm decode_store_imm [OF assms]])
      (simp_all add: plain_def exec_plain_def exec_instr_def write_rm_def rm_address_def)
qed

lemma stores_blinded:
  assumes "b \<noteq> 4" and "b \<noteq> 11"
  shows "stores_value z b off (\<lambda>_. scast im) (emit_store_imm32_blinded z (ucast b) off im)"
  unfolding stores_value_def
proof (intro allI)
  fix h
  let ?G = "\<lambda>x. store_le (xmem x) (xreg x b + scast off) (scast im) (size_bytes z) = Some h"
  let ?R = "\<lambda>x x'. xmem x' = h \<and> (\<forall>q. q \<noteq> 11 \<longrightarrow> xreg x' q = xreg x q)"
  have st: "acts (emit_store z R11 (ucast b) off) (\<lambda>x. store_le (xmem x) (xreg x b + scast off) (xreg x 11) (size_bytes z) = Some h) ?R"
    using stores_reg [OF assms(1), of z off 11] by (simp add: stores_value_def)
  have "take_bit (8 * size_bytes z) (ucast im :: uint64_t) = take_bit (8 * size_bytes z) (scast im)" if "z \<noteq> S64"
    using that by (cases z; simp add: size_bytes_def; intro bit_word_eqI; auto simp: bit_simps)
  note low = store_le_low [OF this]
  have "acts (do { (if z = S64 then do { emit_alu64_imm32 0xc7 0 R11 (im XOR k); emit_alu64_imm32 0x81 6 R11 k }
      else do { emit_alu32_imm32 0xc7 0 R11 (im XOR k); emit_alu32_imm32 0x81 6 R11 k }); emit_store z R11 (ucast b) off }) ?G ?R" for k
  proof (cases "z = S64")
    case True
    then show ?thesis unfolding if_P [OF True]
      by (intro acts_after [OF realizes_blinded_operand(1) st]) (use assms in \<open>auto simp: reg_fun_def\<close>)
  next
    case False
    then show ?thesis unfolding if_not_P [OF False]
      by (intro acts_after [OF realizes_blinded_operand(2) st]) (use assms low in \<open>auto simp: reg_fun_def\<close>)
  qed
  then show "acts (emit_store_imm32_blinded z (ucast b) off im) ?G ?R"
    unfolding emit_store_imm32_blinded_def Let_def by (intro acts_generate) (simp add: bind_bind)
qed

section \<open>The cases of the switch\<close>

definition mem_rows :: "ubpf_vm \<Rightarrow> ebpf_inst \<Rightarrow> (uint8_t \<times> unit jit) list" where
  "mem_rows vm inst = x86_mem vm inst (map_register (src inst)) (map_register (dst inst))"

lemma row_classes:
  "p \<in> fst ` set (x86_alu32 vm inst s d) \<union> fst ` set (x86_endian inst d) \<union> fst ` set (x86_alu64 vm inst s d) \<union>
     fst ` set (x86_jump vm inst s d t) \<union> fst ` set (x86_jump32 vm inst s d t) \<Longrightarrow> p AND 7 \<in> {4, 5, 6, 7} \<and> p \<noteq> 0x95"
  by (simp add: x86_alu32_def x86_endian_def x86_alu64_def x86_jump_def x86_jump32_def Let_def opcode_vals, elim disjE; simp)

lemma switch_mem:
  assumes "map_of (mem_rows vm inst) (opcode inst) = Some m"
  shows "x86_body vm inst i = do { m; State_Monad.return True }"
proof -
  have op: "opcode inst \<in> {0x95, 0x61, 0x69, 0x71, 0x79, 0x81, 0x89, 0x91, 0x62, 0x6a, 0x72, 0x7a, 0x63, 0x6b, 0x73, 0x7b}"
    using map_of_SomeD [OF assms] by (auto simp: mem_rows_def x86_mem_def opcode_vals Let_def)
  then have mem: "opcode inst AND 7 \<notin> {4, 5, 6, 7} \<or> opcode inst = 0x95" by auto
  have none: "map_of (x86_alu32 vm inst s d) (opcode inst) = None" "map_of (x86_endian inst d) (opcode inst) = None"
    "map_of (x86_alu64 vm inst s d) (opcode inst) = None" "map_of (x86_jump vm inst s d t) (opcode inst) = None"
    "map_of (x86_jump32 vm inst s d t) (opcode inst) = None" for s d t
    using row_classes [where t = t] mem unfolding map_of_eq_None_iff by blast+
  have "opcode inst \<noteq> EBPF_OP_CALL" "opcode inst \<noteq> EBPF_OP_LDDW" "opcode inst \<noteq> EBPF_OP_ATOMIC_STORE" "opcode inst \<noteq> EBPF_OP_ATOMIC32_STORE"
    using op by (auto simp: opcode_vals)
  with assms have "x86_switch vm inst i = do { m; State_Monad.return True }"
    by (simp add: x86_switch_def mem_rows_def Let_def map_add_def none)
  with op show ?thesis
    by (auto simp: x86_body_def bind_bind bind_simps opcode_vals)
qed

lemma acts_run:
  assumes "acts m G R" and "room s" and "run_state m s = ((), s')" and "jit_status s' = NoError"
    and "code_at code (unat (jit_offset s)) (emitted s s')" and "xip x = int (unat (jit_offset s))" and "G x"
  shows "\<exists>x'. R x x' \<and> reaches base code x (x'\<lparr>xip := int (unat (jit_offset s'))\<rparr>)"
proof -
  from yieldsD(3) [OF assms(1) [unfolded acts_def] assms(2-4)] assms(7) obtain bs "is" x' where
    bs: "extends_by s bs s'" "decodes bs is" "list_all plain is" and x': "exec_list is x = Some x'" "R x x'" by blast
  note e = extends_by_emitted [OF assms(2) bs(1)]
  from decodes_run [OF bs(2,3) assms(5) [unfolded e] assms(6) x'(1)] x'(2) show ?thesis unfolding e by blast
qed

lemma scast_scast_offset: "(scast (scast (off :: int16_t) :: int32_t) :: uint64_t) = scast off"
  by (rule bit_word_eqI) (auto simp: bit_simps min_def split: if_splits)

lemma effective_address_wraps: "COMPUTE_EFFECTIVE_ADDR a off = Inr ea \<Longrightarrow> ea = a + scast off"
  by (simp add: compute_effective_addr_iff) (metis of_int_add scast_eq word_of_int_uint)

lemma exec_ldx_result:
  assumes "exec_ldx load vm args n inst t = Inr t'"
  obtains v where "load (st_mem t) (st_reg t (src inst) + scast (offset inst)) n = Some v"
    and "st_reg t' = (st_reg t)(dst inst := v)" and "st_mem t' = st_mem t"
proof -
  from assms obtain a u v where u: "BOUNDS_CHECK_LOAD vm args n inst t = Inr (a, u)" "load (st_mem u) a n = Some v"
    "t' = u\<lparr>st_reg := (st_reg u)(dst inst := v)\<rparr>"
    by (auto simp: exec_ldx_def split: sum.splits option.splits)
  then have "a = st_reg t (src inst) + scast (offset inst)" "st_mem u = st_mem t" "st_reg u = st_reg t"
    by (auto simp: BOUNDS_CHECK_LOAD_def Let_def dest!: effective_address_wraps split: sum.splits option.splits if_splits)
  with u that [of v] show thesis by simp
qed

lemma exec_stx_result:
  assumes "exec_stx vm args v n inst t = Inr t'"
  obtains "ubpf_mem_store (st_mem t) (st_reg t (dst inst) + scast (offset inst)) v n = Some (st_mem t')" and "st_reg t' = st_reg t"
proof -
  from assms obtain a u h where u: "BOUNDS_CHECK_STORE vm args n inst t = Inr (a, u)" "ubpf_mem_store (st_mem u) a v n = Some h"
    "t' = u\<lparr>st_mem := h\<rparr>"
    by (auto simp: exec_stx_def split: sum.splits option.splits)
  then have "a = st_reg t (dst inst) + scast (offset inst)" "st_mem u = st_mem t" "st_reg u = st_reg t"
    by (auto simp: BOUNDS_CHECK_STORE_def dest!: effective_address_wraps split: sum.splits option.splits)
  with u that show thesis by simp
qed

lemma load_cases:
  assumes "exec_load_inst vm args inst t = Some r"
  obtains (zero) z where "map_of (mem_rows vm inst) (opcode inst) = Some (emit_load z (map_register (src inst)) (map_register (dst inst)) (scast (offset inst)))"
      and "r = exec_ldx ubpf_mem_load vm args (size_bytes z) inst t"
    | (sign) z where "z \<noteq> S64" and "map_of (mem_rows vm inst) (opcode inst) = Some (emit_load_sx z (map_register (src inst)) (map_register (dst inst)) (scast (offset inst)))"
      and "r = exec_ldx ubpf_mem_load_sx vm args (size_bytes z) inst t"
proof -
  note rows = mem_rows_def x86_mem_def Let_def opcode_vals size_bytes_def
  consider (w) "opcode inst = 0x61" | (h) "opcode inst = 0x69" | (b) "opcode inst = 0x71" | (dw) "opcode inst = 0x79"
    | (wsx) "opcode inst = 0x81" | (hsx) "opcode inst = 0x89" | (bsx) "opcode inst = 0x91"
    using assms by (auto simp: exec_load_inst_def opcode_vals Let_def split: if_splits)
  then show thesis
  proof cases
    case w then show thesis using assms by (intro zero [of S32]) (simp_all add: rows exec_load_inst_def)
  next
    case h then show thesis using assms by (intro zero [of S16]) (simp_all add: rows exec_load_inst_def)
  next
    case b then show thesis using assms by (intro zero [of S8]) (simp_all add: rows exec_load_inst_def)
  next
    case dw then show thesis using assms by (intro zero [of S64]) (simp_all add: rows exec_load_inst_def)
  next
    case wsx then show thesis using assms by (intro sign [of S32]) (simp_all add: rows exec_load_inst_def)
  next
    case hsx then show thesis using assms by (intro sign [of S16]) (simp_all add: rows exec_load_inst_def)
  next
    case bsx then show thesis using assms by (intro sign [of S8]) (simp_all add: rows exec_load_inst_def)
  qed
qed

lemma store_cases:
  assumes "exec_store_inst vm args inst t = Some r"
  obtains (imm) z where "map_of (mem_rows vm inst) (opcode inst) = Some (EMIT_STORE_IMM32 vm z (map_register (dst inst)) (scast (offset inst)) (imm inst))"
      and "r = exec_stx vm args (scast (imm inst)) (size_bytes z) inst t"
    | (reg) z where "map_of (mem_rows vm inst) (opcode inst) = Some (emit_store z (map_register (src inst)) (map_register (dst inst)) (scast (offset inst)))"
      and "r = exec_stx vm args (st_reg t (src inst)) (size_bytes z) inst t"
proof -
  note rows = mem_rows_def x86_mem_def Let_def opcode_vals size_bytes_def
  consider (w) "opcode inst = 0x62" | (h) "opcode inst = 0x6a" | (b) "opcode inst = 0x72" | (dw) "opcode inst = 0x7a"
    | (xw) "opcode inst = 0x63" | (xh) "opcode inst = 0x6b" | (xb) "opcode inst = 0x73" | (xdw) "opcode inst = 0x7b"
    using assms by (auto simp: exec_store_inst_def opcode_vals Let_def split: if_splits)
  then show thesis
  proof cases
    case w then show thesis using assms by (intro imm [of S32]) (simp_all add: rows exec_store_inst_def)
  next
    case h then show thesis using assms by (intro imm [of S16]) (simp_all add: rows exec_store_inst_def)
  next
    case b then show thesis using assms by (intro imm [of S8]) (simp_all add: rows exec_store_inst_def)
  next
    case dw then show thesis using assms by (intro imm [of S64]) (simp_all add: rows exec_store_inst_def)
  next
    case xw then show thesis using assms by (intro reg [of S32]) (simp_all add: rows exec_store_inst_def)
  next
    case xh then show thesis using assms by (intro reg [of S16]) (simp_all add: rows exec_store_inst_def)
  next
    case xb then show thesis using assms by (intro reg [of S8]) (simp_all add: rows exec_store_inst_def)
  next
    case xdw then show thesis using assms by (intro reg [of S64]) (simp_all add: rows exec_store_inst_def)
  qed
qed

section \<open>Loads and stores against the interpreter\<close>

text \<open>What the interpreter's step and the native code have in common afterwards.\<close>

definition runs_like :: "uint64_t \<Rightarrow> uint8_t list \<Rightarrow> x86_state \<Rightarrow> nat \<Rightarrow> memory \<Rightarrow> registers \<Rightarrow> memory \<Rightarrow> bool" where
  "runs_like base code x pos m reg' m' \<longleftrightarrow>
     (\<exists>x'. reaches base code x x' \<and> xip x' = int pos \<and> regs_match reg' x' \<and> m' \<subseteq>\<^sub>m xmem x' \<and>
        xreg x' 4 = xreg x 4 \<and> xreg x' 5 = xreg x 5 \<and> (\<forall>a. a \<notin> dom m \<longrightarrow> xmem x' a = xmem x a))"

lemma load_runs:
  assumes "loads_reg (mreg (dst inst)) F n (mreg (src inst)) (scast (offset inst)) m"
    and "load_le (st_mem t) (st_reg t (src inst) + scast (offset inst)) n = Some v"
    and "room s" and "run_state m s = ((), s')" and "jit_status s' = NoError"
    and "code_at code (unat (jit_offset s)) (emitted s s')" and "xip x = int (unat (jit_offset s))"
    and "regs_match (st_reg t) x" and "st_mem t \<subseteq>\<^sub>m xmem x" and "dst inst \<le> 10" and "src inst \<le> 10"
  shows "runs_like base code x (unat (jit_offset s')) (st_mem t) ((st_reg t)(dst inst := F v)) (st_mem t)"
proof -
  have "xreg x (mreg (src inst)) = st_reg t (src inst)" using assms(8,11) by (simp add: regs_match_def)
  with load_le_mono [OF assms(9,2)] have "load_le (xmem x) (xreg x (mreg (src inst)) + scast (scast (offset inst) :: int32_t)) n = Some v"
    by (simp add: scast_scast_offset)
  from acts_run [OF assms(1) [unfolded loads_reg_def, rule_format] assms(3-7) this, of base]
  have "reaches base code x ((set_xreg (mreg (dst inst)) (F v) x)\<lparr>xip := int (unat (jit_offset s'))\<rparr>)" by blast
  then show ?thesis
    unfolding runs_like_def using assms(8-10) mreg_scratch(2,3) [of "dst inst"] mreg_inj
    by (intro exI [of _ "(set_xreg (mreg (dst inst)) (F v) x)\<lparr>xip := int (unat (jit_offset s'))\<rparr>"])
      (auto simp: set_xreg_def regs_match_def)
qed

lemma store_runs:
  assumes "stores_value z (mreg (dst inst)) (scast (offset inst)) V m" and "V (xreg x) = u"
    and "store_le (st_mem t) (st_reg t (dst inst) + scast (offset inst)) u (size_bytes z) = Some h"
    and "room s" and "run_state m s = ((), s')" and "jit_status s' = NoError"
    and "code_at code (unat (jit_offset s)) (emitted s s')" and "xip x = int (unat (jit_offset s))"
    and "regs_match (st_reg t) x" and "st_mem t \<subseteq>\<^sub>m xmem x" and "dst inst \<le> 10"
  shows "runs_like base code x (unat (jit_offset s')) (st_mem t) (st_reg t) h"
proof -
  have "xreg x (mreg (dst inst)) = st_reg t (dst inst)" using assms(9,11) by (simp add: regs_match_def)
  with store_le_mono [OF assms(10,3)] assms(2) obtain h' where h': "h \<subseteq>\<^sub>m h'" "\<forall>b. b \<notin> dom (st_mem t) \<longrightarrow> h' b = xmem x b"
    and "store_le (xmem x) (xreg x (mreg (dst inst)) + scast (scast (offset inst) :: int32_t)) (V (xreg x)) (size_bytes z) = Some h'"
    by (auto simp: scast_scast_offset)
  from acts_run [OF assms(1) [unfolded stores_value_def, rule_format] assms(4-8) this(3), of base]
  obtain x' where "reaches base code x (x'\<lparr>xip := int (unat (jit_offset s'))\<rparr>)" "xmem x' = h'" "\<forall>q. q \<noteq> 11 \<longrightarrow> xreg x' q = xreg x q" by blast
  with h' assms(9) mreg_scratch(5) show ?thesis
    unfolding runs_like_def by (intro exI [of _ "x'\<lparr>xip := int (unat (jit_offset s'))\<rparr>"]) (auto simp: regs_match_def)
qed

definition demo_exec :: exec_state where
  "demo_exec = \<lparr>st_pc = 0, st_reg = (\<lambda>q. if q = 10 then 0x5010 else 7), st_frame_index = 0, st_frames = [], st_shadow_stack = [], st_shadow_regs = 0,
     st_limit = 0, st_mem = (\<lambda>a. if 0x5000 \<le> a \<and> a < 0x5010 then Some 0 else None), st_debug = []\<rparr>"

text \<open>
  C5. The native code of a load or store, of any size, sign extending or not, from a register or
  an immediate, with constant blinding on or off, does to registers and memory what the
  interpreter does whenever the interpreter completes the instruction; memory outside the
  program's memory is not written.
\<close>

theorem jit_mem_correct:
  assumes "exec_load_inst vm args inst t = Some (Inr t') \<or> exec_store_inst vm args inst t = Some (Inr t')"
    and "dst inst \<le> 10" and "src inst \<le> 10"
    and "room s" and "run_state (x86_body vm inst i) s = (ok, s')" and "jit_status s' = NoError"
    and "code_at code (unat (jit_offset s)) (emitted s s')" and "xip x = int (unat (jit_offset s))"
    and "regs_match (st_reg t) x" and "st_mem t \<subseteq>\<^sub>m xmem x"
  shows "ok \<and> runs_like base code x (unat (jit_offset s')) (st_mem t) (st_reg t') (st_mem t')"
proof -
  have run: "ok \<and> run_state m s = ((), s')" if "map_of (mem_rows vm inst) (opcode inst) = Some m" for m
    using switch_mem [OF that, of i] assms(5) by (auto split: prod.splits)
  have size: "size_bytes z \<in> {1, 2, 4, 8}" "z \<noteq> S64 \<Longrightarrow> size_bytes z \<in> {1, 2, 4}" for z by (cases z; simp add: size_bytes_def)+
  note load = load_runs [OF _ _ assms(4) _ assms(6-10,2,3)] and store = store_runs [OF _ _ _ assms(4) _ assms(6-10,2)]
  from assms(1) show ?thesis
  proof
    assume "exec_load_inst vm args inst t = Some (Inr t')"
    then show ?thesis
    proof (cases rule: load_cases)
      case (zero z)
      obtain v where "ubpf_mem_load (st_mem t) (st_reg t (src inst) + scast (offset inst)) (size_bytes z) = Some v"
        and t': "st_reg t' = (st_reg t)(dst inst := v)" "st_mem t' = st_mem t" by (rule exec_ldx_result [OF zero(2) [symmetric]])
      with load [OF loads_reg(1) [OF mreg_scratch(2), where z = z]] run [OF zero(1)] size(1)
      show ?thesis by (simp add: map_register ubpf_mem_load_eq)
    next
      case (sign z)
      obtain v where "ubpf_mem_load_sx (st_mem t) (st_reg t (src inst) + scast (offset inst)) (size_bytes z) = Some v"
        and t': "st_reg t' = (st_reg t)(dst inst := v)" "st_mem t' = st_mem t" by (rule exec_ldx_result [OF sign(3) [symmetric]])
      with load [OF loads_reg(2) [OF mreg_scratch(2) sign(1)]] run [OF sign(2)] size(2) [OF sign(1)]
      show ?thesis by (auto simp: map_register ubpf_mem_load_sx_eq)
    qed
  next
    assume "exec_store_inst vm args inst t = Some (Inr t')"
    then show ?thesis
    proof (cases rule: store_cases)
      case (imm z)
      from exec_stx_result [OF imm(2) [symmetric]]
      have "store_le (st_mem t) (st_reg t (dst inst) + scast (offset inst)) (scast (ebpf_inst.imm inst)) (size_bytes z) = Some (st_mem t')" "st_reg t' = st_reg t"
        using size(1) by (simp_all add: ubpf_mem_store_eq)
      moreover have "stores_value z (mreg (dst inst)) (scast (offset inst)) (\<lambda>_. scast (ebpf_inst.imm inst))
          (EMIT_STORE_IMM32 vm z (map_register (dst inst)) (scast (offset inst)) (ebpf_inst.imm inst))"
        unfolding EMIT_STORE_IMM32_def map_register using stores_imm stores_blinded mreg_scratch(2,5) by simp
      ultimately show ?thesis using store run [OF imm(1)] by simp
    next
      case (reg z)
      from exec_stx_result [OF reg(2) [symmetric]]
      have "store_le (st_mem t) (st_reg t (dst inst) + scast (offset inst)) (st_reg t (src inst)) (size_bytes z) = Some (st_mem t')" "st_reg t' = st_reg t"
        using size(1) by (simp_all add: ubpf_mem_store_eq)
      moreover have "xreg x (mreg (src inst)) = st_reg t (src inst)" using assms(3,9) by (simp add: regs_match_def)
      ultimately show ?thesis
        using store [OF stores_reg [OF mreg_scratch(2), where z = z and s = "mreg (src inst)"]] run [OF reg(1)] by (simp add: map_register)
    qed
  qed
qed

theorem jit_mem_correct_witness:
  "let inst = \<lparr>opcode = EBPF_OP_STXDW, dst = 10, src = 1, offset = - 8, imm = 0\<rparr>;
       vm = the (ubpf_create JIT_x86_64 (\<lambda>_. True));
       args = \<lparr>arg_mem = 0, arg_mem_len = 0, arg_stack_start = 0x5000, arg_stack_length = 16\<rparr>;
       s' = snd (run_state (x86_body vm inst 0) demo_state) in
   \<exists>t'. exec_store_inst vm args inst demo_exec = Some (Inr t') \<and>
     runs_like 0 (jit_buf s') (demo_x86 (st_reg demo_exec)) (unat (jit_offset s')) (st_mem demo_exec) (st_reg t') (st_mem t')"
proof -
  let ?inst = "\<lparr>opcode = EBPF_OP_STXDW, dst = 10, src = 1, offset = - 8, imm = 0\<rparr>"
  let ?vm = "the (ubpf_create JIT_x86_64 (\<lambda>_. True))"
  let ?args = "\<lparr>arg_mem = 0, arg_mem_len = 0, arg_stack_start = 0x5000, arg_stack_length = 16\<rparr>"
  let ?run = "run_state (x86_body ?vm ?inst 0) demo_state"
  have "case exec_store_inst ?vm ?args ?inst demo_exec of Some (Inr t') \<Rightarrow> True | _ \<Rightarrow> False" by code_simp
  then obtain t' where t': "exec_store_inst ?vm ?args ?inst demo_exec = Some (Inr t')" by (auto split: option.splits sum.splits)
  have "map_of (mem_rows ?vm ?inst) EBPF_OP_STXDW = Some (emit_store S64 (map_register 1) (map_register 10) (- 8))"
    by (simp add: mem_rows_def x86_mem_def Let_def opcode_vals)
  then have "x86_body ?vm ?inst 0 = do { emit_store S64 (map_register 1) (map_register 10) (- 8); State_Monad.return True }"
    by (intro switch_mem) simp
  moreover have "jit_status (snd (run_state (emit_store S64 (map_register 1) (map_register 10) (- 8)) demo_state)) = NoError" by code_simp
  ultimately have ok: "jit_status (snd ?run) = NoError" by (simp add: case_prod_beta)
  have "(1 :: uint4_t) \<le> 10" by code_simp
  moreover have "st_mem demo_exec \<subseteq>\<^sub>m xmem (demo_x86 (st_reg demo_exec))" by (auto simp: map_le_def demo_exec_def demo_x86_def split: if_splits)
  ultimately show ?thesis
    using jit_mem_correct [where base = 0, OF disjI2 [OF t'] _ _ demo_x86(1) prod.collapse [symmetric] ok code_at_emitted _ demo_x86(5)] t'
    unfolding Let_def by (simp add: demo_x86)
qed

end
