(* ===== verification/X86_Jump.thy ===== *)
theory X86_Jump
  imports X86_Mem
begin

text \<open>
  The native code of jumps: a comparison that sets the flags, and a conditional jump whose
  displacement is filled in when all code has been emitted.
\<close>

section \<open>Flags\<close>

lemma borrow_sign:
  fixes a b :: "'a::len word"
  defines "n \<equiv> LENGTH('a) - 1"
  shows "bit (a - b) n \<noteq> (bit a n \<noteq> bit b n \<and> bit (a - b) n \<noteq> bit a n) \<longleftrightarrow> sint a < sint b"
proof -
  define H :: int where "H = 2 ^ n"
  have L: "2 ^ LENGTH('a) = 2 * H" unfolding H_def n_def by (metis One_nat_def Suc_pred' len_gt_0 power_Suc)
  have s: "sint x = uint x - 2 * H * of_bool (bit x n)" for x :: "'a word" using sint_as_uint [of x] L by (simp add: n_def)
  have bit: "bit x n \<longleftrightarrow> H \<le> uint x" for x :: "'a word"
    using sint_range_size [of x] s [of x] by (cases "bit x n") (auto simp: word_size H_def n_def)
  have r: "0 \<le> uint x" "uint x < 2 * H" for x :: "'a word" using unsigned_less [of x, where ?'a = int] L by simp_all
  have d: "uint (a - b) = (if uint b \<le> uint a then uint a - uint b else uint a - uint b + 2 * H)"
  proof (cases "uint b \<le> uint a")
    case True
    then have "(uint a - uint b) mod (2 * H) = uint a - uint b" using r [of a] r [of b] by (intro mod_pos_pos_trivial) linarith+
    with True show ?thesis unfolding uint_word_ariths L by simp
  next
    case False
    have "(uint a - uint b) mod (2 * H) = (uint a - uint b + 2 * H) mod (2 * H)" by simp
    also have "\<dots> = uint a - uint b + 2 * H" using False r [of a] r [of b] by (intro mod_pos_pos_trivial) linarith+
    finally show ?thesis unfolding uint_word_ariths L using False by simp
  qed
  show ?thesis
    unfolding s bit d using r [of a] r [of b]
    by (cases "uint b \<le> uint a"; cases "H \<le> uint a"; cases "H \<le> uint b"; simp; linarith)
qed

definition compares :: "x86_op \<Rightarrow> bool \<Rightarrow> x86_reg \<Rightarrow> ((x86_reg \<Rightarrow> uint64_t) \<Rightarrow> uint64_t) \<Rightarrow> x86_state \<Rightarrow> x86_state \<Rightarrow> bool" where
  "compares op w d V x x' \<longleftrightarrow>
     xflags x' = Some (alu_flags op (width w) (at_width w (xreg x d)) (at_width w (V (xreg x)))) \<and> xmem x' = xmem x \<and>
     (\<forall>q. q \<noteq> 11 \<longrightarrow> xreg x' q = xreg x q)"

lemma realizes_step:
  assumes "emits m b" and "\<And>rest. decode (b @ rest) = Some (i, length b)" and "plain i"
    and "\<And>x. \<exists>x'. exec_plain i x = Some x' \<and> R x x'"
  shows "realizes m R"
proof (rule realizes_emits [OF assms(1) decodes_one [OF assms(2)]])
  fix x show "\<exists>x'. exec_list [i] x = Some x' \<and> R x x'" using assms(4) [of x] by auto
qed (use assms(3) in simp)

lemma compares_reg:
  assumes "alu_of_opcode (ucast op) = Some a" and "\<not> writes_result a"
  shows "realizes (emit_alu64 op (ucast s) (ucast d)) (compares a True d (\<lambda>r. r s))"
    and "realizes (emit_alu32 op (ucast s) (ucast d)) (compares a False d (\<lambda>r. r s))"
  using assms(2)
  by (auto intro!: realizes_step [OF emits_alu64 decode_alu [OF assms(1)]] realizes_step [OF emits_alu32 decode_alu [OF assms(1)]]
      simp: plain_def exec_reg_simps compares_def)

lemma compares_imm:
  "realizes (emit_alu64_imm32 0x81 7 (ucast d) im) (compares Xcmp True d (\<lambda>_. scast im))"
  "realizes (emit_alu32_imm32 0x81 7 (ucast d) im) (compares Xcmp False d (\<lambda>_. scast im))"
  "realizes (emit_alu64_imm32 0xf7 0 (ucast d) im) (compares Xtest True d (\<lambda>_. scast im))"
  "realizes (emit_alu32_imm32 0xf7 0 (ucast d) im) (compares Xtest False d (\<lambda>_. scast im))"
proof -
  have ext: "alu_of_ext 7 = Some Xcmp" by (simp add: alu_of_ext_def)
  note e64 = emits_alu64_imm32 [of _ _ d im] and e32 = emits_alu32_imm32 [of _ _ d im]
  note ex = plain_def exec_reg_simps compares_def writes_result_def
  show "realizes (emit_alu64_imm32 0x81 7 (ucast d) im) (compares Xcmp True d (\<lambda>_. scast im))"
    by (rule realizes_step [OF e64 [of "0x81" 7, simplified] decode_alu_imm [OF ext]]) (simp_all add: ex)
  show "realizes (emit_alu32_imm32 0x81 7 (ucast d) im) (compares Xcmp False d (\<lambda>_. scast im))"
    by (rule realizes_step [OF e32 [of "0x81" 7, simplified] decode_alu_imm [OF ext]]) (simp_all add: ex)
  show "realizes (emit_alu64_imm32 0xf7 0 (ucast d) im) (compares Xtest True d (\<lambda>_. scast im))"
    by (rule realizes_step [OF e64 [of "0xf7" 0, simplified] decode_test_imm]) (simp_all add: ex)
  show "realizes (emit_alu32_imm32 0xf7 0 (ucast d) im) (compares Xtest False d (\<lambda>_. scast im))"
    by (rule realizes_step [OF e32 [of "0xf7" 0, simplified] decode_test_imm]) (simp_all add: ex)
qed

lemma compares_blinded:
  assumes "d \<noteq> 11" and "alu_of_opcode (ucast op) = Some a" and "\<not> writes_result a"
  shows "realizes (do { emit_alu64_imm32 0xc7 0 R11 (im XOR k); emit_alu64_imm32 0x81 6 R11 k; emit_alu64 op R11 (ucast d) })
      (compares a True d (\<lambda>_. scast im))"
    and "realizes (do { emit_alu32_imm32 0xc7 0 R11 (im XOR k); emit_alu32_imm32 0x81 6 R11 k; emit_alu32 op R11 (ucast d) })
      (compares a False d (\<lambda>_. scast im))"
proof -
  note c = compares_reg [OF assms(2,3), of 11 d, simplified]
  show "realizes (do { emit_alu64_imm32 0xc7 0 R11 (im XOR k); emit_alu64_imm32 0x81 6 R11 k; emit_alu64 op R11 (ucast d) })
      (compares a True d (\<lambda>_. scast im))"
    unfolding bind_bind [of "emit_alu64_imm32 0xc7 0 R11 (im XOR k)" "\<lambda>_. emit_alu64_imm32 0x81 6 R11 k", symmetric]
    by (rule realizes_mono [OF realizes_bind [OF realizes_blinded_operand(1) c(1)]]) (use assms(1) in \<open>auto simp: compares_def reg_fun_def\<close>)
  show "realizes (do { emit_alu32_imm32 0xc7 0 R11 (im XOR k); emit_alu32_imm32 0x81 6 R11 k; emit_alu32 op R11 (ucast d) })
      (compares a False d (\<lambda>_. scast im))"
    unfolding bind_bind [of "emit_alu32_imm32 0xc7 0 R11 (im XOR k)" "\<lambda>_. emit_alu32_imm32 0x81 6 R11 k", symmetric]
    by (rule realizes_mono [OF realizes_bind [OF realizes_blinded_operand(2) c(2)]]) (use assms(1) in \<open>auto simp: compares_def reg_fun_def low32_scast\<close>)
qed

lemma compares_EMIT:
  assumes "d \<noteq> 11"
  shows "realizes (EMIT_CMP_IMM32 vm (ucast d) im) (compares Xcmp True d (\<lambda>_. scast im))"
    and "realizes (EMIT_CMP32_IMM32 vm (ucast d) im) (compares Xcmp False d (\<lambda>_. scast im))"
    and "realizes (EMIT_TEST_IMM32 vm (ucast d) im) (compares Xtest True d (\<lambda>_. scast im))"
    and "realizes (EMIT_TEST32_IMM32 vm (ucast d) im) (compares Xtest False d (\<lambda>_. scast im))"
proof -
  have op: "alu_of_opcode (ucast (0x39 :: int32_t)) = Some Xcmp" "alu_of_opcode (ucast (0x85 :: int32_t)) = Some Xtest" "\<not> writes_result Xcmp" "\<not> writes_result Xtest"
    by (simp_all add: alu_of_opcode_def writes_result_def)
  note b = compares_blinded [OF assms op(1,3)] compares_blinded [OF assms op(2,4)]
  note defs = emit_cmp_imm32_blinded_def emit_cmp32_imm32_blinded_def emit_test_imm32_blinded_def emit_test32_imm32_blinded_def Let_def temp_register [OF assms]
  have "realizes (emit_cmp_imm32_blinded (ucast d) im) (compares Xcmp True d (\<lambda>_. scast im))"
    "realizes (emit_cmp32_imm32_blinded (ucast d) im) (compares Xcmp False d (\<lambda>_. scast im))"
    "realizes (emit_test_imm32_blinded (ucast d) im) (compares Xtest True d (\<lambda>_. scast im))"
    "realizes (emit_test32_imm32_blinded (ucast d) im) (compares Xtest False d (\<lambda>_. scast im))"
    unfolding defs by (rule realizes_generate, rule b)+
  then show "realizes (EMIT_CMP_IMM32 vm (ucast d) im) (compares Xcmp True d (\<lambda>_. scast im))"
    "realizes (EMIT_CMP32_IMM32 vm (ucast d) im) (compares Xcmp False d (\<lambda>_. scast im))"
    "realizes (EMIT_TEST_IMM32 vm (ucast d) im) (compares Xtest True d (\<lambda>_. scast im))"
    "realizes (EMIT_TEST32_IMM32 vm (ucast d) im) (compares Xtest False d (\<lambda>_. scast im))"
    using compares_imm [of d im]
    by (simp_all add: EMIT_CMP_IMM32_def EMIT_CMP32_IMM32_def EMIT_TEST_IMM32_def EMIT_TEST32_IMM32_def emit_cmp_imm32_def emit_cmp32_imm32_def)
qed

lemma compare_flags:
  defines "f w u v \<equiv> alu_flags Xcmp (width w) (at_width w u) (at_width w v)"
  shows "ZF (f True u v) = (u = v)" "CF (f True u v) = (u < v)" "(SF (f True u v) \<noteq> OF (f True u v)) = (sint u < sint v)"
    and "ZF (f False u v) = (u32 u = u32 v)" "CF (f False u v) = (u32 u < u32 v)" "(SF (f False u v) \<noteq> OF (f False u v)) = (sint (i32 u) < sint (i32 v))"
    and "ZF (alu_flags Xtest (width True) u v) = (u AND v = 0)"
    and "ZF (alu_flags Xtest (width False) (low32 u) (low32 v)) = (u32 u AND u32 v = 0)"
proof -
  note d = f_def alu_flags_def alu_value_def Let_def truncate_at_width sign_bit_def
  show "ZF (f True u v) = (u = v)" "CF (f True u v) = (u < v)" "(SF (f True u v) \<noteq> OF (f True u v)) = (sint u < sint v)"
    using borrow_sign [of u v] by (simp_all add: d width_def truncate_width)
  show "ZF (f False u v) = (u32 u = u32 v)" using at_width_diff [of False u v] by (simp add: d low32_def ucast_up_eq u32_def)
  have lt: "low32 u < low32 v \<longleftrightarrow> (ucast u :: uint32_t) < ucast v"
    using uint_low32 [of u] uint_low32 [of v] by (simp add: word_less_def)
  then show "CF (f False u v) = (u32 u < u32 v)" by (simp add: d u32_def)
  have up: "bit (ucast y :: uint64_t) 31 = bit y 31" for y :: uint32_t by (simp add: bit_simps)
  then have bits: "bit (low32 x) 31 = bit (ucast x :: uint32_t) 31" for x by (simp add: low32_def)
  have "(ucast (low32 u - low32 v) :: uint32_t) = ucast u - ucast v" by (simp add: low32_def c_conv)
  with borrow_sign [of "ucast u :: uint32_t" "ucast v"]
  show "(SF (f False u v) \<noteq> OF (f False u v)) = (sint (i32 u) < sint (i32 v))" by (simp add: d width_def truncate_width low32_def [symmetric] bits up i32_def)
  show "ZF (alu_flags Xtest (width True) u v) = (u AND v = 0)" by (simp add: d)
  have "low32 (low32 u AND low32 v) = ucast (ucast u AND ucast v :: uint32_t)" by (simp add: low32_def c_conv)
  then show "ZF (alu_flags Xtest (width False) (low32 u) (low32 v)) = (u32 u AND u32 v = 0)"
    by (simp add: d u32_def ucast_up_eq [of _ 0, simplified])
qed

lemma compare_conds:
  defines "f w u v \<equiv> alu_flags Xcmp (width w) (at_width w u) (at_width w v)"
  shows "cond_holds Xe (f True u v) = (u = v)" "cond_holds Xne (f True u v) = (u \<noteq> v)"
    "cond_holds Xb (f True u v) = (u < v)" "cond_holds Xae (f True u v) = (v \<le> u)"
    "cond_holds Xbe (f True u v) = (u \<le> v)" "cond_holds Xa (f True u v) = (v < u)"
    "cond_holds Xl (f True u v) = (sint u < sint v)" "cond_holds Xge (f True u v) = (sint v \<le> sint u)"
    "cond_holds Xle (f True u v) = (sint u \<le> sint v)" "cond_holds Xg (f True u v) = (sint v < sint u)"
    and "cond_holds Xe (f False u v) = (u32 u = u32 v)" "cond_holds Xne (f False u v) = (u32 u \<noteq> u32 v)"
    "cond_holds Xb (f False u v) = (u32 u < u32 v)" "cond_holds Xae (f False u v) = (u32 v \<le> u32 u)"
    "cond_holds Xbe (f False u v) = (u32 u \<le> u32 v)" "cond_holds Xa (f False u v) = (u32 v < u32 u)"
    "cond_holds Xl (f False u v) = (sint (i32 u) < sint (i32 v))" "cond_holds Xge (f False u v) = (sint (i32 v) \<le> sint (i32 u))"
    "cond_holds Xle (f False u v) = (sint (i32 u) \<le> sint (i32 v))" "cond_holds Xg (f False u v) = (sint (i32 v) < sint (i32 u))"
proof -
  note c = compare_flags(1-6) [of u v, folded f_def]
  have eq: "u = v \<longleftrightarrow> sint u = sint v" "u32 u = u32 v \<longleftrightarrow> sint (i32 u) = sint (i32 v)"
    unfolding u32_def i32_def by (rule word_eq_iff_signed)+
  show "cond_holds Xe (f True u v) = (u = v)" "cond_holds Xne (f True u v) = (u \<noteq> v)"
    "cond_holds Xb (f True u v) = (u < v)" "cond_holds Xae (f True u v) = (v \<le> u)"
    "cond_holds Xbe (f True u v) = (u \<le> v)" "cond_holds Xa (f True u v) = (v < u)"
    "cond_holds Xe (f False u v) = (u32 u = u32 v)" "cond_holds Xne (f False u v) = (u32 u \<noteq> u32 v)"
    "cond_holds Xb (f False u v) = (u32 u < u32 v)" "cond_holds Xae (f False u v) = (u32 v \<le> u32 u)"
    "cond_holds Xbe (f False u v) = (u32 u \<le> u32 v)" "cond_holds Xa (f False u v) = (u32 v < u32 u)"
    using c by (auto simp: cond_holds_def not_less le_less)
  show "cond_holds Xl (f True u v) = (sint u < sint v)" "cond_holds Xge (f True u v) = (sint v \<le> sint u)"
    "cond_holds Xl (f False u v) = (sint (i32 u) < sint (i32 v))" "cond_holds Xge (f False u v) = (sint (i32 v) \<le> sint (i32 u))"
    using c(3,6) unfolding cond_holds_def x86_cond.case by linarith+
  show "cond_holds Xle (f True u v) = (sint u \<le> sint v)" "cond_holds Xg (f True u v) = (sint v < sint u)"
    using c(1,3) eq(1) unfolding cond_holds_def x86_cond.case by linarith+
  show "cond_holds Xle (f False u v) = (sint (i32 u) \<le> sint (i32 v))" "cond_holds Xg (f False u v) = (sint (i32 v) < sint (i32 u))"
    using c(4,6) eq(2) unfolding cond_holds_def x86_cond.case by linarith+
qed

lemma test_conds:
  "cond_holds Xne (alu_flags Xtest (width True) u v) = (u AND v \<noteq> 0)"
  "cond_holds Xne (alu_flags Xtest (width False) (low32 u) (low32 v)) = (u32 u AND u32 v \<noteq> 0)"
  by (simp_all add: cond_holds_def compare_flags(7,8))

section \<open>The cases of the switch\<close>

text \<open>A comparison followed by a jump on the condition \<open>c\<close>, which holds when the interpreter takes the jump.\<close>

definition jump_row :: "ebpf_inst \<Rightarrow> x86_reg \<Rightarrow> x86_reg \<Rightarrow> patchable_target \<Rightarrow> unit jit \<Rightarrow> bool" where
  "jump_row inst s d tgt m \<longleftrightarrow>
     (\<exists>cmp code a w V c. m = compare_jump cmp code tgt \<and> realizes cmp (compares a w d V) \<and> (ucast code :: uint8_t) AND 0xf0 = 0x80 \<and>
        cond_of_opcode (ucast code) = Some c \<and>
        (\<forall>r reg. reg (dst inst) = r d \<longrightarrow> reg (src inst) = r s \<longrightarrow>
           exec_cond_jump inst reg = Some (cond_holds c (alu_flags a (width w) (at_width w (r d)) (at_width w (V r))))))"

lemma jump_rowI:
  assumes "realizes cmp (compares a w d V)" and "(ucast code :: uint8_t) AND 0xf0 = 0x80" and "cond_of_opcode (ucast code) = Some c"
    and "\<And>r reg. reg (dst inst) = r d \<Longrightarrow> reg (src inst) = r s \<Longrightarrow>
      exec_cond_jump inst reg = Some (cond_holds c (alu_flags a (width w) (at_width w (r d)) (at_width w (V r))))"
  shows "jump_row inst s d tgt (compare_jump cmp code tgt)"
  unfolding jump_row_def using assms by blast

lemma jump64_row:
  assumes "(opcode inst, m) \<in> set (x86_jump vm inst (ucast s) (ucast d) tgt)" and "opcode inst \<noteq> EBPF_OP_JA" and "opcode inst \<noteq> EBPF_OP_JA32"
    and "d \<noteq> 11"
  shows "jump_row inst s d tgt m"
proof -
  have reg: "realizes (emit_cmp (ucast s) (ucast d)) (compares Xcmp True d (\<lambda>r. r s))"
    "realizes (emit_alu64 0x85 (ucast s) (ucast d)) (compares Xtest True d (\<lambda>r. r s))"
    using compares_reg(1) [of "0x39" Xcmp s d] compares_reg(1) [of "0x85" Xtest s d]
    by (simp_all add: emit_cmp_def alu_of_opcode_def writes_result_def)
  note rows = compares_EMIT(1,3) [OF assms(4)] reg
  show ?thesis
    by (insert assms(1-3), simp only: x86_jump_def Let_def list.set insert_iff prod.inject empty_iff simp_thms, elim disjE conjE;
      ((simp; fail) | (hypsubst, rule jump_rowI, rule rows, simp, simp add: cond_of_opcode_def,
        simp add: exec_cond_jump_defs opcode_vals Let_def compare_conds [unfolded at_width_simps] test_conds i64_def)))
qed

lemma jump32_row:
  assumes "(opcode inst, m) \<in> set (x86_jump32 vm inst (ucast s) (ucast d) tgt)" and "d \<noteq> 11"
  shows "jump_row inst s d tgt m"
proof -
  have reg: "realizes (emit_cmp32 (ucast s) (ucast d)) (compares Xcmp False d (\<lambda>r. r s))"
    "realizes (emit_alu32 0x85 (ucast s) (ucast d)) (compares Xtest False d (\<lambda>r. r s))"
    using compares_reg(2) [of "0x39" Xcmp s d] compares_reg(2) [of "0x85" Xtest s d]
    by (simp_all add: emit_cmp32_def alu_of_opcode_def writes_result_def)
  note rows = compares_EMIT(2,4) [OF assms(2)] reg
  show ?thesis
    by (insert assms(1), simp only: x86_jump32_def Let_def list.set insert_iff prod.inject empty_iff simp_thms, elim disjE conjE;
      hypsubst, rule jump_rowI, rule rows, simp, simp add: cond_of_opcode_def,
      simp add: exec_cond_jump_defs opcode_vals Let_def compare_conds [unfolded at_width_simps] test_conds i64_def)
qed

section \<open>Jumps with an open displacement\<close>

text \<open>
  \<open>grows s bs js s'\<close>: between \<open>s\<close> and \<open>s'\<close> the code \<open>bs\<close> has been appended and the places \<open>js\<close> noted in the table
  of jumps.
\<close>

definition grows :: "jit_state \<Rightarrow> uint8_t list \<Rightarrow> patchable_relative list \<Rightarrow> jit_state \<Rightarrow> bool" where
  "grows s bs js s' \<longleftrightarrow> unat (jit_offset s) + length bs \<le> unat (jit_size s) \<and>
     (\<exists>rs. s' = (append_code bs s)\<lparr>jit_randoms := rs, jumps := jumps s @ js\<rparr>)"

lemma grows_trans:
  assumes "room s" and "grows s bs js s1" and "grows s1 cs ks s2"
  shows "grows s (bs @ cs) (js @ ks) s2"
proof -
  from assms(2) obtain rs where s1: "s1 = (append_code bs s)\<lparr>jit_randoms := rs, jumps := jumps s @ js\<rparr>"
    and fit: "unat (jit_offset s) + length bs \<le> unat (jit_size s)" by (auto simp: grows_def)
  note cat = append_code_append [OF assms(1) fit]
  from assms(3) obtain rs' where s2: "s2 = (append_code cs s1)\<lparr>jit_randoms := rs', jumps := jumps s1 @ ks\<rparr>"
    and fit2: "unat (jit_offset s1) + length cs \<le> unat (jit_size s1)" by (auto simp: grows_def)
  have "append_code cs s1 = (append_code cs (append_code bs s))\<lparr>jit_randoms := rs, jumps := jumps s @ js\<rparr>" by (simp add: s1 append_code_def)
  with s2 cat(1) s1 have "s2 = (append_code (bs @ cs) s)\<lparr>jit_randoms := rs', jumps := jumps s @ js @ ks\<rparr>" by simp
  moreover have "unat (jit_offset s) + length (bs @ cs) \<le> unat (jit_size s)"
    using fit2 cat(2) by (simp add: s1 append_code_def)
  ultimately show ?thesis by (auto simp: grows_def)
qed

lemma extends_by_grows: "extends_by s bs s' \<Longrightarrow> grows s bs [] s'"
  unfolding extends_by_def grows_def by (auto simp: append_code_def intro!: exI [of _ "jit_randoms s'"])

lemma grows_emitted:
  assumes "room s" and "grows s bs js s'"
  shows "emitted s s' = bs" and "unat (jit_offset s') = unat (jit_offset s) + length bs" and "jumps s' = jumps s @ js"
proof -
  from assms(2) obtain rs where s': "s' = (append_code bs s)\<lparr>jit_randoms := rs, jumps := jumps s @ js\<rparr>"
    and fit: "unat (jit_offset s) + length bs \<le> unat (jit_size s)" by (auto simp: grows_def)
  have "extends_by s bs ((append_code bs s)\<lparr>jit_randoms := rs\<rparr>)" using fit by (auto simp: extends_by_def)
  from extends_by_emitted [OF assms(1) this] s' show "emitted s s' = bs" "unat (jit_offset s') = unat (jit_offset s) + length bs"
    by (simp_all add: emitted_def)
  show "jumps s' = jumps s @ js" using s' by simp
qed

lemma emit_reloc_grows:
  assumes "room s" and "run_state (emit_jump_address_reloc tgt) s = (v, s')"
  shows "room s'" and "jit_status s' = NoError \<Longrightarrow> jit_status s = NoError"
    and "jit_status s' = NoError \<Longrightarrow> grows s [0, 0, 0, 0] [\<lparr>offset_loc = jit_offset s, relative_target = tgt\<rparr>] s'"
proof -
  let ?s = "s\<lparr>jumps := emit_patchable_relative (jumps s) (jit_offset s) tgt\<rparr>"
  have e: "emits emit_4byte_offset_placeholder [0, 0, 0, 0]"
    using emits_emit4 [of 0] by (simp add: emit_4byte_offset_placeholder_def)
  have r: "room ?s" using assms(1) by (simp add: room_def)
  have "room s' \<and> (jit_status s' = NoError \<longrightarrow> jit_status s = NoError \<and> grows s [0, 0, 0, 0] [\<lparr>offset_loc = jit_offset s, relative_target = tgt\<rparr>] s')"
  proof (cases "length (jumps s) = UBPF_MAX_INSTS")
    case True
    with assms show ?thesis by (auto simp: emit_jump_address_reloc_def room_def)
  next
    case False
    obtain s1 where s1: "run_state emit_4byte_offset_placeholder ?s = ((), s1)" by (cases "run_state emit_4byte_offset_placeholder ?s") simp
    with False assms(2) have s': "s' = s1" by (simp add: emit_jump_address_reloc_def)
    note p = emitsD [OF e r s1]
    have "grows s [0, 0, 0, 0] [\<lparr>offset_loc = jit_offset s, relative_target = tgt\<rparr>] s'" if "jit_status s' = NoError"
      using p(3,4) that unfolding s' grows_def
      by (auto simp: append_code_def emit_patchable_relative_def intro!: exI [of _ "jit_randoms s"])
    with p(1,2) show ?thesis unfolding s' by auto
  qed
  then show "room s'" "jit_status s' = NoError \<Longrightarrow> jit_status s = NoError"
    "jit_status s' = NoError \<Longrightarrow> grows s [0, 0, 0, 0] [\<lparr>offset_loc = jit_offset s, relative_target = tgt\<rparr>] s'"
    by blast+
qed

text \<open>Code before the displacement, and the displacement.\<close>

lemma emit_jump_grows:
  assumes "emits m bs" and "room s" and "run_state (do { m; emit_jump_address_reloc tgt }) s = (v, s')"
  shows "room s'" and "jit_status s' = NoError \<Longrightarrow> jit_status s = NoError"
    and "jit_status s' = NoError \<Longrightarrow>
      grows s (bs @ [0, 0, 0, 0]) [\<lparr>offset_loc = jit_offset s + of_nat (length bs), relative_target = tgt\<rparr>] s'"
proof -
  obtain s1 where m: "run_state m s = ((), s1)" by (cases "run_state m s") simp
  with assms(3) have n: "run_state (emit_jump_address_reloc tgt) s1 = (v, s')" by simp
  note 1 = emitsD [OF assms(1,2) m]
  note 2 = emit_reloc_grows [OF 1(1) n]
  show "room s'" by (rule 2(1))
  show "jit_status s = NoError" if "jit_status s' = NoError" using 1(2) 2(2) that by blast
  show "grows s (bs @ [0, 0, 0, 0]) [\<lparr>offset_loc = jit_offset s + of_nat (length bs), relative_target = tgt\<rparr>] s'" if ok: "jit_status s' = NoError"
  proof -
    have "extends_by s bs s1" by (rule extends_by_emits [OF assms(1,2) m 2(2) [OF ok]])
    from grows_trans [OF assms(2) extends_by_grows [OF this] 2(3) [OF ok]] 1(3) [OF 2(2) [OF ok]]
    show ?thesis by (simp add: append_code_def)
  qed
qed

section \<open>Jumps against the interpreter\<close>

definition jump_taken :: "ebpf_inst \<Rightarrow> registers \<Rightarrow> bool option" where
  "jump_taken inst reg = (if opcode inst = EBPF_OP_JA \<or> opcode inst = EBPF_OP_JA32 then Some True else exec_cond_jump inst reg)"

lemma jump_opcodes:
  "exec_cond_jump inst reg \<noteq> None \<longleftrightarrow> opcode inst \<in> fst ` set (x86_jump vm inst s d t @ x86_jump32 vm inst s d t) - {EBPF_OP_JA, EBPF_OP_JA32}"
  by (simp add: x86_jump_def x86_jump32_def exec_cond_jump_defs Let_def opcode_vals)

lemma alu_row_classes:
  "p \<in> fst ` set (alu_cases vm inst) \<Longrightarrow> p AND 7 \<in> {4, 7}"
  by (simp add: alu_cases_def x86_alu32_def x86_endian_def x86_alu64_def Let_def opcode_vals, elim disjE; simp)

lemma jump_row_classes:
  "p \<in> fst ` set (x86_jump vm inst s d t @ x86_jump32 vm inst s d t) \<Longrightarrow> p AND 7 \<in> {5, 6} \<and> p \<noteq> EBPF_OP_CALL"
  by (simp add: x86_jump_def x86_jump32_def Let_def opcode_vals, elim disjE; simp)

lemma jump_body:
  assumes "jump_taken inst reg = Some b" and tgt: "tgt = patchable_ebpf_target (jump_target_pc inst i)"
  obtains m where "x86_body vm inst i = do { m; State_Monad.return True }"
    and "if opcode inst = EBPF_OP_JA \<or> opcode inst = EBPF_OP_JA32 then m = do { _ \<leftarrow> emit_jmp tgt; skip }
      else jump_row inst (mreg (src inst)) (mreg (dst inst)) tgt m"
proof -
  let ?s = "map_register (src inst)" and ?d = "map_register (dst inst)"
  let ?rows = "x86_jump vm inst ?s ?d tgt @ x86_jump32 vm inst ?s ?d tgt"
  have op: "opcode inst \<in> fst ` set ?rows"
  proof (cases "opcode inst = EBPF_OP_JA \<or> opcode inst = EBPF_OP_JA32")
    case True
    then show ?thesis by (auto simp: x86_jump_def Let_def)
  next
    case False
    with assms(1) jump_opcodes [of inst reg vm ?s ?d tgt] show ?thesis by (simp add: jump_taken_def)
  qed
  then obtain m where m: "map_of ?rows (opcode inst) = Some m" using map_of_eq_None_iff [of ?rows "opcode inst"] by (cases "map_of ?rows (opcode inst)") auto
  note cls = jump_row_classes [OF op]
  have "opcode inst \<notin> fst ` set (alu_cases vm inst)"
  proof
    assume "opcode inst \<in> fst ` set (alu_cases vm inst)"
    from alu_row_classes [OF this] cls show False by auto
  qed
  then have none: "map_of (alu_cases vm inst) (opcode inst) = None" by (simp add: map_of_eq_None_iff)
  have "opcode inst \<noteq> EBPF_OP_CALL" "opcode inst \<noteq> EBPF_OP_LDDW" "opcode inst \<noteq> EBPF_OP_ATOMIC_STORE" "opcode inst \<noteq> EBPF_OP_ATOMIC32_STORE"
    using cls by (auto simp: opcode_vals)
  moreover have "map_of (alu_cases vm inst @ ?rows @ rest) (opcode inst) = Some m" for rest
    using m none by (simp add: map_add_def split: option.splits)
  ultimately have "x86_switch vm inst i = do { m; State_Monad.return True }"
    unfolding alu_cases_def append_assoc tgt by (simp only: x86_switch_def Let_def option.case if_False simp_thms)
  with cls have body: "x86_body vm inst i = do { m; State_Monad.return True }"
    by (auto simp: x86_body_def bind_bind bind_simps opcode_vals)
  show thesis
  proof (rule that [OF body])
    show "if opcode inst = EBPF_OP_JA \<or> opcode inst = EBPF_OP_JA32 then m = do { _ \<leftarrow> emit_jmp tgt; skip }
      else jump_row inst (mreg (src inst)) (mreg (dst inst)) tgt m"
    proof (cases "opcode inst = EBPF_OP_JA \<or> opcode inst = EBPF_OP_JA32")
      case True
      with m show ?thesis by (auto simp: x86_jump_def Let_def opcode_vals)
    next
      case False
      have "(opcode inst, m) \<in> set (x86_jump vm inst ?s ?d tgt) \<or> (opcode inst, m) \<in> set (x86_jump32 vm inst ?s ?d tgt)"
        using map_of_SomeD [OF m] by simp
      with False jump64_row [of inst m vm "mreg (src inst)" "mreg (dst inst)" tgt] jump32_row [of inst m vm "mreg (src inst)" "mreg (dst inst)" tgt] mreg_scratch(5)
      show ?thesis by (auto simp: map_register)
    qed
  qed
qed

text \<open>The last four bytes of a piece of code replaced.\<close>

definition with_displacement :: "uint8_t list \<Rightarrow> int32_t \<Rightarrow> uint8_t list" where
  "with_displacement bs rel = take (length bs - 4) bs @ le_bytes 4 (ucast rel)"

lemma decode_far:
  "decode ([0xe9] @ le_bytes 4 (ucast (rel :: int32_t)) @ rest) = Some (Xjmp (scast rel), 5)"
  "op AND 0xf0 = 0x80 \<Longrightarrow> cond_of_opcode op = Some c \<Longrightarrow>
   decode ([0x0f, op] @ le_bytes 4 (ucast rel) @ rest) = Some (Xjcc c (scast rel), 6)"
proof -
  show "decode ([0xe9] @ le_bytes 4 (ucast rel) @ rest) = Some (Xjmp (scast rel), 5)"
    using le32_le_bytes [of rel rest] length_le_bytes [of 4 "ucast rel"] by (simp add: decode_simps del: le_bytes_numeral)
  assume op: "op AND 0xf0 = 0x80" and c: "cond_of_opcode op = Some c"
  have "op AND 0xf0 = (op AND 0xf8) AND 0xf0" by (simp add: and.assoc)
  with op have ne: "op AND 0xf8 \<noteq> 0xc8" "op \<noteq> 0xb6" "op \<noteq> 0xb7" "op \<noteq> 0xbe" "op \<noteq> 0xbf" "op \<noteq> 0x44" by auto
  with op c show "decode ([0x0f, op] @ le_bytes 4 (ucast rel) @ rest) = Some (Xjcc c (scast rel), 6)"
    using le32_le_bytes [of rel rest] length_le_bytes [of 4 "ucast rel"] by (simp add: decode_simps del: le_bytes_numeral)
qed

lemma jump_step:
  assumes "\<And>rest. decode (bs @ rest) = Some (i, length bs)" and "code_at code pos bs" and "xip x = int pos"
    and "i = Xjmp (scast (rel :: int32_t)) \<and> b \<or> i = Xjcc c (scast rel) \<and> (\<exists>f. xflags x = Some f \<and> b = cond_holds c f)"
  shows "reaches base code x (x\<lparr>xip := int (pos + length bs) + (if b then sint rel else 0)\<rparr>)"
proof -
  have "sint (scast rel :: int64_t) = sint rel" by (simp add: sint_up_scast is_up)
  with assms(4) have "exec_instr base i (int (pos + length bs)) x = Some (x\<lparr>xip := int (pos + length bs) + (if b then sint rel else 0)\<rparr>)"
    by (auto simp: exec_instr_def)
  with x86_step_code_at [OF assms(2,1,3), of base] show ?thesis by (intro reaches_step) simp
qed

text \<open>With a displacement behind it, \<open>j\<close> is a jump that the processor takes in \<open>x\<close> exactly if \<open>b\<close>.\<close>

definition jumps_if :: "uint8_t list \<Rightarrow> bool \<Rightarrow> x86_state \<Rightarrow> bool" where
  "jumps_if j b x \<longleftrightarrow>
     (\<forall>rel. \<exists>ins c. (\<forall>rest. decode ((j @ le_bytes 4 (ucast rel)) @ rest) = Some (ins, length (j @ le_bytes 4 (ucast (rel :: int32_t))))) \<and>
        (ins = Xjmp (scast rel) \<and> b \<or> ins = Xjcc c (scast rel) \<and> (\<exists>f. xflags x = Some f \<and> b = cond_holds c f)))"

lemma jumps_if_far: "b \<Longrightarrow> jumps_if [0xe9] b x"
  unfolding jumps_if_def using decode_far(1) by (auto simp del: le_bytes_numeral)

lemma jumps_if_jcc:
  assumes "op AND 0xf0 = 0x80" and "cond_of_opcode op = Some c" and "xflags x = Some f" and "b = cond_holds c f"
  shows "jumps_if [0x0f, op] b x"
  unfolding jumps_if_def using decode_far(2) [OF assms(1,2)] assms(3,4) by (auto simp del: le_bytes_numeral)

text \<open>
  A jump instruction as emitted: a comparison (empty for an unconditional jump) and the jump with
  an open displacement, noted in the table of jumps.
\<close>

lemma jump_emitted:
  assumes "jump_taken inst reg = Some b" and "room s" and "run_state (x86_body vm inst i) s = (ok, s')" and "jit_status s' = NoError"
    and "reg (dst inst) = xreg x (mreg (dst inst))" and "reg (src inst) = xreg x (mreg (src inst))"
  obtains cs j "is" x1 where "ok" and "grows s (cs @ j @ [0, 0, 0, 0]) [\<lparr>offset_loc = jit_offset s + of_nat (length (cs @ j)),
      relative_target = patchable_ebpf_target (jump_target_pc inst i)\<rparr>] s'"
    and "decodes cs is" and "list_all plain is" and "exec_list is x = Some x1" and "xmem x1 = xmem x" and "\<forall>q. q \<noteq> 11 \<longrightarrow> xreg x1 q = xreg x q"
    and "jumps_if j b x1"
proof -
  let ?tgt = "patchable_ebpf_target (jump_target_pc inst i)"
  obtain m where body: "x86_body vm inst i = do { m; State_Monad.return True }"
    and m: "if opcode inst = EBPF_OP_JA \<or> opcode inst = EBPF_OP_JA32 then m = do { _ \<leftarrow> emit_jmp ?tgt; skip }
      else jump_row inst (mreg (src inst)) (mreg (dst inst)) ?tgt m"
    using jump_body [OF assms(1) refl] by blast
  from body assms(3) have run: "run_state m s = ((), s')" and ok by (auto split: prod.splits)
  show thesis
  proof (cases "opcode inst = EBPF_OP_JA \<or> opcode inst = EBPF_OP_JA32")
    case True
    then have b: "b" using assms(1) by (simp add: jump_taken_def)
    from True m have "m = do { _ \<leftarrow> do { emit1 0xe9; emit_jump_address_reloc ?tgt }; skip }" by (simp add: emit_jmp_def patchable_ebpf_target_def)
    with run obtain v where "run_state (do { emit1 0xe9; emit_jump_address_reloc ?tgt }) s = (v, s')"
      by (auto split: prod.splits)
    from emit_jump_grows(3) [OF emits_emit1 assms(2) this assms(4)] jumps_if_far [of b x] b \<open>ok\<close> show thesis
      by (intro that [of "[]" "[0xe9]" "[]" x]) (simp_all add: decodes_Nil)
  next
    case False
    with m obtain cmp cc a w V c where row: "m = compare_jump cmp cc ?tgt" "realizes cmp (compares a w (mreg (dst inst)) V)"
      "(ucast cc :: uint8_t) AND 0xf0 = 0x80" "cond_of_opcode (ucast cc) = Some c"
      and taken: "exec_cond_jump inst reg = Some (cond_holds c (alu_flags a (width w) (at_width w (xreg x (mreg (dst inst)))) (at_width w (V (xreg x)))))"
      using assms(5,6) by (auto simp: jump_row_def)
    obtain s1 where s1: "run_state cmp s = ((), s1)" by (cases "run_state cmp s") simp
    with run row(1) obtain v where v: "run_state (do { do { emit1 0x0f; emit1 (ucast cc) }; emit_jump_address_reloc ?tgt }) s1 = (v, s')"
      by (auto simp: compare_jump_def emit_jcc_def bind_bind split: prod.splits)
    note 1 = realizesD [OF row(2) assms(2) s1]
    note 2 = emit_jump_grows [OF emits_bind [OF emits_emit1 emits_emit1] 1(1) v]
    from 1(3) [OF 2(2) [OF assms(4)]] obtain cs "is" where cs: "extends_by s cs s1" "decodes cs is" "list_all plain is"
      and ex: "\<And>x. \<exists>x'. exec_list is x = Some x' \<and> compares a w (mreg (dst inst)) V x x'" by blast
    from ex [of x] obtain x1 where x1: "exec_list is x = Some x1" "compares a w (mreg (dst inst)) V x x1" by blast
    have loc: "jit_offset s1 + of_nat (length ([0x0f] @ [ucast cc :: uint8_t])) = jit_offset s + of_nat (length (cs @ [0x0f, ucast cc]))"
      using cs(1) by (auto simp: extends_by_def append_code_def)
    have g: "grows s (cs @ [0x0f, ucast cc] @ [0, 0, 0, 0]) [\<lparr>offset_loc = jit_offset s + of_nat (length (cs @ [0x0f, ucast cc])), relative_target = ?tgt\<rparr>] s'"
      using grows_trans [OF assms(2) extends_by_grows [OF cs(1)] 2(3) [OF assms(4)]] unfolding loc by simp
    have j: "jumps_if [0x0f, ucast cc] b x1"
      using x1(2) taken False assms(1) by (intro jumps_if_jcc [OF row(3,4)]) (auto simp: compares_def jump_taken_def)
    show thesis by (rule that [OF \<open>ok\<close> g cs(2,3) x1(1) _ _ j]) (use x1(2) in \<open>auto simp: compares_def\<close>)
  qed
qed

text \<open>
  C6. The native code of a jump, conditional or not, on 64 or 32 bits, signed or unsigned, with
  constant blinding on or off: the place of its displacement is noted in the table of jumps
  together with the target, and once a displacement has been filled in, the code goes that far
  beyond its end if the interpreter takes the jump and to its end otherwise; the registers of the
  program and the memory are unchanged.
\<close>

theorem jit_jump_correct:
  assumes "jump_taken inst reg = Some b" and "dst inst \<le> 10" and "src inst \<le> 10"
    and "room s" and "run_state (x86_body vm inst i) s = (ok, s')" and "jit_status s' = NoError"
    and "code_at code (unat (jit_offset s)) (with_displacement (emitted s s') rel)"
    and "xip x = int (unat (jit_offset s))" and "regs_match reg x"
  shows "ok \<and> jumps s' = jumps s @ [\<lparr>offset_loc = jit_offset s' - 4, relative_target = patchable_ebpf_target (jump_target_pc inst i)\<rparr>] \<and>
    (\<exists>x'. reaches base code x x' \<and> xip x' = int (unat (jit_offset s')) + (if b then sint rel else 0) \<and>
       regs_match reg x' \<and> xreg x' 4 = xreg x 4 \<and> xreg x' 5 = xreg x 5 \<and> xmem x' = xmem x)"
proof -
  have r: "reg (dst inst) = xreg x (mreg (dst inst))" "reg (src inst) = xreg x (mreg (src inst))"
    using assms(2,3,9) by (simp_all add: regs_match_def)
  obtain cs j "is" x1 where ok: "ok" and g: "grows s (cs @ j @ [0, 0, 0, 0]) [\<lparr>offset_loc = jit_offset s + of_nat (length (cs @ j)),
      relative_target = patchable_ebpf_target (jump_target_pc inst i)\<rparr>] s'"
    and cs: "decodes cs is" "list_all plain is" "exec_list is x = Some x1" and x1: "xmem x1 = xmem x" "\<forall>q. q \<noteq> 11 \<longrightarrow> xreg x1 q = xreg x q"
    and j: "jumps_if j b x1"
    by (rule jump_emitted [OF assms(1,4-6) r])
  note e = grows_emitted [OF assms(4) g]
  have "jit_offset s' = jit_offset s + of_nat (length (cs @ j)) + 4" using g by (auto simp: grows_def append_code_def)
  then have loc: "jit_offset s' - 4 = jit_offset s + of_nat (length (cs @ j))" by simp
  have "code_at code (unat (jit_offset s)) (cs @ j @ le_bytes 4 (ucast rel))"
    using assms(7) unfolding e(1) with_displacement_def by (simp del: le_bytes_numeral)
  then have at: "code_at code (unat (jit_offset s)) cs" "code_at code (unat (jit_offset s) + length cs) (j @ le_bytes 4 (ucast rel))"
    by (simp_all only: code_at_append)
  let ?x1 = "x1\<lparr>xip := int (unat (jit_offset s) + length cs)\<rparr>"
  note 1 = decodes_run [OF cs(1,2) at(1) assms(8) cs(3)]
  obtain ins c where ins: "\<And>rest. decode ((j @ le_bytes 4 (ucast rel)) @ rest) = Some (ins, length (j @ le_bytes 4 (ucast rel)))"
    "ins = Xjmp (scast rel) \<and> b \<or> ins = Xjcc c (scast rel) \<and> (\<exists>f. xflags ?x1 = Some f \<and> b = cond_holds c f)" using j [unfolded jumps_if_def, THEN spec, of rel] by auto
  have "xip ?x1 = int (unat (jit_offset s) + length cs)" by simp
  note 2 = reaches_trans [OF 1 jump_step [OF ins(1) at(2) this ins(2), of base]]
  let ?x' = "?x1\<lparr>xip := int (unat (jit_offset s) + length cs + length (j @ le_bytes 4 (ucast rel))) + (if b then sint rel else 0)\<rparr>"
  have "xip ?x' = int (unat (jit_offset s')) + (if b then sint rel else 0)" using e(2) by simp
  moreover have "regs_match reg ?x'" using assms(9) x1(2) mreg_scratch(5) by (simp add: regs_match_def)
  moreover have "xreg ?x' 4 = xreg x 4 \<and> xreg ?x' 5 = xreg x 5 \<and> xmem ?x' = xmem x" using x1 by simp
  ultimately show ?thesis using 2 ok e(3) loc by auto
qed

lemma reloc_succeeds:
  assumes "jit_status s = NoError" and "jumps s = []" and "jit_offset s + 4 \<le> jit_size s"
  shows "jit_status (snd (run_state (emit_jump_address_reloc tgt) s)) = NoError"
  using assms
  by (simp add: emit_jump_address_reloc_def UBPF_MAX_INSTS_def emit_4byte_offset_placeholder_def emit4_def emit_bytes_def write_buf_def Let_def not_less case_prod_beta)

theorem jit_jump_correct_witness:
  "let inst = \<lparr>opcode = EBPF_OP_JSLT_REG, dst = 1, src = 2, offset = 5, imm = 0\<rparr>;
       reg = (\<lambda>q. if q = 1 then - 1 else 3);
       s' = snd (run_state (x86_body (the (ubpf_create JIT_x86_64 (\<lambda>_. True))) inst 0) demo_state) in
   \<exists>x'. reaches 0 (with_displacement (emitted demo_state s') 100) (demo_x86 reg) x' \<and> xip x' = int (unat (jit_offset s')) + 100 \<and> regs_match reg x'"
proof -
  let ?inst = "\<lparr>opcode = EBPF_OP_JSLT_REG, dst = 1, src = 2, offset = 5, imm = 0\<rparr>"
  let ?reg = "(\<lambda>q. if q = 1 then - 1 else 3) :: registers"
  let ?vm = "the (ubpf_create JIT_x86_64 (\<lambda>_. True))"
  let ?run = "run_state (x86_body ?vm ?inst 0) demo_state"
  let ?m = "compare_jump (emit_cmp (map_register 2) (map_register 1)) 0x8c (patchable_ebpf_target (jump_target_pc ?inst 0))"
  have "x86_body ?vm ?inst 0 = do { ?m; State_Monad.return True }"
    by (simp add: x86_body_def x86_switch_def Let_def x86_alu32_def x86_endian_def x86_alu64_def x86_jump_def opcode_vals bind_bind bind_simps)
  moreover have "jit_status (snd (run_state ?m demo_state)) = NoError"
  proof -
    let ?s = "snd (run_state (do { emit_cmp (map_register 2) (map_register 1); emit1 0x0f; emit1 0x8c }) demo_state)"
    have "jit_status ?s = NoError" "jumps ?s = []" "jit_offset ?s + 4 \<le> jit_size ?s" by code_simp+
    from reloc_succeeds [OF this, of "patchable_ebpf_target (jump_target_pc ?inst 0)"]
    show ?thesis by (simp add: compare_jump_def emit_jcc_def case_prod_beta)
  qed
  ultimately have ok: "jit_status (snd ?run) = NoError" by (simp add: case_prod_beta)
  have "jump_taken ?inst ?reg = Some True" "(1 :: uint4_t) \<le> 10" "(2 :: uint4_t) \<le> 10" "sint (100 :: int32_t) = 100" by code_simp+
  moreover have "code_at bs 0 bs" for bs by (simp add: code_at_def)
  ultimately show ?thesis
    using jit_jump_correct [where base = 0 and inst = ?inst and reg = ?reg and rel = 100 and code = "with_displacement (emitted demo_state (snd ?run)) 100",
        OF _ _ _ demo_x86(1) prod.collapse [symmetric] ok _ _ demo_x86(5)]
    unfolding Let_def by (simp add: demo_x86) blast
qed

end
