(* ===== verification/Spec2Isabelle.thy ===== *)
theory Spec2Isabelle
  imports Exec_Frames Safe_Correct Safe_Tags Exec_Limits Elf_Correct Jit X86_Jump
begin

text \<open>
  A verification development of uBPF, the user-space eBPF virtual machine (\<^verbatim>\<open>src/vm\<close>).

  \<^bold>\<open>The program.\<close> A client creates a machine (\<^verbatim>\<open>ubpf_create\<close>), configures it, registers helper functions,
  loads a byte string of eBPF instructions (\<^verbatim>\<open>ubpf_load\<close>, which validates it), and then either interprets
  it or translates it to native code. Two interpreters exist: the legacy one (\<^verbatim>\<open>ubpf_exec_ex\<close> in
  \<^verbatim>\<open>vm/ubpf_vm.c\<close>), which guards every access by a run-time bounds check, and the safe profile
  (\<^verbatim>\<open>vm/ubpf_safe.c\<close>), which tags every register with the memory it may address. The translator is
  \<^verbatim>\<open>vm/ubpf_jit.c\<close> with one back end per processor.

  \<^bold>\<open>Conventions.\<close> C integers are words of their width, so that arithmetic wraps as in C; conversions are
  \<^verbatim>\<open>ucast\<close> and \<^verbatim>\<open>scast\<close>. Structs are records, enums are datatypes, keep their C names, and each C function is one
  definition of the same name. Memory is a partial map from addresses to bytes; an access outside
  its domain, an index outside an array, a failed assertion or a call through a null pointer is a
  value of the result type of its own (\<^verbatim>\<open>Exec_fault\<close>, \<^verbatim>\<open>Load_crash\<close>, the flag \<^verbatim>\<open>jit_fault\<close>), and theorems say that it does
  not occur. Messages are values of datatypes of errors, one constructor for each format string. The
  host is little-endian and the build is the release configuration (\<^verbatim>\<open>NDEBUG\<close>). Callbacks of the
  client, the outcome of \<^verbatim>\<open>calloc\<close>, \<^verbatim>\<open>malloc\<close>, \<^verbatim>\<open>mmap\<close> and \<^verbatim>\<open>mprotect\<close>, and random numbers are parameters.

  \<^bold>\<open>Foundations.\<close>
  \<^item> \<^verbatim>\<open>Ubpf_Prelude\<close>: names of the C types, C conversions and truncating division, byte-addressed memory, the
    \<^verbatim>\<open>while (1)\<close> loop as a partial function \<^verbatim>\<open>run_loop\<close>, the locale that transfers runs along a simulation, and
    facts on words, lists and options.

  \<^bold>\<open>Instructions and the machine object.\<close>
  \<^item> \<^verbatim>\<open>Ebpf\<close>: \<^verbatim>\<open>vm/ebpf.h\<close>, the opcodes, \<^verbatim>\<open>struct ebpf_inst\<close> and its 64-bit encoding, with both directions
    inverse to each other.
  \<^item> \<^verbatim>\<open>Inst_Valid\<close>: \<^verbatim>\<open>vm/ubpf_instruction_valid.c\<close>, the table of valid instructions, its lookup table and
    \<^verbatim>\<open>ubpf_is_valid_instruction\<close>.
  \<^item> \<^verbatim>\<open>Ubpf_Vm\<close>: \<^verbatim>\<open>struct ubpf_vm\<close> of \<^verbatim>\<open>vm/ubpf_int.h\<close> and the operations of \<^verbatim>\<open>vm/ubpf_vm.c\<close> that create, configure and
    query it, the scrambled instruction store \<^verbatim>\<open>ubpf_fetch_instruction\<close>/\<^verbatim>\<open>ubpf_store_instruction\<close> with a locale for
    its laws, and the updates of helpers and dispatcher in compiled code.
  \<^item> \<^verbatim>\<open>Validate\<close>: \<^verbatim>\<open>validate\<close>, the check that sub-programs are self-contained with its sort and in-place
    compaction, and \<^verbatim>\<open>ubpf_load\<close>.

  \<^bold>\<open>The legacy interpreter.\<close>
  \<^item> \<^verbatim>\<open>Interp_Alu\<close>: the arithmetic cases and jump conditions of the switch. \<^verbatim>\<open>Isa_Spec\<close>: the meaning that
    RFC 9669 gives to these instructions, stated once for all widths, and that the cases compute it.
  \<^item> \<^verbatim>\<open>Interp_Mem\<close>: loads and stores, \<^verbatim>\<open>bounds_check\<close>, and the shadow stack, with exact characterisations.
  \<^item> \<^verbatim>\<open>Interp\<close>: the state of a run, every case of the switch, \<^verbatim>\<open>exec_step\<close> (one pass of the loop) and
    \<^verbatim>\<open>ubpf_exec_ex_legacy\<close>. The loop is \<^verbatim>\<open>run_loop exec_step\<close>, which is \<^verbatim>\<open>None\<close> where the C loop does not end; no fuel is
    needed.
  \<^item> \<^verbatim>\<open>Exec_Safety\<close>: the invariant of a run over a validated program and its preservation by each case.
    \<^verbatim>\<open>Load_Correct\<close>: what loading guarantees, and with it memory safety of whole runs. \<^verbatim>\<open>Exec_Frames\<close>: local
    functions, the frame pointer and the callee-saved registers. \<^verbatim>\<open>Exec_Limits\<close>: the form of a loaded program,
    that programs without loops return, and the limits of the instruction counter and the helper table.

  \<^bold>\<open>The ELF loader.\<close>
  \<^item> \<^verbatim>\<open>Elf_Loader\<close>: \<^verbatim>\<open>vm/ubpf_loader.c\<close> on the bytes of a file, with every field read where the code reads it; an
    access outside a buffer is the outcome \<^verbatim>\<open>Elf_crash\<close>. The structures are those of
    \<^verbatim>\<open>compat/macOS/sys/elfdefinitions.h\<close>.
  \<^item> \<^verbatim>\<open>Elf_Correct\<close>: the layout of the linked program, what relocations change, what a relocated call reaches in
    the interpreter, and two malformed files that the loader's checks let pass.

  \<^bold>\<open>The safe profile.\<close>
  \<^item> \<^verbatim>\<open>Safe_Exec\<close>: \<^verbatim>\<open>vm/ubpf_safe.c\<close>, tags, the checked access, pointer arithmetic, spilled tags, the switch, the
    registration of regions and helpers.
  \<^item> \<^verbatim>\<open>Safe_Correct\<close>: a run that the profile completes is the run of the legacy interpreter without
    bounds checks. \<^verbatim>\<open>Safe_Safety\<close>: it touches only memory it was granted, and with an instruction limit it
    returns. \<^verbatim>\<open>Safe_Tags\<close>: spilling, pointer arithmetic and the table of regions.

  \<^bold>\<open>The translator.\<close>
  \<^item> \<^verbatim>\<open>Jit_Support\<close>: \<^verbatim>\<open>struct jit_state\<close> and \<^verbatim>\<open>vm/ubpf_jit_support.c\<close> in the state monad. \<^verbatim>\<open>X86_Emit\<close> and \<^verbatim>\<open>X86_Translate\<close>:
    \<^verbatim>\<open>vm/ubpf_jit_x86_64.c\<close>, every encoder and \<^verbatim>\<open>translate\<close> with the resolution of jumps, calls and tables, for the System V
    calling convention. \<^verbatim>\<open>Jit\<close>: \<^verbatim>\<open>vm/ubpf_jit.c\<close>.
  \<^item> \<^verbatim>\<open>X86_Machine\<close>: the processor, a decoder and the effect of instructions after the architecture's
    manual. It models no source; it is what the generated code is measured against.
  \<^item> \<^verbatim>\<open>X86_Code\<close>: the bytes each encoder appends, and that they decode to the instruction meant. \<^verbatim>\<open>X86_Run\<close>: running
    decoded code wherever it stands in the buffer. \<^verbatim>\<open>X86_Effect\<close> and \<^verbatim>\<open>X86_Alu\<close>: straight-line code on registers.
    \<^verbatim>\<open>X86_Stack\<close> and \<^verbatim>\<open>X86_Div\<close>: code that uses the host's stack, with total-correctness triples. \<^verbatim>\<open>X86_Patch\<close>: jumps that
    are patched. \<^verbatim>\<open>X86_Muldiv\<close> and \<^verbatim>\<open>X86_Arith\<close>: multiplication and division. \<^verbatim>\<open>X86_Correct\<close>: the code of an
    arithmetic instruction computes what the interpreter computes. \<^verbatim>\<open>X86_Mem\<close> and \<^verbatim>\<open>X86_Jump\<close>: the same for
    loads and stores, and for jumps.

  \<^bold>\<open>Not modelled.\<close>
  \<^item> \<^verbatim>\<open>vm/ubpf_jit_arm64.c\<close>: the second back end repeats the structure of the first for another
    processor; its translator is a parameter of \<^verbatim>\<open>Jit\<close>.
  \<^item> Executable code of a whole program: the translator's theorems are per instruction; that the
    displacements are filled in with the places of their targets is modelled (\<^verbatim>\<open>X86_Translate\<close>) and not proved.
  \<^item> \<^verbatim>\<open>vm/test.c\<close>, \<^verbatim>\<open>ubpf_plugin\<close>, \<^verbatim>\<open>libfuzzer\<close>, \<^verbatim>\<open>custom_tests\<close>, \<^verbatim>\<open>test_framework\<close>: drivers and tests around the library.
  \<^item> \<^verbatim>\<open>compat\<close>, \<^verbatim>\<open>vm/compat\<close>: headers and shims for other operating systems, but for the ELF structures.
  \<^item> \<^verbatim>\<open>ubpf/*.py\<close>, \<^verbatim>\<open>bin\<close>: the assembler and disassembler of the test suite.
  \<^item> \<^verbatim>\<open>ubpf_set_register_offset\<close> (permutes the register map for tests), \<^verbatim>\<open>ubpf_destroy\<close> and the release of
    memory elsewhere: freed memory is not part of the model.
\<close>

end
